(* ===== verification/Prelude.thy ===== *)
theory Prelude
  imports Complex_Main "HOL-Library.Sublist"
begin

text \<open>
  What the components share: the result type of fallible operations with its sequencing
  operator, JavaScript's string operations on 8-bit strings, insertion-ordered JavaScript
  objects and \<open>Map\<close>s as association lists, and the named collections the component theories
  add their facts to.
\<close>

named_theorems result_simps \<open>sequencing of fallible operations\<close>
named_theorems obj_simps \<open>lookup and key facts of association-list objects\<close>
named_theorems str_simps \<open>definitions of the string operations, for evaluation\<close>

section \<open>Fallible operations\<close>

text \<open>A throwing operation returns \<open>Inl\<close> of its error; \<open>bindE\<close> is the sequencing of statements.\<close>

type_synonym ('e, 'a) result = "'e + 'a"

definition bindE :: "('e, 'a) result \<Rightarrow> ('a \<Rightarrow> ('e, 'b) result) \<Rightarrow> ('e, 'b) result" where
  "bindE m f = (case m of Inl e \<Rightarrow> Inl e | Inr a \<Rightarrow> f a)"

definition guardE :: "bool \<Rightarrow> 'e \<Rightarrow> ('e, unit) result" where
  "guardE b e = (if b then Inr () else Inl e)"

lemma bindE_simps [simp, result_simps]:
  "bindE (Inl e) f = Inl e"
  "bindE (Inr a) f = f a"
  by (simp_all add: bindE_def)

lemma bindE_Inr_iff [result_simps]:
  "bindE m f = Inr b \<longleftrightarrow> (\<exists>a. m = Inr a \<and> f a = Inr b)"
  by (cases m) auto

lemma bindE_Inl_iff [result_simps]:
  "bindE m f = Inl e \<longleftrightarrow> m = Inl e \<or> (\<exists>a. m = Inr a \<and> f a = Inl e)"
  by (cases m) auto

lemma guardE_simps [simp, result_simps]:
  "guardE b e = Inr u \<longleftrightarrow> b"
  "guardE b e = Inl e' \<longleftrightarrow> \<not> b \<and> e' = e"
  by (auto simp: guardE_def)

section \<open>JavaScript strings\<close>

text \<open>
  The strings the modelled code handles (header values, host names, request targets, ids and
  hashes) arrive as Latin-1 octets, so a JavaScript string is a \<open>string\<close>, one \<open>char\<close> per code
  unit. \<open>lower_char\<close> and \<open>is_js_space\<close> are \<open>toLowerCase\<close> and the \<open>trim\<close> set of ECMAScript
  restricted to those code units, where they are exact.
\<close>

definition lower_char :: "char \<Rightarrow> char" where
  "lower_char c = (let n = (of_char c :: nat) in
     if (65 \<le> n \<and> n \<le> 90) \<or> (192 \<le> n \<and> n \<le> 222 \<and> n \<noteq> 215) then char_of (n + 32) else c)"

definition to_lower :: "string \<Rightarrow> string" where
  "to_lower s = map lower_char s"

definition upper_char :: "char \<Rightarrow> char" where
  "upper_char c = (let n = (of_char c :: nat) in
     if 97 \<le> n \<and> n \<le> 122 then char_of (n - 32) else c)"

definition to_upper :: "string \<Rightarrow> string" where
  "to_upper s = map upper_char s"

definition is_js_space :: "char \<Rightarrow> bool" where
  "is_js_space c = (let n = (of_char c :: nat) in (9 \<le> n \<and> n \<le> 13) \<or> n = 32 \<or> n = 160)"

definition trim :: "string \<Rightarrow> string" where
  "trim s = rev (dropWhile is_js_space (rev (dropWhile is_js_space s)))"

definition starts_with :: "string \<Rightarrow> string \<Rightarrow> bool" where
  "starts_with p s = (take (length p) s = p)"

definition ends_with :: "string \<Rightarrow> string \<Rightarrow> bool" where
  "ends_with p s = (length p \<le> length s \<and> drop (length s - length p) s = p)"

fun contains :: "string \<Rightarrow> string \<Rightarrow> bool" where
  "contains p [] = (p = [])"
| "contains p (c # cs) = (starts_with p (c # cs) \<or> contains p cs)"

text \<open>\<open>s.split(c)\<close> for a one-character separator: never empty, \<open>n\<close> separators give \<open>n + 1\<close> parts.\<close>

fun split_on :: "char \<Rightarrow> string \<Rightarrow> string list" where
  "split_on c [] = [[]]"
| "split_on c (x # xs) =
     (if x = c then [] # split_on c xs
      else case split_on c xs of [] \<Rightarrow> [[x]] | p # ps \<Rightarrow> (x # p) # ps)"

text \<open>\<open>s.split(/[...]/, 1)[0]\<close>: everything before the first of the given characters.\<close>

definition before_any :: "char list \<Rightarrow> string \<Rightarrow> string" where
  "before_any cs s = takeWhile (\<lambda>c. c \<notin> set cs) s"

definition strip_trailing_dot :: "string \<Rightarrow> string" where
  "strip_trailing_dot s = (if s \<noteq> [] \<and> last s = CHR ''.'' then butlast s else s)"

definition join_with :: "string \<Rightarrow> string list \<Rightarrow> string" where
  "join_with sep xs = (case xs of [] \<Rightarrow> [] | y # ys \<Rightarrow> y @ concat (map (\<lambda>z. sep @ z) ys))"

lemmas str_defs [str_simps] =
  to_lower_def lower_char_def to_upper_def upper_char_def is_js_space_def trim_def
  starts_with_def ends_with_def before_any_def strip_trailing_dot_def join_with_def

lemma starts_with_iff: "starts_with p s \<longleftrightarrow> (\<exists>t. s = p @ t)"
  by (metis starts_with_def append_eq_conv_conj append_take_drop_id)

lemma starts_with_append [simp]: "starts_with p (p @ t)"
  by (auto simp: starts_with_iff)

lemma starts_with_Nil [simp]: "starts_with [] s"
  by (simp add: starts_with_def)

lemma starts_with_length: "starts_with p s \<Longrightarrow> length p \<le> length s"
  by (auto simp: starts_with_iff)

lemma starts_with_same_length:
  "starts_with p s \<Longrightarrow> starts_with q s \<Longrightarrow> length p = length q \<Longrightarrow> p = q"
  by (simp add: starts_with_def)

lemma ends_with_iff: "ends_with p s \<longleftrightarrow> (\<exists>t. s = t @ p)"
proof
  assume "ends_with p s"
  then show "\<exists>t. s = t @ p"
    by (metis ends_with_def append_take_drop_id)
qed (auto simp: ends_with_def)

lemma contains_iff: "contains p s \<longleftrightarrow> (\<exists>u v. s = u @ p @ v)"
proof (induction s)
  case Nil
  then show ?case by simp
next
  case (Cons c cs)
  show ?case
  proof
    assume "contains p (c # cs)"
    then show "\<exists>u v. c # cs = u @ p @ v"
    proof (cases "starts_with p (c # cs)")
      case True
      then show ?thesis by (metis starts_with_iff append_Nil)
    next
      case False
      with \<open>contains p (c # cs)\<close> Cons.IH obtain u v where "cs = u @ p @ v" by auto
      then show ?thesis by (metis append_Cons)
    qed
  next
    assume "\<exists>u v. c # cs = u @ p @ v"
    then obtain u v where uv: "c # cs = u @ p @ v" by blast
    show "contains p (c # cs)"
    proof (cases u)
      case Nil
      with uv show ?thesis by (metis contains.simps(2) append_Nil starts_with_append)
    next
      case (Cons a us)
      with uv have "cs = us @ p @ v" by simp
      then show ?thesis using Cons.IH by auto
    qed
  qed
qed

lemma starts_with_Cons [simp]:
  "starts_with (a # p) (c # s) \<longleftrightarrow> a = c \<and> starts_with p s"
  "\<not> starts_with (a # p) []"
  by (auto simp: starts_with_def)

lemma starts_with_before:
  "starts_with p (u @ c # v) \<Longrightarrow> c \<notin> set p \<Longrightarrow> starts_with p u"
proof (induction p arbitrary: u)
  case (Cons a p)
  then show ?case by (cases u) auto
qed simp

lemma contains_Nil [simp]: "contains [] s"
  by (cases s) auto

lemma contains_across:
  "contains p (u @ c # v) \<Longrightarrow> c \<notin> set p \<Longrightarrow> contains p u \<or> contains p v"
proof (induction u)
  case Nil
  then show ?case by (cases p) auto
next
  case (Cons x u)
  then have "starts_with p ((x # u) @ c # v) \<or> contains p (u @ c # v)" by simp
  with Cons show ?case using starts_with_before [of p "x # u" c v] by auto
qed

lemma contains_sublist: "contains p s \<longleftrightarrow> sublist p s"
  by (simp add: contains_iff sublist_def)

lemma split_on_ne [simp]: "split_on c s \<noteq> []"
  by (induction s) (auto split: list.splits)

lemma split_on_no_sep: "p \<in> set (split_on c s) \<Longrightarrow> c \<notin> set p"
  by (induction s arbitrary: p) (auto split: if_splits list.splits)

lemma split_on_absent: "c \<notin> set s \<Longrightarrow> split_on c s = [s]"
  by (induction s) auto

lemma split_on_append_sep:
  "split_on c (u @ c # v) = split_on c u @ split_on c v"
  by (induction u) (auto split: list.splits)

lemma hd_split_on: "hd (split_on c s) = takeWhile (\<lambda>x. x \<noteq> c) s"
  by (induction s) (auto split: list.splits)

section \<open>JavaScript objects and Maps\<close>

text \<open>
  A plain object or \<open>Map\<close> is an association list in insertion order with at most one entry per
  key: \<open>obj_set\<close> overwrites in place or appends, \<open>obj_del\<close> removes.
\<close>

type_synonym 'v obj = "(string \<times> 'v) list"

fun obj_set :: "'k \<Rightarrow> 'v \<Rightarrow> ('k \<times> 'v) list \<Rightarrow> ('k \<times> 'v) list" where
  "obj_set k v [] = [(k, v)]"
| "obj_set k v ((k', v') # xs) = (if k' = k then (k, v) # xs else (k', v') # obj_set k v xs)"

definition obj_del :: "'k \<Rightarrow> ('k \<times> 'v) list \<Rightarrow> ('k \<times> 'v) list" where
  "obj_del k xs = filter (\<lambda>(k', _). k' \<noteq> k) xs"

abbreviation keys :: "('k \<times> 'v) list \<Rightarrow> 'k set" where
  "keys xs \<equiv> fst ` set xs"

lemma map_of_obj_set [simp, obj_simps]: "map_of (obj_set k v xs) = (map_of xs)(k \<mapsto> v)"
  by (induction xs) (auto simp: fun_eq_iff)

lemma map_of_obj_del [simp, obj_simps]: "map_of (obj_del k xs) = (map_of xs)(k := None)"
  by (induction xs) (auto simp: obj_del_def fun_eq_iff)

lemma keys_obj_set [simp, obj_simps]: "keys (obj_set k v xs) = insert k (keys xs)"
  by (induction k v xs rule: obj_set.induct) auto

lemma keys_obj_del [simp, obj_simps]: "keys (obj_del k xs) = keys xs - {k}"
  by (auto simp: obj_del_def image_iff)

lemma distinct_obj_set [simp, obj_simps]:
  "distinct (map fst (obj_set k v xs)) = distinct (map fst xs)"
proof (induction xs)
  case (Cons x xs)
  obtain a b where "x = (a, b)" by force
  moreover have "a \<in> fst ` set (obj_set k v xs) \<longleftrightarrow> a = k \<or> a \<in> fst ` set xs" by simp
  ultimately show ?case using Cons by auto
qed simp

lemma distinct_obj_del [simp, obj_simps]:
  "distinct (map fst xs) \<Longrightarrow> distinct (map fst (obj_del k xs))"
  unfolding obj_del_def by (induction xs) auto

lemma obj_set_memD: "(k', v') \<in> set (obj_set k v xs) \<Longrightarrow> (k', v') = (k, v) \<or> (k', v') \<in> set xs"
  by (induction xs) (auto split: if_splits)

lemma map_of_mem_iff:
  "distinct (map fst xs) \<Longrightarrow> (k, v) \<in> set xs \<longleftrightarrow> map_of xs k = Some v"
  by (simp add: eq_commute)

lemma obj_set_memD2:
  "distinct (map fst xs) \<Longrightarrow> (k', v') \<in> set (obj_set k v xs) \<Longrightarrow>
     (k' = k \<and> v' = v) \<or> (k' \<noteq> k \<and> (k', v') \<in> set xs)"
  by (induction k v xs rule: obj_set.induct) (force split: if_splits)+

section \<open>Truthiness\<close>

text \<open>\<open>if (!value)\<close> on a string or undefined: the truthy strings are the non-empty ones.\<close>

definition truthy :: "string option \<Rightarrow> string option" where
  "truthy v = (case v of Some s \<Rightarrow> if s = [] then None else Some s | None \<Rightarrow> None)"

lemma truthy_Some_iff [simp]: "truthy v = Some s \<longleftrightarrow> v = Some s \<and> s \<noteq> []"
  by (cases v) (auto simp: truthy_def)

section \<open>Numbers in template strings\<close>

fun show_nat :: "nat \<Rightarrow> string" where
  "show_nat n = (if n < 10 then [char_of (48 + n)] else show_nat (n div 10) @ [char_of (48 + n mod 10)])"

declare show_nat.simps [simp del]

definition show_int :: "int \<Rightarrow> string" where
  "show_int i = (if i < 0 then CHR ''-'' # show_nat (nat (- i)) else show_nat (nat i))"

lemma show_nat_ne [simp]: "show_nat n \<noteq> []"
  by (subst show_nat.simps) simp

lemma show_int_ne [simp]: "show_int i \<noteq> []"
  by (simp add: show_int_def)

section \<open>First match in a list\<close>

lemma find_SomeD: "List.find P xs = Some x \<Longrightarrow> x \<in> set xs \<and> P x"
  by (induction xs) (auto split: if_splits)

lemma find_None_iff2: "List.find P xs = None \<longleftrightarrow> (\<forall>x \<in> set xs. \<not> P x)"
  by (induction xs) auto

end
