(* ===== verification/Driver_Errors.thy ===== *)
theory Driver_Errors
  imports Prelude
begin

text \<open>
  The stable error types of the local-runtime ABI (\<open>src/local-runtime/errors.ts\<close>). A thrown
  error is its class; the code and the HTTP status it carries are functions of the class.
\<close>

datatype driver_error =
    ContractError
  | ArtifactError
  | AffinityConflict
  | RuntimeUnavailable
  | RuntimeNotFound
  | ArtifactNotStaged
  | ArtifactStagingRefused

fun error_code :: "driver_error \<Rightarrow> string" where
  "error_code ContractError = ''ENSURE_READY_INVALID''"
| "error_code ArtifactError = ''LOCAL_ARTIFACT_INVALID''"
| "error_code AffinityConflict = ''GENERATION_AFFINITY_CONFLICT''"
| "error_code RuntimeUnavailable = ''LOCAL_RUNTIME_UNAVAILABLE''"
| "error_code RuntimeNotFound = ''LOCAL_RUNTIME_NOT_FOUND''"
| "error_code ArtifactNotStaged = ''ARTIFACT_NOT_STAGED''"
| "error_code ArtifactStagingRefused = ''LOCAL_ARTIFACT_STAGING_REFUSED''"

fun error_status :: "driver_error \<Rightarrow> nat" where
  "error_status ContractError = 422"
| "error_status ArtifactError = 422"
| "error_status AffinityConflict = 409"
| "error_status RuntimeUnavailable = 503"
| "error_status RuntimeNotFound = 404"
| "error_status ArtifactNotStaged = 409"
| "error_status ArtifactStagingRefused = 422"

end
