(* ===== verification/Strict_Json.thy ===== *)
theory Strict_Json
  imports Driver_Errors
begin

text \<open>
  \<open>src/local-runtime/canonical.ts\<close>: the strict JSON parser of the ABI wire body, and the
  canonical serialiser of \<open>src/security/artifacts.ts\<close> that its hashes are computed over.
  A JavaScript string is its list of 16-bit code units (\<open>units\<close>); the cursor is the text that
  is still to be read. A number keeps its lexeme: \<open>Number(match[0])\<close> rounds it to a double.
\<close>

type_synonym units = "nat list"

definition u :: "string \<Rightarrow> units" where
  "u s = map of_char s"

text \<open>
  An object has its own members and, when the text assigned \<open>__proto__\<close>, a prototype:
  \<open>result['__proto__'] = v\<close> sets the prototype for an object, array or null and does nothing for
  a primitive; it never creates a member.
\<close>

datatype json =
    JNull
  | JBool bool
  | JNum units
  | JStr units
  | JArr "json list"
  | JObj "(units \<times> json) list" "json option"

datatype json_error = Contract | OutOfFuel

type_synonym 'a parsed = "json_error + 'a \<times> units"

section \<open>Lexical level\<close>

definition is_ws :: "nat \<Rightarrow> bool" where
  "is_ws c = (c = 32 \<or> c = 9 \<or> c = 10 \<or> c = 13)"

definition skipWhitespace :: "units \<Rightarrow> units" where
  "skipWhitespace s = dropWhile is_ws s"

definition expect :: "nat \<Rightarrow> units \<Rightarrow> (json_error, units) result" where
  "expect ch s = (case s of c # t \<Rightarrow> if c = ch then Inr t else Inl Contract | [] \<Rightarrow> Inl Contract)"

definition parseLiteral :: "units \<Rightarrow> json \<Rightarrow> units \<Rightarrow> json parsed" where
  "parseLiteral literal val s =
     (if take (length literal) s = literal then Inr (val, drop (length literal) s) else Inl Contract)"

definition hex_val :: "nat \<Rightarrow> nat option" where
  "hex_val c = (if 48 \<le> c \<and> c \<le> 57 then Some (c - 48)
     else if 65 \<le> c \<and> c \<le> 70 then Some (c - 55)
     else if 97 \<le> c \<and> c \<le> 102 then Some (c - 87) else None)"

definition hex4 :: "units \<Rightarrow> (nat \<times> units) option" where
  "hex4 s = (case s of
       a # b # c # d # t \<Rightarrow>
         (case (hex_val a, hex_val b, hex_val c, hex_val d) of
            (Some p, Some q, Some r, Some v) \<Rightarrow> Some (4096 * p + 256 * q + 16 * r + v, t)
          | _ \<Rightarrow> None)
     | _ \<Rightarrow> None)"

definition simple_escape :: "nat \<Rightarrow> nat option" where
  "simple_escape e = (if e = 34 then Some 34 else if e = 92 then Some 92 else if e = 47 then Some 47
     else if e = 98 then Some 8 else if e = 102 then Some 12 else if e = 110 then Some 10
     else if e = 114 then Some 13 else if e = 116 then Some 9 else None)"

lemma hex4_shorter: "hex4 s = Some (v, t) \<Longrightarrow> length t < length s"
  by (auto simp: hex4_def split: list.splits option.splits)

text \<open>The loop of \<open>parseString\<close>, after the opening quote.\<close>

function string_body :: "units \<Rightarrow> units parsed" where
  "string_body [] = Inl Contract"
| "string_body (ch # s) =
     (if ch = 34 then Inr ([], s)
      else if ch = 92 then
        (case s of
           [] \<Rightarrow> Inl Contract
         | e # t \<Rightarrow>
             if e = 117 then
               (case hex4 t of
                  None \<Rightarrow> Inl Contract
                | Some (v, t') \<Rightarrow> bindE (string_body t') (\<lambda>(r, rest). Inr (v # r, rest)))
             else
               (case simple_escape e of
                  None \<Rightarrow> Inl Contract
                | Some v \<Rightarrow> bindE (string_body t) (\<lambda>(r, rest). Inr (v # r, rest))))
      else if ch < 32 then Inl Contract
      else bindE (string_body s) (\<lambda>(r, rest). Inr (ch # r, rest)))"
  by pat_completeness auto
termination by (relation "measure length") (auto dest: hex4_shorter)

definition parseString :: "units \<Rightarrow> units parsed" where
  "parseString s = bindE (expect 34 s) string_body"

definition is_digit :: "nat \<Rightarrow> bool" where
  "is_digit c = (48 \<le> c \<and> c \<le> 57)"

definition digits :: "units \<Rightarrow> units \<times> units" where
  "digits s = (takeWhile is_digit s, dropWhile is_digit s)"

text \<open>The three parts of \<open>/^-?(?:0|[1-9]\d*)(?:\.\d+)?(?:[eE][+-]?\d+)?/\<close>.\<close>

definition int_part :: "units \<Rightarrow> (units \<times> units) option" where
  "int_part s = (case s of
       [] \<Rightarrow> None
     | c # t \<Rightarrow> if c = 48 then Some ([48], t)
         else if is_digit c then Some (digits s) else None)"

definition frac_part :: "units \<Rightarrow> units \<times> units" where
  "frac_part s = (case s of
       c # t \<Rightarrow> if c = 46 \<and> fst (digits t) \<noteq> [] then (46 # fst (digits t), snd (digits t)) else ([], s)
     | [] \<Rightarrow> ([], []))"

definition exp_part :: "units \<Rightarrow> units \<times> units" where
  "exp_part s = (case s of
       [] \<Rightarrow> ([], [])
     | c # t \<Rightarrow>
         if c = 101 \<or> c = 69 then
           (let sign = (case t of d # _ \<Rightarrow> if d = 43 \<or> d = 45 then [d] else [] | [] \<Rightarrow> []);
                ds = digits (drop (length sign) t)
            in if fst ds \<noteq> [] then (c # sign @ fst ds, snd ds) else ([], s))
         else ([], s))"

definition NUMBER_RE :: "units \<Rightarrow> (units \<times> units) option" where
  "NUMBER_RE s =
     (let minus = (case s of c # _ \<Rightarrow> if c = 45 then [45] else [] | [] \<Rightarrow> []) in
      case int_part (drop (length minus) s) of
        None \<Rightarrow> None
      | Some (i, s1) \<Rightarrow>
          (let (f, s2) = frac_part s1; (e, s3) = exp_part s2 in Some (minus @ i @ f @ e, s3)))"

definition parseNumber :: "units \<Rightarrow> json parsed" where
  "parseNumber s = (case NUMBER_RE s of None \<Rightarrow> Inl Contract | Some (lexeme, rest) \<Rightarrow> Inr (JNum lexeme, rest))"

section \<open>Values\<close>

definition proto_key :: units where
  "proto_key = u ''__proto__''"

definition is_object :: "json \<Rightarrow> bool" where
  "is_object v = (case v of JObj _ _ \<Rightarrow> True | JArr _ \<Rightarrow> True | JNull \<Rightarrow> True | _ \<Rightarrow> False)"

text \<open>
  The parsers below take a flag. With it set they are \<open>canonical.ts\<close>: a repeated own member is an
  error and members are stored by \<open>result[key] = value\<close>. Without it they are the engine's
  \<open>JSON.parse\<close>, which has the same grammar, keeps the last of several members and defines
  \<open>__proto__\<close> as an ordinary own member.
\<close>

definition assign :: "bool \<Rightarrow> units \<Rightarrow> json \<Rightarrow> (units \<times> json) list \<times> json option \<Rightarrow> (units \<times> json) list \<times> json option" where
  "assign strict key v r =
     (if strict \<and> key = proto_key then (fst r, if is_object v then Some v else snd r)
      else (obj_set key v (fst r), snd r))"

text \<open>
  Recursive descent. The fuel argument bounds the nesting of calls; \<open>strictJsonParse\<close> supplies
  \<open>2 * length text + 2\<close>, which is always enough (\<open>strictJsonParse_total\<close>). The members and elements
  loops are \<open>parse_members\<close> and \<open>parse_elements\<close>; both are entered after the test for an
  immediately closing bracket.
\<close>

fun parseValue :: "bool \<Rightarrow> nat \<Rightarrow> units \<Rightarrow> json parsed"
  and parse_members :: "bool \<Rightarrow> nat \<Rightarrow> (units \<times> json) list \<times> json option \<Rightarrow> units \<Rightarrow> json parsed"
  and parse_elements :: "bool \<Rightarrow> nat \<Rightarrow> json list \<Rightarrow> units \<Rightarrow> json parsed" where
  "parseValue b 0 s = Inl OutOfFuel"
| "parseValue b (Suc n) s =
     (case skipWhitespace s of
        [] \<Rightarrow> Inl Contract
      | ch # t \<Rightarrow>
          if ch = 123 then
            (case skipWhitespace t of
               c # t' \<Rightarrow> if c = 125 then Inr (JObj [] None, t') else parse_members b n ([], None) (c # t')
             | [] \<Rightarrow> parse_members b n ([], None) [])
          else if ch = 91 then
            (case skipWhitespace t of
               c # t' \<Rightarrow> if c = 93 then Inr (JArr [], t') else parse_elements b n [] (c # t')
             | [] \<Rightarrow> parse_elements b n [] [])
          else if ch = 34 then bindE (parseString (ch # t)) (\<lambda>(s, rest). Inr (JStr s, rest))
          else if ch = 116 then parseLiteral (u ''true'') (JBool True) (ch # t)
          else if ch = 102 then parseLiteral (u ''false'') (JBool False) (ch # t)
          else if ch = 110 then parseLiteral (u ''null'') JNull (ch # t)
          else if ch = 45 \<or> is_digit ch then parseNumber (ch # t)
          else Inl Contract)"
| "parse_members b 0 r s = Inl OutOfFuel"
| "parse_members b (Suc n) r s =
     bindE (parseString (skipWhitespace s)) (\<lambda>(key, s1).
       if b \<and> key \<in> keys (fst r) then Inl Contract
       else bindE (expect 58 (skipWhitespace s1)) (\<lambda>s2.
         bindE (parseValue b n s2) (\<lambda>(v, s3).
           case skipWhitespace s3 of
             c # s4 \<Rightarrow>
               if c = 44 then parse_members b n (assign b key v r) s4
               else if c = 125 then Inr (JObj (fst (assign b key v r)) (snd (assign b key v r)), s4)
               else Inl Contract
           | [] \<Rightarrow> Inl Contract)))"
| "parse_elements b 0 vs s = Inl OutOfFuel"
| "parse_elements b (Suc n) vs s =
     bindE (parseValue b n s) (\<lambda>(v, s1).
       case skipWhitespace s1 of
         c # s2 \<Rightarrow>
           if c = 44 then parse_elements b n (vs @ [v]) s2
           else if c = 93 then Inr (JArr (vs @ [v]), s2)
           else Inl Contract
       | [] \<Rightarrow> Inl Contract)"

definition parse_all :: "bool \<Rightarrow> nat \<Rightarrow> units \<Rightarrow> (json_error, json) result" where
  "parse_all b fuel text =
     bindE (parseValue b fuel text) (\<lambda>(v, rest). if skipWhitespace rest = [] then Inr v else Inl Contract)"

definition JSON_parse :: "units \<Rightarrow> json option" where
  "JSON_parse text = (case parse_all False (2 * length text + 2) text of Inl _ \<Rightarrow> None | Inr v \<Rightarrow> Some v)"

definition strictJsonParse :: "units \<Rightarrow> (driver_error, json) result" where
  "strictJsonParse text = (case parse_all True (2 * length text + 2) text of
     Inl _ \<Rightarrow> Inl ContractError | Inr v \<Rightarrow> Inr v)"

section \<open>Every parser consumes input\<close>

named_theorems shorter \<open>length facts of the parsers' remaining input\<close>

lemma skipWhitespace_le: "length (skipWhitespace s) \<le> length s"
  by (simp add: skipWhitespace_def length_dropWhile_le)

lemma skipWhitespace_Cons: "skipWhitespace s = c # t \<Longrightarrow> length t < length s"
  using skipWhitespace_le [of s] by simp

lemma expect_shorter [shorter]: "expect ch s = Inr t \<Longrightarrow> length t < length s"
  by (auto simp: expect_def split: list.splits if_splits)

lemma string_body_shorter [shorter]: "string_body s = Inr (r, rest) \<Longrightarrow> length rest < length s"
proof (induction s arbitrary: r rest rule: string_body.induct)
  case (2 ch s)
  consider "ch = 34" | "ch = 92" | "ch \<noteq> 34" "ch \<noteq> 92" by blast
  then show ?case
  proof cases
    case 2
    with "2.prems" obtain e t where s: "s = e # t" by (auto split: list.splits)
    show ?thesis
    proof (cases "e = 117")
      case True
      with "2.prems" \<open>ch = 92\<close> s obtain v t' r' where h: "hex4 t = Some (v, t')" "string_body t' = Inr (r', rest)"
        by (auto simp: bindE_Inr_iff split: option.splits)
      from "2.IH"(1) [OF _ \<open>ch = 92\<close> s True h(1) refl h(2)] hex4_shorter [OF h(1)] \<open>ch = 92\<close> s show ?thesis by simp
    next
      case False
      with "2.prems" \<open>ch = 92\<close> s obtain v r' where h: "simple_escape e = Some v" "string_body t = Inr (r', rest)"
        by (auto simp: bindE_Inr_iff split: option.splits)
      from "2.IH"(2) [OF _ \<open>ch = 92\<close> s False h(1) h(2)] \<open>ch = 92\<close> s show ?thesis by simp
    qed
  next
    case 3
    with "2.prems" obtain r' where "\<not> ch < 32" "string_body s = Inr (r', rest)"
      by (auto simp: bindE_Inr_iff split: if_splits)
    from "2.IH"(3) [OF 3 this] show ?thesis by simp
  qed (use "2.prems" in auto)
qed simp

lemma parseString_shorter [shorter]: "parseString s = Inr (r, rest) \<Longrightarrow> length rest < length s"
  unfolding parseString_def bindE_Inr_iff using expect_shorter string_body_shorter by fastforce

lemma parseLiteral_shorter [shorter]:
  "parseLiteral lit v s = Inr (w, rest) \<Longrightarrow> lit \<noteq> [] \<Longrightarrow> length rest < length s"
  by (cases s; cases lit) (auto simp: parseLiteral_def split: if_splits)

lemma digits_le: "length (snd (digits s)) \<le> length s"
  by (simp add: digits_def length_dropWhile_le)

lemma int_part_shorter: "int_part s = Some (i, t) \<Longrightarrow> length t < length s"
  by (auto simp: int_part_def digits_def less_Suc_eq_le length_dropWhile_le split: list.splits if_splits)

lemma frac_part_le: "length (snd (frac_part s)) \<le> length s"
  by (auto simp: frac_part_def le_SucI digits_le split: list.splits)

lemma exp_part_le: "length (snd (exp_part s)) \<le> length s"
proof -
  have "length (snd (digits (drop k t))) \<le> Suc (length t)" for k t
    using digits_le [of "drop k t"] by simp
  then show ?thesis by (auto simp: exp_part_def Let_def split: list.splits)
qed

lemma NUMBER_RE_shorter: "NUMBER_RE s = Some (l, t) \<Longrightarrow> length t < length s"
proof -
  assume a: "NUMBER_RE s = Some (l, t)"
  define m where "m = (case s of c # _ \<Rightarrow> if c = 45 then [45::nat] else [] | [] \<Rightarrow> [])"
  from a obtain i s1 where i: "int_part (drop (length m) s) = Some (i, s1)"
    by (auto simp: NUMBER_RE_def m_def [symmetric] split: option.splits)
  with a have "t = snd (exp_part (snd (frac_part s1)))"
    by (auto simp: NUMBER_RE_def m_def [symmetric] split: prod.splits)
  then show ?thesis
    using int_part_shorter [OF i] frac_part_le [of s1] exp_part_le [of "snd (frac_part s1)"] by simp
qed

lemma parseNumber_shorter [shorter]: "parseNumber s = Inr (v, rest) \<Longrightarrow> length rest < length s"
  by (auto simp: parseNumber_def NUMBER_RE_shorter split: option.splits)

lemma literal_ne: "u ''true'' \<noteq> []" "u ''false'' \<noteq> []" "u ''null'' \<noteq> []"
  by (simp_all add: u_def)

lemma parse_shorter:
  "parseValue b n s = Inr (v, rest) \<Longrightarrow> length rest < length s"
  "parse_members b n r s = Inr (v, rest) \<Longrightarrow> length rest < length s"
  "parse_elements b n vs s = Inr (v, rest) \<Longrightarrow> length rest < length s"
proof (induction b n s and b n r s and b n vs s arbitrary: v rest and v rest and v rest
    rule: parseValue_parse_members_parse_elements.induct)
  case (2 b n s)
  then obtain ch t where s: "skipWhitespace s = ch # t" by (auto split: list.splits)
  have tl: "length t < length s" by (rule skipWhitespace_Cons [OF s])
  have "length rest < length (ch # t)"
  proof -
    consider (obj) "ch = 123" | (arr) "ch = 91" | (str) "ch = 34" | (other) "ch \<notin> {123, 91, 34}" by blast
    then show ?thesis
    proof cases
      case obj
      show ?thesis
      proof (cases "skipWhitespace t")
        case Nil
        with 2 s obj show ?thesis by fastforce
      next
        case (Cons c t')
        from skipWhitespace_Cons [OF this] have "length t' < length t" .
        moreover have "length (c # t') \<le> length t" using skipWhitespace_le [of t] Cons by simp
        ultimately show ?thesis using "2.prems" "2.IH"(2) [OF s obj Cons] s obj Cons
          by (auto split: if_splits)
      qed
    next
      case arr
      show ?thesis
      proof (cases "skipWhitespace t")
        case Nil
        with 2 s arr show ?thesis by fastforce
      next
        case (Cons c t')
        from skipWhitespace_Cons [OF this] have "length t' < length t" .
        moreover have "length (c # t') \<le> length t" using skipWhitespace_le [of t] Cons by simp
        ultimately show ?thesis using "2.prems" "2.IH"(4) [OF s _ arr Cons] s arr Cons
          by (auto split: if_splits)
      qed
    next
      case str
      with "2.prems" s obtain w where "parseString (ch # t) = Inr (w, rest)"
        by (auto simp: bindE_Inr_iff)
      then show ?thesis by (rule parseString_shorter)
    next
      case other
      with "2.prems" s show ?thesis
        using parseLiteral_shorter [where s = "ch # t", OF _ literal_ne(1)]
          parseLiteral_shorter [where s = "ch # t", OF _ literal_ne(2)]
          parseLiteral_shorter [where s = "ch # t", OF _ literal_ne(3)] parseNumber_shorter [where s = "ch # t"]
        by (auto split: if_splits)
    qed
  qed
  also have "length (ch # t) \<le> length s" using tl by simp
  finally show ?case .
next
  case (4 b n r s)
  then obtain key s1 s2 w s3 where p: "parseString (skipWhitespace s) = Inr (key, s1)" "\<not> (b \<and> key \<in> keys (fst r))"
    "expect 58 (skipWhitespace s1) = Inr s2" "parseValue b n s2 = Inr (w, s3)"
    by (auto simp: bindE_Inr_iff split: if_splits)
  with "4.prems" obtain c s4 where c: "skipWhitespace s3 = c # s4" by (auto split: list.splits)
  have l: "length s4 < length s"
    using parseString_shorter [OF p(1)] skipWhitespace_le [of s] expect_shorter [OF p(3)] skipWhitespace_le [of s1]
      "4.IH"(1) [OF p(2) p(4)] skipWhitespace_Cons [OF c] by simp
  show ?case
  proof (cases "c = 44")
    case True
    with "4.prems" p c have "parse_members b n (assign b key w r) s4 = Inr (v, rest)" by simp
    from "4.IH"(2) [OF p(2) c True this] l show ?thesis by simp
  next
    case False
    with "4.prems" p c l show ?thesis by (auto split: if_splits)
  qed
next
  case (6 b n vs s)
  then obtain w s1 where p: "parseValue b n s = Inr (w, s1)" by (auto simp: bindE_Inr_iff)
  with "6.prems" obtain c s2 where c: "skipWhitespace s1 = c # s2" by (auto split: list.splits)
  have l: "length s2 < length s" using "6.IH"(1) [OF p] skipWhitespace_Cons [OF c] by simp
  show ?case
  proof (cases "c = 44")
    case True
    with "6.prems" p c have "parse_elements b n (vs @ [w]) s2 = Inr (v, rest)" by simp
    from "6.IH"(2) [OF c True this] l show ?thesis by simp
  next
    case False
    with "6.prems" p c l show ?thesis by (auto split: if_splits)
  qed
qed simp_all

section \<open>The supplied fuel is always enough\<close>

lemma leaf_no_fuel [simp]:
  "expect ch s \<noteq> Inl OutOfFuel" "parseLiteral lit v s \<noteq> Inl OutOfFuel" "parseNumber s \<noteq> Inl OutOfFuel"
  by (auto simp: expect_def parseLiteral_def parseNumber_def split: list.splits option.splits)

lemma string_body_no_fuel [simp]: "string_body s \<noteq> Inl OutOfFuel"
  by (induction s rule: string_body.induct) (auto simp: bindE_Inl_iff split: list.splits option.splits)

lemma parseString_no_fuel [simp]: "parseString s \<noteq> Inl OutOfFuel"
  by (auto simp: parseString_def bindE_Inl_iff)

lemma fuel_enough:
  "2 * length s + 1 \<le> n \<Longrightarrow> parseValue b n s \<noteq> Inl OutOfFuel"
  "2 * length s + 2 \<le> n \<Longrightarrow> parse_members b n r s \<noteq> Inl OutOfFuel"
  "2 * length s + 2 \<le> n \<Longrightarrow> parse_elements b n vs s \<noteq> Inl OutOfFuel"
proof (induction b n s and b n r s and b n vs s rule: parseValue_parse_members_parse_elements.induct)
  case (2 b n s)
  show ?case
  proof (cases "skipWhitespace s")
    case Nil
    then show ?thesis by simp
  next
    case (Cons ch t)
    note s = this
    have tl: "length t < length s" by (rule skipWhitespace_Cons [OF s])
    with "2.prems" have f: "2 * length t + 2 \<le> n" by simp
    show ?thesis
    proof (cases "skipWhitespace t")
      case Nil
      with f have n: "2 * length ([] :: units) + 2 \<le> n" by simp
      have "parse_members b n ([], None) [] \<noteq> Inl OutOfFuel" if "ch = 123"
        using "2.IH"(1) [OF s that Nil n] .
      moreover have "parse_elements b n [] [] \<noteq> Inl OutOfFuel" if "ch = 91"
        using "2.IH"(3) [OF s _ that Nil n] that by simp
      ultimately show ?thesis using s Nil by (auto simp: bindE_Inl_iff split: if_splits)
    next
      case c: (Cons c t')
      with f skipWhitespace_le [of t] have n: "2 * length (c # t') + 2 \<le> n" by simp
      have "parse_members b n ([], None) (c # t') \<noteq> Inl OutOfFuel" if "ch = 123" "c \<noteq> 125"
        using "2.IH"(2) [OF s that(1) c that(2) n] .
      moreover have "parse_elements b n [] (c # t') \<noteq> Inl OutOfFuel" if "ch = 91" "c \<noteq> 93"
        using "2.IH"(4) [OF s _ that(1) c that(2) n] that by simp
      ultimately show ?thesis using s c by (auto simp: bindE_Inl_iff split: if_splits)
    qed
  qed
next
  case (4 b n r s)
  show ?case
  proof
    assume "parse_members b (Suc n) r s = Inl OutOfFuel"
    then obtain key s1 s2 where p: "parseString (skipWhitespace s) = Inr (key, s1)" "\<not> (b \<and> key \<in> keys (fst r))"
      "expect 58 (skipWhitespace s1) = Inr s2" by (auto simp: bindE_Inl_iff split: if_splits)
    have l: "length s2 < length s"
      using parseString_shorter [OF p(1)] skipWhitespace_le [of s] expect_shorter [OF p(3)] skipWhitespace_le [of s1]
      by simp
    with "4.prems" "4.IH"(1) [OF p(2)] p have v: "parseValue b n s2 \<noteq> Inl OutOfFuel" by simp
    with \<open>parse_members b (Suc n) r s = Inl OutOfFuel\<close> p obtain w s3 where w: "parseValue b n s2 = Inr (w, s3)"
      by (auto simp: bindE_Inl_iff)
    with \<open>parse_members b (Suc n) r s = Inl OutOfFuel\<close> p obtain s4 where c: "skipWhitespace s3 = 44 # s4"
      "parse_members b n (assign b key w r) s4 = Inl OutOfFuel" by (auto split: list.splits if_splits)
    have "length s4 < length s" using parse_shorter(1) [OF w] skipWhitespace_Cons [OF c(1)] l by simp
    with "4.prems" "4.IH"(2) [OF p(2) c(1) refl] c(2) show False by simp
  qed
next
  case (6 b n vs s)
  show ?case
  proof
    assume a: "parse_elements b (Suc n) vs s = Inl OutOfFuel"
    from "6.IH"(1) "6.prems" have "parseValue b n s \<noteq> Inl OutOfFuel" by simp
    with a obtain w s1 where p: "parseValue b n s = Inr (w, s1)" by (auto simp: bindE_Inl_iff)
    with a obtain s2 where c: "skipWhitespace s1 = 44 # s2"
      "parse_elements b n (vs @ [w]) s2 = Inl OutOfFuel" by (auto split: list.splits if_splits)
    have "length s2 < length s" using parse_shorter(1) [OF p] skipWhitespace_Cons [OF c(1)] by simp
    with "6.prems" "6.IH"(2) [OF c(1) refl] c(2) show False by simp
  qed
qed simp_all

text \<open>
  \<open>strictJsonParse\<close> always finishes: the recursion depth the model allows is never exhausted, so
  every outcome is a value or the \<open>ContractError\<close> the code throws.
\<close>

theorem strictJsonParse_total:
  "strictJsonParse text = (case parse_all True (2 * length text + 2) text of
       Inl e \<Rightarrow> Inl ContractError | Inr v \<Rightarrow> Inr v)
   \<and> parse_all True (2 * length text + 2) text \<noteq> Inl OutOfFuel"
  using fuel_enough(1) [of "text" "2 * length text + 2"]
  by (auto simp: strictJsonParse_def parse_all_def bindE_Inl_iff split: if_splits)

end
