(* ===== verification/Canonical_Json.thy ===== *)
theory Canonical_Json
  imports Strict_Json "HOL-Library.List_Lexorder" "HOL-Library.Multiset"
begin

text \<open>
  \<open>canonicalJson\<close> of \<open>src/security/artifacts.ts\<close>: the serialiser the ABI and protocol hashes are
  computed over, with \<open>JSON.stringify\<close> written out, and its round trip through \<open>strictJsonParse\<close>.
\<close>

section \<open>JSON.stringify\<close>

definition hexl :: "nat \<Rightarrow> nat" where
  "hexl d = (if d < 10 then 48 + d else 87 + d)"

definition u_escape :: "nat \<Rightarrow> units" where
  "u_escape c = [92, 117, hexl (c div 4096), hexl (c div 256 mod 16), hexl (c div 16 mod 16), hexl (c mod 16)]"

definition escape_unit :: "nat \<Rightarrow> units" where
  "escape_unit c = (if c = 34 then [92, 34] else if c = 92 then [92, 92] else if c = 8 then [92, 98]
     else if c = 9 then [92, 116] else if c = 10 then [92, 110] else if c = 12 then [92, 102]
     else if c = 13 then [92, 114] else if c < 32 then u_escape c else [c])"

definition high_surrogate :: "nat \<Rightarrow> bool" where
  "high_surrogate c = (55296 \<le> c \<and> c \<le> 56319)"

definition low_surrogate :: "nat \<Rightarrow> bool" where
  "low_surrogate c = (56320 \<le> c \<and> c \<le> 57343)"

text \<open>Well-formed \<open>JSON.stringify\<close>: only a lone surrogate is escaped.\<close>

fun escape_units :: "units \<Rightarrow> units" where
  "escape_units [] = []"
| "escape_units [c] = (if high_surrogate c \<or> low_surrogate c then u_escape c else escape_unit c)"
| "escape_units (c # d # s) =
     (if high_surrogate c \<and> low_surrogate d then c # d # escape_units s
      else if high_surrogate c \<or> low_surrogate c then u_escape c @ escape_units (d # s)
      else escape_unit c @ escape_units (d # s))"

definition quote :: "units \<Rightarrow> units" where
  "quote s = 34 # escape_units s @ [34]"

definition commas :: "units list \<Rightarrow> units" where
  "commas xs = (case xs of [] \<Rightarrow> [] | y # ys \<Rightarrow> y @ concat (map (\<lambda>z. 44 # z) ys))"

text \<open>Members are printed in the order listed; a prototype is not an own member.\<close>

fun stringify :: "json \<Rightarrow> units" where
  "stringify JNull = u ''null''"
| "stringify (JBool b) = (if b then u ''true'' else u ''false'')"
| "stringify (JNum l) = l"
| "stringify (JStr s) = quote s"
| "stringify (JArr vs) = 91 # commas (map stringify vs) @ [93]"
| "stringify (JObj ms p) = 123 # commas (map (\<lambda>m. quote (fst m) @ 58 # stringify (snd m)) ms) @ [125]"

section \<open>canonicalJson\<close>

text \<open>
  An object enumerates its array-index keys first, in numeric order, then the other keys in
  creation order; \<open>Object.fromEntries\<close> of the sorted entries therefore does not keep the sorted
  order when there are index keys.
\<close>

fun dec_val :: "nat \<Rightarrow> units \<Rightarrow> nat" where
  "dec_val acc [] = acc"
| "dec_val acc (c # s) = dec_val (10 * acc + (c - 48)) s"

definition is_index :: "units \<Rightarrow> bool" where
  "is_index k = (k \<noteq> [] \<and> list_all is_digit k \<and> (hd k = 48 \<longrightarrow> length k = 1) \<and> dec_val 0 k < 4294967295)"

definition own_order :: "(units \<times> 'v) list \<Rightarrow> (units \<times> 'v) list" where
  "own_order ms = sort_key (\<lambda>m. dec_val 0 (fst m)) (filter (\<lambda>m. is_index (fst m)) ms)
     @ filter (\<lambda>m. \<not> is_index (fst m)) ms"

text \<open>\<open>fmt\<close> is the engine's number formatting, \<open>String(Number(lexeme))\<close>.\<close>

fun sortCanonical :: "(units \<Rightarrow> units) \<Rightarrow> json \<Rightarrow> json" where
  "sortCanonical fmt JNull = JNull"
| "sortCanonical fmt (JBool b) = JBool b"
| "sortCanonical fmt (JNum l) = JNum (fmt l)"
| "sortCanonical fmt (JStr s) = JStr s"
| "sortCanonical fmt (JArr vs) = JArr (map (sortCanonical fmt) vs)"
| "sortCanonical fmt (JObj ms p) =
     JObj (own_order (sort_key fst (map (\<lambda>m. (fst m, sortCanonical fmt (snd m))) ms))) None"

definition canonicalJson :: "(units \<Rightarrow> units) \<Rightarrow> json \<Rightarrow> units" where
  "canonicalJson fmt v = stringify (sortCanonical fmt v)"

section \<open>Strings round trip\<close>

lemma hex_val_hexl: "d < 16 \<Longrightarrow> hex_val (hexl d) = Some d"
  by (auto simp: hex_val_def hexl_def)

lemma four_digits:
  fixes c :: nat
  shows "4096 * (c div 4096) + 256 * (c div 256 mod 16) + 16 * (c div 16 mod 16) + c mod 16 = c"
proof -
  have "c = 16 * (c div 16) + c mod 16" "c div 16 = 16 * (c div 16 div 16) + c div 16 mod 16"
    "c div 256 = 16 * (c div 256 div 16) + c div 256 mod 16" by simp_all
  moreover have "c div 16 div 16 = c div 256" "c div 256 div 16 = c div 4096"
    by (simp_all flip: div_mult2_eq)
  ultimately show ?thesis by linarith
qed

lemma hex4_u_escape:
  assumes "c < 65536"
  shows "hex4 (hexl (c div 4096) # hexl (c div 256 mod 16) # hexl (c div 16 mod 16) # hexl (c mod 16) # t) = Some (c, t)"
proof -
  from assms have "c div 4096 < 16" by (simp add: less_mult_imp_div_less)
  then show ?thesis by (simp add: hex4_def hex_val_hexl four_digits)
qed

lemma body_u_escape: "c < 65536 \<Longrightarrow> string_body (u_escape c @ s) = bindE (string_body s) (\<lambda>(r, rest). Inr (c # r, rest))"
  unfolding u_escape_def by (simp add: hex4_u_escape)

lemma body_escape_unit:
  "c < 65536 \<Longrightarrow> string_body (escape_unit c @ s) = bindE (string_body s) (\<lambda>(r, rest). Inr (c # r, rest))"
  by (simp add: escape_unit_def body_u_escape simple_escape_def)

lemma body_surrogate:
  "high_surrogate c \<or> low_surrogate c \<Longrightarrow> string_body (c # s) = bindE (string_body s) (\<lambda>(r, rest). Inr (c # r, rest))"
  by (auto simp: high_surrogate_def low_surrogate_def)

definition code_units :: "units \<Rightarrow> bool" where
  "code_units s \<longleftrightarrow> (\<forall>c \<in> set s. c < 65536)"

lemma string_body_escape: "code_units s \<Longrightarrow> string_body (escape_units s @ 34 # rest) = Inr (s, rest)"
proof (induction s rule: escape_units.induct)
  case (2 c)
  then show ?case by (simp add: body_u_escape body_escape_unit code_units_def del: string_body.simps(2)) simp
next
  case (3 c d s)
  consider (pair) "high_surrogate c \<and> low_surrogate d"
    | (lone) "\<not> (high_surrogate c \<and> low_surrogate d)" "high_surrogate c \<or> low_surrogate c"
    | (other) "\<not> (high_surrogate c \<or> low_surrogate c)" by blast
  then show ?case
  proof cases
    case pair
    with 3 show ?thesis by (simp add: body_surrogate code_units_def del: string_body.simps(2))
  next
    case lone
    then have "escape_units (c # d # s) = u_escape c @ escape_units (d # s)" by auto
    with lone 3 show ?thesis by (simp add: body_u_escape code_units_def del: string_body.simps(2) escape_units.simps)
  next
    case other
    then have "escape_units (c # d # s) = escape_unit c @ escape_units (d # s)" by auto
    with other 3 show ?thesis by (simp add: body_escape_unit code_units_def del: string_body.simps(2) escape_units.simps)
  qed
qed simp

lemma parseString_quote: "code_units s \<Longrightarrow> parseString (quote s @ rest) = Inr (s, rest)"
  by (simp add: parseString_def quote_def expect_def string_body_escape)

section \<open>Numbers round trip\<close>

text \<open>What can follow a number inside a document.\<close>

definition delim :: "units \<Rightarrow> bool" where
  "delim rest \<longleftrightarrow> rest = [] \<or> hd rest \<in> {44, 93, 125}"

definition valid_lexeme :: "units \<Rightarrow> bool" where
  "valid_lexeme l \<longleftrightarrow> NUMBER_RE l = Some (l, [])"

lemma delim_cases: "delim rest \<Longrightarrow> rest = [] \<or> (\<exists>c t. rest = c # t \<and> \<not> is_digit c \<and> c \<notin> {43, 45, 46, 69, 101, 32, 9, 10, 13})"
  by (cases rest) (auto simp: delim_def is_digit_def)

lemma digits_append: "delim rest \<Longrightarrow> digits (s @ rest) = (fst (digits s), snd (digits s) @ rest)"
proof -
  assume "delim rest"
  then have r: "takeWhile is_digit rest = []" "dropWhile is_digit rest = rest" using delim_cases by fastforce+
  show ?thesis by (induction s) (auto simp: digits_def r)
qed

lemma int_part_append: "int_part s = Some (i, t) \<Longrightarrow> delim rest \<Longrightarrow> int_part (s @ rest) = Some (i, t @ rest)"
  using digits_append [of rest s] by (cases s) (auto simp: int_part_def split: if_splits)

lemma frac_part_append: "delim rest \<Longrightarrow> frac_part (s @ rest) = (fst (frac_part s), snd (frac_part s) @ rest)"
proof (cases s)
  case Nil
  assume "delim rest"
  with delim_cases [OF this] Nil show ?thesis by (auto simp: frac_part_def)
next
  case (Cons c t)
  assume "delim rest"
  with Cons digits_append [of rest t] show ?thesis by (auto simp: frac_part_def)
qed

lemma exp_part_append: "delim rest \<Longrightarrow> exp_part (s @ rest) = (fst (exp_part s), snd (exp_part s) @ rest)"
proof (cases s)
  case Nil
  assume "delim rest"
  with delim_cases [OF this] Nil show ?thesis by (auto simp: exp_part_def)
next
  case (Cons c t)
  assume d: "delim rest"
  define sg where "sg = (\<lambda>t :: units. case t of d # _ \<Rightarrow> if d = 43 \<or> d = 45 then [d] else [] | [] \<Rightarrow> ([]::units))"
  have sg: "sg (t @ rest) = sg t"
    using delim_cases [OF d] by (cases t) (auto simp: sg_def)
  have "length (sg t) \<le> length t" by (auto simp: sg_def split: list.splits)
  then have "drop (length (sg t)) (t @ rest) = drop (length (sg t)) t @ rest" by simp
  with d have "digits (drop (length (sg t)) (t @ rest)) = (fst (digits (drop (length (sg t)) t)), snd (digits (drop (length (sg t)) t)) @ rest)"
    by (simp add: digits_append)
  with sg Cons show ?thesis by (simp add: exp_part_def Let_def flip: sg_def)
qed

lemma NUMBER_RE_append:
  assumes "NUMBER_RE s = Some (l, t)" and d: "delim rest"
  shows "NUMBER_RE (s @ rest) = Some (l, t @ rest)"
proof -
  define mi where "mi = (\<lambda>s :: units. case s of c # _ \<Rightarrow> if c = 45 then [45::nat] else [] | [] \<Rightarrow> [])"
  have mi: "mi (s @ rest) = mi s" using delim_cases [OF d] by (cases s) (auto simp: mi_def)
  have len: "length (mi s) \<le> length s" by (auto simp: mi_def split: list.splits)
  from assms(1) obtain i s1 where i: "int_part (drop (length (mi s)) s) = Some (i, s1)"
    unfolding NUMBER_RE_def Let_def mi_def by (auto split: option.splits)
  from int_part_append [OF i d] len have "int_part (drop (length (mi s)) (s @ rest)) = Some (i, s1 @ rest)" by simp
  with assms(1) i show ?thesis
    using frac_part_append [OF d, of s1] exp_part_append [OF d, of "snd (frac_part s1)"]
    unfolding NUMBER_RE_def Let_def mi_def [symmetric] mi [unfolded mi_def]
    by (simp add: mi split: prod.splits flip: mi_def)
qed

lemma parseNumber_lexeme: "valid_lexeme l \<Longrightarrow> delim rest \<Longrightarrow> parseNumber (l @ rest) = Inr (JNum l, rest)"
  using NUMBER_RE_append [of l l "[]" rest] by (simp add: parseNumber_def valid_lexeme_def)

lemma valid_lexeme_hd: "valid_lexeme l \<Longrightarrow> l \<noteq> [] \<and> (hd l = 45 \<or> is_digit (hd l))"
  by (cases l) (auto simp: valid_lexeme_def NUMBER_RE_def int_part_def is_digit_def split: if_splits option.splits)

section \<open>Values round trip\<close>

text \<open>
  The values a document can denote and print: number lexemes of the grammar, 16-bit code units,
  distinct member names, no \<open>__proto__\<close> member.
\<close>

fun printable :: "json \<Rightarrow> bool" where
  "printable JNull = True"
| "printable (JBool b) = True"
| "printable (JNum l) = valid_lexeme l"
| "printable (JStr s) = code_units s"
| "printable (JArr vs) = list_all printable vs"
| "printable (JObj ms p) = (p = None \<and> distinct (map fst ms) \<and> proto_key \<notin> set (map fst ms)
     \<and> list_all (\<lambda>m. code_units (fst m)) ms \<and> list_all (\<lambda>m. printable (snd m)) ms)"

lemma commas_simps:
  "commas [] = []" "commas [x] = x" "commas (x # y # ys) = x @ 44 # commas (y # ys)"
  by (simp_all add: commas_def)

lemma stringify_head: "printable v \<Longrightarrow> \<exists>c t. stringify v = c # t \<and> \<not> is_ws c \<and> c \<noteq> 93 \<and> c \<noteq> 125"
proof (cases v)
  case (JNum l)
  assume "printable v"
  with JNum valid_lexeme_hd [of l] show ?thesis
    by (cases l) (auto simp: is_ws_def is_digit_def)
qed (auto simp: u_def quote_def is_ws_def)

lemma skip_stringify: "printable v \<Longrightarrow> skipWhitespace (stringify v @ rest) = stringify v @ rest"
  using stringify_head [of v] by (auto simp: skipWhitespace_def)

lemma skip_nonws: "\<not> is_ws c \<Longrightarrow> skipWhitespace (c # s) = c # s"
  by (simp add: skipWhitespace_def)

lemma ws_lits [simp]: "\<not> is_ws 34" "\<not> is_ws 44" "\<not> is_ws 58" "\<not> is_ws 91" "\<not> is_ws 93" "\<not> is_ws 123" "\<not> is_ws 125"
  by (simp_all add: is_ws_def)

lemma obj_set_new: "k \<notin> keys xs \<Longrightarrow> obj_set k v xs = xs @ [(k, v)]"
  by (induction k v xs rule: obj_set.induct) auto

definition reads_back :: "json \<Rightarrow> bool" where
  "reads_back v \<longleftrightarrow> (\<forall>b n rest. delim rest \<longrightarrow> 2 * length (stringify v @ rest) + 1 \<le> n \<longrightarrow>
     parseValue b n (stringify v @ rest) = Inr (v, rest))"

lemma reads_backI:
  assumes "\<And>b n rest. delim rest \<Longrightarrow> 2 * length (stringify v @ rest) + 1 \<le> Suc n \<Longrightarrow>
    parseValue b (Suc n) (stringify v @ rest) = Inr (v, rest)"
  shows "reads_back v"
  unfolding reads_back_def
proof (intro allI impI)
  fix b n rest assume "delim rest" and l: "2 * length (stringify v @ rest) + 1 \<le> n"
  then show "parseValue b n (stringify v @ rest) = Inr (v, rest)"
    using assms [of rest "n - 1" b] by simp
qed

lemma elements_back:
  assumes "vs \<noteq> []" and "\<forall>v \<in> set vs. printable v \<and> reads_back v"
    and "2 * length (commas (map stringify vs) @ 93 # rest) + 2 \<le> n"
  shows "parse_elements b n acc (commas (map stringify vs) @ 93 # rest) = Inr (JArr (acc @ vs), rest)"
  using assms
proof (induction vs arbitrary: acc n)
  case (Cons v vs)
  then obtain m where n: "n = Suc m" by (cases n) auto
  show ?case
  proof (cases vs)
    case Nil
    have "parseValue b m (stringify v @ 93 # rest) = Inr (v, 93 # rest)"
      using Cons.prems(2,3) Nil n by (simp add: reads_back_def delim_def commas_simps)
    then show ?thesis using Nil n by (simp add: commas_simps skip_nonws)
  next
    case (Cons w ws)
    let ?tail = "commas (map stringify vs) @ 93 # rest"
    have "parseValue b m (stringify v @ 44 # ?tail) = Inr (v, 44 # ?tail)"
      using Cons.prems(2,3) Cons n by (simp add: reads_back_def delim_def commas_simps)
    moreover have "parse_elements b m (acc @ [v]) ?tail = Inr (JArr ((acc @ [v]) @ vs), rest)"
      by (rule Cons.IH) (use Cons.prems Cons n in \<open>auto simp: commas_simps\<close>)
    ultimately show ?thesis using Cons n by (simp add: commas_simps skip_nonws)
  qed
qed simp

abbreviation member :: "units \<times> json \<Rightarrow> units" where
  "member m \<equiv> quote (fst m) @ 58 # stringify (snd m)"

lemma skip_member: "skipWhitespace (quote k @ s) = quote k @ s"
  by (simp add: quote_def skip_nonws)

lemma members_back:
  assumes "ms \<noteq> []" and "\<forall>m \<in> set ms. code_units (fst m) \<and> fst m \<noteq> proto_key \<and> printable (snd m) \<and> reads_back (snd m)"
    and "distinct (map fst (acc @ ms))"
    and "2 * length (commas (map member ms) @ 125 # rest) + 2 \<le> n"
  shows "parse_members b n (acc, None) (commas (map member ms) @ 125 # rest) = Inr (JObj (acc @ ms) None, rest)"
  using assms
proof (induction ms arbitrary: acc n)
  case (Cons m ms)
  then obtain i where n: "n = Suc i" by (cases n) auto
  obtain k v where m: "m = (k, v)" by force
  have k: "k \<notin> keys acc" and as: "assign b k v (acc, None) = (acc @ [(k, v)], None)"
    using Cons.prems(2,3) m by (auto simp: assign_def obj_set_new)
  have cu: "code_units k" using Cons.prems(2) m by simp
  show ?case
  proof (cases ms)
    case Nil
    have "parseValue b i (stringify v @ 125 # rest) = Inr (v, 125 # rest)"
      using Cons.prems(2,4) Nil n m by (simp add: reads_back_def delim_def commas_simps)
    then show ?thesis
      using Nil n m k as cu by (simp add: commas_simps skip_nonws skip_member parseString_quote expect_def)
  next
    case (Cons w ws)
    let ?tail = "commas (map member ms) @ 125 # rest"
    have "parseValue b i (stringify v @ 44 # ?tail) = Inr (v, 44 # ?tail)"
      using Cons.prems(2,4) Cons n m by (simp add: reads_back_def delim_def commas_simps)
    moreover have "parse_members b i (acc @ [(k, v)], None) ?tail = Inr (JObj ((acc @ [(k, v)]) @ ms) None, rest)"
      by (rule Cons.IH) (use Cons.prems Cons n m in \<open>auto simp: commas_simps\<close>)
    ultimately show ?thesis
      using Cons n m k as cu by (simp add: commas_simps skip_nonws skip_member parseString_quote expect_def)
  qed
qed simp

lemma literal_back: "parseLiteral lit v (lit @ rest) = Inr (v, rest)"
  by (simp add: parseLiteral_def)

lemma commas_ne: "xs \<noteq> [] \<Longrightarrow> hd xs \<noteq> [] \<Longrightarrow> \<exists>t. commas xs @ r = hd (hd xs) # t"
  by (cases xs; cases "hd xs") (auto simp: commas_def)

lemma printable_reads_back: "printable v \<Longrightarrow> reads_back v"
proof (induction v)
  case (JNum l)
  then obtain c t where l: "l = c # t" "c = 45 \<or> is_digit c"
    using valid_lexeme_hd [of l] by (cases l) auto
  have "parseValue b (Suc n) (l @ rest) = parseNumber (l @ rest)" for b n rest
    using l by (auto simp: skip_nonws is_ws_def is_digit_def)
  with JNum show ?case by (intro reads_backI) (simp add: parseNumber_lexeme)
next
  case (JStr s)
  have "parseValue b (Suc n) (quote s @ rest) = Inr (JStr s, rest)" for b n rest
    using parseString_quote [of s rest] JStr by (simp add: quote_def skip_nonws)
  then show ?case by (intro reads_backI) simp
next
  case (JArr vs)
  have pr: "\<forall>v \<in> set vs. printable v \<and> reads_back v" using JArr by (auto simp: list_all_iff)
  have "parseValue b (Suc n) (stringify (JArr vs) @ rest) = Inr (JArr vs, rest)"
    if "2 * length (stringify (JArr vs) @ rest) + 1 \<le> Suc n" for b n rest
  proof (cases "vs = []")
    case True
    then show ?thesis by (simp add: commas_simps skip_nonws)
  next
    case False
    then obtain w ws where vs: "vs = w # ws" by (cases vs) auto
    with pr have "printable w" by simp
    from stringify_head [OF this] obtain c t where c: "stringify w = c # t" "\<not> is_ws c" "c \<noteq> 93" by blast
    then obtain t' where t': "commas (map stringify vs) @ 93 # rest = c # t'"
      using commas_ne [of "map stringify vs" "93 # rest"] vs by auto
    have "parse_elements b n [] (commas (map stringify vs) @ 93 # rest) = Inr (JArr ([] @ vs), rest)"
      by (rule elements_back) (use False pr that in auto)
    with c t' show ?thesis by (simp add: skip_nonws)
  qed
  then show ?case by (intro reads_backI)
next
  case (JObj ms p)
  have p: "p = None" and d: "distinct (map fst ms)" using JObj.prems by simp_all
  have pr: "code_units (fst m) \<and> fst m \<noteq> proto_key \<and> printable (snd m) \<and> reads_back (snd m)" if "m \<in> set ms" for m
  proof -
    have "fst m \<in> set (map fst ms)" using that by simp
    moreover have "proto_key \<notin> set (map fst ms)" using JObj.prems by simp
    ultimately have "fst m \<noteq> proto_key" by metis
    moreover have "code_units (fst m)" "printable (snd m)" using JObj.prems that by (simp_all add: list_all_iff)
    moreover from this JObj.IH(1) [OF that] have "reads_back (snd m)" by (simp add: snds.simps)
    ultimately show ?thesis by simp
  qed
  have "parseValue b (Suc n) (stringify (JObj ms None) @ rest) = Inr (JObj ms None, rest)"
    if "2 * length (stringify (JObj ms None) @ rest) + 1 \<le> Suc n" for b n rest
  proof (cases "ms = []")
    case True
    then show ?thesis by (simp add: commas_simps skip_nonws)
  next
    case False
    then obtain w ws where ms: "ms = w # ws" by (cases ms) auto
    obtain t' where t': "commas (map member ms) @ 125 # rest = 34 # t'"
      using commas_ne [of "map member ms" "125 # rest"] ms by (auto simp: quote_def)
    have "parse_members b n ([], None) (commas (map member ms) @ 125 # rest) = Inr (JObj ([] @ ms) None, rest)"
      by (rule members_back) (use False pr d that in simp_all)
    with t' show ?thesis by (simp add: skip_nonws)
  qed
  then show ?case unfolding p by (intro reads_backI)
qed (auto intro!: reads_backI simp: u_def skip_nonws is_ws_def parseLiteral_def)

text \<open>
  C36. Round trip: parsing what \<open>JSON.stringify\<close> prints gives the value back, member order and all,
  for every value with grammatical numbers, 16-bit code units and distinct member names other
  than \<open>__proto__\<close>.
\<close>

theorem strictJsonParse_stringify:
  assumes "printable v"
  shows "strictJsonParse (stringify v) = Inr v"
proof -
  have "parseValue True (2 * length (stringify v) + 2) (stringify v @ []) = Inr (v, [])"
  proof -
    have "delim []" "2 * length (stringify v @ []) + 1 \<le> 2 * length (stringify v) + 2" by (simp_all add: delim_def)
    with printable_reads_back [OF assms] show ?thesis unfolding reads_back_def by blast
  qed
  then show ?thesis by (simp add: strictJsonParse_def parse_all_def skipWhitespace_def)
qed

lemma strictJsonParse_stringify_witness:
  "strictJsonParse (stringify (JObj [(u ''a'', JArr [JNum (u ''1''), JStr (u ''x'')]), (u ''b'', JNull)] None))
     = Inr (JObj [(u ''a'', JArr [JNum (u ''1''), JStr (u ''x'')]), (u ''b'', JNull)] None)"
  by (rule strictJsonParse_stringify)
    (simp add: u_def code_units_def proto_key_def valid_lexeme_def NUMBER_RE_def int_part_def frac_part_def
      exp_part_def is_digit_def digits_def)

section \<open>Member names\<close>

fun distinct_members :: "json \<Rightarrow> bool" where
  "distinct_members (JArr vs) = list_all distinct_members vs"
| "distinct_members (JObj ms p) = (distinct (map fst ms) \<and> proto_key \<notin> set (map fst ms)
     \<and> list_all (\<lambda>m. distinct_members (snd m)) ms \<and> pred_option distinct_members p)"
| "distinct_members _ = True"

lemma assign_distinct:
  assumes "distinct_members (JObj (fst r) (snd r))" and "distinct_members v" and "key \<notin> keys (fst r)"
  shows "distinct_members (JObj (fst (assign True key v r)) (snd (assign True key v r)))"
  using assms by (auto simp: assign_def obj_set_new)

lemma parse_distinct:
  "parseValue b n s = Inr (v, rest) \<Longrightarrow> b \<Longrightarrow> distinct_members v"
  "parse_members b n r s = Inr (v, rest) \<Longrightarrow> b \<Longrightarrow> distinct_members (JObj (fst r) (snd r)) \<Longrightarrow> distinct_members v"
  "parse_elements b n vs s = Inr (v, rest) \<Longrightarrow> b \<Longrightarrow> list_all distinct_members vs \<Longrightarrow> distinct_members v"
proof (induction b n s and b n r s and b n vs s arbitrary: v rest and v rest and v rest
    rule: parseValue_parse_members_parse_elements.induct)
  case (2 b n s)
  then obtain ch t where s: "skipWhitespace s = ch # t" by (auto split: list.splits)
  show ?case
  proof (cases "ch = 123 \<or> ch = 91")
    case True
    show ?thesis
    proof (cases "skipWhitespace t")
      case Nil
      have "parse_members b n ([], None) [] = Inr (v, rest) \<Longrightarrow> ch = 123 \<Longrightarrow> ?thesis"
        using "2.IH"(1) [OF s _ Nil _ "2.prems"(2)] by simp
      moreover have "parse_elements b n [] [] = Inr (v, rest) \<Longrightarrow> ch = 91 \<Longrightarrow> ?thesis"
        using "2.IH"(3) [OF s _ _ Nil _ "2.prems"(2)] by simp
      ultimately show ?thesis using True "2.prems" s Nil by auto
    next
      case (Cons c t')
      have "parse_members b n ([], None) (c # t') = Inr (v, rest) \<Longrightarrow> ch = 123 \<Longrightarrow> c \<noteq> 125 \<Longrightarrow> ?thesis"
        using "2.IH"(2) [OF s _ Cons _ _ "2.prems"(2)] by simp
      moreover have "parse_elements b n [] (c # t') = Inr (v, rest) \<Longrightarrow> ch = 91 \<Longrightarrow> c \<noteq> 93 \<Longrightarrow> ?thesis"
        using "2.IH"(4) [OF s _ _ Cons _ _ "2.prems"(2)] by simp
      ultimately show ?thesis using True "2.prems" s Cons by (auto split: if_splits)
    qed
  next
    case False
    with "2.prems" s show ?thesis
      by (auto simp: bindE_Inr_iff parseLiteral_def parseNumber_def split: if_splits option.splits)
  qed
next
  case (4 b n r s)
  then obtain key s1 s2 w s3 where p: "parseString (skipWhitespace s) = Inr (key, s1)" "\<not> (b \<and> key \<in> keys (fst r))"
    "expect 58 (skipWhitespace s1) = Inr s2" "parseValue b n s2 = Inr (w, s3)"
    by (auto simp: bindE_Inr_iff split: if_splits)
  with "4.prems"(1) obtain c s4 where c: "skipWhitespace s3 = c # s4" by (auto split: list.splits)
  have d: "distinct_members (JObj (fst (assign b key w r)) (snd (assign b key w r)))"
    using assign_distinct [OF "4.prems"(3) "4.IH"(1) [OF p(2) p(4) "4.prems"(2)]] "4.prems"(2) p(2) by simp
  show ?case
  proof (cases "c = 44")
    case True
    with "4.prems" p c have "parse_members b n (assign b key w r) s4 = Inr (v, rest)" by simp
    from "4.IH"(2) [OF p(2) c True this "4.prems"(2) d] show ?thesis .
  next
    case False
    with "4.prems" p c have "v = JObj (fst (assign b key w r)) (snd (assign b key w r))" by (auto split: if_splits)
    with d show ?thesis by simp
  qed
next
  case (6 b n vs s)
  then obtain w s1 where p: "parseValue b n s = Inr (w, s1)" by (auto simp: bindE_Inr_iff)
  with "6.prems"(1) obtain c s2 where c: "skipWhitespace s1 = c # s2" by (auto split: list.splits)
  have d: "list_all distinct_members (vs @ [w])" using "6.IH"(1) [OF p "6.prems"(2)] "6.prems"(3) by simp
  show ?case
  proof (cases "c = 44")
    case True
    with "6.prems" p c have "parse_elements b n (vs @ [w]) s2 = Inr (v, rest)" by simp
    from "6.IH"(2) [OF c True this "6.prems"(2) d] show ?thesis .
  next
    case False
    with "6.prems" p c have "v = JArr (vs @ [w])" by (auto split: if_splits)
    with d show ?thesis by simp
  qed
qed simp_all

text \<open>
  Strictness: no object in a parsed document, at any depth, has two members of one name, so
  the parser never silently keeps one of several values.
\<close>

theorem strictJsonParse_distinct:
  assumes "strictJsonParse text = Inr v"
  shows "distinct_members v"
proof -
  from assms obtain rest where "parseValue True (2 * length text + 2) text = Inr (v, rest)"
    by (auto simp: strictJsonParse_def parse_all_def bindE_Inr_iff split: sum.splits if_splits)
  then show ?thesis by (rule parse_distinct) simp
qed

lemma strictJsonParse_distinct_witness: "distinct_members (JObj [(u ''a'', JNull), (u ''b'', JNull)] None)"
proof -
  have "strictJsonParse (u ''{\"a\":null,\"b\":null}'')
      = Inr (JObj [(u ''a'', JNull), (u ''b'', JNull)] None)"
    by code_simp
  then show ?thesis by (rule strictJsonParse_distinct)
qed

text \<open>
  A duplicate member is rejected; a second \<open>__proto__\<close> member is not, because the first one
  became the prototype and no own member.
\<close>

lemma duplicate_member_rejected: "strictJsonParse (u ''{\"a\":1,\"a\":2}'') = Inl ContractError"
  by code_simp

lemma duplicate_proto_accepted:
  "strictJsonParse (u ''{\"__proto__\":null,\"__proto__\":[]}'') = Inr (JObj [] (Some (JArr [])))"
  by code_simp

section \<open>The canonical form ignores member order\<close>

text \<open>
  C37. The canonical form, and so every hash over it, does not depend on the order in which an
  object's members were written.
\<close>

theorem canonicalJson_order_insensitive:
  assumes "mset ms = mset ms'" and "distinct (map fst ms)"
  shows "canonicalJson fmt (JObj ms p) = canonicalJson fmt (JObj ms' p')"
proof -
  let ?f = "map (\<lambda>m. (fst m, sortCanonical fmt (snd m)))"
  have "mset (?f ms) = mset (sort_key fst (?f ms'))" using assms(1) by simp
  moreover have "inj_on fst (set (?f ms))"
    using assms(2) by (simp add: distinct_map inj_on_def) (metis prod.exhaust_sel)
  ultimately have "sort_key fst (?f ms) = sort_key fst (?f ms')"
    by (rule sort_key_inj_key_eq) simp
  then show ?thesis by (simp add: canonicalJson_def)
qed

lemma canonicalJson_order_insensitive_witness:
  "canonicalJson id (JObj [(u ''b'', JNull), (u ''a'', JBool True)] None)
     = canonicalJson id (JObj [(u ''a'', JBool True), (u ''b'', JNull)] None)"
  by (rule canonicalJson_order_insensitive) (simp_all add: u_def add.commute)

text \<open>Array-index keys come out in numeric order, not in the sorted order of the strings.\<close>

lemma index_keys_numeric_order:
  "sortCanonical id (JObj [(u ''9'', JNull), (u ''10'', JNull)] None) = JObj [(u ''9'', JNull), (u ''10'', JNull)] None"
  by (simp add: own_order_def is_index_def u_def is_digit_def)

lemma JSON_parse_stringify: "printable v \<Longrightarrow> JSON_parse (stringify v) = Some v"
proof -
  assume "printable v"
  from printable_reads_back [OF this] have "parseValue False (2 * length (stringify v) + 2) (stringify v @ []) = Inr (v, [])"
    unfolding reads_back_def by (metis append_Nil2 delim_def le_add1 list.distinct(1) add_le_mono le_refl one_le_numeral)
  then show ?thesis by (simp add: JSON_parse_def parse_all_def skipWhitespace_def)
qed

end
