(* ===== verification/Js_Number.thy ===== *)
theory Js_Number
  imports Strict_Json
begin

text \<open>
  JavaScript's numbers read from text: \<open>Number\<close> of a JSON lexeme and \<open>parseInt(s, 10)\<close>. Numbers are
  exact rationals and integers here: the sizes, ports and counters that are read this way lie in the
  range where doubles represent them exactly or are only compared and added.
\<close>

definition digits_value :: "nat list \<Rightarrow> nat" where
  "digits_value ds = foldl (\<lambda>a d. 10 * a + (d - 48)) 0 ds"

definition scale10 :: "rat \<Rightarrow> int \<Rightarrow> rat" where
  "scale10 r e = (if 0 \<le> e then r * 10 ^ nat e else r / 10 ^ nat (- e))"

text \<open>The value of a lexeme that \<open>NUMBER_RE\<close> accepts.\<close>

definition lexeme_value :: "units \<Rightarrow> rat" where
  "lexeme_value s = (let
     neg = (case s of c # _ \<Rightarrow> c = 45 | [] \<Rightarrow> False);
     body = (if neg then tl s else s);
     mant = takeWhile (\<lambda>c. c \<noteq> 101 \<and> c \<noteq> 69) body;
     ex = drop (length mant + 1) body;
     exneg = (case ex of c # _ \<Rightarrow> c = 45 | [] \<Rightarrow> False);
     exdigits = dropWhile (\<lambda>c. c = 43 \<or> c = 45) ex;
     ip = takeWhile (\<lambda>c. c \<noteq> 46) mant;
     fp = drop (length ip + 1) mant;
     e = (if exneg then - int (digits_value exdigits) else int (digits_value exdigits)) - int (length fp);
     v = scale10 (of_nat (digits_value (ip @ fp))) e
   in if neg then - v else v)"

text \<open>\<open>parseInt(s, 10)\<close>, with \<open>None\<close> for \<open>NaN\<close>.\<close>

definition char_digit :: "char \<Rightarrow> bool" where
  "char_digit c = is_digit (of_char c)"

definition parse_int :: "string \<Rightarrow> int option" where
  "parse_int s = (let
     t = dropWhile is_js_space s;
     neg = (case t of c # _ \<Rightarrow> c = CHR ''-'' | [] \<Rightarrow> False);
     t' = (case t of c # r \<Rightarrow> if c = CHR ''-'' \<or> c = CHR ''+'' then r else t | [] \<Rightarrow> []);
     ds = takeWhile char_digit t'
   in if ds = [] then None
      else Some (if neg then - int (digits_value (u ds)) else int (digits_value (u ds))))"

text \<open>\<open>/^\d+$/.test(s)\<close>\<close>

definition all_digits :: "string \<Rightarrow> bool" where
  "all_digits s = (s \<noteq> [] \<and> list_all char_digit s)"

lemma lexeme_value_examples:
  "lexeme_value (u ''256'') = 256" "lexeme_value (u ''-0.5'') = - 1 / 2" "lexeme_value (u ''25e-1'') = 5 / 2"
  by (simp_all add: lexeme_value_def u_def Let_def digits_value_def scale10_def)

lemma parse_int_examples:
  "parse_int '' 3001x'' = Some 3001" "parse_int ''-7'' = Some (- 7)" "parse_int ''x'' = None"
  by (simp_all add: parse_int_def u_def digits_value_def char_digit_def is_digit_def is_js_space_def)

end
