(* ===== verification/Local_Abi.thy ===== *)
theory Local_Abi
  imports Canonical_Json Js_Number
begin

text \<open>
  The local-runtime ABI: \<open>src/local-runtime/abi-schema.ts\<close> (validation of requests and evidence),
  \<open>dispatch-trust-env.ts\<close>, \<open>broker-binding.ts\<close> and the resource labels of
  \<open>src/security/mcp-resource-labels-v3.ts\<close>. Documents are \<open>json\<close> values. \<open>abi_lib\<close> holds the code that
  is not the repository's: the compiled ajv schema, the hashes, Node's number formatting and its check
  that a JWK is a point of the curve. Ids and digests are Latin-1 (\<open>s_of\<close>).
\<close>

record abi_lib =
  fmt :: "units \<Rightarrow> units"
  sha256_b64u :: "units \<Rightarrow> units"
  sha256_hex :: "units \<Rightarrow> units"
  ajv_valid :: "json \<Rightarrow> bool"
  on_p256_curve :: "json \<Rightarrow> bool"

definition s_of :: "units \<Rightarrow> string" where
  "s_of s = map char_of s"

lemma s_of_u [simp]: "s_of (u s) = s"
  by (induction s) (simp_all add: s_of_def u_def)

section \<open>Members\<close>

text \<open>
  Reading a member. The schema makes the members the code reads present with their type; what
  \<open>jstr\<close> and \<open>jnum\<close> give otherwise stands for the undefined that is never reached.
\<close>

definition jget :: "json \<Rightarrow> string \<Rightarrow> json option" where
  "jget v k = (case v of JObj ms _ \<Rightarrow> map_of ms (u k) | _ \<Rightarrow> None)"

definition jat :: "json \<Rightarrow> string \<Rightarrow> json" where
  "jat v k = (case jget v k of Some w \<Rightarrow> w | None \<Rightarrow> JNull)"

definition jstr :: "json \<Rightarrow> string \<Rightarrow> string" where
  "jstr v k = (case jget v k of Some (JStr s) \<Rightarrow> s_of s | _ \<Rightarrow> [])"

definition jnum :: "json \<Rightarrow> string \<Rightarrow> units" where
  "jnum v k = (case jget v k of Some (JNum l) \<Rightarrow> l | _ \<Rightarrow> [])"

definition str :: "string \<Rightarrow> json" where
  "str s = JStr (u s)"

definition obj :: "(string \<times> json) list \<Rightarrow> json" where
  "obj ms = JObj (map (\<lambda>(k, v). (u k, v)) ms) None"

section \<open>Hashes and affinity\<close>

definition canonicalHash :: "abi_lib \<Rightarrow> json \<Rightarrow> string" where
  "canonicalHash lib v = s_of (sha256_b64u lib (canonicalJson (fmt lib) v))"

definition AFFINITY_FIELDS :: "string list" where
  "AFFINITY_FIELDS = [''installation_id'', ''workspace_id'', ''deployment_id'', ''listing_id'', ''version_id'',
     ''generation_id'', ''generation_number'', ''descriptor_artifact_hash'', ''resource_manifest_hash'',
     ''permission_contract_hash'', ''runtime_authorization'']"

definition affinity_members :: "json \<Rightarrow> (string \<times> json) list" where
  "affinity_members request = concat (map (\<lambda>f. case jget request f of Some v \<Rightarrow> [(f, v)] | None \<Rightarrow> []) AFFINITY_FIELDS)"

definition affinityFromRequest :: "json \<Rightarrow> json" where
  "affinityFromRequest request = obj (affinity_members request)"

section \<open>Validation\<close>

definition assertStructure :: "abi_lib \<Rightarrow> json \<Rightarrow> (driver_error, unit) result" where
  "assertStructure lib v = guardE (ajv_valid lib v) ContractError"

text \<open>
  \<open>/^[A-Za-z0-9_-]{43}$/\<close>; 43 characters hold 258 bits, so the encoding of 32 bytes is the one
  whose last character has its two low bits clear.
\<close>

definition b64url_val :: "nat \<Rightarrow> nat option" where
  "b64url_val c = (if 65 \<le> c \<and> c \<le> 90 then Some (c - 65) else if 97 \<le> c \<and> c \<le> 122 then Some (c - 71)
     else if 48 \<le> c \<and> c \<le> 57 then Some (c + 4) else if c = 45 then Some 62 else if c = 95 then Some 63 else None)"

definition canonical_base64url_32 :: "units \<Rightarrow> bool" where
  "canonical_base64url_32 s = (length s = 43 \<and> list_all (\<lambda>c. b64url_val c \<noteq> None) s
     \<and> (case b64url_val (last s) of Some v \<Rightarrow> v mod 4 = 0 | None \<Rightarrow> False))"

definition assertCanonicalBase64Url32 :: "json option \<Rightarrow> (driver_error, unit) result" where
  "assertCanonicalBase64Url32 v = (case v of
     Some (JStr s) \<Rightarrow> guardE (canonical_base64url_32 s) ContractError | _ \<Rightarrow> Inl ContractError)"

definition jwkThumbprint :: "abi_lib \<Rightarrow> json \<Rightarrow> string" where
  "jwkThumbprint lib k = s_of (sha256_b64u lib (canonicalJson (fmt lib)
     (obj [(''crv'', jat k ''crv''), (''kty'', jat k ''kty''), (''x'', jat k ''x''), (''y'', jat k ''y'')])))"

definition assertRuntimeAuthorization :: "abi_lib \<Rightarrow> json \<Rightarrow> (driver_error, unit) result" where
  "assertRuntimeAuthorization lib authorization = (let k = jat authorization ''hub_public_jwk'' in
     bindE (assertCanonicalBase64Url32 (jget k ''x'')) (\<lambda>_.
     bindE (assertCanonicalBase64Url32 (jget k ''y'')) (\<lambda>_.
     bindE (guardE (on_p256_curve lib k) ContractError) (\<lambda>_.
     guardE (jstr authorization ''hub_kid'' = jwkThumbprint lib k) ContractError))))"

definition without :: "string \<Rightarrow> json \<Rightarrow> json" where
  "without k v = (case v of JObj ms _ \<Rightarrow> JObj (obj_del (u k) ms) None | _ \<Rightarrow> v)"

definition assertEvidenceHash :: "abi_lib \<Rightarrow> json \<Rightarrow> string \<Rightarrow> (driver_error, unit) result" where
  "assertEvidenceHash lib v k = (case jget v k of
     Some (JStr h) \<Rightarrow> guardE (canonicalHash lib (without k v) = s_of h) ContractError
   | _ \<Rightarrow> Inl ContractError)"

text \<open>The checks shared by the six validators: structure, discriminator, key binding.\<close>

definition checked :: "abi_lib \<Rightarrow> json \<Rightarrow> string \<Rightarrow> string \<Rightarrow> (driver_error, unit) result" where
  "checked lib v discriminator expected =
     bindE (assertStructure lib v) (\<lambda>_.
     bindE (guardE (jget v discriminator = Some (str expected)) ContractError) (\<lambda>_.
     assertRuntimeAuthorization lib (jat v ''runtime_authorization'')))"

definition validateEnsureReady :: "abi_lib \<Rightarrow> json \<Rightarrow> (driver_error, json) result" where
  "validateEnsureReady lib v = bindE (checked lib v ''operation'' ''ENSURE_READY'') (\<lambda>_. Inr v)"

definition validateReady :: "abi_lib \<Rightarrow> json \<Rightarrow> (driver_error, json) result" where
  "validateReady lib v = bindE (checked lib v ''state'' ''READY'') (\<lambda>_.
     bindE (assertEvidenceHash lib v ''driver_evidence_hash'') (\<lambda>_. Inr v))"

definition validateActivate :: "abi_lib \<Rightarrow> json \<Rightarrow> (driver_error, json) result" where
  "validateActivate lib v = bindE (checked lib v ''operation'' ''ACTIVATE'') (\<lambda>_. Inr v)"

definition validateActive :: "abi_lib \<Rightarrow> json \<Rightarrow> (driver_error, json) result" where
  "validateActive lib v = bindE (checked lib v ''state'' ''ACTIVE'') (\<lambda>_.
     bindE (assertEvidenceHash lib v ''activation_evidence_hash'') (\<lambda>_. Inr v))"

definition validateRemove :: "abi_lib \<Rightarrow> json \<Rightarrow> (driver_error, json) result" where
  "validateRemove lib v = bindE (checked lib v ''operation'' ''REMOVE'') (\<lambda>_. Inr v)"

definition validateAbsent :: "abi_lib \<Rightarrow> json \<Rightarrow> (driver_error, json) result" where
  "validateAbsent lib v = bindE (checked lib v ''state'' ''ABSENT'') (\<lambda>_.
     bindE (assertEvidenceHash lib v ''removal_evidence_hash'') (\<lambda>_. Inr v))"

section \<open>Dispatch trust environment\<close>

definition sortedText :: "abi_lib \<Rightarrow> json \<Rightarrow> units" where
  "sortedText lib v = stringify (sortCanonical (fmt lib) v)"

definition activation_affinity :: "json \<Rightarrow> (string \<times> json) list" where
  "activation_affinity act = [(''runtimeResourceInventoryHash'', jat act ''runtime_resource_inventory_hash''),
     (''runtimeApprovalReceiptHash'', jat act ''runtime_approval_receipt_hash''),
     (''runtimeAuthorizationEpoch'', jat act ''runtime_authorization_epoch'')]"

definition dispatchTrust :: "json \<Rightarrow> json option \<Rightarrow> json" where
  "dispatchTrust request activation = (let authorization = jat request ''runtime_authorization'' in
     obj [(''hubKid'', jat authorization ''hub_kid''), (''hubPublicJwk'', jat authorization ''hub_public_jwk''),
       (''affinity'', obj ([(''workspaceId'', jat request ''workspace_id''), (''deploymentId'', jat request ''deployment_id''),
          (''mcpAppId'', jat authorization ''mcp_app_id''), (''executionMode'', str ''SELF_HOSTED_LOCAL''),
          (''generationId'', jat request ''generation_id''), (''generationNumber'', jat request ''generation_number''),
          (''runtimeInstallationId'', jat request ''installation_id''), (''manifestDigest'', jat authorization ''manifest_digest''),
          (''resourceManifestHash'', jat request ''resource_manifest_hash'')]
          @ (case activation of Some a \<Rightarrow> activation_affinity a | None \<Rightarrow> [])))])"

definition dispatchTrustEnv :: "abi_lib \<Rightarrow> json \<Rightarrow> json option \<Rightarrow> units list" where
  "dispatchTrustEnv lib request activation =
     [u ''PRIVOS_RUNTIME_SECURITY_MODE=runtime-v3'',
      u ''PRIVOS_RUNTIME_DISPATCH_TRUST_V3='' @ sortedText lib (dispatchTrust request activation),
      u ''PRIVOS_RUNTIME_ALLOW_UNSIGNED_PREACTIVATION_READINESS='' @ u (if activation = None then ''true'' else ''false'')]"

text \<open>\<open>entry.slice(0, -1)\<close> of an entry without a separator drops its last character.\<close>

definition envListToMap :: "units list \<Rightarrow> (units \<times> units) list" where
  "envListToMap env = fold (\<lambda>entry m. if 61 \<in> set entry
       then obj_set (takeWhile (\<lambda>c. c \<noteq> 61) entry) (tl (dropWhile (\<lambda>c. c \<noteq> 61) entry)) m
       else obj_set (butlast entry) entry m) env []"

section \<open>Broker binding and labels\<close>

record LocalRuntimeBrokerContext =
  bc_clusterId :: string
  bc_nodeId :: string
  bc_hubOrigin :: string
  bc_networkName :: string

text \<open>\<open>readPairedClusterId(stateDir, fallback)\<close> on the stored cluster id.\<close>

definition readPairedClusterId :: "string option \<Rightarrow> string \<Rightarrow> string" where
  "readPairedClusterId stored fallback = (case stored of
     Some s \<Rightarrow> if trim s = [] then fallback else trim s | None \<Rightarrow> fallback)"

record McpRuntimeBindingV3 =
  mb_clusterId :: string
  mb_nodeId :: string
  mb_workspaceId :: string
  mb_deploymentId :: string
  mb_generationId :: string
  mb_generationNumber :: units
  mb_runtimeInstallationId :: string
  mb_mcpAppId :: string
  mb_replicaId :: string
  mb_containerId :: string
  mb_dockerContainerId :: string
  mb_imageDigest :: string
  mb_manifestDigest :: string
  mb_approvalReceiptHash :: string
  mb_authorizationEpoch :: units
  mb_deploymentGrantHash :: string
  mb_resourceManifestHash :: string
  mb_runtimeResourceInventoryHash :: "string option"
  mb_hubOrigin :: string
  mb_hubKid :: string
  mb_hubPublicJwk :: json
  mb_networkName :: string

definition buildLocalRuntimeBinding ::
  "LocalRuntimeBrokerContext \<Rightarrow> json \<Rightarrow> string \<Rightarrow> string \<Rightarrow> string \<Rightarrow> string \<Rightarrow> json option \<Rightarrow> McpRuntimeBindingV3" where
  "buildLocalRuntimeBinding context request artifactDigest runtimeId replicaId dockerContainerId activation =
     (let authorization = jat request ''runtime_authorization'' in
      \<lparr>mb_clusterId = bc_clusterId context, mb_nodeId = bc_nodeId context, mb_workspaceId = jstr request ''workspace_id'',
       mb_deploymentId = jstr request ''deployment_id'', mb_generationId = jstr request ''generation_id'',
       mb_generationNumber = jnum request ''generation_number'', mb_runtimeInstallationId = jstr request ''installation_id'',
       mb_mcpAppId = jstr authorization ''mcp_app_id'', mb_replicaId = replicaId, mb_containerId = runtimeId,
       mb_dockerContainerId = dockerContainerId, mb_imageDigest = artifactDigest,
       mb_manifestDigest = jstr authorization ''manifest_digest'',
       mb_approvalReceiptHash = (case activation of Some a \<Rightarrow> jstr a ''runtime_approval_receipt_hash''
         | None \<Rightarrow> jstr request ''permission_contract_hash''),
       mb_authorizationEpoch = (case activation of Some a \<Rightarrow> jnum a ''runtime_authorization_epoch'' | None \<Rightarrow> u ''0''),
       mb_deploymentGrantHash = jstr request ''descriptor_artifact_hash'',
       mb_resourceManifestHash = jstr request ''resource_manifest_hash'',
       mb_runtimeResourceInventoryHash = map_option (\<lambda>a. jstr a ''runtime_resource_inventory_hash'') activation,
       mb_hubOrigin = bc_hubOrigin context, mb_hubKid = jstr authorization ''hub_kid'',
       mb_hubPublicJwk = jat authorization ''hub_public_jwk'', mb_networkName = bc_networkName context\<rparr>)"

definition buildMcpRuntimeResourceLabelsV3 :: "abi_lib \<Rightarrow> McpRuntimeBindingV3 \<Rightarrow> string \<Rightarrow> string \<Rightarrow> string obj" where
  "buildMcpRuntimeResourceLabelsV3 lib b kind resourceId =
     [(''privos.mcp.schema'', ''3''), (''privos.mcp.cluster'', mb_clusterId b), (''privos.mcp.node'', mb_nodeId b),
      (''privos.mcp.workspace'', mb_workspaceId b), (''privos.mcp.deployment'', mb_deploymentId b),
      (''privos.mcp.generation'', mb_generationId b),
      (''privos.mcp.generation-number'', s_of (fmt lib (mb_generationNumber b))),
      (''privos.mcp.runtime-installation'', mb_runtimeInstallationId b), (''privos.mcp.app'', mb_mcpAppId b),
      (''privos.mcp.replica'', mb_replicaId b), (''privos.mcp.resource.kind'', kind), (''privos.mcp.resource.id'', resourceId),
      (''privos.mcp.image.digest'', mb_imageDigest b), (''privos.mcp.manifest.digest'', mb_manifestDigest b),
      (''privos.mcp.approval-receipt'', mb_approvalReceiptHash b),
      (''privos.mcp.authorization-epoch'', s_of (fmt lib (mb_authorizationEpoch b))),
      (''privos.mcp.deployment-grant-hash'', mb_deploymentGrantHash b),
      (''privos.mcp.resource-manifest-hash'', mb_resourceManifestHash b)]
     @ (case truthy (mb_runtimeResourceInventoryHash b) of
          Some h \<Rightarrow> [(''privos.mcp.runtime-resource-inventory-hash'', h)] | None \<Rightarrow> [])
     @ [(''privos.mcp.hub-origin'', mb_hubOrigin b), (''privos.mcp.hub-kid'', mb_hubKid b),
        (''privos.mcp.hub-jwk'', s_of (canonicalJson (fmt lib) (mb_hubPublicJwk b)))]"

definition LOCAL_RUNTIME_BROKER_LABELS :: "abi_lib \<Rightarrow> McpRuntimeBindingV3 \<Rightarrow> string obj" where
  "LOCAL_RUNTIME_BROKER_LABELS lib b =
     [(''privos.workspace'', mb_workspaceId b), (''privos.id'', mb_containerId b)]
     @ buildMcpRuntimeResourceLabelsV3 lib b ''CONTAINER'' (mb_containerId b)"

section \<open>Documents built from literals\<close>

lemma u_inj [simp]: "u a = u b \<longleftrightarrow> a = b"
  by (metis s_of_u)

lemma code_unit: "(of_char c :: nat) < 65536"
  using nat_of_char_less_256 [of c] by linarith

lemma str_code_units: "code_units (u s)"
  by (auto simp: u_def code_units_def code_unit)

lemma obj_printable:
  "printable (obj ms) \<longleftrightarrow> distinct (map fst ms) \<and> ''__proto__'' \<notin> set (map fst ms) \<and> list_all (\<lambda>m. printable (snd m)) ms"
proof -
  let ?ms = "map (\<lambda>(k, v). (u k, v)) ms"
  have 1: "map fst ?ms = map u (map fst ms)" by (simp add: split_def)
  have 2: "list_all (\<lambda>m. code_units (fst m)) ?ms" by (auto simp: list_all_iff str_code_units)
  have 3: "list_all (\<lambda>m. printable (snd m)) ?ms = list_all (\<lambda>m. printable (snd m)) ms" by (auto simp: list_all_iff)
  have 4: "distinct (map u ks) = distinct ks" for ks by (simp add: distinct_map inj_on_def)
  have 5: "proto_key \<in> set (map u ks) \<longleftrightarrow> ''__proto__'' \<in> set ks" for ks by (auto simp: proto_key_def)
  show ?thesis unfolding obj_def printable.simps 1 3 4 5 using 2 by simp
qed

lemma str_printable [simp]: "printable (str s)"
  by (simp add: str_def str_code_units)

lemma jget_obj: "jget (obj ms) k = map_of ms k"
  by (induction ms) (auto simp: jget_def obj_def)

end
