(* ===== verification/Ledger.thy ===== *)
theory Ledger
  imports Strict_Json
begin

text \<open>
  The crash-safe local-runtime ledger, \<open>src/local-runtime/ledger.ts\<close>. A method reads the file,
  works on the parsed state and writes it back whole, so each one is a function from the state to
  its result and the state it leaves; \<open>on_disk\<close> adds the file around it. Object lookups are by own
  key. Methods run to completion without interleaving (they are synchronous), which makes a run
  of the ledger a sequence of \<open>ledger_op\<close>s.
\<close>

datatype RuntimeState = CLAIMED | READY | ACTIVATING | ACTIVE

fun state_rank :: "RuntimeState \<Rightarrow> nat" where
  "state_rank CLAIMED = 0"
| "state_rank READY = 1"
| "state_rank ACTIVATING = 2"
| "state_rank ACTIVE = 3"

instantiation RuntimeState :: linorder
begin

definition less_eq_RuntimeState :: "RuntimeState \<Rightarrow> RuntimeState \<Rightarrow> bool" where
  "less_eq_RuntimeState a b = (state_rank a \<le> state_rank b)"

definition less_RuntimeState :: "RuntimeState \<Rightarrow> RuntimeState \<Rightarrow> bool" where
  "less_RuntimeState a b = (state_rank a < state_rank b)"

instance
proof
  fix a b c :: RuntimeState
  show "(a < b) = (a \<le> b \<and> \<not> b \<le> a)" "a \<le> a" "a \<le> b \<or> b \<le> a"
    by (auto simp: less_eq_RuntimeState_def less_RuntimeState_def)
  show "a \<le> b \<Longrightarrow> b \<le> c \<Longrightarrow> a \<le> c" by (simp add: less_eq_RuntimeState_def)
  show "a \<le> b \<Longrightarrow> b \<le> a \<Longrightarrow> a = b"
    by (cases a; cases b) (auto simp: less_eq_RuntimeState_def)
qed

end

record RuntimeRecord =
  rr_generationId :: string
  rr_installationId :: string
  rr_generationNumber :: int
  rr_requestHash :: string
  rr_requestJson :: units
  rr_runtimeId :: string
  rr_artifactDigest :: string
  rr_imageManifestDigest :: string
  rr_imageConfigDigest :: string
  rr_containerSpecHash :: string
  rr_containerId :: "string option"
  rr_state :: RuntimeState
  rr_readyResponseJson :: "units option"
  rr_driverEvidenceJson :: "units option"
  rr_activationRequestHash :: "string option"
  rr_activationRequestJson :: "units option"
  rr_activeContainerSpecHash :: "string option"
  rr_activationClaimedAt :: "int option"
  rr_activeContainerReadyAt :: "int option"
  rr_activeResponseJson :: "units option"
  rr_activationEvidenceJson :: "units option"
  rr_createdAt :: int
  rr_updatedAt :: int
  rr_replicaId :: string
  rr_activeReplicaId :: "string option"
  rr_brokerRegisteredAt :: "int option"

record LedgerFile =
  byRuntimeId :: "RuntimeRecord obj"
  generationToRuntimeId :: "string obj"

definition emptyLedger :: LedgerFile where
  "emptyLedger = \<lparr>byRuntimeId = [], generationToRuntimeId = []\<rparr>"

text \<open>What a method throws: one of the driver errors, or the \<open>SyntaxError\<close> of its \<open>JSON.parse\<close> guard.\<close>

datatype ledger_error = Driver driver_error | SyntaxError

type_synonym 'a ledger_result = "(ledger_error, 'a \<times> LedgerFile) result"

definition json_guard :: "units \<Rightarrow> (ledger_error, unit) result" where
  "json_guard s = guardE (JSON_parse s \<noteq> None) SyntaxError"

definition row :: "LedgerFile \<Rightarrow> string \<Rightarrow> RuntimeRecord option" where
  "row st runtimeId = map_of (byRuntimeId st) runtimeId"

definition put_row :: "string \<Rightarrow> RuntimeRecord \<Rightarrow> LedgerFile \<Rightarrow> LedgerFile" where
  "put_row runtimeId r st = st\<lparr>byRuntimeId := obj_set runtimeId r (byRuntimeId st)\<rparr>"

section \<open>The file\<close>

datatype ledger_disk = Missing | Corrupt | Stored LedgerFile

text \<open>Records written before \<open>replicaId\<close> existed have none; the empty string stands for it.\<close>

definition backfillReplicaIds :: "(string \<Rightarrow> string) \<Rightarrow> LedgerFile \<Rightarrow> LedgerFile" where
  "backfillReplicaIds uuid st = st\<lparr>byRuntimeId :=
     map (\<lambda>(k, r). (k, if rr_replicaId r = [] then r\<lparr>rr_replicaId := uuid k\<rparr> else r)) (byRuntimeId st)\<rparr>"

definition read_ledger :: "(string \<Rightarrow> string) \<Rightarrow> ledger_disk \<Rightarrow> (ledger_error, LedgerFile) result" where
  "read_ledger uuid disk = (case disk of
     Missing \<Rightarrow> Inr emptyLedger
   | Corrupt \<Rightarrow> Inl (Driver RuntimeUnavailable)
   | Stored st \<Rightarrow> Inr (backfillReplicaIds uuid st))"

text \<open>A method on the file: nothing is written when it throws, apart from the backfill.\<close>

definition on_disk ::
  "(string \<Rightarrow> string) \<Rightarrow> (LedgerFile \<Rightarrow> 'a ledger_result) \<Rightarrow> ledger_disk \<Rightarrow> (ledger_error, 'a) result \<times> ledger_disk" where
  "on_disk uuid op disk = (case read_ledger uuid disk of
     Inl e \<Rightarrow> (Inl e, disk)
   | Inr st \<Rightarrow> (case op st of
       Inl e \<Rightarrow> (Inl e, if disk = Missing then Missing else Stored st)
     | Inr (a, st') \<Rightarrow> (Inr a, if disk = Missing \<and> st' = st then Missing else Stored st')))"

section \<open>The methods\<close>

definition get :: "LedgerFile \<Rightarrow> string \<Rightarrow> RuntimeRecord option" where
  "get st generationId = (case truthy (map_of (generationToRuntimeId st) generationId) of
     Some runtimeId \<Rightarrow> row st runtimeId | None \<Rightarrow> None)"

record ClaimInput =
  ci_generationId :: string
  ci_installationId :: string
  ci_generationNumber :: int
  ci_requestHash :: string
  ci_requestJson :: units
  ci_runtimeId :: string
  ci_artifactDigest :: string
  ci_imageManifestDigest :: string
  ci_imageConfigDigest :: string
  ci_containerSpecHash :: string
  ci_now :: int

definition new_record :: "ClaimInput \<Rightarrow> string \<Rightarrow> RuntimeRecord" where
  "new_record inp uuid = \<lparr>rr_generationId = ci_generationId inp, rr_installationId = ci_installationId inp,
     rr_generationNumber = ci_generationNumber inp, rr_requestHash = ci_requestHash inp,
     rr_requestJson = ci_requestJson inp, rr_runtimeId = ci_runtimeId inp,
     rr_artifactDigest = ci_artifactDigest inp, rr_imageManifestDigest = ci_imageManifestDigest inp,
     rr_imageConfigDigest = ci_imageConfigDigest inp, rr_containerSpecHash = ci_containerSpecHash inp,
     rr_containerId = None, rr_state = CLAIMED, rr_readyResponseJson = None, rr_driverEvidenceJson = None,
     rr_activationRequestHash = None, rr_activationRequestJson = None, rr_activeContainerSpecHash = None,
     rr_activationClaimedAt = None, rr_activeContainerReadyAt = None, rr_activeResponseJson = None,
     rr_activationEvidenceJson = None, rr_createdAt = ci_now inp, rr_updatedAt = ci_now inp,
     rr_replicaId = uuid, rr_activeReplicaId = None, rr_brokerRegisteredAt = None\<rparr>"

definition same_claim :: "RuntimeRecord \<Rightarrow> ClaimInput \<Rightarrow> bool" where
  "same_claim r inp \<longleftrightarrow> rr_requestHash r = ci_requestHash inp \<and> rr_requestJson r = ci_requestJson inp
     \<and> rr_artifactDigest r = ci_artifactDigest inp \<and> rr_imageManifestDigest r = ci_imageManifestDigest inp
     \<and> rr_imageConfigDigest r = ci_imageConfigDigest inp \<and> rr_containerSpecHash r = ci_containerSpecHash inp"

definition claim :: "ClaimInput \<Rightarrow> string \<Rightarrow> LedgerFile \<Rightarrow> RuntimeRecord ledger_result" where
  "claim inp uuid st = (case row st (ci_runtimeId inp) of
     Some existing \<Rightarrow>
       if \<not> same_claim existing inp then Inl (Driver AffinityConflict) else Inr (existing, st)
   | None \<Rightarrow>
       (let record = new_record inp uuid;
            st1 = put_row (ci_runtimeId inp) record st;
            st2 = (if truthy (map_of (generationToRuntimeId st) (ci_generationId inp)) = None
                   then st1\<lparr>generationToRuntimeId := obj_set (ci_generationId inp) (ci_runtimeId inp) (generationToRuntimeId st1)\<rparr>
                   else st1)
        in Inr (record, st2)))"

definition recordContainer ::
  "string \<Rightarrow> string \<Rightarrow> string \<Rightarrow> int \<Rightarrow> LedgerFile \<Rightarrow> RuntimeRecord ledger_result" where
  "recordContainer runtimeId requestHash containerId now st = (case row st runtimeId of
     None \<Rightarrow> Inl (Driver AffinityConflict)
   | Some r \<Rightarrow>
       if rr_requestHash r \<noteq> requestHash then Inl (Driver AffinityConflict)
       else (let r' = r\<lparr>rr_containerId := Some containerId, rr_updatedAt := now\<rparr> in
         Inr (r', put_row runtimeId r' st)))"

definition markReady ::
  "string \<Rightarrow> string \<Rightarrow> units \<Rightarrow> units \<Rightarrow> int \<Rightarrow> LedgerFile \<Rightarrow> RuntimeRecord ledger_result" where
  "markReady runtimeId requestHash readyResponseJson driverEvidenceJson now st =
     bindE (json_guard readyResponseJson) (\<lambda>_.
     bindE (json_guard driverEvidenceJson) (\<lambda>_.
     case row st runtimeId of
       None \<Rightarrow> Inl (Driver AffinityConflict)
     | Some r \<Rightarrow>
         if rr_requestHash r \<noteq> requestHash then Inl (Driver AffinityConflict)
         else if rr_state r \<in> {READY, ACTIVATING, ACTIVE}
         then (if rr_readyResponseJson r \<noteq> Some readyResponseJson \<or> rr_driverEvidenceJson r \<noteq> Some driverEvidenceJson
               then Inl (Driver AffinityConflict) else Inr (r, st))
         else if rr_state r \<noteq> CLAIMED \<or> rr_containerId r = None then Inl (Driver RuntimeUnavailable)
         else (let r' = r\<lparr>rr_state := READY, rr_readyResponseJson := Some readyResponseJson,
                         rr_driverEvidenceJson := Some driverEvidenceJson, rr_updatedAt := now\<rparr> in
           Inr (r', put_row runtimeId r' st))))"

record ActivationInput =
  ai_runtimeId :: string
  ai_requestHash :: string
  ai_activationRequestHash :: string
  ai_activationRequestJson :: units
  ai_activeContainerSpecHash :: string
  ai_now :: int

definition positive_time :: "int option \<Rightarrow> bool" where
  "positive_time t = (case t of Some n \<Rightarrow> 0 < n | None \<Rightarrow> False)"

definition claimActivation :: "ActivationInput \<Rightarrow> string \<Rightarrow> LedgerFile \<Rightarrow> RuntimeRecord ledger_result" where
  "claimActivation inp uuid st =
     bindE (json_guard (ai_activationRequestJson inp)) (\<lambda>_.
     case row st (ai_runtimeId inp) of
       None \<Rightarrow> Inl (Driver AffinityConflict)
     | Some r \<Rightarrow>
         if rr_requestHash r \<noteq> ai_requestHash inp then Inl (Driver AffinityConflict)
         else if rr_state r = CLAIMED then Inl (Driver RuntimeUnavailable)
         else if rr_state r \<in> {ACTIVATING, ACTIVE}
         then (if rr_activationRequestHash r \<noteq> Some (ai_activationRequestHash inp)
                 \<or> rr_activationRequestJson r \<noteq> Some (ai_activationRequestJson inp)
                 \<or> rr_activeContainerSpecHash r \<noteq> Some (ai_activeContainerSpecHash inp)
                 \<or> \<not> positive_time (rr_activationClaimedAt r)
               then Inl (Driver AffinityConflict) else Inr (r, st))
         else if rr_state r \<noteq> READY \<or> rr_readyResponseJson r = None then Inl (Driver RuntimeUnavailable)
         else (let r' = r\<lparr>rr_state := ACTIVATING,
                         rr_activationRequestHash := Some (ai_activationRequestHash inp),
                         rr_activationRequestJson := Some (ai_activationRequestJson inp),
                         rr_activeContainerSpecHash := Some (ai_activeContainerSpecHash inp),
                         rr_activationClaimedAt := Some (ai_now inp), rr_activeReplicaId := Some uuid,
                         rr_updatedAt := ai_now inp\<rparr> in
           Inr (r', put_row (ai_runtimeId inp) r' st)))"

definition recordBrokerRegistered :: "string \<Rightarrow> int \<Rightarrow> LedgerFile \<Rightarrow> RuntimeRecord ledger_result" where
  "recordBrokerRegistered runtimeId now st = (case row st runtimeId of
     None \<Rightarrow> Inl (Driver RuntimeUnavailable)
   | Some r \<Rightarrow> (let r' = r\<lparr>rr_brokerRegisteredAt := Some now, rr_updatedAt := now\<rparr> in
       Inr (r', put_row runtimeId r' st)))"

definition listActiveRecords :: "LedgerFile \<Rightarrow> RuntimeRecord list" where
  "listActiveRecords st = filter (\<lambda>r. rr_state r = ACTIVE) (map snd (byRuntimeId st))"

definition listKnownReplicaIds :: "LedgerFile \<Rightarrow> string list" where
  "listKnownReplicaIds st = concat (map (\<lambda>(_, r). rr_replicaId r #
     (case truthy (rr_activeReplicaId r) of Some i \<Rightarrow> [i] | None \<Rightarrow> [])) (byRuntimeId st))"

definition recordActiveContainerReady :: "string \<Rightarrow> string \<Rightarrow> int \<Rightarrow> LedgerFile \<Rightarrow> RuntimeRecord ledger_result" where
  "recordActiveContainerReady runtimeId activationRequestHash now st = (case row st runtimeId of
     None \<Rightarrow> Inl (Driver AffinityConflict)
   | Some r \<Rightarrow>
       if rr_activationRequestHash r \<noteq> Some activationRequestHash \<or> (rr_state r \<noteq> ACTIVATING \<and> rr_state r \<noteq> ACTIVE)
          \<or> rr_containerId r = None \<or> rr_activeContainerSpecHash r = None
       then Inl (Driver AffinityConflict)
       else if rr_activeContainerReadyAt r = None
       then (let r' = r\<lparr>rr_activeContainerReadyAt := Some now, rr_updatedAt := now\<rparr> in Inr (r', put_row runtimeId r' st))
       else Inr (r, st))"

definition markActive ::
  "string \<Rightarrow> string \<Rightarrow> units \<Rightarrow> units \<Rightarrow> int \<Rightarrow> LedgerFile \<Rightarrow> RuntimeRecord ledger_result" where
  "markActive runtimeId activationRequestHash activeResponseJson activationEvidenceJson now st =
     bindE (json_guard activeResponseJson) (\<lambda>_.
     bindE (json_guard activationEvidenceJson) (\<lambda>_.
     case row st runtimeId of
       None \<Rightarrow> Inl (Driver AffinityConflict)
     | Some r \<Rightarrow>
         if rr_activationRequestHash r \<noteq> Some activationRequestHash then Inl (Driver AffinityConflict)
         else if rr_state r = ACTIVE
         then (if \<not> positive_time (rr_activeContainerReadyAt r) \<or> rr_activeResponseJson r \<noteq> Some activeResponseJson
                 \<or> rr_activationEvidenceJson r \<noteq> Some activationEvidenceJson
               then Inl (Driver AffinityConflict) else Inr (r, st))
         else if rr_state r \<noteq> ACTIVATING \<or> rr_containerId r = None \<or> rr_activeContainerSpecHash r = None
                 \<or> rr_activationClaimedAt r = None \<or> rr_activeContainerReadyAt r = None
         then Inl (Driver RuntimeUnavailable)
         else (let r' = r\<lparr>rr_state := ACTIVE, rr_activeResponseJson := Some activeResponseJson,
                         rr_activationEvidenceJson := Some activationEvidenceJson, rr_updatedAt := now\<rparr>;
                   st1 = put_row runtimeId r' st
               in Inr (r', st1\<lparr>generationToRuntimeId :=
                 obj_set (rr_generationId r') (rr_runtimeId r') (generationToRuntimeId st1)\<rparr>))))"

definition deleteByRuntimeId :: "string \<Rightarrow> LedgerFile \<Rightarrow> bool \<times> LedgerFile" where
  "deleteByRuntimeId runtimeId st = (case row st runtimeId of
     None \<Rightarrow> (False, st)
   | Some r \<Rightarrow>
       (let st1 = st\<lparr>byRuntimeId := obj_del runtimeId (byRuntimeId st)\<rparr> in
        (True, if map_of (generationToRuntimeId st1) (rr_generationId r) = Some runtimeId
               then st1\<lparr>generationToRuntimeId := obj_del (rr_generationId r) (generationToRuntimeId st1)\<rparr>
               else st1)))"

definition listRecords :: "LedgerFile \<Rightarrow> RuntimeRecord list" where
  "listRecords st = map snd (byRuntimeId st)"

definition listRuntimeIds :: "LedgerFile \<Rightarrow> string list" where
  "listRuntimeIds st = map fst (byRuntimeId st)"

section \<open>Runs of the ledger\<close>

datatype ledger_op =
    Claim ClaimInput string
  | RecordContainer string string string int
  | MarkReady string string units units int
  | ClaimActivation ActivationInput string
  | BrokerRegistered string int
  | ContainerReady string string int
  | MarkActive string string units units int
  | Delete string

definition after_op :: "LedgerFile \<Rightarrow> 'a ledger_result \<Rightarrow> LedgerFile" where
  "after_op st r = (case r of Inl _ \<Rightarrow> st | Inr (_, st') \<Rightarrow> st')"

fun apply_op :: "ledger_op \<Rightarrow> LedgerFile \<Rightarrow> LedgerFile" where
  "apply_op (Claim inp uuid) st = after_op st (claim inp uuid st)"
| "apply_op (RecordContainer i h c now) st = after_op st (recordContainer i h c now st)"
| "apply_op (MarkReady i h a b now) st = after_op st (markReady i h a b now st)"
| "apply_op (ClaimActivation inp uuid) st = after_op st (claimActivation inp uuid st)"
| "apply_op (BrokerRegistered i now) st = after_op st (recordBrokerRegistered i now st)"
| "apply_op (ContainerReady i h now) st = after_op st (recordActiveContainerReady i h now st)"
| "apply_op (MarkActive i h a b now) st = after_op st (markActive i h a b now st)"
| "apply_op (Delete i) st = snd (deleteByRuntimeId i st)"

fun op_id :: "ledger_op \<Rightarrow> string" where
  "op_id (Claim inp uuid) = ci_runtimeId inp"
| "op_id (RecordContainer i h c now) = i"
| "op_id (MarkReady i h a b now) = i"
| "op_id (ClaimActivation inp uuid) = ai_runtimeId inp"
| "op_id (BrokerRegistered i now) = i"
| "op_id (ContainerReady i h now) = i"
| "op_id (MarkActive i h a b now) = i"
| "op_id (Delete i) = i"

section \<open>Keyed machines\<close>

text \<open>
  A store of rows in which an operation names the one row it may touch. A row that is present
  stays well formed and evolves along a preorder until an operation removes it.
\<close>

locale keyed_machine =
  fixes step :: "'op \<Rightarrow> 's \<Rightarrow> 's"
    and rowof :: "'s \<Rightarrow> 'k \<Rightarrow> 'r option"
    and target :: "'op \<Rightarrow> 'k"
    and removes :: "'op \<Rightarrow> bool"
    and ok :: "'r \<Rightarrow> bool"
    and evolves :: "'r \<Rightarrow> 'r \<Rightarrow> bool"
  assumes frame: "k \<noteq> target op \<Longrightarrow> rowof (step op s) k = rowof s k"
    and kept: "rowof s (target op) = Some r \<Longrightarrow> ok r \<Longrightarrow> \<not> removes op \<Longrightarrow>
      \<exists>r'. rowof (step op s) (target op) = Some r' \<and> ok r' \<and> evolves r r'"
    and removed: "removes op \<Longrightarrow> rowof (step op s) (target op) = None"
    and created: "rowof s (target op) = None \<Longrightarrow> rowof (step op s) (target op) = Some r \<Longrightarrow> ok r"
    and evolves_refl: "evolves r r"
    and evolves_trans: "evolves a b \<Longrightarrow> evolves b c \<Longrightarrow> evolves a c"
begin

definition all_ok :: "'s \<Rightarrow> bool" where
  "all_ok s \<longleftrightarrow> (\<forall>k r. rowof s k = Some r \<longrightarrow> ok r)"

lemma step_row:
  assumes "rowof s k = Some r" and "ok r" and "target op = k \<longrightarrow> \<not> removes op"
  shows "\<exists>r'. rowof (step op s) k = Some r' \<and> ok r' \<and> evolves r r'"
proof (cases "target op = k")
  case True
  with assms kept show ?thesis by metis
next
  case False
  with assms frame evolves_refl show ?thesis by metis
qed

lemma run_row:
  "rowof s k = Some r \<Longrightarrow> ok r \<Longrightarrow> \<forall>op \<in> set ops. target op = k \<longrightarrow> \<not> removes op \<Longrightarrow>
     \<exists>r'. rowof (fold step ops s) k = Some r' \<and> ok r' \<and> evolves r r'"
proof (induction ops arbitrary: s r)
  case Nil
  then show ?case by (auto intro: evolves_refl)
next
  case (Cons op ops)
  then have "target op = k \<longrightarrow> \<not> removes op" by simp
  from step_row [OF Cons.prems(1,2) this] obtain r' where
    r': "rowof (step op s) k = Some r'" "ok r'" "evolves r r'" by blast
  from Cons.IH [OF r'(1,2)] Cons.prems(3) obtain r'' where
    "rowof (fold step ops (step op s)) k = Some r''" "ok r''" "evolves r' r''" by auto
  with r'(3) show ?case by (auto intro: evolves_trans)
qed

lemma step_all_ok: "all_ok s \<Longrightarrow> all_ok (step op s)"
  unfolding all_ok_def
proof (intro allI impI)
  fix k r
  assume ok: "\<forall>k r. rowof s k = Some r \<longrightarrow> ok r" and r: "rowof (step op s) k = Some r"
  show "ok r"
  proof (cases "k = target op")
    case False
    with ok r frame show ?thesis by metis
  next
    case True
    show ?thesis
    proof (cases "rowof s k")
      case None
      with True r created show ?thesis by blast
    next
      case (Some q)
      with True r ok kept [of s op q] removed [of op s] show ?thesis by (cases "removes op") auto
    qed
  qed
qed

lemma run_all_ok: "all_ok s \<Longrightarrow> all_ok (fold step ops s)"
  by (induction ops arbitrary: s) (auto intro: step_all_ok)

end

section \<open>The ledger is a keyed machine\<close>

definition evidence :: "RuntimeRecord \<Rightarrow> string option list" where
  "evidence r = [rr_activationRequestHash r, rr_activeContainerSpecHash r, rr_activeReplicaId r]"

definition documents :: "RuntimeRecord \<Rightarrow> units option list" where
  "documents r = [rr_readyResponseJson r, rr_driverEvidenceJson r, rr_activationRequestJson r,
     rr_activeResponseJson r, rr_activationEvidenceJson r]"

definition times :: "RuntimeRecord \<Rightarrow> int option list" where
  "times r = [rr_activationClaimedAt r, rr_activeContainerReadyAt r]"

definition affinity :: "RuntimeRecord \<Rightarrow> string list \<times> units \<times> int \<times> int" where
  "affinity r = ([rr_generationId r, rr_installationId r, rr_requestHash r, rr_runtimeId r,
     rr_artifactDigest r, rr_imageManifestDigest r, rr_imageConfigDigest r, rr_containerSpecHash r, rr_replicaId r],
     rr_requestJson r, rr_generationNumber r, rr_createdAt r)"

definition kept_values :: "'a option list \<Rightarrow> 'a option list \<Rightarrow> bool" where
  "kept_values = list_all2 (\<lambda>x y. x = None \<or> y = x)"

text \<open>What may change in a row: the state goes forward and a value once recorded stays.\<close>

definition row_evolves :: "RuntimeRecord \<Rightarrow> RuntimeRecord \<Rightarrow> bool" where
  "row_evolves r r' \<longleftrightarrow> affinity r' = affinity r \<and> rr_state r \<le> rr_state r'
     \<and> kept_values (evidence r) (evidence r') \<and> kept_values (documents r) (documents r') \<and> kept_values (times r) (times r')
     \<and> (rr_containerId r \<noteq> None \<longrightarrow> rr_containerId r' \<noteq> None)"

text \<open>Which evidence a state requires and which it excludes.\<close>

definition row_ok :: "RuntimeRecord \<Rightarrow> bool" where
  "row_ok r \<longleftrightarrow>
     (rr_readyResponseJson r \<noteq> None \<longleftrightarrow> READY \<le> rr_state r) \<and>
     (rr_driverEvidenceJson r \<noteq> None \<longleftrightarrow> READY \<le> rr_state r) \<and>
     (READY \<le> rr_state r \<longrightarrow> rr_containerId r \<noteq> None) \<and>
     (rr_activationRequestHash r \<noteq> None \<longleftrightarrow> ACTIVATING \<le> rr_state r) \<and>
     (rr_activationRequestJson r \<noteq> None \<longleftrightarrow> ACTIVATING \<le> rr_state r) \<and>
     (rr_activeContainerSpecHash r \<noteq> None \<longleftrightarrow> ACTIVATING \<le> rr_state r) \<and>
     (rr_activationClaimedAt r \<noteq> None \<longleftrightarrow> ACTIVATING \<le> rr_state r) \<and>
     (rr_activeReplicaId r \<noteq> None \<longleftrightarrow> ACTIVATING \<le> rr_state r) \<and>
     (rr_activeContainerReadyAt r \<noteq> None \<longrightarrow> ACTIVATING \<le> rr_state r) \<and>
     (rr_state r = ACTIVE \<longrightarrow> rr_activeContainerReadyAt r \<noteq> None) \<and>
     (rr_activeResponseJson r \<noteq> None \<longleftrightarrow> rr_state r = ACTIVE) \<and>
     (rr_activationEvidenceJson r \<noteq> None \<longleftrightarrow> rr_state r = ACTIVE)"

lemmas row_defs = row_evolves_def row_ok_def affinity_def evidence_def documents_def times_def kept_values_def
  less_eq_RuntimeState_def

lemma row_put_row [simp]: "row (put_row i r st) k = (if k = i then Some r else row st k)"
  by (simp add: row_def put_row_def)

lemma row_slot [simp]: "row (st\<lparr>generationToRuntimeId := g\<rparr>) k = row st k"
  by (simp add: row_def)

lemma row_delete: "row (snd (deleteByRuntimeId i st)) k = (if k = i then None else row st k)"
  by (auto simp: deleteByRuntimeId_def row_def Let_def split: option.splits)

lemmas method_defs = claim_def recordContainer_def markReady_def claimActivation_def recordBrokerRegistered_def
  recordActiveContainerReady_def markActive_def

lemma op_frame: "k \<noteq> op_id op \<Longrightarrow> row (apply_op op st) k = row st k"
  by (cases op) (auto simp: method_defs after_op_def bindE_def row_delete Let_def
      split: option.splits sum.splits)

lemma evolves_refl: "row_evolves r r"
  by (simp add: row_defs list_all2_refl)

lemma kept_values_trans:
  assumes "kept_values xs ys" and "kept_values ys zs"
  shows "kept_values xs zs"
  unfolding kept_values_def
  by (rule list_all2_trans [OF _ assms [unfolded kept_values_def]]) auto

lemma evolves_trans: "row_evolves a b \<Longrightarrow> row_evolves b c \<Longrightarrow> row_evolves a c"
  unfolding row_evolves_def by (auto intro: kept_values_trans order_trans)

text \<open>The shape every mutating method has on its own row.\<close>

definition row_result :: "string \<Rightarrow> RuntimeRecord \<Rightarrow> LedgerFile \<Rightarrow> bool" where
  "row_result i r st \<longleftrightarrow> (\<exists>r'. row st i = Some r' \<and> row_ok r' \<and> row_evolves r r')"

lemma row_result_same: "row st i = Some r \<Longrightarrow> row_ok r \<Longrightarrow> row_result i r st"
  unfolding row_result_def using evolves_refl by blast

lemma row_result_put: "row_ok r' \<Longrightarrow> row_evolves r r' \<Longrightarrow> row_result i r (put_row i r' st)"
  unfolding row_result_def by simp

lemma row_result_slot [simp]: "row_result i r (st\<lparr>generationToRuntimeId := g\<rparr>) = row_result i r st"
  by (simp add: row_result_def)


lemma claim_kept:
  assumes r: "row st i = Some r" and ok: "row_ok r"
    and i: "ci_runtimeId inp = i"
  shows "row_result i r (after_op st (claim inp uuid st))"
  using row_result_same [OF r ok] r i by (auto simp: claim_def after_op_def)

lemma recordContainer_kept:
  assumes r: "row st i = Some r" and ok: "row_ok r"
  shows "row_result i r (after_op st (recordContainer i h c now st))"
proof -
  have "row_ok (r\<lparr>rr_containerId := Some c, rr_updatedAt := now\<rparr>)"
    "row_evolves r (r\<lparr>rr_containerId := Some c, rr_updatedAt := now\<rparr>)"
    using ok by (auto simp: row_defs list_all2_refl)
  then show ?thesis using row_result_same [OF r ok] r by (auto simp: recordContainer_def after_op_def Let_def intro: row_result_put)
qed

lemma markReady_kept:
  assumes r: "row st i = Some r" and ok: "row_ok r"
  shows "row_result i r (after_op st (markReady i h a b now st))"
proof -
  let ?r = "r\<lparr>rr_state := READY, rr_readyResponseJson := Some a, rr_driverEvidenceJson := Some b, rr_updatedAt := now\<rparr>"
  have "rr_state r = CLAIMED \<Longrightarrow> rr_containerId r \<noteq> None \<Longrightarrow> row_ok ?r \<and> row_evolves r ?r"
    using ok by (auto simp: row_defs list_all2_refl)
  then show ?thesis
    using row_result_same [OF r ok] r by (auto simp: markReady_def after_op_def bindE_def Let_def intro: row_result_put split: sum.splits)
qed

lemma claimActivation_kept:
  assumes r: "row st i = Some r" and ok: "row_ok r"
    and i: "ai_runtimeId inp = i"
  shows "row_result i r (after_op st (claimActivation inp uuid st))"
proof -
  let ?r = "r\<lparr>rr_state := ACTIVATING, rr_activationRequestHash := Some (ai_activationRequestHash inp),
     rr_activationRequestJson := Some (ai_activationRequestJson inp),
     rr_activeContainerSpecHash := Some (ai_activeContainerSpecHash inp),
     rr_activationClaimedAt := Some (ai_now inp), rr_activeReplicaId := Some uuid, rr_updatedAt := ai_now inp\<rparr>"
  have "rr_state r = READY \<Longrightarrow> row_ok ?r \<and> row_evolves r ?r"
    using ok by (auto simp: row_defs list_all2_refl)
  then show ?thesis
    using row_result_same [OF r ok] r i by (auto simp: claimActivation_def after_op_def bindE_def Let_def intro: row_result_put split: sum.splits)
qed

lemma recordBrokerRegistered_kept:
  assumes r: "row st i = Some r" and ok: "row_ok r"
  shows "row_result i r (after_op st (recordBrokerRegistered i now st))"
proof -
  let ?r = "r\<lparr>rr_brokerRegisteredAt := Some now, rr_updatedAt := now\<rparr>"
  have "row_ok ?r" "row_evolves r ?r" using ok by (auto simp: row_defs list_all2_refl)
  then show ?thesis using r by (auto simp: recordBrokerRegistered_def after_op_def Let_def intro: row_result_put)
qed

lemma containerReady_kept:
  assumes r: "row st i = Some r" and ok: "row_ok r"
  shows "row_result i r (after_op st (recordActiveContainerReady i h now st))"
proof -
  let ?r = "r\<lparr>rr_activeContainerReadyAt := Some now, rr_updatedAt := now\<rparr>"
  have "rr_activeContainerReadyAt r = None \<Longrightarrow> rr_state r = ACTIVATING \<or> rr_state r = ACTIVE \<Longrightarrow> row_ok ?r \<and> row_evolves r ?r"
    using ok by (auto simp: row_defs list_all2_refl)
  then show ?thesis
    using row_result_same [OF r ok] r by (auto simp: recordActiveContainerReady_def after_op_def Let_def intro: row_result_put)
qed

lemma markActive_kept:
  assumes r: "row st i = Some r" and ok: "row_ok r"
  shows "row_result i r (after_op st (markActive i h a b now st))"
proof -
  let ?r = "r\<lparr>rr_state := ACTIVE, rr_activeResponseJson := Some a, rr_activationEvidenceJson := Some b, rr_updatedAt := now\<rparr>"
  have "rr_state r = ACTIVATING \<Longrightarrow> rr_activeContainerReadyAt r \<noteq> None \<Longrightarrow> row_ok ?r \<and> row_evolves r ?r"
    using ok by (auto simp: row_defs list_all2_refl)
  then show ?thesis
    using row_result_same [OF r ok] r by (auto simp: markActive_def after_op_def bindE_def Let_def intro: row_result_put split: sum.splits)
qed

definition is_delete :: "ledger_op \<Rightarrow> bool" where
  "is_delete op = (case op of Delete _ \<Rightarrow> True | _ \<Rightarrow> False)"

lemma op_kept:
  assumes "row st (op_id op) = Some r" and "row_ok r" and "\<not> is_delete op"
  shows "\<exists>r'. row (apply_op op st) (op_id op) = Some r' \<and> row_ok r' \<and> row_evolves r r'"
  using assms
  by (cases op) (auto simp: is_delete_def row_result_def [symmetric] intro: claim_kept recordContainer_kept
      markReady_kept claimActivation_kept recordBrokerRegistered_kept containerReady_kept markActive_kept)

lemma new_record_ok: "row_ok (new_record inp uuid)"
  by (simp add: new_record_def row_ok_def less_eq_RuntimeState_def)

lemma op_created:
  "row st (op_id op) = None \<Longrightarrow> row (apply_op op st) (op_id op) = Some r \<Longrightarrow> row_ok r"
  by (cases op) (auto simp: method_defs after_op_def bindE_def row_delete Let_def new_record_ok
      split: option.splits sum.splits if_splits)

interpretation ledger: keyed_machine apply_op row op_id is_delete row_ok row_evolves
proof unfold_locales
  fix op st show "is_delete op \<Longrightarrow> row (apply_op op st) (op_id op) = None"
    by (cases op) (auto simp: is_delete_def row_delete)
qed (simp_all add: op_frame op_kept op_created evolves_refl, (blast intro: op_created evolves_trans)+)

section \<open>Generation slots\<close>

text \<open>Every row is stored under its own runtime id and every slot names a row of its generation.\<close>

definition slots_ok :: "LedgerFile \<Rightarrow> bool" where
  "slots_ok st \<longleftrightarrow> (\<forall>i r. row st i = Some r \<longrightarrow> row_ok r \<and> rr_runtimeId r = i)
     \<and> (\<forall>g i. map_of (generationToRuntimeId st) g = Some i \<longrightarrow> (\<exists>r. row st i = Some r \<and> rr_generationId r = g))"

lemma slots_ok_rowD: "slots_ok st \<Longrightarrow> row st i = Some r \<Longrightarrow> row_ok r \<and> rr_runtimeId r = i"
  unfolding slots_ok_def by blast

lemma slots_ok_slotD:
  "slots_ok st \<Longrightarrow> map_of (generationToRuntimeId st) g = Some i \<Longrightarrow> \<exists>r. row st i = Some r \<and> rr_generationId r = g"
  unfolding slots_ok_def by blast

lemma slots_ok_same_slots:
  assumes "slots_ok st" and g: "generationToRuntimeId st' = generationToRuntimeId st"
    and rows: "\<And>k r. row st k = Some r \<Longrightarrow> \<exists>r'. row st' k = Some r' \<and> row_evolves r r'"
    and new: "\<And>k r. row st' k = Some r \<Longrightarrow> row_ok r \<and> rr_runtimeId r = k"
  shows "slots_ok st'"
proof -
  have "\<exists>r'. row st' i = Some r' \<and> rr_generationId r' = h" if "map_of (generationToRuntimeId st') h = Some i" for h i
  proof -
    from that g have "map_of (generationToRuntimeId st) h = Some i" by simp
    from slots_ok_slotD [OF assms(1) this] obtain r where r: "row st i = Some r" "rr_generationId r = h" by blast
    from rows [OF r(1)] r(2) show ?thesis by (auto simp: row_evolves_def affinity_def)
  qed
  with new show ?thesis by (simp add: slots_ok_def)
qed

lemma slots_ok_set:
  assumes "slots_ok st" and "row st i = Some r" and "rr_generationId r = g"
  shows "slots_ok (st\<lparr>generationToRuntimeId := obj_set g i (generationToRuntimeId st)\<rparr>)"
  using assms by (auto simp: slots_ok_def)

lemma slots_ok_put_new:
  assumes "slots_ok st" and "row st i = None" and "row_ok r" and "rr_runtimeId r = i"
  shows "slots_ok (put_row i r st)"
  using assms by (fastforce simp: slots_ok_def put_row_def row_def)

lemma slots_ok_put:
  assumes "slots_ok st" and "row st i = Some r" and "row_ok r'" and "row_evolves r r'"
  shows "slots_ok (put_row i r' st)"
proof (rule slots_ok_same_slots [OF assms(1)])
  show "\<exists>q'. row (put_row i r' st) k = Some q' \<and> row_evolves q q'" if "row st k = Some q" for k q
    using that assms(2,4) evolves_refl by auto
  show "row_ok q \<and> rr_runtimeId q = k" if "row (put_row i r' st) k = Some q" for k q
    using that assms by (auto simp: slots_ok_def row_evolves_def affinity_def split: if_splits)
qed (simp add: put_row_def)

lemma slots_ok_delete:
  assumes "slots_ok st"
  shows "slots_ok (snd (deleteByRuntimeId i st))"
proof (cases "row st i")
  case None
  with assms show ?thesis by (simp add: deleteByRuntimeId_def)
next
  case (Some r)
  have "\<exists>q. row (snd (deleteByRuntimeId i st)) k = Some q \<and> rr_generationId q = g"
    if "map_of (generationToRuntimeId (snd (deleteByRuntimeId i st))) g = Some k" for g k
  proof -
    have m: "map_of (generationToRuntimeId st) g = Some k" "g = rr_generationId r \<longrightarrow> k \<noteq> i"
      using that Some by (auto simp: deleteByRuntimeId_def Let_def split: if_splits)
    from slots_ok_slotD [OF assms m(1)] obtain q where q: "row st k = Some q" "rr_generationId q = g" by blast
    with m(2) Some have "k \<noteq> i" by auto
    with q show ?thesis by (simp add: row_delete)
  qed
  with assms show ?thesis by (auto simp: slots_ok_def row_delete split: if_splits)
qed

definition moves_slots :: "ledger_op \<Rightarrow> bool" where
  "moves_slots op = (case op of Claim _ _ \<Rightarrow> True | MarkActive _ _ _ _ _ \<Rightarrow> True | Delete _ \<Rightarrow> True | _ \<Rightarrow> False)"

lemma op_slots: "\<not> moves_slots op \<Longrightarrow> generationToRuntimeId (apply_op op st) = generationToRuntimeId st"
  by (cases op) (auto simp: method_defs after_op_def bindE_def moves_slots_def Let_def put_row_def
      split: option.splits sum.splits)

lemma op_old_rows: "\<not> moves_slots op \<Longrightarrow> row (apply_op op st) k = Some r \<Longrightarrow> row st k \<noteq> None"
  by (cases op) (auto simp: method_defs after_op_def bindE_def moves_slots_def Let_def
      split: option.splits sum.splits if_splits)

lemma slots_ok_op:
  assumes inv: "slots_ok st"
  shows "slots_ok (apply_op op st)"
proof -
  have rows: "\<exists>r'. row (apply_op op st) k = Some r' \<and> row_evolves r r' \<and> row_ok r' \<and> rr_runtimeId r' = k"
    if "row st k = Some r" "\<not> is_delete op" for k r
  proof -
    note ok = slots_ok_rowD [OF inv that(1)]
    from that(2) have "op_id op = k \<longrightarrow> \<not> is_delete op" by simp
    from ledger.step_row [OF that(1) conjunct1 [OF ok] this] obtain r' where
      "row (apply_op op st) k = Some r'" "row_ok r'" "row_evolves r r'" by blast
    with ok show ?thesis by (auto simp: row_evolves_def affinity_def)
  qed
  have still: "slots_ok (apply_op op st)" if "\<not> moves_slots op"
  proof (rule slots_ok_same_slots [OF inv op_slots [OF that]])
    have nd: "\<not> is_delete op" using that by (auto simp: moves_slots_def is_delete_def split: ledger_op.splits)
    show "\<exists>r'. row (apply_op op st) k = Some r' \<and> row_evolves r r'" if "row st k = Some r" for k r
      using rows [OF that nd] by blast
    show "row_ok q \<and> rr_runtimeId q = k" if q: "row (apply_op op st) k = Some q" for k q
    proof -
      from op_old_rows [OF \<open>\<not> moves_slots op\<close> q] obtain r where "row st k = Some r" by blast
      from rows [OF this nd] q show ?thesis by auto
    qed
  qed
  show ?thesis
  proof (cases op)
    case (Claim inp uuid)
    show ?thesis
    proof (cases "row st (ci_runtimeId inp)")
      case None
      have "slots_ok (put_row (ci_runtimeId inp) (new_record inp uuid) st)"
        by (rule slots_ok_put_new [OF inv None new_record_ok]) (simp add: new_record_def)
      then have "slots_ok (put_row (ci_runtimeId inp) (new_record inp uuid) st
          \<lparr>generationToRuntimeId := obj_set (ci_generationId inp) (ci_runtimeId inp)
             (generationToRuntimeId (put_row (ci_runtimeId inp) (new_record inp uuid) st))\<rparr>)"
        by (rule slots_ok_set [where r = "new_record inp uuid"]) (simp_all add: new_record_def)
      with \<open>slots_ok (put_row _ _ _)\<close> None Claim show ?thesis
        by (auto simp: claim_def after_op_def Let_def)
    next
      case (Some r)
      with Claim inv show ?thesis by (auto simp: claim_def after_op_def)
    qed
  next
    case (MarkActive i h a b now)
    let ?r = "\<lambda>r. r\<lparr>rr_state := ACTIVE, rr_activeResponseJson := Some a, rr_activationEvidenceJson := Some b, rr_updatedAt := now\<rparr>"
    have "apply_op op st = st \<or> (\<exists>r. row st i = Some r \<and> rr_state r = ACTIVATING \<and> rr_activeContainerReadyAt r \<noteq> None
        \<and> apply_op op st = (put_row i (?r r) st)\<lparr>generationToRuntimeId :=
             obj_set (rr_generationId (?r r)) (rr_runtimeId (?r r)) (generationToRuntimeId (put_row i (?r r) st))\<rparr>)"
      unfolding MarkActive
      by (auto simp: markActive_def after_op_def bindE_def Let_def split: option.splits sum.splits)
    then show ?thesis
    proof (elim disjE exE conjE)
      fix r
      assume r: "row st i = Some r" "rr_state r = ACTIVATING" "rr_activeContainerReadyAt r \<noteq> None"
        and e: "apply_op op st = (put_row i (?r r) st)\<lparr>generationToRuntimeId :=
             obj_set (rr_generationId (?r r)) (rr_runtimeId (?r r)) (generationToRuntimeId (put_row i (?r r) st))\<rparr>"
      from inv r(1) have ok: "row_ok r" "rr_runtimeId r = i" by (auto simp: slots_ok_def)
      then have "row_ok (?r r)" "row_evolves r (?r r)" using r by (auto simp: row_defs list_all2_refl)
      from slots_ok_put [OF inv r(1) this] have "slots_ok (put_row i (?r r) st)" .
      then show ?thesis unfolding e by (rule slots_ok_set [where r = "?r r"]) (simp_all add: ok)
    qed (simp add: inv)
  next
    case (Delete i)
    with slots_ok_delete [OF inv] show ?thesis by simp
  qed (use still in \<open>simp_all add: moves_slots_def\<close>)
qed

lemma slots_ok_empty: "slots_ok emptyLedger"
  by (simp add: slots_ok_def emptyLedger_def row_def)

lemma slots_ok_run: "slots_ok st \<Longrightarrow> slots_ok (fold apply_op ops st)"
  by (induction ops arbitrary: st) (auto intro: slots_ok_op)

definition demo_claim :: ClaimInput where
  "demo_claim = \<lparr>ci_generationId = ''g1'', ci_installationId = ''i1'', ci_generationNumber = 1, ci_requestHash = ''h1'',
     ci_requestJson = (u ''{}''), ci_runtimeId = ''r1'', ci_artifactDigest = ''d'', ci_imageManifestDigest = ''m'',
     ci_imageConfigDigest = ''c'', ci_containerSpecHash = ''s'', ci_now = 10\<rparr>"

definition demo_activation :: ActivationInput where
  "demo_activation = \<lparr>ai_runtimeId = ''r1'', ai_requestHash = ''h1'', ai_activationRequestHash = ''a1'',
     ai_activationRequestJson = (u ''{}''), ai_activeContainerSpecHash = ''s2'', ai_now = 13\<rparr>"

definition demo_run :: "ledger_op list" where
  "demo_run = [Claim demo_claim ''uuid1'', RecordContainer ''r1'' ''h1'' ''ct1'' 11, MarkReady ''r1'' ''h1'' (u ''{}'') (u ''{}'') 12,
     ClaimActivation demo_activation ''uuid2'', ContainerReady ''r1'' ''a1'' 14, MarkActive ''r1'' ''a1'' (u ''{}'') (u ''{}'') 15]"

lemma demo_guard: "json_guard (u ''{}'') = Inr ()"
  by code_simp

lemmas demo_defs = demo_run_def demo_claim_def demo_activation_def emptyLedger_def method_defs after_op_def
  new_record_def row_def put_row_def positive_time_def truthy_def same_claim_def Let_def

lemma demo_result:
  "\<exists>r. row (fold apply_op demo_run emptyLedger) ''r1'' = Some r \<and> rr_state r = ACTIVE \<and> rr_replicaId r = ''uuid1''
     \<and> rr_activeResponseJson r = Some (u ''{}'')"
  "map_of (generationToRuntimeId (fold apply_op demo_run emptyLedger)) ''g1'' = Some ''r1''"
  by (simp_all add: demo_defs demo_guard)

text \<open>
  C9. The ledger's invariant over every history: however its methods are called, each row's
  evidence is exactly what its state requires (\<open>row_ok\<close>), each row is stored under its own runtime
  id, and every generation slot names an existing row of that generation.
\<close>

theorem ledger_invariant:
  "slots_ok (fold apply_op ops emptyLedger)"
  by (rule slots_ok_run [OF slots_ok_empty])

text \<open>
  C35. A runtime's life is one-way until it is removed: along any history without a delete of its
  id its state never goes back (\<open>CLAIMED\<close>, \<open>READY\<close>, \<open>ACTIVATING\<close>, \<open>ACTIVE\<close>), its immutable affinity and
  replica id never change, and evidence once recorded is never replaced.
\<close>

theorem runtime_row_evolves:
  assumes "row st i = Some r" and "row_ok r" and "\<forall>op \<in> set ops. op_id op = i \<longrightarrow> \<not> is_delete op"
  shows "\<exists>r'. row (fold apply_op ops st) i = Some r' \<and> rr_state r \<le> rr_state r' \<and> affinity r' = affinity r
    \<and> kept_values (evidence r) (evidence r') \<and> kept_values (documents r) (documents r') \<and> kept_values (times r) (times r')"
  using ledger.run_row [OF assms] by (auto simp: row_evolves_def)

lemma runtime_row_evolves_witness:
  "\<exists>r'. row (fold apply_op (tl demo_run) (apply_op (hd demo_run) emptyLedger)) ''r1'' = Some r' \<and> CLAIMED \<le> rr_state r'"
proof -
  let ?st = "apply_op (hd demo_run) emptyLedger"
  have r: "row ?st ''r1'' = Some (new_record demo_claim ''uuid1'')"
    by (simp add: demo_defs)
  have "\<forall>op \<in> set (tl demo_run). op_id op = ''r1'' \<longrightarrow> \<not> is_delete op"
    by (simp add: demo_run_def is_delete_def)
  from runtime_row_evolves [OF r new_record_ok this] show ?thesis
    by (auto simp: less_eq_RuntimeState_def)
qed

lemma claim_result:
  assumes "claim inp uuid st = Inr (r, st')" and "slots_ok st"
  shows "row st' (ci_runtimeId inp) = Some r \<and> same_claim r inp \<and> row_ok r"
  using assms slots_ok_rowD [OF assms(2)]
  by (auto simp: claim_def Let_def same_claim_def new_record_ok split: option.splits if_splits)
    (auto simp: new_record_def)

text \<open>
  Claiming is idempotent across restarts and retries: after a successful claim, and whatever
  happens to the ledger short of removing that runtime, claiming again with the same request
  succeeds, changes nothing, and returns the runtime under the replica id minted the first time.
\<close>

theorem claim_replay_stable:
  assumes "slots_ok st" and "claim inp uuid st = Inr (r, st')"
    and "\<forall>op \<in> set ops. op_id op = ci_runtimeId inp \<longrightarrow> \<not> is_delete op"
  shows "\<exists>r'. claim inp uuid' (fold apply_op ops st') = Inr (r', fold apply_op ops st')
    \<and> rr_replicaId r' = rr_replicaId r \<and> rr_state r \<le> rr_state r'"
proof -
  from claim_result [OF assms(2,1)] have r: "row st' (ci_runtimeId inp) = Some r" "same_claim r inp" "row_ok r" by auto
  from ledger.run_row [OF r(1,3) assms(3)] obtain r' where
    r': "row (fold apply_op ops st') (ci_runtimeId inp) = Some r'" "row_evolves r r'" by blast
  from r'(2) r(2) have "same_claim r' inp" "rr_replicaId r' = rr_replicaId r" "rr_state r \<le> rr_state r'"
    by (auto simp: same_claim_def row_evolves_def affinity_def)
  with r'(1) show ?thesis by (simp add: claim_def)
qed

lemma claim_replay_stable_witness:
  "\<exists>r' st'. claim demo_claim ''uuid9'' (fold apply_op (tl demo_run) st') = Inr (r', fold apply_op (tl demo_run) st')
    \<and> rr_replicaId r' = ''uuid1''"
proof -
  obtain st' where c: "claim demo_claim ''uuid1'' emptyLedger = Inr (new_record demo_claim ''uuid1'', st')"
    by (simp add: claim_def row_def emptyLedger_def Let_def)
  have "\<forall>op \<in> set (tl demo_run). op_id op = ci_runtimeId demo_claim \<longrightarrow> \<not> is_delete op"
    by (simp add: demo_run_def is_delete_def)
  from claim_replay_stable [OF slots_ok_empty c this, of "''uuid9''"] show ?thesis
    by (auto simp: new_record_def)
qed

text \<open>
  When a newer runtime of a generation has become active and is then removed, the slot is emptied
  although an older active runtime of the generation is still there.
\<close>

lemma slot_empties_with_newer_runtime:
  "row st ''r2'' = Some r2 \<Longrightarrow> rr_generationId r2 = ''g1'' \<Longrightarrow> map_of (generationToRuntimeId st) ''g1'' = Some ''r2'' \<Longrightarrow>
     get (snd (deleteByRuntimeId ''r2'' st)) ''g1'' = None
     \<and> row (snd (deleteByRuntimeId ''r2'' st)) ''r1'' = row st ''r1''"
  by (simp add: get_def deleteByRuntimeId_def row_def Let_def truthy_def)

end
