(* ===== verification/Driver_World.thy ===== *)
theory Driver_World
  imports Local_Abi Ledger
begin

text \<open>
  What the local-runtime driver talks to. Every call it makes to Docker, to the identity broker, to
  the readiness probe or to the file system is a \<open>call\<close>; the outside answers it as an arbitrary
  function of the calls made so far (\<open>driver_env\<close>), and the state keeps the calls. A method of the driver is
  a \<open>svc\<close>: from the state to its result or the error it throws, and the state it leaves.
\<close>

record broker_mount =
  bm_source :: string
  bm_target :: string

record CreateSpec =
  cs_name :: string
  cs_Image :: string
  cs_Hostname :: string
  cs_User :: string
  cs_Env :: "units list"
  cs_Labels :: "string obj"
  cs_ExposedPorts :: "string list"
  cs_AutoRemove :: bool
  cs_Binds :: "string list"
  cs_CapAdd :: "string list"
  cs_CapDrop :: "string list"
  cs_Init :: bool
  cs_Memory :: rat
  cs_MemorySwap :: rat
  cs_Mounts :: "(broker_mount \<times> bool) list"
  cs_NanoCpus :: int
  cs_CpuShares :: int
  cs_NetworkMode :: string
  cs_OomKillDisable :: bool
  cs_PidsLimit :: int
  cs_PortBindings :: "string list"
  cs_Privileged :: bool
  cs_PublishAllPorts :: bool
  cs_ReadonlyRootfs :: bool
  cs_RestartPolicy :: string
  cs_SecurityOpt :: "string list"
  cs_Tmpfs :: "string obj"

datatype call =
    NetInspect string | NetDisconnect string string | NetRemove string | NetCreate string bool | NetConnect string string
  | CtrInspect string | CtrCreate CreateSpec | CtrStop string | CtrRemove string | CtrStart string | CtrRestart string
  | CtrListReplicas
  | BrokerPrepare string | BrokerRegister McpRuntimeBindingV3 | BrokerProvision McpRuntimeBindingV3 | BrokerCleanup string
  | BrokerReaddir
  | WaitReady string string
  | ImgInspect string | ImgLoad string | ImgRemove string
  | StatFs | VerifyArchive string string nat

text \<open>How a call fails: an HTTP status, the broker's binding conflict, or anything else.\<close>

datatype failure = Status nat | BindingConflict | OtherFailure

record NetworkInfo =
  ni_Internal :: bool
  ni_Containers :: "string list"

record InspectedMount =
  im_Source :: "string option"
  im_Destination :: "string option"
  im_RW :: "bool option"

record Inspected =
  ic_Id :: string
  ic_Image :: string
  ic_ConfigImage :: "string option"
  ic_Labels :: "string obj"
  ic_NetworkMode :: "string option"
  ic_ReadonlyRootfs :: bool
  ic_PortBindings :: "string list"
  ic_Binds :: "string list"
  ic_Mounts :: "InspectedMount list"
  ic_Running :: bool
  ic_Addresses :: "string obj"

record VerifiedOciArchive =
  va_artifactDigest :: string
  va_sizeBytes :: nat
  va_manifestDigest :: string
  va_manifestSizeBytes :: nat
  va_configDigest :: string
  va_imageUser :: "string option"

record ImageInfo =
  ii_Id :: string
  ii_Descriptor :: "(string \<times> string \<times> nat) option"

record StagedArtifactRecord =
  sa_digest :: string
  sa_sizeBytes :: nat
  sa_manifestDigest :: string
  sa_manifestSizeBytes :: nat
  sa_configDigest :: string
  sa_imageRef :: string
  sa_imageUser :: "string option"
  sa_stagedAt :: int

record driver_env =
  fails :: "call list \<Rightarrow> call \<Rightarrow> failure option"
  network_at :: "call list \<Rightarrow> NetworkInfo"
  container_at :: "call list \<Rightarrow> Inspected"
  mount_at :: "call list \<Rightarrow> broker_mount"
  replicas_at :: "call list \<Rightarrow> string list"
  entries_at :: "call list \<Rightarrow> string list"
  image_at :: "call list \<Rightarrow> ImageInfo"
  free_bytes :: "call list \<Rightarrow> nat"
  verified_at :: "call list \<Rightarrow> VerifiedOciArchive"
  clock_ms :: "call list \<Rightarrow> int"
  uuid_at :: "call list \<Rightarrow> string"
  self_id :: string
  abi :: abi_lib

text \<open>\<open>staged\<close> is the artifact index file; \<open>None\<close> when it does not parse.\<close>

record driver_state =
  ledger :: LedgerFile
  staged :: "StagedArtifactRecord obj option"
  calls :: "call list"
  networkEnsured :: bool

datatype svc_error = Typed driver_error | Untyped

type_synonym 'a svc = "driver_state \<Rightarrow> (svc_error, 'a) result \<times> driver_state"

section \<open>Sequencing\<close>

definition retS :: "'a \<Rightarrow> 'a svc" where
  "retS a = (\<lambda>s. (Inr a, s))"

definition failS :: "svc_error \<Rightarrow> 'a svc" where
  "failS e = (\<lambda>s. (Inl e, s))"

definition bindS :: "'a svc \<Rightarrow> ('a \<Rightarrow> 'b svc) \<Rightarrow> 'b svc" where
  "bindS m f = (\<lambda>s. case m s of (Inl e, s') \<Rightarrow> (Inl e, s') | (Inr a, s') \<Rightarrow> f a s')"

definition guardS :: "bool \<Rightarrow> driver_error \<Rightarrow> unit svc" where
  "guardS b e = (if b then retS () else failS (Typed e))"

fun forS :: "('a \<Rightarrow> unit svc) \<Rightarrow> 'a list \<Rightarrow> unit svc" where
  "forS f [] = retS ()"
| "forS f (x # xs) = bindS (f x) (\<lambda>_. forS f xs)"

definition liftE :: "(driver_error, 'a) result \<Rightarrow> 'a svc" where
  "liftE r = (case r of Inl e \<Rightarrow> failS (Typed e) | Inr a \<Rightarrow> retS a)"

definition getS :: "(driver_state \<Rightarrow> 'a) \<Rightarrow> 'a svc" where
  "getS f = (\<lambda>s. (Inr (f s), s))"

text \<open>A synchronous ledger method.\<close>

definition ledgerS :: "(LedgerFile \<Rightarrow> 'a ledger_result) \<Rightarrow> 'a svc" where
  "ledgerS op = (\<lambda>s. case op (ledger s) of
     Inl (Driver e) \<Rightarrow> (Inl (Typed e), s)
   | Inl SyntaxError \<Rightarrow> (Inl Untyped, s)
   | Inr (a, st) \<Rightarrow> (Inr a, s\<lparr>ledger := st\<rparr>))"

section \<open>Calls\<close>

text \<open>A call whose failures \<open>ok\<close> tolerates and the others turns into \<open>e\<close>; true when it succeeded.\<close>

definition callS :: "driver_env \<Rightarrow> call \<Rightarrow> (failure \<Rightarrow> bool) \<Rightarrow> svc_error \<Rightarrow> bool svc" where
  "callS env c ok e = (\<lambda>s. let s' = s\<lparr>calls := calls s @ [c]\<rparr> in
     case fails env (calls s) c of
       None \<Rightarrow> (Inr True, s')
     | Some f \<Rightarrow> if ok f then (Inr False, s') else (Inl e, s'))"

text \<open>A call that answers with data: \<open>None\<close> on a tolerated failure.\<close>

definition askS :: "driver_env \<Rightarrow> call \<Rightarrow> (call list \<Rightarrow> 'a) \<Rightarrow> (failure \<Rightarrow> bool) \<Rightarrow> svc_error \<Rightarrow> 'a option svc" where
  "askS env c answer ok e = (\<lambda>s. let s' = s\<lparr>calls := calls s @ [c]\<rparr> in
     case fails env (calls s) c of
       None \<Rightarrow> (Inr (Some (answer (calls s'))), s')
     | Some f \<Rightarrow> if ok f then (Inr None, s') else (Inl e, s'))"

definition is_status :: "nat list \<Rightarrow> failure \<Rightarrow> bool" where
  "is_status codes f = (case f of Status n \<Rightarrow> n \<in> set codes | _ \<Rightarrow> False)"

abbreviation never :: "failure \<Rightarrow> bool" where
  "never \<equiv> \<lambda>_. False"

definition now_ms :: "driver_env \<Rightarrow> int svc" where
  "now_ms env = getS (\<lambda>s. clock_ms env (calls s))"

definition randomUUID :: "driver_env \<Rightarrow> string svc" where
  "randomUUID env = getS (\<lambda>s. uuid_at env (calls s))"

section \<open>Facts about sequencing\<close>

named_theorems svc_simps \<open>definitions of the sequencing operators\<close>

lemmas svc_defs [svc_simps] = retS_def failS_def guardS_def liftE_def getS_def

lemma bindS_Inr: "bindS m f s = (Inr b, s') \<longleftrightarrow> (\<exists>a s1. m s = (Inr a, s1) \<and> f a s1 = (Inr b, s'))"
  by (auto simp: bindS_def split: prod.splits sum.splits)

lemma bindS_cases: "bindS m f s = (r, s') \<longleftrightarrow>
    (\<exists>e. r = Inl e \<and> m s = (Inl e, s')) \<or> (\<exists>a s1. m s = (Inr a, s1) \<and> f a s1 = (r, s'))"
  by (auto simp: bindS_def split: prod.splits sum.splits)

section \<open>What every method keeps\<close>

text \<open>
  A relation between the state before and after that is reflexive and transitive and that holds of
  the primitive steps holds of every method built from them.
\<close>

locale svc_rel =
  fixes rel :: "driver_state \<Rightarrow> driver_state \<Rightarrow> bool"
  assumes rel_refl: "rel s s"
    and rel_trans: "rel s t \<Longrightarrow> rel t v \<Longrightarrow> rel s v"
begin

text \<open>\<open>keeps_when P m\<close>: started in a state where \<open>P\<close> holds.\<close>

definition keeps_when :: "(driver_state \<Rightarrow> bool) \<Rightarrow> 'a svc \<Rightarrow> bool" where
  "keeps_when P m \<longleftrightarrow> (\<forall>s r s'. P s \<longrightarrow> m s = (r, s') \<longrightarrow> rel s s')"

abbreviation keeps :: "'a svc \<Rightarrow> bool" where
  "keeps \<equiv> keeps_when (\<lambda>_. True)"

lemma keepsI: "(\<And>s r s'. m s = (r, s') \<Longrightarrow> rel s s') \<Longrightarrow> keeps m"
  by (simp add: keeps_when_def)

lemma keepsD: "keeps m \<Longrightarrow> m s = (r, s') \<Longrightarrow> rel s s'"
  by (simp add: keeps_when_def)

lemma keeps_snd: "keeps m \<Longrightarrow> rel s (snd (m s))"
  by (metis keepsD prod.collapse)

lemma keeps_weaken: "keeps m \<Longrightarrow> keeps_when P m"
  by (simp add: keeps_when_def)

lemma keeps_pure [intro]: "keeps (retS a)" "keeps (failS e)" "keeps (guardS b d)" "keeps (liftE x)" "keeps (getS g)"
  by (auto simp: keeps_when_def svc_simps rel_refl split: if_splits sum.splits)

lemma keeps_bind_when:
  assumes "keeps_when P m" and "\<And>s a s1. P s \<Longrightarrow> m s = (Inr a, s1) \<Longrightarrow> Q a s1" and "\<And>a. keeps_when (Q a) (f a)"
  shows "keeps_when P (bindS m f)"
  unfolding keeps_when_def bindS_cases
proof (intro allI impI)
  fix s r s'
  assume P: "P s" and "(\<exists>e. r = Inl e \<and> m s = (Inl e, s')) \<or> (\<exists>a s1. m s = (Inr a, s1) \<and> f a s1 = (r, s'))"
  then show "rel s s'"
  proof (elim disjE exE conjE)
    fix a s1
    assume 1: "m s = (Inr a, s1)" and 2: "f a s1 = (r, s')"
    from assms(2) [OF P 1] assms(3) 2 have "rel s1 s'" unfolding keeps_when_def by blast
    moreover have "rel s s1" using assms(1) P 1 unfolding keeps_when_def by blast
    ultimately show ?thesis using rel_trans by blast
  qed (use assms(1) P in \<open>auto simp: keeps_when_def\<close>)
qed

lemma keeps_bind [intro]: "keeps m \<Longrightarrow> (\<And>a. keeps (f a)) \<Longrightarrow> keeps (bindS m f)"
  by (rule keeps_bind_when [where Q = "\<lambda>_ _. True"]) auto

lemma keeps_for [intro]: "(\<And>x. x \<in> set xs \<Longrightarrow> keeps (f x)) \<Longrightarrow> keeps (forS f xs)"
  by (induction xs) auto

lemma keeps_if [intro]: "(b \<Longrightarrow> keeps_when P m) \<Longrightarrow> (\<not> b \<Longrightarrow> keeps_when P m') \<Longrightarrow> keeps_when P (if b then m else m')"
  by simp

lemma keeps_option [intro]: "(x = None \<Longrightarrow> keeps_when P m) \<Longrightarrow> (\<And>a. x = Some a \<Longrightarrow> keeps_when P (f a)) \<Longrightarrow> keeps_when P (case x of None \<Rightarrow> m | Some a \<Rightarrow> f a)"
  by (cases x) auto

lemma keeps_prod [intro]: "(\<And>a b. x = (a, b) \<Longrightarrow> keeps_when P (f a b)) \<Longrightarrow> keeps_when P (case x of (a, b) \<Rightarrow> f a b)"
  by (cases x) auto

end

end
