(* ===== verification/Artifact_Store.thy ===== *)
theory Artifact_Store
  imports Driver_World
begin

text \<open>
  The staged-artifact store, \<open>src/local-runtime/artifact-store.ts\<close>: its index file, staging with proof of
  the image's content address, and erasure. What the archive verifier (\<open>oci-archive.ts\<close>) reports
  of a file, and Docker's image store, answer as the environment.
\<close>

definition maxArtifactBytes :: nat where
  "maxArtifactBytes = 250000000"

definition freeSpaceMultiplier :: nat where
  "freeSpaceMultiplier = 3"

definition OCI_MANIFEST_MEDIA_TYPE :: string where
  "OCI_MANIFEST_MEDIA_TYPE = ''application/vnd.oci.image.manifest.v1+json''"

definition readIndex :: "driver_state \<Rightarrow> StagedArtifactRecord obj" where
  "readIndex s = (case staged s of Some ix \<Rightarrow> ix | None \<Rightarrow> [])"

definition writeIndex :: "StagedArtifactRecord obj \<Rightarrow> unit svc" where
  "writeIndex ix = (\<lambda>s. (Inr (), s\<lparr>staged := Some ix\<rparr>))"

definition resolve_staged :: "string \<Rightarrow> StagedArtifactRecord option svc" where
  "resolve_staged digest = getS (\<lambda>s. map_of (readIndex s) digest)"

definition store_now :: "driver_env \<Rightarrow> int svc" where
  "store_now env = bindS (now_ms env) (\<lambda>now. bindS (guardS (0 < now) ArtifactError) (\<lambda>_. retS now))"

definition assertFreeSpace :: "driver_env \<Rightarrow> nat \<Rightarrow> unit svc" where
  "assertFreeSpace env sizeBytes = bindS (askS env StatFs (free_bytes env) never (Typed ArtifactStagingRefused)) (\<lambda>free.
     guardS (free \<noteq> None \<and> sizeBytes * freeSpaceMultiplier \<le> the free) ArtifactStagingRefused)"

definition inspectImage :: "driver_env \<Rightarrow> string \<Rightarrow> ImageInfo option svc" where
  "inspectImage env reference = askS env (ImgInspect reference) (image_at env) (is_status [404]) (Typed ArtifactError)"

definition proveContentAddress :: "driver_env \<Rightarrow> VerifiedOciArchive \<Rightarrow> string svc" where
  "proveContentAddress env v = bindS (inspectImage env (va_configDigest v)) (\<lambda>graphdriver.
     if map_option ii_Id graphdriver = Some (va_configDigest v) then retS (va_configDigest v)
     else bindS (inspectImage env (va_manifestDigest v)) (\<lambda>containerd.
       case Option.bind containerd ii_Descriptor of
         Some (mediaType, digest, bytes) \<Rightarrow>
           if mediaType = OCI_MANIFEST_MEDIA_TYPE \<and> digest = va_manifestDigest v \<and> bytes = va_manifestSizeBytes v
           then retS (va_manifestDigest v) else failS (Typed ArtifactError)
       | None \<Rightarrow> failS (Typed ArtifactError)))"

definition loadAndProveContentAddress :: "driver_env \<Rightarrow> string \<Rightarrow> VerifiedOciArchive \<Rightarrow> string svc" where
  "loadAndProveContentAddress env filePath v = bindS (inspectImage env (va_configDigest v)) (\<lambda>already.
     if map_option ii_Id already = Some (va_configDigest v) then retS (va_configDigest v)
     else bindS (callS env (ImgLoad filePath) never Untyped) (\<lambda>_. proveContentAddress env v))"

definition stage :: "driver_env \<Rightarrow> string \<Rightarrow> string \<Rightarrow> nat \<Rightarrow> StagedArtifactRecord svc" where
  "stage env path sha256 sizeBytes =
     bindS (guardS (sizeBytes \<le> maxArtifactBytes) ArtifactStagingRefused) (\<lambda>_.
     bindS (assertFreeSpace env sizeBytes) (\<lambda>_.
     bindS (askS env (VerifyArchive path sha256 sizeBytes) (verified_at env) never (Typed ArtifactError)) (\<lambda>verified.
     case verified of None \<Rightarrow> failS (Typed ArtifactError) | Some v \<Rightarrow>
     bindS (resolve_staged (va_artifactDigest v)) (\<lambda>existing.
     case existing of Some record \<Rightarrow> retS record | None \<Rightarrow>
     bindS (loadAndProveContentAddress env path v) (\<lambda>imageRef.
     bindS (store_now env) (\<lambda>stagedAt.
     let record = \<lparr>sa_digest = va_artifactDigest v, sa_sizeBytes = va_sizeBytes v, sa_manifestDigest = va_manifestDigest v,
       sa_manifestSizeBytes = va_manifestSizeBytes v, sa_configDigest = va_configDigest v, sa_imageRef = imageRef,
       sa_imageUser = truthy (va_imageUser v), sa_stagedAt = stagedAt\<rparr> in
     bindS (getS readIndex) (\<lambda>ix.
     bindS (writeIndex (obj_set (sa_digest record) record ix)) (\<lambda>_. retS record))))))))"

text \<open>\<open>removed\<close> is what the result says of whether there was anything to remove.\<close>

definition remove_artifact :: "driver_env \<Rightarrow> string \<Rightarrow> bool svc" where
  "remove_artifact env digest = bindS (resolve_staged digest) (\<lambda>found.
     case found of None \<Rightarrow> bindS (store_now env) (\<lambda>_. retS False)
     | Some record \<Rightarrow>
       bindS (callS env (ImgRemove (sa_imageRef record)) (is_status [404]) (Typed ArtifactError)) (\<lambda>_.
       bindS (inspectImage env (sa_imageRef record)) (\<lambda>still.
       bindS (guardS (still = None) ArtifactError) (\<lambda>_.
       bindS (getS readIndex) (\<lambda>ix.
       bindS (writeIndex (obj_del digest ix)) (\<lambda>_.
       bindS (resolve_staged digest) (\<lambda>after.
       bindS (guardS (after = None) ArtifactError) (\<lambda>_.
       bindS (store_now env) (\<lambda>_. retS True)))))))))"

section \<open>What the index holds\<close>

text \<open>
  Every record names an image by one of the two digests verified for it; staging keeps that, and a
  digest already in the index is answered from it without loading anything.
\<close>

definition index_pinned :: "driver_state \<Rightarrow> bool" where
  "index_pinned s \<longleftrightarrow> list_all (\<lambda>(_, r). sa_imageRef r \<in> {sa_configDigest r, sa_manifestDigest r}) (readIndex s)"

lemma same_index: "callS env c ok e s = (r, s') \<Longrightarrow> staged s' = staged s" "askS env c answer ok e s = (q, s') \<Longrightarrow> staged s' = staged s"
  by (auto simp: callS_def askS_def Let_def split: option.splits if_splits)

lemma inspect_index: "inspectImage env d s = (r, s') \<Longrightarrow> staged s' = staged s"
  by (auto simp: inspectImage_def dest: same_index)

lemma prove_pins:
  assumes "proveContentAddress env v s = (Inr ref, s')"
  shows "ref \<in> {va_configDigest v, va_manifestDigest v} \<and> staged s' = staged s"
proof -
  from assms obtain g s1 where 1: "inspectImage env (va_configDigest v) s = (Inr g, s1)" by (auto simp: proveContentAddress_def bindS_Inr)
  show ?thesis
  proof (cases "map_option ii_Id g = Some (va_configDigest v)")
    case True
    with assms 1 show ?thesis by (auto simp: proveContentAddress_def bindS_Inr svc_simps dest: inspect_index)
  next
    case False
    with assms 1 obtain c s2 where 2: "inspectImage env (va_manifestDigest v) s1 = (Inr c, s2)"
      by (auto simp: proveContentAddress_def bindS_Inr split: if_splits)
    with assms 1 False show ?thesis
      by (cases "Option.bind c ii_Descriptor")
        (auto simp: proveContentAddress_def bindS_def svc_simps dest!: inspect_index split: if_splits)
  qed
qed

lemma load_pins: "loadAndProveContentAddress env p v s = (Inr ref, s') \<Longrightarrow>
    ref \<in> {va_configDigest v, va_manifestDigest v} \<and> staged s' = staged s"
  by (auto simp: loadAndProveContentAddress_def inspectImage_def bindS_Inr svc_simps split: if_splits dest!: same_index prove_pins)

lemma stage_pinned:
  assumes "stage env p h n s = (Inr r, s')" and "index_pinned s"
  shows "index_pinned s' \<and> sa_imageRef r \<in> {sa_configDigest r, sa_manifestDigest r}"
proof -
  have keep: "list_all P (obj_set k v xs)" if "list_all P xs" "P (k, v)" for P :: "string \<times> StagedArtifactRecord \<Rightarrow> bool" and k v xs
    using that by (induction k v xs rule: obj_set.induct) auto
  have found: "P r" if "list_all (\<lambda>(_, r). P r) ix" "map_of ix k = Some r" for P ix k and r :: StagedArtifactRecord
    using that by (auto simp: list_all_iff dest!: map_of_SomeD)
  from assms show ?thesis
    by (auto simp: stage_def assertFreeSpace_def bindS_Inr svc_simps resolve_staged_def store_now_def now_ms_def writeIndex_def Let_def index_pinned_def
        readIndex_def split: if_splits option.splits dest!: same_index load_pins intro!: keep dest: found)
qed

text \<open>
  Erasure answers from the index alone: when the index file does not parse, every digest is reported
  absent without asking Docker, whatever is loaded; and a second record of the same image stays
  when the first is erased.
\<close>

lemma corrupt_index_reports_absent:
  "staged s = None \<Longrightarrow> 0 < clock_ms env (calls s) \<Longrightarrow> remove_artifact env digest s = (Inr False, s)"
  by (simp add: remove_artifact_def resolve_staged_def readIndex_def bindS_def svc_simps store_now_def now_ms_def)

lemma erased_image_stays_staged:
  assumes "remove_artifact env d s = (Inr True, s')" "map_of (readIndex s) d' = Some r" "d' \<noteq> d"
  shows "map_of (readIndex s') d' = Some r"
  using assms
  by (auto simp: remove_artifact_def resolve_staged_def inspectImage_def bindS_Inr svc_simps store_now_def now_ms_def writeIndex_def readIndex_def
      split: option.splits if_splits dest!: same_index)

end
