(* ===== verification/Runtime_Service.thy ===== *)
theory Runtime_Service
  imports Artifact_Store
begin

text \<open>
  The local-runtime driver, \<open>src/local-runtime/runtime-service.ts\<close>: \<open>ensureReady\<close>, \<open>status\<close>, \<open>activate\<close>,
  \<open>remove\<close>, the rebinding of active runtimes at start and the erasure of artifacts. The per-runtime
  lock makes a method run alone on its runtime. The ledger file is readable.
\<close>

definition LABEL_PREFIX :: string where
  "LABEL_PREFIX = ''privos.local-runtime''"

definition DRIVER_ABI :: string where
  "DRIVER_ABI = ''privos-local-runtime-driver-v1''"

definition SUPERVISOR :: string where
  "SUPERVISOR = ''DOCKER_UNLESS_STOPPED''"

definition BROKER_MOUNT_TARGET :: string where
  "BROKER_MOUNT_TARGET = ''/run/privos''"

definition lower_hex :: "char \<Rightarrow> bool" where
  "lower_hex c = (char_digit c \<or> (97 \<le> (of_char c :: nat) \<and> (of_char c :: nat) \<le> 102))"

definition RUNTIME_ID_RE :: "string \<Rightarrow> bool" where
  "RUNTIME_ID_RE s = (starts_with ''local-runtime-'' s \<and> length s = 46 \<and> list_all lower_hex (drop 14 s))"

record RuntimeServiceConfig =
  rc_privateNetwork :: string
  rc_pidsLimit :: int
  rc_storedClusterId :: "string option"
  rc_fallbackClusterId :: string
  rc_nodeId :: string
  rc_hubOrigin :: string
  rc_brokerRoot :: string

definition computeRuntimeId :: "abi_lib \<Rightarrow> json \<Rightarrow> string" where
  "computeRuntimeId lib request =
     ''local-runtime-'' @ take 32 (s_of (sha256_hex lib (sortedText lib (affinityFromRequest request))))"

definition endpointFor :: "string \<Rightarrow> string" where
  "endpointFor runtimeId = ''http://'' @ drop (length ''local-runtime-'') runtimeId @ ''.app-cluster.internal''"

section \<open>The container policy\<close>

record ContainerPolicy =
  cp_runtimeId :: string
  cp_endpoint :: string
  cp_affinityHash :: string
  cp_containerSpecHash :: string
  cp_createSpec :: CreateSpec
  cp_labels :: "string obj"
  cp_brokerMount :: broker_mount

definition num :: "int \<Rightarrow> json" where
  "num i = JNum (u (show_int i))"

definition phase :: "json option \<Rightarrow> string" where
  "phase activation = (if activation = None then ''PREACTIVATION'' else ''ACTIVE'')"

definition policyIdentity ::
  "abi_lib \<Rightarrow> json \<Rightarrow> StagedArtifactRecord \<Rightarrow> string \<Rightarrow> string \<Rightarrow> int \<Rightarrow> json option \<Rightarrow> string \<Rightarrow> json" where
  "policyIdentity lib request artifact runtimeId network pidsLimit activation brokerMountTarget =
     (let spec = jat request ''runtime_spec'' in
     obj ([(''schema_version'', num 1), (''driver_abi'', str DRIVER_ABI), (''runtime_id'', str runtimeId),
       (''generation_affinity_hash'', str (canonicalHash lib (affinityFromRequest request))),
       (''runtime_authorization_hash'', str (canonicalHash lib (jat request ''runtime_authorization''))),
       (''artifact_digest'', str (sa_digest artifact)), (''image_manifest_digest'', str (sa_manifestDigest artifact)),
       (''image_config_digest'', str (sa_configDigest artifact)), (''port'', jat spec ''port''),
       (''resources'', jat spec ''resources''), (''pids_limit'', num pidsLimit),
       (''authorization_phase'', str (phase activation)),
       (''networks'', obj [(''runtime'', obj [(''name'', str network), (''internal'', JBool False)])]),
       (''broker_mount_target'', str brokerMountTarget), (''broker_mount_readonly'', JBool True)]
       @ (case activation of None \<Rightarrow> [] | Some a \<Rightarrow>
          [(''activation_request_hash'', str (canonicalHash lib a)),
           (''runtime_resource_inventory_hash'', jat a ''runtime_resource_inventory_hash''),
           (''runtime_approval_receipt_hash'', jat a ''runtime_approval_receipt_hash''),
           (''runtime_authorization_epoch'', jat a ''runtime_authorization_epoch'')])))"

definition FALLBACK_USER :: string where
  "FALLBACK_USER = ''65532:65532''"

definition containerUser :: "StagedArtifactRecord \<Rightarrow> string" where
  "containerUser artifact = (case truthy (map_option trim (sa_imageUser artifact)) of
     None \<Rightarrow> FALLBACK_USER
   | Some declared \<Rightarrow> if hd (split_on CHR '':'' declared) \<in> set ['''', ''root'', ''0''] then FALLBACK_USER else declared)"

definition js_round :: "rat \<Rightarrow> int" where
  "js_round x = \<lfloor>x + 1 / 2\<rfloor>"

definition policy_labels ::
  "abi_lib \<Rightarrow> json \<Rightarrow> StagedArtifactRecord \<Rightarrow> string \<Rightarrow> string \<Rightarrow> string \<Rightarrow> json option \<Rightarrow> McpRuntimeBindingV3 \<Rightarrow> string obj" where
  "policy_labels lib request artifact runtimeId affinityHash containerSpecHash activation binding =
     LOCAL_RUNTIME_BROKER_LABELS lib binding @
     [(LABEL_PREFIX @ ''.managed-by'', DRIVER_ABI), (LABEL_PREFIX @ ''.id'', runtimeId),
      (LABEL_PREFIX @ ''.artifact-digest'', sa_digest artifact),
      (LABEL_PREFIX @ ''.image-config-digest'', sa_configDigest artifact),
      (LABEL_PREFIX @ ''.generation-affinity-hash'', affinityHash),
      (LABEL_PREFIX @ ''.container-spec-hash'', containerSpecHash),
      (LABEL_PREFIX @ ''.installation-id'', jstr request ''installation_id''),
      (LABEL_PREFIX @ ''.generation-id'', jstr request ''generation_id''),
      (LABEL_PREFIX @ ''.authorization-phase'', phase activation)]"

definition create_spec ::
  "abi_lib \<Rightarrow> json \<Rightarrow> StagedArtifactRecord \<Rightarrow> RuntimeServiceConfig \<Rightarrow> json option \<Rightarrow> broker_mount \<Rightarrow> string \<Rightarrow> string obj \<Rightarrow> CreateSpec" where
  "create_spec lib request artifact config activation brokerMount runtimeId labels =
     (let spec = jat request ''runtime_spec''; resources = jat spec ''resources'';
          memoryBytes = lexeme_value (jnum resources ''memory_mb'') * 1024 * 1024;
          cpus = lexeme_value (jnum resources ''cpus'')
      in \<lparr>cs_name = runtimeId, cs_Image = sa_imageRef artifact, cs_Hostname = runtimeId, cs_User = containerUser artifact,
       cs_Env = dispatchTrustEnv lib request activation, cs_Labels = labels,
       cs_ExposedPorts = [s_of (fmt lib (jnum spec ''port'')) @ ''/tcp''],
       cs_AutoRemove = False, cs_Binds = [], cs_CapAdd = [], cs_CapDrop = [''ALL''], cs_Init = True,
       cs_Memory = memoryBytes, cs_MemorySwap = memoryBytes, cs_Mounts = [(brokerMount, True)],
       cs_NanoCpus = js_round (cpus * 1000000000), cs_CpuShares = js_round (1024 * cpus),
       cs_NetworkMode = rc_privateNetwork config, cs_OomKillDisable = False, cs_PidsLimit = rc_pidsLimit config,
       cs_PortBindings = [], cs_Privileged = False, cs_PublishAllPorts = False, cs_ReadonlyRootfs = True,
       cs_RestartPolicy = ''unless-stopped'', cs_SecurityOpt = [''no-new-privileges:true''],
       cs_Tmpfs = [(''/tmp'', ''size='' @ s_of (fmt lib (jnum resources ''tmp_size_mb'')) @ ''m,mode=1777,nosuid,nodev,noexec'')]\<rparr>)"

definition buildPolicy ::
  "abi_lib \<Rightarrow> json \<Rightarrow> StagedArtifactRecord \<Rightarrow> RuntimeServiceConfig \<Rightarrow> json option \<Rightarrow> broker_mount \<Rightarrow> McpRuntimeBindingV3 \<Rightarrow> ContainerPolicy" where
  "buildPolicy lib request artifact config activation brokerMount binding =
     (let runtimeId = computeRuntimeId lib request;
          affinityHash = canonicalHash lib (affinityFromRequest request);
          containerSpecHash = canonicalHash lib (policyIdentity lib request artifact runtimeId (rc_privateNetwork config)
            (rc_pidsLimit config) activation (bm_target brokerMount));
          labels = policy_labels lib request artifact runtimeId affinityHash containerSpecHash activation binding
      in \<lparr>cp_runtimeId = runtimeId, cp_endpoint = endpointFor runtimeId, cp_affinityHash = affinityHash,
        cp_containerSpecHash = containerSpecHash,
        cp_createSpec = create_spec lib request artifact config activation brokerMount runtimeId labels,
        cp_labels = labels, cp_brokerMount = brokerMount\<rparr>)"

definition isPolicyMatch :: "Inspected \<Rightarrow> ContainerPolicy \<Rightarrow> StagedArtifactRecord \<Rightarrow> bool" where
  "isPolicyMatch container policy artifact = (let verifiedImages = {sa_configDigest artifact, sa_manifestDigest artifact} in
     ic_Image container \<in> verifiedImages \<and> ic_ConfigImage container \<in> Some ` verifiedImages
     \<and> list_all (\<lambda>(key, val). map_of (ic_Labels container) key = Some val) (cp_labels policy)
     \<and> ic_NetworkMode container = Some (cs_NetworkMode (cp_createSpec policy))
     \<and> ic_ReadonlyRootfs container \<and> ic_PortBindings container = [] \<and> ic_Binds container = []
     \<and> ic_Mounts container = [\<lparr>im_Source = Some (bm_source (cp_brokerMount policy)),
          im_Destination = Some (bm_target (cp_brokerMount policy)), im_RW = Some False\<rparr>])"

definition assertContainerMatchesPolicy :: "Inspected \<Rightarrow> ContainerPolicy \<Rightarrow> StagedArtifactRecord \<Rightarrow> unit svc" where
  "assertContainerMatchesPolicy container policy artifact = guardS (isPolicyMatch container policy artifact) AffinityConflict"

section \<open>Networks\<close>

abbreviation unavailable :: svc_error where
  "unavailable \<equiv> Typed RuntimeUnavailable"

definition attachNetwork :: "driver_env \<Rightarrow> string \<Rightarrow> string \<Rightarrow> unit svc" where
  "attachNetwork env name containerId =
     bindS (callS env (NetConnect name containerId) (is_status [403, 409, 404]) unavailable) (\<lambda>_. retS ())"

definition recreateNetwork :: "driver_env \<Rightarrow> string \<Rightarrow> string list \<Rightarrow> unit svc" where
  "recreateNetwork env name endpoints =
     bindS (forS (\<lambda>c. bindS (callS env (NetDisconnect name c) (is_status [404]) unavailable) (\<lambda>_. retS ())) endpoints) (\<lambda>_.
     bindS (callS env (NetRemove name) (is_status [404]) unavailable) (\<lambda>_. retS ()))"

definition ensureNetworkInternal :: "driver_env \<Rightarrow> string \<Rightarrow> bool \<Rightarrow> unit svc" where
  "ensureNetworkInternal env name internal =
     bindS (askS env (NetInspect name) (network_at env) (is_status [404]) unavailable) (\<lambda>info.
     let wrong = (case info of Some i \<Rightarrow> ni_Internal i \<noteq> internal | None \<Rightarrow> False);
         reattach = (case info of Some i \<Rightarrow> if wrong then ni_Containers i else [] | None \<Rightarrow> []) in
     bindS (if wrong then recreateNetwork env name reattach else retS ()) (\<lambda>_.
     bindS (if info = None \<or> wrong
       then bindS (callS env (NetCreate name internal) (is_status [409]) unavailable) (\<lambda>_. retS ()) else retS ()) (\<lambda>_.
     forS (attachNetwork env name) reattach)))"

definition attachSelfToNetwork :: "driver_env \<Rightarrow> string \<Rightarrow> unit svc" where
  "attachSelfToNetwork env network =
     bindS (callS env (CtrInspect (self_id env)) (is_status [404]) unavailable) (\<lambda>present.
     if present then attachNetwork env network (self_id env) else retS ())"

definition ensureNetworkOnce :: "driver_env \<Rightarrow> RuntimeServiceConfig \<Rightarrow> unit svc" where
  "ensureNetworkOnce env config =
     bindS (ensureNetworkInternal env (rc_privateNetwork config) False) (\<lambda>_.
     bindS (attachSelfToNetwork env (rc_privateNetwork config)) (\<lambda>_.
     (\<lambda>s. (Inr (), s\<lparr>networkEnsured := True\<rparr>))))"

definition ensureNetwork :: "driver_env \<Rightarrow> RuntimeServiceConfig \<Rightarrow> unit svc" where
  "ensureNetwork env config = bindS (getS networkEnsured) (\<lambda>done.
     if done then retS () else ensureNetworkOnce env config)"

section \<open>Containers\<close>

definition now_s :: "driver_env \<Rightarrow> int svc" where
  "now_s env = bindS (now_ms env) (\<lambda>ms. bindS (guardS (0 < ms div 1000) RuntimeUnavailable) (\<lambda>_. retS (ms div 1000)))"

definition inspectByName :: "driver_env \<Rightarrow> string \<Rightarrow> Inspected option svc" where
  "inspectByName env name = askS env (CtrInspect name) (container_at env) (is_status [404]) unavailable"

definition stopAndRemove :: "driver_env \<Rightarrow> Inspected \<Rightarrow> unit svc" where
  "stopAndRemove env container =
     bindS (if ic_Running container then bindS (callS env (CtrStop (ic_Id container)) (is_status [304, 404]) unavailable) (\<lambda>_. retS ())
       else retS ()) (\<lambda>_.
     bindS (callS env (CtrRemove (ic_Id container)) (is_status [404]) unavailable) (\<lambda>_. retS ()))"

definition removeContainerVerified :: "driver_env \<Rightarrow> string \<Rightarrow> ContainerPolicy \<Rightarrow> StagedArtifactRecord \<Rightarrow> unit svc" where
  "removeContainerVerified env name policy artifact = bindS (inspectByName env name) (\<lambda>found.
     case found of None \<Rightarrow> retS ()
     | Some container \<Rightarrow>
       bindS (assertContainerMatchesPolicy container policy artifact) (\<lambda>_.
       bindS (stopAndRemove env container) (\<lambda>_.
       bindS (inspectByName env name) (\<lambda>still. guardS (still = None) RuntimeUnavailable))))"

definition required :: "'a option svc \<Rightarrow> 'a svc" where
  "required m = bindS m (\<lambda>x. case x of Some a \<Rightarrow> retS a | None \<Rightarrow> failS unavailable)"

text \<open>The port of the probe is read back from the first exposed port key.\<close>

definition reconcileContainer ::
  "driver_env \<Rightarrow> RuntimeServiceConfig \<Rightarrow> ContainerPolicy \<Rightarrow> StagedArtifactRecord \<Rightarrow> (string \<Rightarrow> unit svc) \<Rightarrow> string svc" where
  "reconcileContainer env config policy artifact registerBroker =
     bindS (ensureNetwork env config) (\<lambda>_.
     bindS (inspectByName env (cp_runtimeId policy)) (\<lambda>found.
     bindS (case found of Some c \<Rightarrow> retS c
       | None \<Rightarrow> bindS (callS env (CtrCreate (cp_createSpec policy)) never Untyped) (\<lambda>_.
           required (inspectByName env (cp_runtimeId policy)))) (\<lambda>container.
     bindS (assertContainerMatchesPolicy container policy artifact) (\<lambda>_.
     bindS (registerBroker (ic_Id container)) (\<lambda>_.
     bindS (if ic_Running container then retS container
       else bindS (callS env (CtrStart (ic_Id container)) (is_status [304]) unavailable) (\<lambda>_.
           required (inspectByName env (cp_runtimeId policy)))) (\<lambda>running.
     case truthy (map_of (ic_Addresses running) (rc_privateNetwork config)) of
       None \<Rightarrow> failS unavailable
     | Some address \<Rightarrow>
       bindS (callS env (WaitReady address (hd (split_on CHR ''/'' (hd (cs_ExposedPorts (cp_createSpec policy)))))) never unavailable) (\<lambda>_.
       retS (ic_Id running))))))))"

definition resolveStagedArtifact :: "string \<Rightarrow> StagedArtifactRecord svc" where
  "resolveStagedArtifact digest = bindS (resolve_staged digest) (\<lambda>staged.
     case staged of Some a \<Rightarrow> retS a | None \<Rightarrow> failS (Typed ArtifactNotStaged))"

definition brokerContext :: "RuntimeServiceConfig \<Rightarrow> LocalRuntimeBrokerContext" where
  "brokerContext config = \<lparr>bc_clusterId = readPairedClusterId (rc_storedClusterId config) (rc_fallbackClusterId config),
     bc_nodeId = rc_nodeId config, bc_hubOrigin = rc_hubOrigin config, bc_networkName = rc_privateNetwork config\<rparr>"

definition brokerMountFor :: "RuntimeServiceConfig \<Rightarrow> string \<Rightarrow> broker_mount" where
  "brokerMountFor config replicaId = \<lparr>bm_source = rc_brokerRoot config @ ''/'' @ replicaId, bm_target = BROKER_MOUNT_TARGET\<rparr>"

definition brokerCleanup :: "driver_env \<Rightarrow> string \<Rightarrow> unit svc" where
  "brokerCleanup env replicaId = bindS (callS env (BrokerCleanup replicaId) never Untyped) (\<lambda>_. retS ())"

definition brokerPrepare :: "driver_env \<Rightarrow> string \<Rightarrow> broker_mount svc" where
  "brokerPrepare env replicaId = required (askS env (BrokerPrepare replicaId) (mount_at env) never Untyped)"

definition teardownRecorded :: "driver_env \<Rightarrow> RuntimeRecord \<Rightarrow> unit svc" where
  "teardownRecorded env record = bindS (inspectByName env (rr_runtimeId record)) (\<lambda>found.
     bindS (case found of Some container \<Rightarrow> stopAndRemove env container | None \<Rightarrow> retS ()) (\<lambda>_.
     bindS (brokerCleanup env (rr_replicaId record)) (\<lambda>_.
     bindS (case truthy (rr_activeReplicaId record) of Some i \<Rightarrow> brokerCleanup env i | None \<Rightarrow> retS ()) (\<lambda>_.
     (\<lambda>s. (Inr (), s\<lparr>ledger := snd (deleteByRuntimeId (rr_runtimeId record) (ledger s))\<rparr>))))))"

section \<open>ENSURE_READY and STATUS\<close>

definition parseStored :: "units \<Rightarrow> json svc" where
  "parseStored s = (case JSON_parse s of Some v \<Rightarrow> retS v | None \<Rightarrow> failS Untyped)"

definition claim_input :: "abi_lib \<Rightarrow> json \<Rightarrow> StagedArtifactRecord \<Rightarrow> RuntimeServiceConfig \<Rightarrow> int \<Rightarrow> ClaimInput" where
  "claim_input lib request artifact config now = (let runtimeId = computeRuntimeId lib request in
     \<lparr>ci_generationId = jstr request ''generation_id'', ci_installationId = jstr request ''installation_id'',
      ci_generationNumber = \<lfloor>lexeme_value (jnum request ''generation_number'')\<rfloor>, ci_requestHash = canonicalHash lib request,
      ci_requestJson = sortedText lib request, ci_runtimeId = runtimeId, ci_artifactDigest = sa_digest artifact,
      ci_imageManifestDigest = sa_manifestDigest artifact, ci_imageConfigDigest = sa_configDigest artifact,
      ci_containerSpecHash = canonicalHash lib (policyIdentity lib request artifact runtimeId (rc_privateNetwork config)
        (rc_pidsLimit config) None BROKER_MOUNT_TARGET),
      ci_now = now\<rparr>)"

text \<open>\<open>{ ...doc, [field]: canonicalHash(doc) }\<close>, and the supervisor evidence kept beside it.\<close>

definition seal :: "abi_lib \<Rightarrow> string \<Rightarrow> (string \<times> json) list \<Rightarrow> json" where
  "seal lib k ms = obj (ms @ [(k, str (canonicalHash lib (obj ms)))])"

definition ready_members :: "json \<Rightarrow> StagedArtifactRecord \<Rightarrow> ContainerPolicy \<Rightarrow> int \<Rightarrow> (string \<times> json) list" where
  "ready_members request artifact policy readyAt =
     [(''protocol_version'', num 3), (''state'', str ''READY''), (''runtime_id'', str (cp_runtimeId policy))]
     @ affinity_members request
     @ [(''artifact_digest'', str (sa_digest artifact)), (''endpoint'', str (cp_endpoint policy)),
        (''supervisor'', str SUPERVISOR), (''ready_at'', num readyAt)]"

definition supervisor_evidence :: "ContainerPolicy \<Rightarrow> StagedArtifactRecord \<Rightarrow> string \<Rightarrow> (string \<times> json) list \<Rightarrow> json" where
  "supervisor_evidence policy artifact network extra = obj ([(''driver_abi'', str DRIVER_ABI),
     (''container_name'', str (cp_runtimeId policy)), (''container_spec_hash'', str (cp_containerSpecHash policy)),
     (''generation_affinity_hash'', str (cp_affinityHash policy))] @ extra @
     [(''image_manifest_digest'', str (sa_manifestDigest artifact)), (''image_config_digest'', str (sa_configDigest artifact)),
     (''network'', str network), (''restart_policy'', str ''unless-stopped'')])"

definition replaceable :: "RuntimeRecord option \<Rightarrow> string \<Rightarrow> bool" where
  "replaceable prior requestHash = (case prior of
     Some r \<Rightarrow> rr_state r \<in> {CLAIMED, READY} \<and> rr_requestHash r \<noteq> requestHash | None \<Rightarrow> False)"

definition registerProvisioning :: "driver_env \<Rightarrow> McpRuntimeBindingV3 \<Rightarrow> string \<Rightarrow> string \<Rightarrow> unit svc" where
  "registerProvisioning env binding runtimeId dockerContainerId =
     bindS (callS env (BrokerProvision (binding\<lparr>mb_dockerContainerId := dockerContainerId,
       mb_runtimeResourceInventoryHash := None\<rparr>)) never Untyped) (\<lambda>_.
     bindS (now_s env) (\<lambda>now. bindS (ledgerS (recordBrokerRegistered runtimeId now)) (\<lambda>_. retS ())))"

definition provision ::
  "driver_env \<Rightarrow> RuntimeServiceConfig \<Rightarrow> json \<Rightarrow> StagedArtifactRecord \<Rightarrow> RuntimeRecord \<Rightarrow> json svc" where
  "provision env config request artifact record =
     (let lib = abi env; runtimeId = computeRuntimeId lib request; requestHash = canonicalHash lib request in
     bindS (brokerPrepare env (rr_replicaId record)) (\<lambda>brokerMount.
     let binding = buildLocalRuntimeBinding (brokerContext config) request (sa_digest artifact) runtimeId (rr_replicaId record) [] None;
         policy = buildPolicy lib request artifact config None brokerMount binding in
     bindS (reconcileContainer env config policy artifact (registerProvisioning env binding runtimeId)) (\<lambda>containerId.
     bindS (now_s env) (\<lambda>now.
     bindS (ledgerS (recordContainer runtimeId requestHash containerId now)) (\<lambda>_.
     bindS (now_s env) (\<lambda>readyAt.
     let ready = ready_members request artifact policy readyAt;
         evidence = obj [(''schema_version'', num 1), (''ready'', obj ready),
           (''supervisor_evidence'', supervisor_evidence policy artifact (rc_privateNetwork config) [])] in
     bindS (ledgerS (markReady runtimeId requestHash (sortedText lib (seal lib ''driver_evidence_hash'' ready)) (sortedText lib evidence) readyAt)) (\<lambda>marked.
     bindS (parseStored (the (rr_readyResponseJson marked))) (\<lambda>doc. liftE (validateReady lib doc)))))))))"

definition ensureReadyLocked :: "driver_env \<Rightarrow> RuntimeServiceConfig \<Rightarrow> json \<Rightarrow> json svc" where
  "ensureReadyLocked env config request = (let lib = abi env; runtimeId = computeRuntimeId lib request in
     bindS (resolveStagedArtifact (jstr (jat request ''artifact'') ''digest'')) (\<lambda>artifact.
     bindS (getS (\<lambda>s. row (ledger s) runtimeId)) (\<lambda>prior.
     bindS (if replaceable prior (canonicalHash lib request) then teardownRecorded env (the prior) else retS ()) (\<lambda>_.
     bindS (now_s env) (\<lambda>now.
     bindS (randomUUID env) (\<lambda>uuid.
     bindS (ledgerS (claim (claim_input lib request artifact config now) uuid)) (\<lambda>record.
     case rr_readyResponseJson record of
       Some stored \<Rightarrow> bindS (parseStored stored) (\<lambda>doc. liftE (validateReady lib doc))
     | None \<Rightarrow> provision env config request artifact record)))))))"

definition ensureReady :: "driver_env \<Rightarrow> RuntimeServiceConfig \<Rightarrow> json \<Rightarrow> json svc" where
  "ensureReady env config rawRequest =
     bindS (liftE (validateEnsureReady (abi env) rawRequest)) (ensureReadyLocked env config)"

definition status :: "driver_env \<Rightarrow> RuntimeServiceConfig \<Rightarrow> string \<Rightarrow> json svc" where
  "status env config runtimeId =
     bindS (guardS (RUNTIME_ID_RE runtimeId) RuntimeNotFound) (\<lambda>_.
     bindS (getS (\<lambda>s. row (ledger s) runtimeId)) (\<lambda>found.
     case found of None \<Rightarrow> failS (Typed RuntimeNotFound)
     | Some record \<Rightarrow>
       bindS (parseStored (rr_requestJson record)) (\<lambda>doc.
       bindS (liftE (validateEnsureReady (abi env) doc)) (ensureReadyLocked env config))))"

section \<open>ACTIVATE\<close>

text \<open>\<open>JSON.stringify(value)\<close> of a value as it was parsed: members in the order it has them.\<close>

fun renumber :: "(units \<Rightarrow> units) \<Rightarrow> json \<Rightarrow> json" where
  "renumber f (JNum l) = JNum (f l)"
| "renumber f (JArr vs) = JArr (map (renumber f) vs)"
| "renumber f (JObj ms p) = JObj (own_order (map (\<lambda>m. (fst m, renumber f (snd m))) ms)) None"
| "renumber f v = v"

definition JSON_stringify :: "abi_lib \<Rightarrow> json \<Rightarrow> units" where
  "JSON_stringify lib v = stringify (renumber (fmt lib) v)"

definition same_affinity_field :: "abi_lib \<Rightarrow> json \<Rightarrow> json \<Rightarrow> string \<Rightarrow> bool" where
  "same_affinity_field lib a b f =
     (map_option (JSON_stringify lib) (jget a f) = map_option (JSON_stringify lib) (jget b f))"

definition assertActivationAffinity :: "abi_lib \<Rightarrow> json \<Rightarrow> json \<Rightarrow> ContainerPolicy \<Rightarrow> StagedArtifactRecord \<Rightarrow> unit svc" where
  "assertActivationAffinity lib activation request policy artifact = guardS
     (jstr activation ''ensure_ready_request_hash'' = canonicalHash lib request
      \<and> jstr activation ''runtime_id'' = cp_runtimeId policy
      \<and> jstr activation ''artifact_digest'' = sa_digest artifact
      \<and> list_all (same_affinity_field lib activation request) AFFINITY_FIELDS) AffinityConflict"

definition registerActive :: "driver_env \<Rightarrow> McpRuntimeBindingV3 \<Rightarrow> string \<Rightarrow> string \<Rightarrow> unit svc" where
  "registerActive env binding runtimeId dockerContainerId =
     bindS (callS env (BrokerRegister (binding\<lparr>mb_dockerContainerId := dockerContainerId\<rparr>)) never Untyped) (\<lambda>_.
     bindS (now_s env) (\<lambda>now. bindS (ledgerS (recordBrokerRegistered runtimeId now)) (\<lambda>_. retS ())))"

definition activation_input :: "abi_lib \<Rightarrow> json \<Rightarrow> json \<Rightarrow> StagedArtifactRecord \<Rightarrow> RuntimeServiceConfig \<Rightarrow> int \<Rightarrow> ActivationInput" where
  "activation_input lib activation request artifact config now = (let runtimeId = jstr activation ''runtime_id'' in
     \<lparr>ai_runtimeId = runtimeId, ai_requestHash = canonicalHash lib request,
      ai_activationRequestHash = canonicalHash lib activation, ai_activationRequestJson = sortedText lib activation,
      ai_activeContainerSpecHash = canonicalHash lib (policyIdentity lib request artifact runtimeId (rc_privateNetwork config)
        (rc_pidsLimit config) (Some activation) BROKER_MOUNT_TARGET),
      ai_now = now\<rparr>)"

definition active_members :: "json \<Rightarrow> int \<Rightarrow> (string \<times> json) list" where
  "active_members activation activatedAt =
     [(''protocol_version'', num 3), (''state'', str ''ACTIVE'')]
     @ (case activation of JObj ms _ \<Rightarrow> map (\<lambda>(k, v). (s_of k, v))
          (filter (\<lambda>(k, _). k \<noteq> u ''protocol_version'' \<and> k \<noteq> u ''operation'') ms) | _ \<Rightarrow> [])
     @ [(''unsigned_readiness_disabled'', JBool True), (''activated_at'', num activatedAt)]"

text \<open>The container of the claimed activation: swapped in unless it already is the active one.\<close>

definition swap_in ::
  "driver_env \<Rightarrow> RuntimeServiceConfig \<Rightarrow> json \<Rightarrow> json \<Rightarrow> StagedArtifactRecord \<Rightarrow> ContainerPolicy \<Rightarrow> string \<Rightarrow> string \<Rightarrow> (ContainerPolicy \<times> string) svc" where
  "swap_in env config activation request artifact preactivationPolicy replicaId activeReplicaId =
     (let lib = abi env; runtimeId = jstr activation ''runtime_id'' in
     bindS (brokerPrepare env activeReplicaId) (\<lambda>activeBrokerMount.
     let activeBinding = buildLocalRuntimeBinding (brokerContext config) request (sa_digest artifact) runtimeId activeReplicaId [] (Some activation);
         activePolicy = buildPolicy lib request artifact config (Some activation) activeBrokerMount activeBinding in
     bindS (inspectByName env (cp_runtimeId activePolicy)) (\<lambda>current.
     let alreadyActivePhase = (case current of Some c \<Rightarrow> isPolicyMatch c activePolicy artifact | None \<Rightarrow> False) in
     bindS (if alreadyActivePhase then retS ()
       else bindS (removeContainerVerified env (cp_runtimeId preactivationPolicy) preactivationPolicy artifact) (\<lambda>_.
         brokerCleanup env replicaId)) (\<lambda>_.
     bindS (reconcileContainer env config activePolicy artifact (registerActive env activeBinding runtimeId)) (\<lambda>containerId.
     retS (activePolicy, containerId))))))"

definition finish_activation ::
  "driver_env \<Rightarrow> RuntimeServiceConfig \<Rightarrow> json \<Rightarrow> json \<Rightarrow> StagedArtifactRecord \<Rightarrow> ContainerPolicy \<Rightarrow> string \<Rightarrow> json svc" where
  "finish_activation env config activation request artifact activePolicy containerId =
     (let lib = abi env; runtimeId = jstr activation ''runtime_id''; activationHash = canonicalHash lib activation in
     bindS (now_s env) (\<lambda>now.
     bindS (ledgerS (recordContainer runtimeId (canonicalHash lib request) containerId now)) (\<lambda>_.
     bindS (now_s env) (\<lambda>activeReadyAt.
     bindS (ledgerS (recordActiveContainerReady runtimeId activationHash activeReadyAt)) (\<lambda>readyRecord.
     let active = active_members activation (the (rr_activeContainerReadyAt readyRecord));
         evidence = obj [(''schema_version'', num 1), (''active'', obj active),
           (''supervisor_evidence'', supervisor_evidence activePolicy artifact (rc_privateNetwork config)
              [(''activation_request_hash'', str activationHash)])] in
     bindS (now_s env) (\<lambda>markedAt.
     bindS (ledgerS (markActive runtimeId activationHash (sortedText lib (seal lib ''activation_evidence_hash'' active)) (sortedText lib evidence) markedAt)) (\<lambda>marked.
     bindS (parseStored (the (rr_activeResponseJson marked))) (\<lambda>doc. liftE (validateActive lib doc)))))))))"

definition activateLocked :: "driver_env \<Rightarrow> RuntimeServiceConfig \<Rightarrow> json \<Rightarrow> json svc" where
  "activateLocked env config activation = (let lib = abi env; runtimeId = jstr activation ''runtime_id'' in
     bindS (getS (\<lambda>s. row (ledger s) runtimeId)) (\<lambda>found.
     case found of None \<Rightarrow> failS (Typed RuntimeNotFound)
     | Some record \<Rightarrow>
       bindS (parseStored (rr_requestJson record)) (\<lambda>doc.
       bindS (liftE (validateEnsureReady lib doc)) (\<lambda>request.
       bindS (resolveStagedArtifact (jstr (jat request ''artifact'') ''digest'')) (\<lambda>artifact.
       let provisioningBinding = buildLocalRuntimeBinding (brokerContext config) request (sa_digest artifact) runtimeId (rr_replicaId record) [] None;
           preactivationPolicy = buildPolicy lib request artifact config None (brokerMountFor config (rr_replicaId record)) provisioningBinding in
       bindS (assertActivationAffinity lib activation request preactivationPolicy artifact) (\<lambda>_.
       bindS (ensureReadyLocked env config request) (\<lambda>_.
       bindS (now_s env) (\<lambda>now.
       bindS (randomUUID env) (\<lambda>uuid.
       bindS (ledgerS (claimActivation (activation_input lib activation request artifact config now) uuid)) (\<lambda>claimed.
       if rr_state claimed = ACTIVE \<and> rr_activeResponseJson claimed \<noteq> None
       then bindS (parseStored (the (rr_activeResponseJson claimed))) (\<lambda>stored. liftE (validateActive lib stored))
       else bindS (swap_in env config activation request artifact preactivationPolicy (rr_replicaId record) (the (rr_activeReplicaId claimed)))
         (\<lambda>(activePolicy, containerId). finish_activation env config activation request artifact activePolicy containerId)))))))))))"

definition activate :: "driver_env \<Rightarrow> RuntimeServiceConfig \<Rightarrow> json \<Rightarrow> json svc" where
  "activate env config rawRequest =
     bindS (liftE (validateActivate (abi env) rawRequest)) (activateLocked env config)"

section \<open>REMOVE, erasure and rebinding\<close>

definition remove_runtime :: "driver_env \<Rightarrow> json \<Rightarrow> json svc" where
  "remove_runtime env rawRequest = (let lib = abi env in
     bindS (liftE (validateRemove lib rawRequest)) (\<lambda>request.
     let runtimeId = jstr request ''runtime_id'' in
     bindS (getS (\<lambda>s. row (ledger s) runtimeId)) (\<lambda>found.
     bindS (case found of None \<Rightarrow> retS ()
       | Some record \<Rightarrow>
         bindS (guardS (rr_artifactDigest record = jstr request ''artifact_digest'') AffinityConflict) (\<lambda>_.
         bindS (parseStored (rr_requestJson record)) (\<lambda>doc.
         bindS (liftE (validateEnsureReady lib doc)) (\<lambda>persisted.
         bindS (guardS (JSON_stringify lib (affinityFromRequest persisted) = JSON_stringify lib (affinityFromRequest request)) AffinityConflict) (\<lambda>_.
         teardownRecorded env record))))) (\<lambda>_.
     bindS (inspectByName env runtimeId) (\<lambda>still.
     bindS (guardS (still = None) RuntimeUnavailable) (\<lambda>_.
     bindS (getS (\<lambda>s. row (ledger s) runtimeId)) (\<lambda>row'.
     bindS (guardS (row' = None) RuntimeUnavailable) (\<lambda>_.
     bindS (now_s env) (\<lambda>checkedAt.
     liftE (validateAbsent lib (seal lib ''removal_evidence_hash''
       ([(''protocol_version'', num 3), (''state'', str ''ABSENT'')] @ affinity_members request
        @ [(''runtime_id'', jat request ''runtime_id''), (''artifact_digest'', jat request ''artifact_digest''),
           (''checked_at'', num checkedAt)]))))))))))))"

definition removeArtifact :: "driver_env \<Rightarrow> string \<Rightarrow> bool svc" where
  "removeArtifact env digest = bindS (getS (\<lambda>s. listRecords (ledger s))) (\<lambda>records.
     bindS (forS (\<lambda>record. bindS (getS (\<lambda>s. row (ledger s) (rr_runtimeId record))) (\<lambda>current.
         case current of
           Some r \<Rightarrow> if rr_activationRequestHash r = None then teardownRecorded env r else retS ()
         | None \<Rightarrow> retS ()))
       (filter (\<lambda>r. rr_artifactDigest r = digest \<and> rr_activationRequestHash r = None) records)) (\<lambda>_.
     remove_artifact env digest))"

definition prepare_and_register :: "driver_env \<Rightarrow> string \<Rightarrow> McpRuntimeBindingV3 \<Rightarrow> bool svc" where
  "prepare_and_register env replicaId binding =
     bindS (callS env (BrokerPrepare replicaId) (\<lambda>f. f = BindingConflict) Untyped) (\<lambda>prepared.
     if \<not> prepared then retS False
     else callS env (BrokerRegister binding) (\<lambda>f. f = BindingConflict) Untyped)"

definition rebindOneActiveRuntime :: "driver_env \<Rightarrow> RuntimeServiceConfig \<Rightarrow> RuntimeRecord \<Rightarrow> unit svc" where
  "rebindOneActiveRuntime env config record = (let lib = abi env in
     case (truthy (rr_activeReplicaId record), truthy (rr_containerId record), rr_activationRequestJson record) of
       (Some activeReplicaId, Some containerId, Some activationJson) \<Rightarrow>
         bindS (parseStored (rr_requestJson record)) (\<lambda>doc.
         bindS (liftE (validateEnsureReady lib doc)) (\<lambda>request.
         bindS (parseStored activationJson) (\<lambda>act.
         bindS (liftE (validateActivate lib act)) (\<lambda>activation.
         bindS (resolveStagedArtifact (jstr (jat request ''artifact'') ''digest'')) (\<lambda>artifact.
         let binding = buildLocalRuntimeBinding (brokerContext config) request (sa_digest artifact) (rr_runtimeId record)
               activeReplicaId containerId (Some activation) in
         bindS (prepare_and_register env activeReplicaId binding) (\<lambda>registered.
         bindS (if registered then retS ()
           else bindS (brokerCleanup env activeReplicaId) (\<lambda>_.
             bindS (callS env (BrokerPrepare activeReplicaId) never Untyped) (\<lambda>_.
             bindS (callS env (BrokerRegister binding) never Untyped) (\<lambda>_. retS ())))) (\<lambda>_.
         bindS (now_s env) (\<lambda>now.
         bindS (ledgerS (recordBrokerRegistered (rr_runtimeId record) now)) (\<lambda>_.
         bindS (callS env (CtrRestart containerId) (is_status [404]) unavailable) (\<lambda>_. retS ()))))))))))
     | _ \<Rightarrow> failS unavailable)"

text \<open>A record that fails is counted and the next one is tried.\<close>

fun rebind_loop :: "driver_env \<Rightarrow> RuntimeServiceConfig \<Rightarrow> RuntimeRecord list \<Rightarrow> nat \<times> nat \<Rightarrow> (nat \<times> nat) svc" where
  "rebind_loop env config [] n s = (Inr n, s)"
| "rebind_loop env config (r # rs) n s = (case rebindOneActiveRuntime env config r s of
     (Inl _, s') \<Rightarrow> rebind_loop env config rs (fst n, snd n + 1) s'
   | (Inr _, s') \<Rightarrow> rebind_loop env config rs (fst n + 1, snd n) s')"

definition sweepOrphanBrokerDirectories :: "driver_env \<Rightarrow> unit svc" where
  "sweepOrphanBrokerDirectories env =
     bindS (getS (\<lambda>s. listKnownReplicaIds (ledger s))) (\<lambda>known.
     bindS (askS env CtrListReplicas (replicas_at env) never Untyped) (\<lambda>labelled.
     bindS (askS env BrokerReaddir (entries_at env) (is_status [404]) unavailable) (\<lambda>entries.
     case entries of None \<Rightarrow> retS ()
     | Some es \<Rightarrow> forS (\<lambda>e. bindS (callS env (BrokerCleanup e) (\<lambda>_. True) Untyped) (\<lambda>_. retS ()))
         (filter (\<lambda>e. e \<notin> set known \<and> e \<notin> set (filter (\<lambda>x. x \<noteq> []) (the labelled))) es))))"

definition rebindActiveRuntimes :: "driver_env \<Rightarrow> RuntimeServiceConfig \<Rightarrow> (nat \<times> nat) svc" where
  "rebindActiveRuntimes env config =
     bindS (ensureNetwork env config) (\<lambda>_.
     bindS (getS (\<lambda>s. listActiveRecords (ledger s))) (\<lambda>records.
     bindS (rebind_loop env config records (0, 0)) (\<lambda>n.
     bindS (sweepOrphanBrokerDirectories env) (\<lambda>_. retS n))))"

end
