(* ===== verification/Runtime_Safety.thy ===== *)
theory Runtime_Safety
  imports Runtime_Service
begin

text \<open>
  What holds of every method of the local-runtime driver: the containers it creates and starts, and
  its effect on the ledger.
\<close>

section \<open>Containers\<close>

text \<open>The hardening the driver promises, of the specification it creates a container from.\<close>

definition hardened :: "RuntimeServiceConfig \<Rightarrow> CreateSpec \<Rightarrow> bool" where
  "hardened config c \<longleftrightarrow> cs_CapAdd c = [] \<and> cs_CapDrop c = [''ALL''] \<and> \<not> cs_Privileged c \<and> cs_ReadonlyRootfs c
     \<and> cs_PortBindings c = [] \<and> \<not> cs_PublishAllPorts c \<and> cs_Binds c = [] \<and> cs_SecurityOpt c = [''no-new-privileges:true'']
     \<and> cs_NetworkMode c = rc_privateNetwork config \<and> cs_PidsLimit c = rc_pidsLimit config \<and> cs_MemorySwap c = cs_Memory c
     \<and> map snd (cs_Mounts c) = [True] \<and> hd (split_on CHR '':'' (cs_User c)) \<notin> set ['''', ''root'', ''0'']"

text \<open>The same, as far as an inspection shows it.\<close>

definition confined :: "RuntimeServiceConfig \<Rightarrow> Inspected \<Rightarrow> bool" where
  "confined config c \<longleftrightarrow> ic_NetworkMode c = Some (rc_privateNetwork config) \<and> ic_ReadonlyRootfs c
     \<and> ic_PortBindings c = [] \<and> ic_Binds c = [] \<and> map im_RW (ic_Mounts c) = [Some False]"

text \<open>The calls before a start: an inspection that showed it confined, then its broker registration.\<close>

definition registers :: "call \<Rightarrow> string \<Rightarrow> bool" where
  "registers c i = (case c of BrokerRegister b \<Rightarrow> mb_dockerContainerId b = i
     | BrokerProvision b \<Rightarrow> mb_dockerContainerId b = i | _ \<Rightarrow> False)"

definition start_allowed :: "driver_env \<Rightarrow> RuntimeServiceConfig \<Rightarrow> call list \<Rightarrow> string \<Rightarrow> bool" where
  "start_allowed env config before i \<longleftrightarrow> (\<exists>pre name reg. before = pre @ [CtrInspect name, reg]
     \<and> fails env pre (CtrInspect name) = None \<and> ic_Id (container_at env (pre @ [CtrInspect name])) = i
     \<and> confined config (container_at env (pre @ [CtrInspect name])) \<and> registers reg i)"

definition call_allowed :: "driver_env \<Rightarrow> RuntimeServiceConfig \<Rightarrow> call list \<Rightarrow> call \<Rightarrow> bool" where
  "call_allowed env config before c = (case c of CtrCreate spec \<Rightarrow> hardened config spec
     | CtrStart i \<Rightarrow> start_allowed env config before i | _ \<Rightarrow> True)"

fun safe_calls :: "driver_env \<Rightarrow> RuntimeServiceConfig \<Rightarrow> call list \<Rightarrow> call list \<Rightarrow> bool" where
  "safe_calls env config before [] = True"
| "safe_calls env config before (c # cs) = (call_allowed env config before c \<and> safe_calls env config (before @ [c]) cs)"

definition safe_run :: "driver_env \<Rightarrow> RuntimeServiceConfig \<Rightarrow> driver_state \<Rightarrow> driver_state \<Rightarrow> bool" where
  "safe_run env config s s' \<longleftrightarrow> (\<exists>new. calls s' = calls s @ new \<and> safe_calls env config (calls s) new)"

lemma safe_calls_append:
  "safe_calls env config before (xs @ ys) \<longleftrightarrow> safe_calls env config before xs \<and> safe_calls env config (before @ xs) ys"
  by (induction xs arbitrary: before) auto

interpretation safe: svc_rel "safe_run env config" for env config
proof
  show "safe_run env config s s" for s by (auto simp: safe_run_def intro!: exI [of _ "[]"])
  show "safe_run env config s v" if "safe_run env config s t" "safe_run env config t v" for s t v
  proof -
    from that obtain a b where "calls t = calls s @ a" "safe_calls env config (calls s) a"
      "calls v = calls t @ b" "safe_calls env config (calls t) b" unfolding safe_run_def by blast
    then show ?thesis unfolding safe_run_def by (intro exI [of _ "a @ b"]) (simp add: safe_calls_append)
  qed
qed

lemma safe_same: "calls s' = calls s \<Longrightarrow> safe_run env config s s'"
  unfolding safe_run_def by (intro exI [of _ "[]"]) simp

lemma safe_snoc: "call_allowed env config (calls s) c \<Longrightarrow> safe_run env config s (s\<lparr>calls := calls s @ [c]\<rparr>)"
  unfolding safe_run_def by (intro exI [of _ "[c]"]) simp

lemma safe_call:
  assumes "\<And>before. call_allowed env config before c"
  shows "safe.keeps env config (callS env c ok e)" "safe.keeps env config (askS env c answer ok e)"
  using safe_snoc [OF assms] by (auto simp: safe.keeps_when_def callS_def askS_def Let_def split: option.splits if_splits)

lemma safe_ledger: "safe.keeps env config (ledgerS op)" "safe.keeps env config (writeIndex ix)"
  "safe.keeps env config (\<lambda>s. (Inr a, s\<lparr>ledger := f s\<rparr>))" "safe.keeps env config (\<lambda>s. (Inr a, s\<lparr>networkEnsured := b\<rparr>))"
  by (auto simp: safe.keeps_when_def ledgerS_def writeIndex_def intro!: safe_same split: sum.splits ledger_error.splits prod.splits)

lemma call_allowed_simps [simp]:
  "(\<forall>spec. c \<noteq> CtrCreate spec) \<Longrightarrow> (\<forall>i. c \<noteq> CtrStart i) \<Longrightarrow> call_allowed env config before c"
  by (cases c) (simp_all add: call_allowed_def)

lemmas safe_intros = safe.keeps_bind safe.keeps_pure safe.keeps_for safe.keeps_if safe.keeps_option safe.keeps_prod safe_ledger
  safe_call [OF call_allowed_simps]

lemma safe_steps:
  "safe.keeps env config (now_s env)" "safe.keeps env config (now_ms env)" "safe.keeps env config (randomUUID env)"
  "safe.keeps env config (inspectByName env name)" "safe.keeps env config (attachNetwork env name c)"
  "safe.keeps env config (stopAndRemove env container)" "safe.keeps env config (brokerCleanup env i)"
  "safe.keeps env config (brokerPrepare env i)" "safe.keeps env config (parseStored t)"
  "safe.keeps env config (resolve_staged d)" "safe.keeps env config (store_now env)" "safe.keeps env config (inspectImage env d)"
  by (auto simp: now_s_def now_ms_def randomUUID_def inspectByName_def attachNetwork_def stopAndRemove_def brokerCleanup_def
      brokerPrepare_def required_def parseStored_def resolve_staged_def store_now_def inspectImage_def intro!: safe_intros)

lemma safe_helpers:
  "safe.keeps env config (ensureNetwork env config')" "safe.keeps env config (resolveStagedArtifact d)"
  "safe.keeps env config (removeContainerVerified env name policy artifact)" "safe.keeps env config (teardownRecorded env record)"
  "safe.keeps env config (remove_artifact env d)"
  by (auto simp: ensureNetwork_def ensureNetworkOnce_def ensureNetworkInternal_def recreateNetwork_def attachSelfToNetwork_def
      resolveStagedArtifact_def removeContainerVerified_def assertContainerMatchesPolicy_def teardownRecorded_def
      remove_artifact_def Let_def intro!: safe_intros safe_steps)

section \<open>Starting a container\<close>

text \<open>The container is the answer to the last call, a successful inspection.\<close>

definition seen :: "driver_env \<Rightarrow> Inspected \<Rightarrow> driver_state \<Rightarrow> bool" where
  "seen env c s \<longleftrightarrow> (\<exists>pre name. calls s = pre @ [CtrInspect name] \<and> fails env pre (CtrInspect name) = None
     \<and> c = container_at env (pre @ [CtrInspect name]))"

lemma inspect_seen: "inspectByName env name s = (Inr (Some c), s') \<Longrightarrow> seen env c s'"
  by (auto simp: inspectByName_def askS_def Let_def seen_def split: option.splits if_splits)

lemma required_inspect_seen: "required (inspectByName env name) s = (Inr c, s') \<Longrightarrow> seen env c s'"
  by (auto simp: required_def bindS_Inr svc_simps intro: inspect_seen split: option.splits)

definition registering :: "(string \<Rightarrow> unit svc) \<Rightarrow> bool" where
  "registering R \<longleftrightarrow> (\<forall>i s r s'. R i s = (r, s') \<longrightarrow> (\<exists>reg. calls s' = calls s @ [reg] \<and> registers reg i))"

lemma now_s_calls: "now_s env s = (r, s') \<Longrightarrow> s' = s"
  by (auto simp: now_s_def now_ms_def bindS_def svc_simps split: if_splits)

lemma ledgerS_calls: "ledgerS op s = (r, s') \<Longrightarrow> calls s' = calls s"
  by (auto simp: ledgerS_def split: sum.splits ledger_error.splits prod.splits)

lemma registering_broker:
  "registering (registerProvisioning env b i)" "registering (registerActive env b i)"
  by (auto simp: registering_def registerProvisioning_def registerActive_def bindS_cases callS_def Let_def svc_simps registers_def
      dest!: now_s_calls ledgerS_calls split: option.splits if_splits)

lemma match_confined: "isPolicyMatch c policy artifact \<Longrightarrow> hardened config (cp_createSpec policy) \<Longrightarrow> confined config c"
  by (simp add: isPolicyMatch_def Let_def hardened_def confined_def)

lemma registering_safe: "registering R \<Longrightarrow> safe.keeps env config (R i)"
proof (rule safe.keepsI)
  fix s r s'
  assume "registering R" "R i s = (r, s')"
  then obtain reg where "calls s' = calls s @ [reg]" "registers reg i" unfolding registering_def by blast
  then show "safe_run env config s s'"
    unfolding safe_run_def by (intro exI [of _ "[reg]"]) (auto simp: call_allowed_def registers_def split: call.splits)
qed

lemma start_safe:
  "safe.keeps_when env config (\<lambda>s. start_allowed env config (calls s) i) (callS env (CtrStart i) ok e)"
  unfolding safe.keeps_when_def
  by (auto simp: callS_def Let_def call_allowed_def intro!: safe_snoc split: option.splits if_splits)

lemma register_start:
  assumes "registering R" "seen env c s" "confined config c" "R (ic_Id c) s = (r, s')"
  shows "start_allowed env config (calls s') (ic_Id c)"
  using assms unfolding registering_def seen_def start_allowed_def by (metis append.assoc append_Cons append_Nil)

lemma create_safe: "hardened config spec \<Longrightarrow> safe.keeps env config (callS env (CtrCreate spec) ok e)"
  by (rule safe_call(1)) (simp add: call_allowed_def)

lemma assert_keeps_seen: "assertContainerMatchesPolicy c policy artifact s = (Inr x, s') \<Longrightarrow> s' = s \<and> isPolicyMatch c policy artifact"
  by (auto simp: assertContainerMatchesPolicy_def svc_simps split: if_splits)

lemma start_step_safe:
  assumes "registering R" "hardened config (cp_createSpec policy)" "\<And>c'. safe.keeps env config (rest c')"
  shows "safe.keeps_when env config (seen env c) (bindS (assertContainerMatchesPolicy c policy artifact) (\<lambda>_.
     bindS (R (ic_Id c)) (\<lambda>_.
     bindS (if ic_Running c then retS c
       else bindS (callS env (CtrStart (ic_Id c)) ok e) (\<lambda>_. required (inspectByName env name))) rest)))"
proof (rule safe.keeps_bind_when)
  show "safe.keeps_when env config (seen env c) (assertContainerMatchesPolicy c policy artifact)"
    by (rule safe.keeps_weaken) (auto simp: assertContainerMatchesPolicy_def)
  show "\<And>s a s1. seen env c s \<Longrightarrow> assertContainerMatchesPolicy c policy artifact s = (Inr a, s1) \<Longrightarrow>
      seen env c s1 \<and> isPolicyMatch c policy artifact"
    using assert_keeps_seen by blast
  have start: "safe.keeps_when env config (\<lambda>s. start_allowed env config (calls s) (ic_Id c))
      (bindS (if ic_Running c then retS c
        else bindS (callS env (CtrStart (ic_Id c)) ok e) (\<lambda>_. required (inspectByName env name))) rest)"
    by (rule safe.keeps_bind_when [where Q = "\<lambda>_ _. True"])
      (auto simp: required_def intro!: assms(3) safe.keeps_weaken [OF safe.keeps_pure(1)] safe.keeps_bind_when [where Q = "\<lambda>_ _. True", OF start_safe] safe_intros safe_steps)
  show "safe.keeps_when env config (\<lambda>s. seen env c s \<and> isPolicyMatch c policy artifact) (bindS (R (ic_Id c)) (\<lambda>_.
      bindS (if ic_Running c then retS c
        else bindS (callS env (CtrStart (ic_Id c)) ok e) (\<lambda>_. required (inspectByName env name))) rest))"
    by (rule safe.keeps_bind_when [OF safe.keeps_weaken [OF registering_safe [OF assms(1)]] _ start])
      (use register_start [OF assms(1)] match_confined [OF _ assms(2)] in blast)
qed

lemma reconcile_safe:
  assumes "registering R" "hardened config (cp_createSpec policy)"
  shows "safe.keeps env config (reconcileContainer env config policy artifact R)"
proof -
  let ?get = "\<lambda>found. case found of Some c \<Rightarrow> retS c
       | None \<Rightarrow> bindS (callS env (CtrCreate (cp_createSpec policy)) never Untyped) (\<lambda>_. required (inspectByName env (cp_runtimeId policy)))"
  have get: "safe.keeps_when env config (\<lambda>s. case found of Some c \<Rightarrow> seen env c s | None \<Rightarrow> True) (?get found)" for found
    by (cases found) (auto simp: required_def intro!: safe.keeps_weaken [OF safe.keeps_pure(1)] safe_intros create_safe assms(2) safe_steps)
  have got: "?get found s = (Inr c, s1) \<Longrightarrow> (case found of Some c \<Rightarrow> seen env c s | None \<Rightarrow> True) \<Longrightarrow> seen env c s1" for found s c s1
    by (cases found) (auto simp: svc_simps bindS_Inr intro: required_inspect_seen)
  have found: "inspectByName env name s = (Inr f, s1) \<Longrightarrow> (case f of Some c \<Rightarrow> seen env c s1 | None \<Rightarrow> True)" for name s f s1
    by (auto intro: inspect_seen split: option.split)
  show ?thesis
    unfolding reconcileContainer_def
    by (rule safe.keeps_bind [OF safe_helpers(1)], rule safe.keeps_bind_when [OF safe_steps(4)], erule found,
        rule safe.keeps_bind_when [OF get], erule got, assumption, rule start_step_safe [OF assms])
      (auto intro!: safe_intros)
qed

lemma containerUser_not_root: "hd (split_on CHR '':'' (containerUser artifact)) \<notin> set ['''', ''root'', ''0'']"
  by (auto simp: containerUser_def FALLBACK_USER_def split: option.split)

lemma policy_hardened: "hardened config (cp_createSpec (buildPolicy lib request artifact config activation mount binding))"
  using containerUser_not_root [of artifact]
  by (simp add: hardened_def buildPolicy_def create_spec_def Let_def)

lemma provision_safe: "safe.keeps env config (provision env config request artifact record)"
  unfolding provision_def Let_def
  by (intro safe_intros safe_steps reconcile_safe registering_broker policy_hardened)

lemma ensureReadyLocked_safe: "safe.keeps env config (ensureReadyLocked env config request)"
  unfolding ensureReadyLocked_def Let_def
  by (intro safe_intros safe_steps safe_helpers provision_safe)

lemma ensureReady_safe: "safe.keeps env config (ensureReady env config request)"
  unfolding ensureReady_def by (intro safe_intros ensureReadyLocked_safe)

lemma status_safe: "safe.keeps env config (status env config i)"
  unfolding status_def by (intro safe_intros safe_steps ensureReadyLocked_safe)

lemma activate_safe: "safe.keeps env config (activate env config request)"
  unfolding activate_def activateLocked_def Let_def assertActivationAffinity_def swap_in_def finish_activation_def
  by (intro safe_intros safe_steps safe_helpers ensureReadyLocked_safe reconcile_safe registering_broker policy_hardened)

lemma remove_safe: "safe.keeps env config (remove_runtime env request)"
  unfolding remove_runtime_def Let_def by (intro safe_intros safe_steps safe_helpers)

lemma removeArtifact_safe: "safe.keeps env config (removeArtifact env digest)"
  unfolding removeArtifact_def by (intro safe_intros safe_steps safe_helpers)

lemma sweep_safe: "safe.keeps env config (sweepOrphanBrokerDirectories env)"
  unfolding sweepOrphanBrokerDirectories_def
  by (intro safe_intros safe_steps) auto

lemma rebind_one_safe: "safe.keeps env config (rebindOneActiveRuntime env config record)"
  unfolding rebindOneActiveRuntime_def Let_def prepare_and_register_def prod.case
  by (intro safe_intros safe_steps safe_helpers) auto

lemma rebind_loop_keeps:
  assumes "\<And>s s' s'' . rel s s' \<Longrightarrow> rel s' s'' \<Longrightarrow> rel s s''" "\<And>s. rel s s"
    and "\<And>record s r s'. rebindOneActiveRuntime env config record s = (r, s') \<Longrightarrow> rel s s'"
  shows "rebind_loop env config rs n s = (r, s') \<Longrightarrow> rel s s'"
proof (induction rs arbitrary: n s)
  case (Cons x rs)
  obtain q s1 where q: "rebindOneActiveRuntime env config x s = (q, s1)" by force
  with Cons have "rel s1 s'" by (auto split: sum.splits)
  with assms q show ?case by blast
qed (use assms in auto)

lemma rebind_safe: "safe.keeps env config (rebindActiveRuntimes env config)"
proof -
  have "safe.keeps env config (rebind_loop env config rs n)" for rs n
    by (rule safe.keepsI, erule rebind_loop_keeps [where rel = "safe_run env config", rotated 3])
      (auto intro: safe.rel_trans safe.rel_refl safe.keepsD [OF rebind_one_safe])
  then show ?thesis unfolding rebindActiveRuntimes_def by (intro safe_intros safe_helpers sweep_safe)
qed

lemma stage_safe: "safe.keeps env config (stage env path sha256 bytes)"
  unfolding stage_def assertFreeSpace_def loadAndProveContentAddress_def proveContentAddress_def Let_def
  by (intro safe_intros safe_steps) (auto intro!: safe_intros safe_steps)

section \<open>Runs of the driver\<close>

datatype driver_op = EnsureReady json | StatusOf string | Activate json | Remove json
  | Stage string string nat | Erase string | Rebind

definition apply_driver_op :: "driver_env \<Rightarrow> RuntimeServiceConfig \<Rightarrow> driver_op \<Rightarrow> driver_state \<Rightarrow> driver_state" where
  "apply_driver_op env config op s = (case op of
     EnsureReady r \<Rightarrow> snd (ensureReady env config r s)
   | StatusOf i \<Rightarrow> snd (status env config i s)
   | Activate r \<Rightarrow> snd (activate env config r s)
   | Remove r \<Rightarrow> snd (remove_runtime env r s)
   | Stage p h n \<Rightarrow> snd (stage env p h n s)
   | Erase d \<Rightarrow> snd (removeArtifact env d s)
   | Rebind \<Rightarrow> snd (rebindActiveRuntimes env config s))"

lemma apply_safe: "safe_run env config s (apply_driver_op env config op s)"
  unfolding apply_driver_op_def
  by (cases op) (simp_all add: safe.keeps_snd ensureReady_safe status_safe activate_safe remove_safe stage_safe
      removeArtifact_safe rebind_safe)


section \<open>The ledger under the driver\<close>

text \<open>Whether deletes may be among the methods is the flag.\<close>

definition ledger_run :: "bool \<Rightarrow> driver_state \<Rightarrow> driver_state \<Rightarrow> bool" where
  "ledger_run deletes s s' \<longleftrightarrow>
     (\<exists>ops. ledger s' = fold apply_op ops (ledger s) \<and> list_all (\<lambda>op. deletes \<or> \<not> is_delete op) ops)"

interpretation logged: svc_rel "ledger_run dl" for dl
proof
  show "ledger_run dl s s" for s unfolding ledger_run_def by (intro exI [of _ "[]"]) simp
  show "ledger_run dl s v" if "ledger_run dl s t" "ledger_run dl t v" for s t v
  proof -
    from that obtain a b where "ledger t = fold apply_op a (ledger s)" "ledger v = fold apply_op b (ledger t)"
      "list_all (\<lambda>op. dl \<or> \<not> is_delete op) (a @ b)" unfolding ledger_run_def by auto
    then show ?thesis unfolding ledger_run_def by (intro exI [of _ "a @ b"]) simp
  qed
qed

lemma logged_op: "ledger s' = apply_op op (ledger s) \<Longrightarrow> dl \<or> \<not> is_delete op \<Longrightarrow> ledger_run dl s s'"
  unfolding ledger_run_def by (intro exI [of _ "[op]"]) simp

lemma logged_ledgerS:
  assumes "\<And>st. after_op st (m st) = apply_op op st" and "\<not> is_delete op"
  shows "logged.keeps dl (ledgerS m)"
proof (rule logged.keepsI)
  fix s r s'
  assume "ledgerS m s = (r, s')"
  then have "ledger s' = after_op (ledger s) (m (ledger s))"
    by (auto simp: ledgerS_def after_op_def split: sum.splits ledger_error.splits prod.splits)
  then show "ledger_run dl s s'" using assms logged_op by metis
qed

lemma logged_methods:
  "logged.keeps dl (ledgerS (claim inp uuid))" "logged.keeps dl (ledgerS (recordContainer i h c n))"
  "logged.keeps dl (ledgerS (markReady i h a b n))" "logged.keeps dl (ledgerS (claimActivation act uuid))"
  "logged.keeps dl (ledgerS (recordBrokerRegistered i n))" "logged.keeps dl (ledgerS (recordActiveContainerReady i h n))"
  "logged.keeps dl (ledgerS (markActive i h a b n))"
  "logged.keeps True (\<lambda>s. (Inr x, s\<lparr>ledger := snd (deleteByRuntimeId i (ledger s))\<rparr>))"
  by (rule logged_ledgerS [of _ "Claim inp uuid"] logged_ledgerS [of _ "RecordContainer i h c n"]
      logged_ledgerS [of _ "MarkReady i h a b n"] logged_ledgerS [of _ "ClaimActivation act uuid"]
      logged_ledgerS [of _ "BrokerRegistered i n"] logged_ledgerS [of _ "ContainerReady i h n"]
      logged_ledgerS [of _ "MarkActive i h a b n"], simp, simp add: is_delete_def)+
    (rule logged.keepsI, rule logged_op [of _ "Delete i"], auto)

lemma logged_same: "(\<And>s. ledger (snd (m s)) = ledger s) \<Longrightarrow> logged.keeps dl m"
  by (rule logged.keepsI, unfold ledger_run_def, rule exI [of _ "[]"]) (metis fold_simps(1) snd_conv list.pred_inject(1))

lemma logged_calls:
  "logged.keeps dl (callS env c ok e)" "logged.keeps dl (askS env c answer ok e)" "logged.keeps dl (writeIndex ix)"
  "logged.keeps dl (\<lambda>s. (Inr x, s\<lparr>networkEnsured := b\<rparr>))"
  by (rule logged_same, simp add: callS_def askS_def writeIndex_def Let_def split: option.split)+

lemmas logged_intros = logged.keeps_bind logged.keeps_pure logged.keeps_for logged.keeps_if logged.keeps_option logged.keeps_prod
  logged_calls logged_methods

lemma logged_steps:
  "logged.keeps dl (now_s env)" "logged.keeps dl (now_ms env)" "logged.keeps dl (randomUUID env)"
  "logged.keeps dl (inspectByName env name)" "logged.keeps dl (attachNetwork env name c)"
  "logged.keeps dl (stopAndRemove env container)" "logged.keeps dl (brokerCleanup env i)"
  "logged.keeps dl (brokerPrepare env i)" "logged.keeps dl (parseStored t)"
  "logged.keeps dl (resolve_staged d)" "logged.keeps dl (store_now env)" "logged.keeps dl (inspectImage env d)"
  by (auto simp: now_s_def now_ms_def randomUUID_def inspectByName_def attachNetwork_def stopAndRemove_def brokerCleanup_def
      brokerPrepare_def required_def parseStored_def resolve_staged_def store_now_def inspectImage_def intro!: logged_intros)

lemma logged_helpers:
  "logged.keeps dl (ensureNetwork env config)" "logged.keeps dl (resolveStagedArtifact d)"
  "logged.keeps dl (removeContainerVerified env name policy artifact)" "logged.keeps True (teardownRecorded env record)"
  "logged.keeps dl (remove_artifact env d)" "logged.keeps dl (registerProvisioning env b i j)" "logged.keeps dl (registerActive env b i j)"
  by (auto simp: ensureNetwork_def ensureNetworkOnce_def ensureNetworkInternal_def recreateNetwork_def attachSelfToNetwork_def
      resolveStagedArtifact_def removeContainerVerified_def assertContainerMatchesPolicy_def teardownRecorded_def
      remove_artifact_def registerProvisioning_def registerActive_def Let_def intro!: logged_intros logged_steps)

lemma logged_reconcile: "(\<And>i. logged.keeps dl (R i)) \<Longrightarrow> logged.keeps dl (reconcileContainer env config policy artifact R)"
  unfolding reconcileContainer_def assertContainerMatchesPolicy_def required_def
  by (intro logged_intros logged_steps logged_helpers)

lemma logged_provision: "logged.keeps dl (provision env config request artifact record)"
  unfolding provision_def Let_def by (intro logged_intros logged_steps logged_helpers logged_reconcile)

lemma logged_ensure: "logged.keeps True (ensureReadyLocked env config request)"
  unfolding ensureReadyLocked_def Let_def
  by (intro logged_intros logged_steps logged_helpers logged_provision)

lemma logged_activate: "logged.keeps True (activate env config request)"
  unfolding activate_def activateLocked_def Let_def assertActivationAffinity_def swap_in_def finish_activation_def
  by (intro logged_intros logged_steps logged_helpers logged_ensure logged_reconcile)

lemma logged_rebind: "logged.keeps True (rebindActiveRuntimes env config)"
proof -
  have one: "logged.keeps True (rebindOneActiveRuntime env config rc)" for rc
    unfolding rebindOneActiveRuntime_def Let_def prepare_and_register_def prod.case
    by (intro logged_intros logged_steps logged_helpers)
  have "logged.keeps True (rebind_loop env config rs n)" for rs n
    by (rule logged.keepsI, erule rebind_loop_keeps [where rel = "ledger_run True", rotated 3])
      (auto intro: logged.rel_trans logged.rel_refl logged.keepsD [OF one])
  then show ?thesis unfolding rebindActiveRuntimes_def sweepOrphanBrokerDirectories_def
    by (intro logged_intros logged_helpers)
qed

lemma logged_apply: "ledger_run True s (apply_driver_op env config op s)"
proof -
  have "logged.keeps True (ensureReady env config r)" "logged.keeps True (status env config i)" "logged.keeps True (remove_runtime env r)"
    "logged.keeps True (stage env p h n)" "logged.keeps True (removeArtifact env d)" for r i p h n d
    unfolding ensureReady_def status_def remove_runtime_def Let_def stage_def assertFreeSpace_def loadAndProveContentAddress_def
      proveContentAddress_def removeArtifact_def
    by (intro logged_intros logged_steps logged_helpers logged_ensure)+
  then show ?thesis unfolding apply_driver_op_def
    by (cases op) (simp_all add: logged.keeps_snd logged_activate logged_rebind)
qed


end
