(* ===== verification/Runtime_Evidence.thy ===== *)
theory Runtime_Evidence
  imports Runtime_Safety
begin

text \<open>
  The evidence documents of the local-runtime driver: what it seals, stores as text and reads back
  passes its own validation, and an answered ENSURE_READY is answered the same ever after.
\<close>

section \<open>Canonical form\<close>

text \<open>
  What Node documents of printing a finite number: the text is a JSON number, and printing the
  number it reads as gives the same text.
\<close>

definition number_format :: "(units \<Rightarrow> units) \<Rightarrow> bool" where
  "number_format f \<longleftrightarrow> (\<forall>l. valid_lexeme l \<longrightarrow> valid_lexeme (f l) \<and> f (f l) = f l)"

definition canon_members :: "(units \<Rightarrow> units) \<Rightarrow> (units \<times> json) list \<Rightarrow> (units \<times> json) list" where
  "canon_members f ms = own_order (sort_key fst (map (\<lambda>m. (fst m, sortCanonical f (snd m))) ms))"

lemma sortCanonical_obj: "sortCanonical f (JObj ms p) = JObj (canon_members f ms) None"
  by (simp add: canon_members_def)

lemma mset_own_order: "mset (own_order ms) = mset ms"
  by (simp add: own_order_def)

lemma mset_canon: "mset (canon_members f ms) = mset (map (\<lambda>m. (fst m, sortCanonical f (snd m))) ms)"
  by (simp add: canon_members_def mset_own_order)

lemma set_canon: "set (canon_members f ms) = (\<lambda>m. (fst m, sortCanonical f (snd m))) ` set ms"
  by (metis mset_canon set_mset_mset list.set_map)

lemma keys_canon: "mset (map fst (canon_members f ms)) = mset (map fst ms)"
proof -
  have "mset (map fst (canon_members f ms)) = image_mset fst (mset (map (\<lambda>m. (fst m, sortCanonical f (snd m))) ms))"
    by (simp add: mset_canon)
  also have "\<dots> = mset (map fst ms)" by (simp add: multiset.map_comp comp_def)
  finally show ?thesis .
qed

lemma distinct_canon: "distinct (map fst (canon_members f ms)) = distinct (map fst ms)"
  by (metis keys_canon mset_eq_imp_distinct_iff)

lemma canon_lookup: "distinct (map fst ms) \<Longrightarrow> map_of (canon_members f ms) k = map_option (sortCanonical f) (map_of ms k)"
proof -
  assume d: "distinct (map fst ms)"
  have "map_of (canon_members f ms) k = map_of (map (\<lambda>m. (fst m, sortCanonical f (snd m))) ms) k"
    using d map_of_inject_set [of "canon_members f ms" "map (\<lambda>m. (fst m, sortCanonical f (snd m))) ms"]
    by (simp add: set_canon distinct_canon comp_def del: sortCanonical.simps)
  also have "\<dots> = map_option (sortCanonical f) (map_of ms k)" by (induction ms) auto
  finally show ?thesis .
qed

lemma sort_unique:
  assumes "mset (xs :: (units \<times> 'v) list) = mset ys" and "distinct (map fst xs)"
  shows "sort_key fst xs = sort_key fst ys"
proof -
  have "mset xs = mset (sort_key fst ys)" using assms(1) by simp
  moreover have "inj_on fst (set xs)" using assms(2) by (simp add: distinct_map)
  ultimately show ?thesis by (rule sort_key_inj_key_eq) simp
qed

lemma printable_canon: "number_format f \<Longrightarrow> printable v \<Longrightarrow> printable (sortCanonical f v)"
proof (induction f v rule: sortCanonical.induct)
  case (6 f ms p)
  have keys: "fst ` set (canon_members f ms) = fst ` set ms" by (force simp: set_canon)
  have "list_all (\<lambda>m. code_units (fst m)) (canon_members f ms)"
    using 6(3) keys by (auto simp: list_all_iff) (metis imageE image_eqI fst_conv)
  moreover have "list_all (\<lambda>m. printable (snd m)) (canon_members f ms)"
    using 6 by (simp add: list_all_iff set_canon)
  ultimately show ?case
    using 6(3) keys unfolding sortCanonical_obj by (simp add: distinct_canon)
qed (auto simp: number_format_def list_all_iff)

lemma canon_idem: "number_format f \<Longrightarrow> printable v \<Longrightarrow> sortCanonical f (sortCanonical f v) = sortCanonical f v"
proof (induction f v rule: sortCanonical.induct)
  case (6 f ms p)
  have "map (\<lambda>m. (fst m, sortCanonical f (snd m))) (canon_members f ms) = canon_members f ms"
    by (rule map_idI) (use 6 in \<open>auto simp: set_canon list_all_iff\<close>)
  moreover have "sort_key fst (canon_members f ms) = sort_key fst (map (\<lambda>m. (fst m, sortCanonical f (snd m))) ms)"
    by (rule sort_unique) (use 6 in \<open>simp_all add: mset_canon distinct_canon\<close>)
  ultimately show ?case
    by (simp add: canon_members_def)
qed (auto simp: number_format_def list_all_iff)

lemma sortedText_parses: "number_format (fmt lib) \<Longrightarrow> printable v \<Longrightarrow> JSON_parse (sortedText lib v) = Some (sortCanonical (fmt lib) v)"
  by (simp add: sortedText_def JSON_parse_stringify printable_canon)

lemma canon_without:
  assumes nf: "number_format f" and pr: "printable (JObj (ms @ [(k, v)]) None)"
  shows "canonicalJson f (JObj (obj_del k (canon_members f (ms @ [(k, v)]))) None) = canonicalJson f (JObj ms None)"
proof -
  let ?C = "canon_members f (ms @ [(k, v)])" and ?f = "map (\<lambda>m. (fst m, sortCanonical f (snd m)))"
  have k: "k \<notin> fst ` set ms" using pr by simp
  have fixed: "?f (obj_del k ?C) = obj_del k ?C"
  proof (rule map_idI)
    fix m
    assume "m \<in> set (obj_del k ?C)"
    then have "m \<in> set ?C" by (auto simp: obj_del_def)
    then obtain n where "n \<in> set (ms @ [(k, v)])" "m = (fst n, sortCanonical f (snd n))" unfolding set_canon by blast
    with pr show "(fst m, sortCanonical f (snd m)) = m" using canon_idem [OF nf] by (auto simp: list_all_iff)
  qed
  have "mset (obj_del k ?C) = filter_mset (\<lambda>m. fst m \<noteq> k) (mset ?C)" by (simp add: obj_del_def split_def)
  also have "\<dots> = filter_mset (\<lambda>m. fst m \<noteq> k) (mset (?f (ms @ [(k, v)])))" by (simp only: mset_canon)
  also have "\<dots> = mset (filter (\<lambda>m. fst m \<noteq> k) (?f ms))" by simp
  also have "filter (\<lambda>m. fst m \<noteq> k) (?f ms) = ?f ms" using k by (auto intro!: filter_True)
  finally have "mset (obj_del k ?C) = mset (?f ms)" .
  moreover have "distinct (map fst (obj_del k ?C))" using pr distinct_canon [of f "ms @ [(k, v)]"] by simp
  ultimately have "sort_key fst (obj_del k ?C) = sort_key fst (?f ms)" by (rule sort_unique)
  then show ?thesis by (simp add: canonicalJson_def fixed)
qed

lemma seal_passes:
  assumes nf: "number_format (fmt lib)" and pr: "printable (seal lib k ms)"
  shows "assertEvidenceHash lib (sortCanonical (fmt lib) (seal lib k ms)) k = Inr ()"
proof -
  let ?ms = "map (\<lambda>(k, v). (u k, v)) ms" and ?h = "str (canonicalHash lib (obj ms))"
  have seal: "seal lib k ms = JObj (?ms @ [(u k, ?h)]) None" by (simp add: seal_def obj_def)
  note pr' = pr [unfolded seal]
  then have "(u k, ?h) \<in> set (?ms @ [(u k, ?h)])" "distinct (map fst (?ms @ [(u k, ?h)]))" by simp_all
  then have "map_of (?ms @ [(u k, ?h)]) (u k) = Some ?h" by (rule map_of_is_SomeI [rotated])
  with canon_lookup [of "?ms @ [(u k, ?h)]" "fmt lib" "u k"] pr'
  have "map_of (canon_members (fmt lib) (?ms @ [(u k, ?h)])) (u k) = Some ?h" by (simp add: str_def)
  moreover have "canonicalJson (fmt lib) (JObj (obj_del (u k) (canon_members (fmt lib) (?ms @ [(u k, ?h)]))) None) = canonicalJson (fmt lib) (obj ms)"
    using canon_without [OF nf pr'] by (simp only: obj_def)
  then have "canonicalHash lib (JObj (obj_del (u k) (canon_members (fmt lib) (?ms @ [(u k, ?h)]))) None) = canonicalHash lib (obj ms)"
    by (simp only: canonicalHash_def)
  ultimately show ?thesis unfolding seal sortCanonical_obj
    by (simp add: assertEvidenceHash_def jget_def without_def str_def guardE_def)
qed

section \<open>Reading a sorted document\<close>

lemma jget_canon: "printable v \<Longrightarrow> jget (sortCanonical f v) k = map_option (sortCanonical f) (jget v k)"
  by (cases v) (simp_all add: jget_def canon_lookup flip: canon_members_def)

lemma jat_canon: "printable v \<Longrightarrow> jat (sortCanonical f v) k = sortCanonical f (jat v k)"
  by (cases "jget v k") (simp_all add: jat_def jget_canon)

lemma jstr_canon: "printable v \<Longrightarrow> jstr (sortCanonical f v) k = jstr v k"
  by (simp add: jstr_def jget_canon split: option.split json.split)

lemma jget_printable: "printable v \<Longrightarrow> jget v k = Some w \<Longrightarrow> printable w"
  by (cases v) (auto simp: jget_def list_all_iff dest!: map_of_SomeD)

lemma jat_printable: "printable v \<Longrightarrow> printable (jat v k)"
  by (auto simp: jat_def jget_printable split: option.split)

lemma base64_canon: "assertCanonicalBase64Url32 (map_option (sortCanonical f) x) = assertCanonicalBase64Url32 x"
  by (cases x; cases "the x") (simp_all add: assertCanonicalBase64Url32_def)

lemma thumbprint_canon:
  assumes "number_format (fmt lib)" "printable k"
  shows "jwkThumbprint lib (sortCanonical (fmt lib) k) = jwkThumbprint lib k"
proof -
  have "sortCanonical (fmt lib) (sortCanonical (fmt lib) (jat k x)) = sortCanonical (fmt lib) (jat k x)" for x
    by (rule canon_idem [OF assms(1) jat_printable [OF assms(2)]])
  then show ?thesis by (simp add: jwkThumbprint_def canonicalJson_def obj_def jat_canon [OF assms(2)])
qed

text \<open>Node reads a JWK by its members, so their order does not matter to whether it is a curve point.\<close>

definition reads_jwk_members :: "abi_lib \<Rightarrow> bool" where
  "reads_jwk_members lib \<longleftrightarrow> (\<forall>k. on_p256_curve lib (sortCanonical (fmt lib) k) = on_p256_curve lib k)"

lemma authorization_canon:
  assumes "number_format (fmt lib)" "reads_jwk_members lib" "printable a"
  shows "assertRuntimeAuthorization lib (sortCanonical (fmt lib) a) = assertRuntimeAuthorization lib a"
  using assms jat_printable [OF assms(3)]
  by (simp add: assertRuntimeAuthorization_def jat_canon jget_canon jstr_canon base64_canon thumbprint_canon reads_jwk_members_def Let_def)

lemma affinity_lookup: "map_of (affinity_members r) k = (if k \<in> set AFFINITY_FIELDS then jget r k else None)"
proof -
  have "map_of (concat (map (\<lambda>f. case jget r f of Some v \<Rightarrow> [(f, v)] | None \<Rightarrow> []) fs)) k = (if k \<in> set fs then jget r k else None)" for fs
    by (induction fs) (auto split: option.split)
  then show ?thesis by (simp add: affinity_members_def)
qed

lemma affinity_keys: "fst ` set (affinity_members r) \<subseteq> set AFFINITY_FIELDS" "distinct (map fst (affinity_members r))"
proof -
  have "fst ` set (concat (map (\<lambda>f. case jget r f of Some v \<Rightarrow> [(f, v)] | None \<Rightarrow> []) fs)) \<subseteq> set fs" for fs
    by (auto split: option.splits)
  moreover have "distinct fs \<Longrightarrow> distinct (map fst (concat (map (\<lambda>f. case jget r f of Some v \<Rightarrow> [(f, v)] | None \<Rightarrow> []) fs)))" for fs
  proof (induction fs)
    case (Cons f fs)
    with calculation [of fs] show ?case by (cases "jget r f") auto
  qed simp
  moreover have "distinct AFFINITY_FIELDS" by (simp add: AFFINITY_FIELDS_def)
  ultimately show "fst ` set (affinity_members r) \<subseteq> set AFFINITY_FIELDS" "distinct (map fst (affinity_members r))"
    unfolding affinity_members_def by blast+
qed

lemma affinity_printable: "printable r \<Longrightarrow> list_all (\<lambda>m. printable (snd m)) (affinity_members r)"
  by (auto simp: list_all_iff affinity_members_def jget_printable split: option.splits)

lemma show_nat_lexeme: "list_all is_digit (u (show_nat n)) \<and> (0 < n \<longrightarrow> hd (u (show_nat n)) \<noteq> 48)"
proof (induction n rule: show_nat.induct)
  case (1 n)
  have d: "is_digit (of_char (char_of (48 + k) :: char))" if "k < 10" for k :: nat
    using that by (simp add: is_digit_def of_char_of)
  show ?case
  proof (cases "n < 10")
    case True
    with d [of n] show ?thesis by (subst show_nat.simps, subst (2) show_nat.simps) (simp add: u_def of_char_of)
  next
    case False
    with 1 have IH: "list_all is_digit (u (show_nat (n div 10)))" "hd (u (show_nat (n div 10))) \<noteq> 48" by simp_all
    have "show_nat n = show_nat (n div 10) @ [char_of (48 + n mod 10)]" using False by (subst show_nat.simps) simp
    then have "u (show_nat n) = u (show_nat (n div 10)) @ [of_char (char_of (48 + n mod 10) :: char)]" by (simp add: u_def)
    moreover have "u (show_nat (n div 10)) \<noteq> []" by (simp add: u_def)
    ultimately show ?thesis using IH d [of "n mod 10"] by simp
  qed
qed

lemma num_printable: "0 \<le> i \<Longrightarrow> printable (num i)"
proof -
  assume i: "0 \<le> i"
  obtain c t where s: "u (show_int i) = c # t" by (cases "u (show_int i)") (simp_all add: u_def)
  from i s have "u (show_nat (nat i)) = c # t" by (simp add: show_int_def)
  with show_nat_lexeme [of "nat i"] have d: "list_all is_digit (c # t)" "0 < nat i \<Longrightarrow> c \<noteq> 48" by simp_all
  have "t = [] \<or> c \<noteq> 48"
  proof (cases "i = 0")
    case True
    then have "u (show_int i) = [48]" by (simp add: show_int_def u_def show_nat.simps)
    with s show ?thesis by simp
  qed (use d i in simp)
  moreover have w: "takeWhile is_digit t = t" "dropWhile is_digit t = []"
    using d(1) by (auto simp: takeWhile_eq_all_conv dropWhile_eq_Nil_conv list_all_iff)
  moreover have "c \<noteq> 45" "is_digit c" using d(1) by (auto simp: is_digit_def)
  ultimately have "NUMBER_RE (c # t) = Some (c # t, [])"
    by (auto simp: NUMBER_RE_def int_part_def digits_def frac_part_def exp_part_def Let_def w simp del: dropWhile_eq_Nil_conv)
  then show ?thesis by (simp add: num_def valid_lexeme_def s)
qed

section \<open>The driver's own evidence\<close>

lemma ready_seal_printable:
  assumes "printable request" "0 < readyAt"
  shows "printable (seal lib ''driver_evidence_hash'' (ready_members request artifact policy readyAt))"
proof -
  note k = affinity_keys [of request]
  have "distinct (map fst (ready_members request artifact policy readyAt @ [(''driver_evidence_hash'', x)]))" for x :: json
    using k by (auto simp: ready_members_def AFFINITY_FIELDS_def)
  moreover have "''__proto__'' \<notin> set (map fst (ready_members request artifact policy readyAt @ [(''driver_evidence_hash'', x)]))" for x :: json
    using k by (auto simp: ready_members_def AFFINITY_FIELDS_def)
  ultimately show ?thesis
    using assms affinity_printable [OF assms(1)] by (simp add: seal_def obj_printable) (simp add: ready_members_def num_printable)
qed

lemma seal_lookup:
  "k \<noteq> e \<Longrightarrow> jget (seal lib e ms) k = map_of ms k"
  by (simp add: seal_def jget_obj map_add_def split: option.split)

lemma ready_affinity:
  "f \<in> set AFFINITY_FIELDS \<Longrightarrow>
    jget (seal lib ''driver_evidence_hash'' (ready_members request artifact policy readyAt)) f = jget request f"
proof -
  assume f: "f \<in> set AFFINITY_FIELDS"
  then have "f \<noteq> ''driver_evidence_hash''" "f \<notin> set [''protocol_version'', ''state'', ''runtime_id'']"
    "f \<notin> set [''artifact_digest'', ''endpoint'', ''supervisor'', ''ready_at'']"
    by (auto simp: AFFINITY_FIELDS_def)
  with f show ?thesis
    by (simp add: seal_lookup ready_members_def map_add_def affinity_lookup split: option.split)
qed

lemma ready_doc_valid:
  assumes "number_format (fmt lib)" and "reads_jwk_members lib" and "printable request" and "0 < readyAt"
    and "validateEnsureReady lib request = Inr request"
    and "ajv_valid lib (sortCanonical (fmt lib) (seal lib ''driver_evidence_hash'' (ready_members request artifact policy readyAt)))"
  defines "D \<equiv> sortCanonical (fmt lib) (seal lib ''driver_evidence_hash'' (ready_members request artifact policy readyAt))"
  shows "validateReady lib D = Inr D" and "jget D ''runtime_id'' = Some (str (cp_runtimeId policy))"
proof -
  let ?S = "seal lib ''driver_evidence_hash'' (ready_members request artifact policy readyAt)"
  note p = ready_seal_printable [OF assms(3,4), of lib artifact policy]
  from assms(5) have auth: "assertRuntimeAuthorization lib (jat request ''runtime_authorization'') = Inr ()"
    by (auto simp: validateEnsureReady_def checked_def bindE_Inr_iff)
  have "jat ?S ''runtime_authorization'' = jat request ''runtime_authorization''"
    using ready_affinity [of "''runtime_authorization''"] by (simp add: jat_def AFFINITY_FIELDS_def)
  then have a: "assertRuntimeAuthorization lib (jat D ''runtime_authorization'') = Inr ()"
    using auth authorization_canon [OF assms(1,2) jat_printable [OF assms(3)]] by (simp add: D_def jat_canon [OF p])
  have st: "jget D ''state'' = Some (str ''READY'')" and "jget D ''runtime_id'' = Some (str (cp_runtimeId policy))"
    unfolding D_def jget_canon [OF p] by (simp_all add: seal_lookup ready_members_def str_def)
  then show "jget D ''runtime_id'' = Some (str (cp_runtimeId policy))" by simp
  from assms(6) st a seal_passes [OF assms(1) p] show "validateReady lib D = Inr D"
    by (simp add: validateReady_def checked_def assertStructure_def guardE_def D_def)
qed

lemma ready_runtime_id:
  assumes "number_format (fmt lib)" and "printable request" and "0 < readyAt"
  shows "computeRuntimeId lib (sortCanonical (fmt lib) (seal lib ''driver_evidence_hash'' (ready_members request artifact policy readyAt)))
    = computeRuntimeId lib request"
proof -
  let ?D = "sortCanonical (fmt lib) (seal lib ''driver_evidence_hash'' (ready_members request artifact policy readyAt))"
  note p = ready_seal_printable [OF assms(2,3), of lib artifact policy]
  have D: "jget ?D f = map_option (sortCanonical (fmt lib)) (jget request f)" if "f \<in> set AFFINITY_FIELDS" for f
    using that by (simp add: jget_canon [OF p] ready_affinity)
  have "map (\<lambda>m. (fst m, sortCanonical (fmt lib) (snd m))) (concat (map (\<lambda>f. case jget ?D f of Some v \<Rightarrow> [(f, v)] | None \<Rightarrow> []) fs))
      = map (\<lambda>m. (fst m, sortCanonical (fmt lib) (snd m))) (concat (map (\<lambda>f. case jget request f of Some v \<Rightarrow> [(f, v)] | None \<Rightarrow> []) fs))"
    if "set fs \<subseteq> set AFFINITY_FIELDS" for fs
    using that
    by (induction fs) (auto simp: D canon_idem [OF assms(1) jget_printable [OF assms(2)]] split: option.split)
  from this [of AFFINITY_FIELDS] have
    "map (\<lambda>m. (fst m, sortCanonical (fmt lib) (snd m))) (affinity_members ?D) = map (\<lambda>m. (fst m, sortCanonical (fmt lib) (snd m))) (affinity_members request)"
    by (simp add: affinity_members_def)
  from arg_cong [OF this, of "map (\<lambda>(a, b). (u a, b))"]
  have "map (\<lambda>m. (u (fst m), sortCanonical (fmt lib) (snd m))) (affinity_members ?D)
      = map (\<lambda>m. (u (fst m), sortCanonical (fmt lib) (snd m))) (affinity_members request)"
    by (simp add: comp_def)
  then show ?thesis
    by (simp add: computeRuntimeId_def sortedText_def affinityFromRequest_def obj_def sortCanonical_obj canon_members_def comp_def split_def
        del: sortCanonical.simps)
qed


definition demo_lib :: abi_lib where
  "demo_lib = \<lparr>fmt = id, sha256_b64u = \<lambda>_. u ''h'', sha256_hex = \<lambda>_. u ''f'', ajv_valid = \<lambda>_. True, on_p256_curve = \<lambda>_. True\<rparr>"

definition demo_request :: json where
  "demo_request = obj [(''operation'', str ''ENSURE_READY''), (''generation_id'', str ''g1''),
     (''runtime_authorization'', obj [(''hub_kid'', str ''h''),
       (''hub_public_jwk'', obj [(''x'', str (replicate 43 CHR ''A'')), (''y'', str (replicate 43 CHR ''A''))])]),
     (''artifact'', obj [(''digest'', str ''sha256:a'')])]"

definition demo_artifact :: StagedArtifactRecord where
  "demo_artifact = \<lparr>sa_digest = ''sha256:a'', sa_sizeBytes = 1, sa_manifestDigest = ''sha256:m'', sa_manifestSizeBytes = 1,
     sa_configDigest = ''sha256:c'', sa_imageRef = ''sha256:c'', sa_imageUser = Some ''root:root'', sa_stagedAt = 1\<rparr>"

definition demo_config :: RuntimeServiceConfig where
  "demo_config = \<lparr>rc_privateNetwork = ''local'', rc_pidsLimit = 64, rc_storedClusterId = None, rc_fallbackClusterId = ''cl'',
     rc_nodeId = ''n'', rc_hubOrigin = ''https://hub'', rc_brokerRoot = ''/run/b''\<rparr>"

definition demo_policy :: ContainerPolicy where
  "demo_policy = buildPolicy demo_lib demo_request demo_artifact demo_config None (brokerMountFor demo_config ''r'')
     (buildLocalRuntimeBinding (brokerContext demo_config) demo_request ''sha256:a'' (computeRuntimeId demo_lib demo_request) ''r'' [] None)"

lemma demo_number_format: "number_format (fmt demo_lib)" "reads_jwk_members demo_lib"
  by (simp_all add: number_format_def reads_jwk_members_def demo_lib_def)

lemma demo_request_printable: "printable demo_request"
  by (simp add: demo_request_def obj_printable)

lemma demo_request_valid: "validateEnsureReady demo_lib demo_request = Inr demo_request"
  by (simp add: validateEnsureReady_def checked_def assertStructure_def demo_lib_def demo_request_def jget_obj jat_def
      assertRuntimeAuthorization_def assertCanonicalBase64Url32_def canonical_base64url_32_def b64url_val_def u_def guardE_def
      jwkThumbprint_def jstr_def str_def s_of_def Let_def list_all_iff)


section \<open>Replay\<close>

lemma provision_result:
  assumes "provision env config request artifact record s = (Inr ev, s')"
  shows "\<exists>m t doc. row (ledger s') (computeRuntimeId (abi env) request) = Some m \<and> rr_readyResponseJson m = Some t
    \<and> JSON_parse t = Some doc \<and> validateReady (abi env) doc = Inr ev"
proof -
  from assms obtain i h a b n s1 m s2 where
    m: "ledgerS (markReady (computeRuntimeId (abi env) request) h a b n) s1 = (Inr m, s2)"
      "bindS (parseStored (the (rr_readyResponseJson m))) (\<lambda>doc. liftE (validateReady (abi env) doc)) s2 = (Inr ev, s')"
    unfolding provision_def Let_def bindS_Inr by blast
  from m(1) have "row (ledger s2) (computeRuntimeId (abi env) request) = Some m \<and> rr_readyResponseJson m = Some a"
    by (auto simp: ledgerS_def markReady_def bindE_Inr_iff Let_def split: sum.splits ledger_error.splits prod.splits option.splits if_splits)
  with m(2) show ?thesis
    by (auto simp: bindS_Inr parseStored_def liftE_def svc_simps split: option.splits sum.splits)
qed

lemma claim_same_now: "same_claim r (claim_input lib request artifact config n) = same_claim r (claim_input lib request artifact config n')"
  by (simp add: same_claim_def claim_input_def Let_def)

lemma row_evolves_claim: "row_evolves r r' \<Longrightarrow> same_claim r inp \<Longrightarrow> same_claim r' inp"
  by (simp add: row_evolves_def affinity_def same_claim_def)

text \<open>What an answered ENSURE_READY leaves in the ledger.\<close>

lemma ensure_result:
  assumes "ensureReadyLocked env config request s = (Inr ev, s')" and "slots_ok (ledger s)"
    and "map_of (readIndex s) (jstr (jat request ''artifact'') ''digest'') = Some artifact"
  shows "\<exists>r t doc. row (ledger s') (computeRuntimeId (abi env) request) = Some r \<and> row_ok r
    \<and> same_claim r (claim_input (abi env) request artifact config n) \<and> rr_readyResponseJson r = Some t
    \<and> JSON_parse t = Some doc \<and> validateReady (abi env) doc = Inr ev"
proof -
  let ?id = "computeRuntimeId (abi env) request"
  from assms(1,3) obtain x s1 now uuid s2 rcd s3 where
    t: "(if replaceable (row (ledger s) ?id) (canonicalHash (abi env) request) then teardownRecorded env (the (row (ledger s) ?id)) else retS ()) s = (Inr x, s1)"
    and s2: "ledger s2 = ledger s1"
    and c: "ledgerS (claim (claim_input (abi env) request artifact config now) uuid) s2 = (Inr rcd, s3)"
    and rest: "(case rr_readyResponseJson rcd of
       Some stored \<Rightarrow> bindS (parseStored stored) (\<lambda>doc. liftE (validateReady (abi env) doc))
     | None \<Rightarrow> provision env config request artifact rcd) s3 = (Inr ev, s')"
    by (auto simp: ensureReadyLocked_def Let_def bindS_Inr resolveStagedArtifact_def resolve_staged_def getS_def retS_def failS_def
        randomUUID_def split: option.splits dest!: now_s_calls)
  have "logged.keeps True (if replaceable (row (ledger s) ?id) (canonicalHash (abi env) request) then teardownRecorded env (the (row (ledger s) ?id)) else retS ())"
    by (intro logged_intros logged_helpers)
  from logged.keepsD [OF this t] slots_ok_run [OF assms(2)] have "slots_ok (ledger s2)"
    unfolding ledger_run_def s2 by auto
  moreover from c have "claim (claim_input (abi env) request artifact config now) uuid (ledger s2) = Inr (rcd, ledger s3)"
    by (auto simp: ledgerS_def split: sum.splits ledger_error.splits prod.splits)
  moreover have "ci_runtimeId (claim_input (abi env) request artifact config now) = ?id" by (simp add: claim_input_def Let_def)
  ultimately have r: "row (ledger s3) ?id = Some rcd" "same_claim rcd (claim_input (abi env) request artifact config n)" "row_ok rcd"
    using claim_result claim_same_now by metis+
  show ?thesis
  proof (cases "rr_readyResponseJson rcd")
    case None
    with rest have p: "provision env config request artifact rcd s3 = (Inr ev, s')" by simp
    from provision_result [OF this] obtain m w doc where m: "row (ledger s') ?id = Some m" "rr_readyResponseJson m = Some w"
      "JSON_parse w = Some doc" "validateReady (abi env) doc = Inr ev" by blast
    from logged.keepsD [OF logged_provision p, of False] obtain lops where
      "ledger s' = fold apply_op lops (ledger s3)" "\<forall>op \<in> set lops. \<not> is_delete op" by (auto simp: ledger_run_def list_all_iff)
    with ledger.run_row [OF r(1,3), of lops] m(1) have "row_ok m" "row_evolves rcd m" by auto
    with m r(2) row_evolves_claim show ?thesis by blast
  next
    case (Some w)
    with rest r show ?thesis
      by (auto simp: bindS_Inr parseStored_def liftE_def svc_simps split: option.splits sum.splits)
  qed
qed


text \<open>A Docker that answers every call: the container is there and runs.\<close>

definition demo_container :: Inspected where
  "demo_container = \<lparr>ic_Id = ''ctr'', ic_Image = ''sha256:c'', ic_ConfigImage = Some ''sha256:c'', ic_Labels = cp_labels demo_policy,
     ic_NetworkMode = Some ''local'', ic_ReadonlyRootfs = True, ic_PortBindings = [], ic_Binds = [],
     ic_Mounts = [\<lparr>im_Source = Some ''/run/b/r'', im_Destination = Some ''/run/privos'', im_RW = Some False\<rparr>],
     ic_Running = True, ic_Addresses = [(''local'', ''10.0.0.2'')]\<rparr>"

definition demo_env :: driver_env where
  "demo_env = \<lparr>fails = \<lambda>_ _. None, network_at = \<lambda>_. \<lparr>ni_Internal = False, ni_Containers = []\<rparr>, container_at = \<lambda>_. demo_container,
     mount_at = \<lambda>_. brokerMountFor demo_config ''r'', replicas_at = \<lambda>_. [], entries_at = \<lambda>_. [],
     image_at = \<lambda>_. \<lparr>ii_Id = ''sha256:c'', ii_Descriptor = None\<rparr>, free_bytes = \<lambda>_. 0,
     verified_at = \<lambda>_. \<lparr>va_artifactDigest = ''sha256:a'', va_sizeBytes = 1, va_manifestDigest = ''sha256:m'',
       va_manifestSizeBytes = 1, va_configDigest = ''sha256:c'', va_imageUser = None\<rparr>,
     clock_ms = \<lambda>_. 5000, uuid_at = \<lambda>_. ''r'', self_id = ''self'', abi = demo_lib\<rparr>"

definition demo_state :: driver_state where
  "demo_state = \<lparr>ledger = emptyLedger, staged = Some [(''sha256:a'', demo_artifact)], calls = [], networkEnsured = True\<rparr>"

lemma demo_calls:
  "callS demo_env c ok e s = (Inr True, s\<lparr>calls := calls s @ [c]\<rparr>)"
  "askS demo_env c (container_at demo_env) ok e s = (Inr (Some demo_container), s\<lparr>calls := calls s @ [c]\<rparr>)"
  "askS demo_env c (mount_at demo_env) ok e s = (Inr (Some (brokerMountFor demo_config ''r'')), s\<lparr>calls := calls s @ [c]\<rparr>)"
  "now_s demo_env s = (Inr 5, s)" "randomUUID demo_env s = (Inr ''r'', s)" "abi demo_env = demo_lib"
  by (simp_all add: callS_def askS_def now_s_def now_ms_def randomUUID_def demo_env_def Let_def bindS_def svc_simps)

lemma labels_match: "distinct (map fst l) \<Longrightarrow> list_all (\<lambda>(k, v). map_of l k = Some v) l"
  by (auto simp: list_all_iff)

lemma demo_labels_distinct: "distinct (map fst (cp_labels demo_policy))"
  by (simp add: demo_policy_def buildPolicy_def policy_labels_def Let_def LOCAL_RUNTIME_BROKER_LABELS_def LABEL_PREFIX_def
      buildMcpRuntimeResourceLabelsV3_def buildLocalRuntimeBinding_def truthy_def)

lemma demo_match: "isPolicyMatch demo_container demo_policy demo_artifact"
proof -
  have "cp_brokerMount demo_policy = brokerMountFor demo_config ''r''" "cs_NetworkMode (cp_createSpec demo_policy) = ''local''"
    by (simp_all add: demo_policy_def buildPolicy_def create_spec_def demo_config_def Let_def)
  then show ?thesis
    using labels_match [OF demo_labels_distinct]
    by (simp add: isPolicyMatch_def demo_container_def demo_artifact_def brokerMountFor_def BROKER_MOUNT_TARGET_def demo_config_def)
qed

lemma demo_register:
  "row (ledger s) i = Some r \<Longrightarrow> registerProvisioning demo_env b i j s
     = (Inr (), s\<lparr>calls := calls s @ [BrokerProvision (b\<lparr>mb_dockerContainerId := j, mb_runtimeResourceInventoryHash := None\<rparr>)],
          ledger := put_row i (r\<lparr>rr_brokerRegisteredAt := Some 5, rr_updatedAt := 5\<rparr>) (ledger s)\<rparr>)"
  by (simp add: registerProvisioning_def bindS_def demo_calls ledgerS_def recordBrokerRegistered_def Let_def svc_simps)

lemma demo_reconcile:
  assumes "networkEnsured s" "row (ledger s) i = Some r"
  shows "\<exists>s1. reconcileContainer demo_env demo_config demo_policy demo_artifact (registerProvisioning demo_env b i) s = (Inr ''ctr'', s1)
    \<and> row (ledger s1) i = Some (r\<lparr>rr_brokerRegisteredAt := Some 5, rr_updatedAt := 5\<rparr>)"
  using assms demo_match
  by (simp add: reconcileContainer_def ensureNetwork_def bindS_def svc_simps inspectByName_def demo_calls
      assertContainerMatchesPolicy_def demo_register demo_container_def demo_config_def truthy_def)

definition demo_ready :: json where
  "demo_ready = sortCanonical (fmt demo_lib) (seal demo_lib ''driver_evidence_hash'' (ready_members demo_request demo_artifact demo_policy 5))"

lemma demo_ready_text:
  "JSON_parse (sortedText demo_lib (seal demo_lib ''driver_evidence_hash'' (ready_members demo_request demo_artifact demo_policy 5))) = Some demo_ready"
  "validateReady demo_lib demo_ready = Inr demo_ready"
proof -
  have v: "ajv_valid demo_lib x" for x by (simp add: demo_lib_def)
  show "JSON_parse (sortedText demo_lib (seal demo_lib ''driver_evidence_hash'' (ready_members demo_request demo_artifact demo_policy 5))) = Some demo_ready"
    unfolding demo_ready_def
    by (rule sortedText_parses [OF demo_number_format(1) ready_seal_printable [OF demo_request_printable]]) simp
  show "validateReady demo_lib demo_ready = Inr demo_ready"
    unfolding demo_ready_def
    by (rule ready_doc_valid(1) [OF demo_number_format demo_request_printable _ demo_request_valid v]) simp
qed

lemma demo_evidence_parses:
  "JSON_parse (sortedText demo_lib (obj [(''schema_version'', num 1), (''ready'', obj (ready_members demo_request demo_artifact demo_policy 5)),
     (''supervisor_evidence'', supervisor_evidence demo_policy demo_artifact n [])])) \<noteq> None"
proof -
  have "printable (obj (ready_members demo_request demo_artifact demo_policy 5))"
    using ready_seal_printable [OF demo_request_printable, of 5 demo_lib demo_artifact demo_policy]
    by (simp add: seal_def obj_printable)
  moreover have "printable (supervisor_evidence demo_policy demo_artifact n [])"
    by (simp add: supervisor_evidence_def obj_printable)
  ultimately have "printable (obj [(''schema_version'', num 1), (''ready'', obj (ready_members demo_request demo_artifact demo_policy 5)),
     (''supervisor_evidence'', supervisor_evidence demo_policy demo_artifact n [])])"
    by (simp add: obj_printable num_printable)
  from sortedText_parses [OF demo_number_format(1) this] show ?thesis by simp
qed

lemma demo_provision:
  assumes "networkEnsured s" "rr_replicaId r = ''r''" "rr_state r = CLAIMED"
    and "row (ledger s) (computeRuntimeId demo_lib demo_request) = Some r" "rr_requestHash r = canonicalHash demo_lib demo_request"
  shows "\<exists>s1. provision demo_env demo_config demo_request demo_artifact r s = (Inr demo_ready, s1)"
proof -
  let ?i = "computeRuntimeId demo_lib demo_request"
  let ?b = "buildLocalRuntimeBinding (brokerContext demo_config) demo_request (sa_digest demo_artifact) ?i ''r'' [] None"
  let ?s = "s\<lparr>calls := calls s @ [BrokerPrepare ''r'']\<rparr>"
  have "sa_digest demo_artifact = ''sha256:a''" by (simp add: demo_artifact_def)
  then have pol: "buildPolicy demo_lib demo_request demo_artifact demo_config None (brokerMountFor demo_config ''r'') ?b = demo_policy"
    by (simp add: demo_policy_def)
  obtain s1 where s1: "reconcileContainer demo_env demo_config demo_policy demo_artifact (registerProvisioning demo_env ?b ?i) ?s = (Inr ''ctr'', s1)"
    "row (ledger s1) ?i = Some (r\<lparr>rr_brokerRegisteredAt := Some 5, rr_updatedAt := 5\<rparr>)"
    using demo_reconcile [of ?s ?i r ?b] assms by auto
  have ev: "\<exists>x. JSON_parse (sortedText demo_lib (obj [(''schema_version'', num 1), (''ready'', obj (ready_members demo_request demo_artifact demo_policy 5)),
     (''supervisor_evidence'', supervisor_evidence demo_policy demo_artifact (rc_privateNetwork demo_config) [])])) = Some x"
    using demo_evidence_parses by blast
  show ?thesis
    using assms s1 ev demo_ready_text
    by (auto simp: provision_def Let_def bindS_def brokerPrepare_def required_def demo_calls svc_simps pol ledgerS_def recordContainer_def
        markReady_def json_guard_def guardE_def parseStored_def)
qed

lemma demo_ensure: "\<exists>s1. ensureReady demo_env demo_config demo_request demo_state = (Inr demo_ready, s1)"
proof -
  let ?i = "computeRuntimeId demo_lib demo_request"
  let ?r = "new_record (claim_input demo_lib demo_request demo_artifact demo_config 5) ''r''"
  obtain st where c: "claim (claim_input demo_lib demo_request demo_artifact demo_config 5) ''r'' emptyLedger = Inr (?r, st)"
    by (simp add: claim_def row_def emptyLedger_def Let_def)
  have "row st ?i = Some ?r" using claim_result [OF c slots_ok_empty] by (simp add: claim_input_def Let_def)
  then obtain s1 where p: "provision demo_env demo_config demo_request demo_artifact ?r (demo_state\<lparr>ledger := st\<rparr>) = (Inr demo_ready, s1)"
    using demo_provision [of "demo_state\<lparr>ledger := st\<rparr>" ?r]
    by (auto simp: demo_state_def new_record_def) (auto simp: claim_input_def Let_def)
  have d: "resolveStagedArtifact (jstr (jat demo_request ''artifact'') ''digest'') demo_state = (Inr demo_artifact, demo_state)"
    by (simp add: demo_request_def jstr_def jat_def jget_obj str_def resolveStagedArtifact_def resolve_staged_def bindS_def svc_simps
        readIndex_def demo_state_def)
  have none: "ledger demo_state = emptyLedger" "row emptyLedger ?i = None" by (simp_all add: demo_state_def row_def emptyLedger_def)
  have nr: "rr_readyResponseJson ?r = None" by (simp add: new_record_def)
  have claimed: "ledgerS (claim (claim_input demo_lib demo_request demo_artifact demo_config 5) ''r'') demo_state = (Inr ?r, demo_state\<lparr>ledger := st\<rparr>)"
    by (simp add: ledgerS_def none c)
  show ?thesis
    by (simp add: ensureReady_def bindS_def liftE_def demo_calls demo_request_valid retS_def ensureReadyLocked_def Let_def
        d getS_def none replaceable_def claimed nr p)
qed


text \<open>
  The affinity of an activation is compared as \<open>JSON.stringify\<close> text with the persisted request, whose members were
  sorted when it was stored: the same authorization with its members in another order is refused.
\<close>

lemma activation_member_order_matters:
  "\<not> same_affinity_field demo_lib
     (obj [(''runtime_authorization'', obj [(''security_mode'', str ''s''), (''hub_kid'', str ''h'')])])
     (sortCanonical id (obj [(''runtime_authorization'', obj [(''security_mode'', str ''s''), (''hub_kid'', str ''h'')])]))
     ''runtime_authorization''"
  by (simp add: same_affinity_field_def jget_def obj_def str_def JSON_stringify_def demo_lib_def own_order_def is_index_def is_digit_def
      u_def commas_simps quote_def escape_unit_def high_surrogate_def low_surrogate_def)

end
