(* ===== verification/Container_Types.thy ===== *)
theory Container_Types
  imports Strict_Json
begin

text \<open>
  The container view of the agent's API (\<open>src/types/index.ts\<close>). Sizes in MB, ports and counters
  are whole numbers in the labels they are read from; \<open>cpus\<close> may be fractional.
  The environment is whatever object its label's JSON text holds.
\<close>

datatype ContainerState = CS_created | CS_running | CS_stopped | CS_error

datatype HealthStatus = HS_healthy | HS_unhealthy | HS_unknown

record ContainerVolume =
  vol_name :: string
  vol_mountPath :: string
  vol_sizeMb :: "int option"

record ContainerResources =
  memoryMb :: rat
  cpus :: rat
  tmpSizeMb :: rat

record HealthCheck =
  hc_status :: HealthStatus
  hc_failCount :: nat
  hc_restartCount :: nat
  hc_lastCheck :: "int option"

record HealthPolicy =
  hp_path :: string
  hp_maxFails :: int
  hp_restart :: bool

record Container =
  c_id :: string
  c_appId :: "string option"
  c_workspaceId :: "string option"
  c_listingId :: "string option"
  c_versionDigest :: "string option"
  c_securityProfile :: "string option"
  c_dockerContainerId :: string
  c_dockerContainerName :: string
  c_image :: string
  c_tag :: string
  c_imageDigest :: "string option"
  c_state :: ContainerState
  c_internalUrl :: string
  c_port :: int
  c_hostPort :: "int option"
  c_resources :: ContainerResources
  c_envVars :: json
  c_healthCheck :: HealthCheck
  c_createdAt :: int
  c_startedAt :: "int option"
  c_stoppedAt :: "int option"
  c_volumes :: "ContainerVolume list"
  c_subdomain :: "string option"
  c_domain :: "string option"
  c_healthPolicy :: HealthPolicy
  c_mcpV2 :: bool
  c_mcpV3 :: bool
  c_oomKilledAt :: "int option"

text \<open>\<open>`http://${host}:${port}`\<close>\<close>

definition http_origin :: "string \<Rightarrow> int \<Rightarrow> string" where
  "http_origin host port = ''http://'' @ host @ '':'' @ show_int port"

end
