(* ===== verification/Docker_State.thy ===== *)
theory Docker_State
  imports Container_Types Js_Number
begin

text \<open>
  Docker as the database: \<open>src/docker/docker-state-mapper.ts\<close> (a \<open>docker ps\<close> or \<open>docker inspect\<close>
  object and its \<open>privos.*\<close> labels to a \<open>Container\<close>) and \<open>src/docker/docker-state.ts\<close> (the queries
  over them). The Docker client is the parameter \<open>ps\<close>, a list of entries per label filter;
  \<open>Date.parse\<close>, whose fallback formats are the engine's, is the parameter \<open>date_parse\<close>.
\<close>

section \<open>Docker's objects\<close>

record docker_mount =
  mnt_Type :: "string option"
  mnt_Name :: "string option"
  mnt_Destination :: "string option"

record list_port =
  lp_PrivatePort :: int
  lp_PublicPort :: "int option"
  lp_Type :: string

type_synonym networks = "string option obj"

record ContainerInfo =
  le_Id :: string
  le_Names :: "string list"
  le_Image :: string
  le_State :: "string option"
  le_Labels :: "string obj"
  le_Ports :: "list_port list"
  le_Networks :: networks
  le_Created :: int
  le_Mounts :: "docker_mount list"

record ContainerInspectInfo =
  in_Id :: string
  in_Name :: string
  in_Image :: string
  in_Status :: "string option"
  in_Labels :: "string obj"
  in_Ports :: "string option list obj"
  in_Networks :: networks
  in_Created :: "string option"
  in_StartedAt :: "string option"
  in_FinishedAt :: "string option"
  in_OOMKilled :: bool
  in_Mounts :: "docker_mount list"

section \<open>The mapper\<close>

definition DEFAULT_RESOURCES :: ContainerResources where
  "DEFAULT_RESOURCES = \<lparr>memoryMb = 256, cpus = 1 / 2, tmpSizeMb = 64\<rparr>"

definition DEFAULT_HEALTH :: HealthCheck where
  "DEFAULT_HEALTH = \<lparr>hc_status = HS_unknown, hc_failCount = 0, hc_restartCount = 0, hc_lastCheck = None\<rparr>"

definition HEALTH_DEFAULTS :: HealthPolicy where
  "HEALTH_DEFAULTS = \<lparr>hp_path = ''/health'', hp_maxFails = 3, hp_restart = True\<rparr>"

definition mapState :: "string option \<Rightarrow> ContainerState" where
  "mapState status = (case status of None \<Rightarrow> CS_error | Some s \<Rightarrow>
     if s \<in> set [''running'', ''restarting''] then CS_running
     else if s = ''created'' then CS_created
     else if s \<in> set [''exited'', ''dead'', ''removing'', ''paused''] then CS_stopped
     else CS_error)"

definition labelOrNull :: "string obj \<Rightarrow> string \<Rightarrow> string option" where
  "labelOrNull labels key = truthy (map_of labels key)"

definition parseSecurityProfile :: "string option \<Rightarrow> string option" where
  "parseSecurityProfile raw = (if raw = Some ''browser-sandbox'' then raw else None)"

text \<open>
  \<open>typeof p.key === 'number' ? p.key : dflt\<close>. Reading a property of \<open>null\<close> throws, which the caller
  catches; of another primitive or an array it gives undefined.
\<close>

definition number_field :: "json \<Rightarrow> string \<Rightarrow> rat \<Rightarrow> rat" where
  "number_field p key dflt = (case p of
     JObj ms _ \<Rightarrow> (case map_of ms (u key) of Some (JNum l) \<Rightarrow> lexeme_value l | _ \<Rightarrow> dflt)
   | _ \<Rightarrow> dflt)"

definition parseResources :: "string option \<Rightarrow> ContainerResources" where
  "parseResources raw = (case truthy raw of None \<Rightarrow> DEFAULT_RESOURCES
   | Some s \<Rightarrow> (case JSON_parse (u s) of
        None \<Rightarrow> DEFAULT_RESOURCES
      | Some p \<Rightarrow> \<lparr>memoryMb = number_field p ''memoryMb'' 256, cpus = number_field p ''cpus'' (1 / 2),
          tmpSizeMb = number_field p ''tmpSizeMb'' 64\<rparr>))"

definition parseEnv :: "string option \<Rightarrow> json" where
  "parseEnv raw = (case truthy raw of None \<Rightarrow> JObj [] None
   | Some s \<Rightarrow> (case JSON_parse (u s) of
        Some (JObj ms p) \<Rightarrow> JObj ms p
      | Some (JArr vs) \<Rightarrow> JArr vs
      | _ \<Rightarrow> JObj [] None))"

definition parseVolumes :: "docker_mount list \<Rightarrow> string \<Rightarrow> ContainerVolume list" where
  "parseVolumes mounts cid = (let prefix = ''mcp-vol-'' @ take 12 cid @ ''-'' in
     map (\<lambda>m. let name = (case mnt_Name m of Some n \<Rightarrow> n | None \<Rightarrow> []) in
         \<lparr>vol_name = (if starts_with prefix name then drop (length prefix) name else name),
          vol_mountPath = (case mnt_Destination m of Some d \<Rightarrow> d | None \<Rightarrow> []), vol_sizeMb = None\<rparr>)
       (filter (\<lambda>m. mnt_Type m = Some ''volume'' \<and> truthy (mnt_Name m) \<noteq> None) mounts))"

definition or_else :: "'a option \<Rightarrow> 'a \<Rightarrow> 'a" where
  "or_else x d = (case x of Some v \<Rightarrow> v | None \<Rightarrow> d)"

definition parseHealthPolicy :: "string obj \<Rightarrow> HealthPolicy" where
  "parseHealthPolicy labels = \<lparr>
     hp_path = or_else (truthy (map_of labels ''privos.health.path'')) (hp_path HEALTH_DEFAULTS),
     hp_maxFails = (case parse_int (or_else (map_of labels ''privos.health.max-fails'') []) of
        Some n \<Rightarrow> if 0 < n then n else hp_maxFails HEALTH_DEFAULTS
      | None \<Rightarrow> hp_maxFails HEALTH_DEFAULTS),
     hp_restart = (case map_of labels ''privos.health.restart'' of
        Some v \<Rightarrow> v \<noteq> ''false'' | None \<Rightarrow> hp_restart HEALTH_DEFAULTS)\<rparr>"

text \<open>\<open>NaN\<close> from a malformed binding is as absent as null to every reader of \<open>hostPort\<close>.\<close>

definition hostPortFor :: "ContainerInspectInfo \<Rightarrow> int \<Rightarrow> int option" where
  "hostPortFor info port = (case map_of (in_Ports info) (show_int port @ ''/tcp'') of
     Some (b # _) \<Rightarrow> (case truthy b of Some hp \<Rightarrow> parse_int hp | None \<Rightarrow> None)
   | _ \<Rightarrow> None)"

definition networkIpFor :: "networks \<Rightarrow> string option" where
  "networkIpFor nets = (case List.find (\<lambda>(name, _). starts_with ''privos-ws-'' name) nets of
     Some (_, Some ip) \<Rightarrow> if ip \<noteq> [] then Some ip else truthy (snd (hd nets))
   | _ \<Rightarrow> (case nets of [] \<Rightarrow> None | n # _ \<Rightarrow> truthy (snd n)))"

definition toEpoch :: "(string \<Rightarrow> int option) \<Rightarrow> string option \<Rightarrow> int option" where
  "toEpoch date_parse v = (case truthy v of None \<Rightarrow> None
   | Some s \<Rightarrow> (case date_parse s of Some t \<Rightarrow> if 0 < t then Some t else None | None \<Rightarrow> None))"

record DockerFacts =
  f_labels :: "string obj"
  f_dockerContainerId :: string
  f_dockerContainerName :: string
  f_imageRef :: string
  f_state :: ContainerState
  f_hostPort :: "int option"
  f_networkIp :: "string option"
  f_createdFallbackMs :: int
  f_startedAt :: "int option"
  f_stoppedAt :: "int option"
  f_mounts :: "docker_mount list"

definition label_port :: "string obj \<Rightarrow> int" where
  "label_port labels = or_else (parse_int (or_else (map_of labels ''privos.port'') ''0'')) 0"

definition nonzero :: "int option \<Rightarrow> int option" where
  "nonzero v = (case v of Some n \<Rightarrow> if n = 0 then None else Some n | None \<Rightarrow> None)"

definition internal_url :: "DockerFacts \<Rightarrow> int \<Rightarrow> string" where
  "internal_url facts port = (if f_state facts = CS_running then
       (case truthy (f_networkIp facts) of Some ip \<Rightarrow> http_origin ip port
        | None \<Rightarrow> (case nonzero (f_hostPort facts) of Some hp \<Rightarrow> http_origin ''localhost'' hp | None \<Rightarrow> []))
     else [])"

definition created_at_label :: "(string \<Rightarrow> int option) \<Rightarrow> string option \<Rightarrow> int option" where
  "created_at_label date_parse raw = (case truthy raw of
     Some s \<Rightarrow> if all_digits s then Some (int (digits_value (u s))) else date_parse s
   | None \<Rightarrow> date_parse [])"

definition strip_leading_slash :: "string \<Rightarrow> string" where
  "strip_leading_slash s = (case s of c # r \<Rightarrow> if c = CHR ''/'' then r else s | [] \<Rightarrow> [])"

definition second_part :: "string \<Rightarrow> string option" where
  "second_part ref = (case split_on CHR '':'' ref of _ # t # _ \<Rightarrow> truthy (Some t) | _ \<Rightarrow> None)"

definition buildContainer :: "(string \<Rightarrow> int option) \<Rightarrow> int \<Rightarrow> DockerFacts \<Rightarrow> HealthCheck \<Rightarrow> int option \<Rightarrow> Container" where
  "buildContainer date_parse now facts health oomKilledAt = (let
     labels = f_labels facts;
     cid = or_else (truthy (map_of labels ''privos.id'')) (f_dockerContainerId facts);
     port = label_port labels;
     fallback = (if f_createdFallbackMs facts \<noteq> 0 then f_createdFallbackMs facts else now)
   in \<lparr>c_id = cid,
     c_appId = labelOrNull labels ''privos.app-id'',
     c_workspaceId = labelOrNull labels ''privos.workspace'',
     c_listingId = labelOrNull labels ''privos.listing'',
     c_versionDigest = labelOrNull labels ''privos.version.digest'',
     c_securityProfile = parseSecurityProfile (map_of labels ''privos.securityProfile''),
     c_dockerContainerId = f_dockerContainerId facts,
     c_dockerContainerName = strip_leading_slash (f_dockerContainerName facts),
     c_image = or_else (truthy (map_of labels ''privos.image'')) (hd (split_on CHR '':'' (f_imageRef facts))),
     c_tag = or_else (truthy (map_of labels ''privos.tag'')) (or_else (second_part (f_imageRef facts)) ''latest''),
     c_imageDigest = labelOrNull labels ''privos.image.digest'',
     c_state = f_state facts,
     c_internalUrl = internal_url facts port,
     c_port = port,
     c_hostPort = f_hostPort facts,
     c_resources = parseResources (map_of labels ''privos.resources''),
     c_envVars = parseEnv (map_of labels ''privos.env''),
     c_healthCheck = health,
     c_createdAt = (case created_at_label date_parse (map_of labels ''privos.created-at'') of
         Some t \<Rightarrow> if 0 < t then t else fallback | None \<Rightarrow> fallback),
     c_startedAt = f_startedAt facts,
     c_stoppedAt = f_stoppedAt facts,
     c_volumes = parseVolumes (f_mounts facts) cid,
     c_subdomain = labelOrNull labels ''privos.subdomain'',
     c_domain = labelOrNull labels ''privos.domain'',
     c_healthPolicy = parseHealthPolicy labels,
     c_mcpV2 = (map_of labels ''privos.mcp.schema'' = Some ''2'' \<or> map_of labels ''privos.mcp.schema'' = Some ''3''),
     c_mcpV3 = (map_of labels ''privos.mcp.schema'' = Some ''3''),
     c_oomKilledAt = oomKilledAt\<rparr>)"

definition mapInspectToContainer :: "(string \<Rightarrow> int option) \<Rightarrow> int \<Rightarrow> ContainerInspectInfo \<Rightarrow> HealthCheck \<Rightarrow> Container" where
  "mapInspectToContainer date_parse now info health = (let
     state = mapState (in_Status info);
     port = label_port (in_Labels info);
     oom = (if in_OOMKilled info then Some (or_else (toEpoch date_parse (in_FinishedAt info)) now) else None)
   in buildContainer date_parse now \<lparr>f_labels = in_Labels info, f_dockerContainerId = in_Id info,
       f_dockerContainerName = in_Name info, f_imageRef = in_Image info, f_state = state,
       f_hostPort = hostPortFor info port, f_networkIp = networkIpFor (in_Networks info),
       f_createdFallbackMs = or_else (toEpoch date_parse (in_Created info)) 0,
       f_startedAt = toEpoch date_parse (in_StartedAt info),
       f_stoppedAt = (if state = CS_running then None else toEpoch date_parse (in_FinishedAt info)),
       f_mounts = in_Mounts info\<rparr> health oom)"

definition listHostPortFor :: "ContainerInfo \<Rightarrow> int \<Rightarrow> int option" where
  "listHostPortFor entry port = (case List.find (\<lambda>p. lp_PrivatePort p = port \<and> lp_Type p = ''tcp''
       \<and> nonzero (lp_PublicPort p) \<noteq> None) (le_Ports entry) of
     Some p \<Rightarrow> lp_PublicPort p | None \<Rightarrow> None)"

definition mapListEntryToContainer :: "(string \<Rightarrow> int option) \<Rightarrow> int \<Rightarrow> ContainerInfo \<Rightarrow> HealthCheck \<Rightarrow> int option \<Rightarrow> Container" where
  "mapListEntryToContainer date_parse now entry health oomKilledAt =
     buildContainer date_parse now \<lparr>f_labels = le_Labels entry, f_dockerContainerId = le_Id entry,
       f_dockerContainerName = (case le_Names entry of n # _ \<Rightarrow> n | [] \<Rightarrow> []), f_imageRef = le_Image entry,
       f_state = mapState (le_State entry), f_hostPort = listHostPortFor entry (label_port (le_Labels entry)),
       f_networkIp = networkIpFor (le_Networks entry), f_createdFallbackMs = le_Created entry * 1000,
       f_startedAt = None, f_stoppedAt = None, f_mounts = le_Mounts entry\<rparr> health oomKilledAt"

section \<open>One active container per id\<close>

type_synonym dated = "Container \<times> int"

definition isMoreActive :: "dated \<Rightarrow> dated \<Rightarrow> bool" where
  "isMoreActive a b = (let aRunning = (c_state (fst a) = CS_running); bRunning = (c_state (fst b) = CS_running) in
     if aRunning \<noteq> bRunning then aRunning else snd b < snd a)"

definition pick_step :: "dated \<Rightarrow> dated obj \<Rightarrow> dated obj" where
  "pick_step item best = (case map_of best (c_id (fst item)) of
     None \<Rightarrow> obj_set (c_id (fst item)) item best
   | Some cur \<Rightarrow> if isMoreActive item cur then obj_set (c_id (fst item)) item best else best)"

definition pickActivePerId :: "dated list \<Rightarrow> Container list" where
  "pickActivePerId items = map (\<lambda>(_, v). fst v) (fold pick_step items [])"

lemma isMoreActive_trans: "isMoreActive a b \<Longrightarrow> isMoreActive b c \<Longrightarrow> isMoreActive a c"
  by (auto simp: isMoreActive_def Let_def split: if_splits)

lemma isMoreActive_irrefl: "\<not> isMoreActive a a"
  by (simp add: isMoreActive_def Let_def)

lemma isMoreActive_negtrans: "\<not> isMoreActive a b \<Longrightarrow> isMoreActive a c \<Longrightarrow> isMoreActive b c"
  by (auto simp: isMoreActive_def Let_def split: if_splits)

text \<open>What the \<open>Map\<close> holds after a prefix of the items.\<close>

definition best_of :: "dated list \<Rightarrow> dated obj \<Rightarrow> bool" where
  "best_of items best \<longleftrightarrow> distinct (map fst best)
     \<and> (\<forall>k v. map_of best k = Some v \<longrightarrow> v \<in> set items \<and> c_id (fst v) = k)
     \<and> (\<forall>i \<in> set items. \<exists>v. map_of best (c_id (fst i)) = Some v \<and> \<not> isMoreActive i v)"

lemma best_of_step:
  assumes b: "best_of items best"
  shows "best_of (items @ [i]) (pick_step i best)"
proof (cases "\<exists>cur. map_of best (c_id (fst i)) = Some cur \<and> \<not> isMoreActive i cur")
  case True
  then have "pick_step i best = best" by (auto simp: pick_step_def)
  moreover have "\<exists>v. map_of best (c_id (fst j)) = Some v \<and> \<not> isMoreActive j v" if "j \<in> set (items @ [i])" for j
    using b True that unfolding best_of_def by (cases "j = i") (auto simp del: map_of_eq_Some_iff split_paired_Ex)
  ultimately show ?thesis using b unfolding best_of_def by (simp del: map_of_eq_Some_iff split_paired_Ex)
next
  case False
  then have set: "pick_step i best = obj_set (c_id (fst i)) i best" by (auto simp: pick_step_def split: option.splits)
  have "\<exists>v. map_of (obj_set (c_id (fst i)) i best) (c_id (fst j)) = Some v \<and> \<not> isMoreActive j v" if "j \<in> set (items @ [i])" for j
  proof (cases "c_id (fst j) = c_id (fst i)")
    case same: True
    have "\<not> isMoreActive j i"
    proof (cases "j = i")
      case True
      then show ?thesis by (simp add: isMoreActive_irrefl)
    next
      case neq: False
      with that have "j \<in> set items" by simp
      with b obtain v where v: "map_of best (c_id (fst i)) = Some v" "\<not> isMoreActive j v"
        unfolding best_of_def same [symmetric] by blast
      with False have "isMoreActive i v" by blast
      with v show ?thesis using isMoreActive_trans by blast
    qed
    with same show ?thesis by simp
  next
    case diff: False
    with that have "j \<in> set items" by auto
    with b diff show ?thesis unfolding best_of_def by (simp del: map_of_eq_Some_iff split_paired_Ex)
  qed
  with b show ?thesis unfolding set best_of_def by (simp del: map_of_eq_Some_iff)
qed

lemma best_of_fold: "best_of pre best \<Longrightarrow> best_of (pre @ items) (fold pick_step items best)"
proof (induction items arbitrary: pre best)
  case (Cons i items)
  from Cons.IH [OF best_of_step [OF Cons.prems]] show ?case by simp
qed simp

lemma best_of_pick: "best_of items (fold pick_step items [])"
  by (rule best_of_fold [of "[]" "[]" items, unfolded append_Nil]) (simp add: best_of_def)

text \<open>
  Collapsing the duplicates of a rolling redeploy leaves at most one container per id; every
  container picked was listed, every listed id has one, and no listed container of that id is more
  active: a running one is never dropped for a stopped one, nor a newer one for an older in the
  same condition.
\<close>

theorem pickActivePerId_best:
  shows "distinct (map c_id (pickActivePerId items))
    \<and> list_all (\<lambda>c. \<exists>t. (c, t) \<in> set items
         \<and> list_all (\<lambda>i. \<not> isMoreActive i (c, t)) (filter (\<lambda>i. c_id (fst i) = c_id c) items)) (pickActivePerId items)
    \<and> c_id ` set (pickActivePerId items) = (c_id \<circ> fst) ` set items"
proof -
  let ?best = "fold pick_step items []"
  note b = best_of_pick [of items, unfolded best_of_def]
  note d = b [THEN conjunct1]
  note v = b [THEN conjunct2, THEN conjunct1, rule_format] and m = b [THEN conjunct2, THEN conjunct2, rule_format]
  have v': "x \<in> set items \<and> c_id (fst x) = k" if "(k, x) \<in> set ?best" for k x
    using that v map_of_mem_iff [OF d] by blast
  have ids: "map c_id (pickActivePerId items) = map fst ?best"
    unfolding pickActivePerId_def using v' by (auto intro!: map_idI)
  have "\<exists>t. (c, t) \<in> set items \<and> list_all (\<lambda>i. \<not> isMoreActive i (c, t)) (filter (\<lambda>i. c_id (fst i) = c_id c) items)"
    if c: "c \<in> set (pickActivePerId items)" for c
  proof -
    from c obtain k t where kt: "(k, (c, t)) \<in> set ?best" unfolding pickActivePerId_def by auto
    have ct: "(c, t) \<in> set items" "c_id c = k" using v' [OF kt] by simp_all
    have "\<not> isMoreActive i (c, t)" if i: "i \<in> set items" "c_id (fst i) = c_id c" for i
    proof -
      from m [OF i(1)] obtain v where v: "map_of ?best k = Some v" "\<not> isMoreActive i v" using i(2) ct(2) by metis
      with kt map_of_mem_iff [OF d, of k "(c, t)"] have "v = (c, t)" by simp
      with v show ?thesis by simp
    qed
    with ct(1) show ?thesis unfolding list_all_iff set_filter by blast
  qed
  moreover have "c_id ` set (pickActivePerId items) = (c_id \<circ> fst) ` set items"
  proof -
    have "c_id ` set (pickActivePerId items) = keys ?best" by (metis ids list.set_map)
    also have "\<dots> = (c_id \<circ> fst) ` set items"
    proof
      show "keys ?best \<subseteq> (c_id \<circ> fst) ` set items" using v' by force
      show "(c_id \<circ> fst) ` set items \<subseteq> keys ?best"
        using m map_of_mem_iff [OF d] by force
    qed
    finally show ?thesis .
  qed
  ultimately show ?thesis unfolding ids using d by (simp only: list_all_iff) blast
qed

lemma pickActivePerId_aux: "c \<in> set (pickActivePerId items) \<Longrightarrow> c \<in> fst ` set items"
  using best_of_pick [of items] unfolding best_of_def pickActivePerId_def by force

section \<open>Queries\<close>

type_synonym ps = "string list \<Rightarrow> ContainerInfo list"

definition MANAGED_LABEL :: string where
  "MANAGED_LABEL = ''privos.managed=true''"

definition label_filter :: "string \<Rightarrow> string \<Rightarrow> string" where
  "label_filter key val = key @ ''='' @ val"

text \<open>The clock and date parser, and the two providers of in-memory signals.\<close>

record docker_env =
  ps_list :: ps
  date_parse :: "string \<Rightarrow> int option"
  clock :: int
  health_of :: "string \<Rightarrow> HealthCheck option"
  oom_of :: "string \<Rightarrow> int option"

definition map_entry :: "docker_env \<Rightarrow> ContainerInfo \<Rightarrow> dated" where
  "map_entry d entry = (let
     mapped = mapListEntryToContainer (date_parse d) (clock d) entry DEFAULT_HEALTH
       (oom_of d (or_else (map_of (le_Labels entry) ''privos.id'') (le_Id entry)))
   in (mapped\<lparr>c_healthCheck := or_else (health_of d (c_id mapped)) (c_healthCheck mapped)\<rparr>, le_Created entry * 1000))"

definition inspectManaged :: "docker_env \<Rightarrow> string list \<Rightarrow> Container list" where
  "inspectManaged d filters = pickActivePerId (map (map_entry d) (ps_list d filters))"

definition workspace_filter :: "string option \<Rightarrow> string list" where
  "workspace_filter workspaceId = (case truthy workspaceId of Some w \<Rightarrow> [label_filter ''privos.workspace'' w] | None \<Rightarrow> [])"

definition listManaged :: "docker_env \<Rightarrow> string option \<Rightarrow> Container list" where
  "listManaged d workspaceId = sort_key (\<lambda>c. - c_createdAt c) (inspectManaged d (MANAGED_LABEL # workspace_filter workspaceId))"

definition first_of :: "'a list \<Rightarrow> 'a option" where
  "first_of xs = (case xs of x # _ \<Rightarrow> Some x | [] \<Rightarrow> None)"

definition getById :: "docker_env \<Rightarrow> bool \<Rightarrow> string \<Rightarrow> string option \<Rightarrow> (unit, Container option) result" where
  "getById d FLEET_MODE cid workspaceId = (if FLEET_MODE \<and> truthy workspaceId = None then Inl ()
     else Inr (first_of (inspectManaged d (MANAGED_LABEL # label_filter ''privos.id'' cid # workspace_filter workspaceId))))"

definition isEligibleForLegacyHostFallback :: "Container \<Rightarrow> bool" where
  "isEligibleForLegacyHostFallback c = (\<not> c_mcpV3 c)"

definition findByHost :: "docker_env \<Rightarrow> string \<Rightarrow> string option \<Rightarrow> Container option" where
  "findByHost d subdomain domain = List.find (\<lambda>c. c_domain c = domain \<and> isEligibleForLegacyHostFallback c)
     (inspectManaged d (MANAGED_LABEL # label_filter ''privos.subdomain'' subdomain
       # (case truthy domain of Some x \<Rightarrow> [label_filter ''privos.domain'' x] | None \<Rightarrow> [])))"

definition findByAppId :: "docker_env \<Rightarrow> string \<Rightarrow> string \<Rightarrow> Container option" where
  "findByAppId d appId workspaceId = first_of (inspectManaged d [MANAGED_LABEL, label_filter ''privos.app-id'' appId,
     label_filter ''privos.workspace'' workspaceId, ''privos.mcp.schema=3''])"

definition sumAllocatedResources :: "docker_env \<Rightarrow> rat \<times> rat \<times> nat" where
  "sumAllocatedResources d = foldl (\<lambda>(m, c, n) x. (m + memoryMb (c_resources x), c + cpus (c_resources x), n + 1))
     (0, 0, 0) (listManaged d None)"

section \<open>Lookups stay in their scope\<close>

text \<open>What Docker documents of a \<open>label=<key>=<value>\<close> filter.\<close>

definition honours_filters :: "ps \<Rightarrow> bool" where
  "honours_filters p \<longleftrightarrow> (\<forall>fs k v. label_filter k v \<in> set fs \<and> CHR ''='' \<notin> set k \<longrightarrow>
     (\<forall>e \<in> set (p fs). map_of (le_Labels e) k = Some v))"

lemma inspectManaged_entry:
  "c \<in> set (inspectManaged d fs) \<Longrightarrow> \<exists>e \<in> set (ps_list d fs). c = fst (map_entry d e)"
  using pickActivePerId_aux [of c "map (map_entry d) (ps_list d fs)"] unfolding inspectManaged_def by force

lemma inspectManaged_label:
  "honours_filters (ps_list d) \<Longrightarrow> c \<in> set (inspectManaged d fs) \<Longrightarrow> label_filter k v \<in> set fs \<Longrightarrow> CHR ''='' \<notin> set k \<Longrightarrow>
     \<exists>e. c = fst (map_entry d e) \<and> map_of (le_Labels e) k = Some v"
  using inspectManaged_entry [of c d fs] unfolding honours_filters_def by blast

lemma map_entry_fields:
  "c_workspaceId (fst (map_entry d e)) = truthy (map_of (le_Labels e) ''privos.workspace'')"
  "c_appId (fst (map_entry d e)) = truthy (map_of (le_Labels e) ''privos.app-id'')"
  "c_subdomain (fst (map_entry d e)) = truthy (map_of (le_Labels e) ''privos.subdomain'')"
  "c_domain (fst (map_entry d e)) = truthy (map_of (le_Labels e) ''privos.domain'')"
  "c_mcpV3 (fst (map_entry d e)) = (map_of (le_Labels e) ''privos.mcp.schema'' = Some ''3'')"
  "c_id (fst (map_entry d e)) = or_else (truthy (map_of (le_Labels e) ''privos.id'')) (le_Id e)"
  by (simp_all add: map_entry_def mapListEntryToContainer_def buildContainer_def labelOrNull_def Let_def)

lemma first_of_in: "first_of xs = Some x \<Longrightarrow> x \<in> set xs"
  by (auto simp: first_of_def split: list.splits)

lemma findByHost_scope:
  assumes "honours_filters (ps_list d)" "findByHost d sub dmn = Some c" "sub \<noteq> []"
  shows "c_subdomain c = Some sub \<and> c_domain c = dmn \<and> \<not> c_mcpV3 c"
proof -
  from find_SomeD [OF assms(2) [unfolded findByHost_def]]
  have "c \<in> set (inspectManaged d (MANAGED_LABEL # label_filter ''privos.subdomain'' sub
       # (case truthy dmn of Some x \<Rightarrow> [label_filter ''privos.domain'' x] | None \<Rightarrow> [])))"
    and "c_domain c = dmn \<and> \<not> c_mcpV3 c" by (simp_all add: isEligibleForLegacyHostFallback_def)
  then show ?thesis
    using inspectManaged_label [OF assms(1), of c _ "''privos.subdomain''" sub] \<open>sub \<noteq> []\<close> by (force simp: map_entry_fields)
qed

text \<open>
  If Docker honours its label filters, container lookups never leave their scope: the public
  host lookup finds only the container labelled with exactly that subdomain and domain and never a
  protocol-3 one, the app lookup only a protocol-3 container of that app in that workspace, and on
  a fleet node the lookup by id only a container of the caller's workspace.
\<close>

theorem lookups_stay_in_scope:
  assumes "honours_filters (ps_list d)"
  shows "(findByHost d sub dmn = Some c \<and> sub \<noteq> [] \<longrightarrow> c_subdomain c = Some sub \<and> c_domain c = dmn \<and> \<not> c_mcpV3 c)
    \<and> (findByAppId d a w = Some c \<and> a \<noteq> [] \<and> w \<noteq> [] \<longrightarrow> c_appId c = Some a \<and> c_workspaceId c = Some w \<and> c_mcpV3 c)
    \<and> (getById d True i ws = Inr (Some c) \<and> i \<noteq> [] \<longrightarrow> c_id c = i \<and> ws \<noteq> None \<and> c_workspaceId c = ws)"
proof (intro conjI impI)
  note label = inspectManaged_label [OF assms]
  {
    assume "findByHost d sub dmn = Some c \<and> sub \<noteq> []"
    with findByHost_scope [OF assms] show "c_subdomain c = Some sub" "c_domain c = dmn" "\<not> c_mcpV3 c" by blast+
  next
    assume a: "findByAppId d a w = Some c \<and> a \<noteq> [] \<and> w \<noteq> []"
    then have c: "c \<in> set (inspectManaged d [MANAGED_LABEL, label_filter ''privos.app-id'' a,
       label_filter ''privos.workspace'' w, ''privos.mcp.schema=3''])" by (auto simp: findByAppId_def dest: first_of_in)
    have v3: "''privos.mcp.schema=3'' = label_filter ''privos.mcp.schema'' ''3''" by (simp add: label_filter_def)
    show "c_appId c = Some a" using label [OF c, of "''privos.app-id''" a] a by (force simp: map_entry_fields)
    show "c_workspaceId c = Some w" using label [OF c, of "''privos.workspace''" w] a by (force simp: map_entry_fields)
    show "c_mcpV3 c" using label [OF c, of "''privos.mcp.schema''" "''3''"] by (force simp: map_entry_fields v3)
  next
    assume g: "getById d True i ws = Inr (Some c) \<and> i \<noteq> []"
    then obtain w where w: "ws = Some w" "w \<noteq> []" by (auto simp: getById_def split: if_splits)
    with g have c: "c \<in> set (inspectManaged d [MANAGED_LABEL, label_filter ''privos.id'' i, label_filter ''privos.workspace'' w])"
      by (auto simp: getById_def workspace_filter_def truthy_def dest: first_of_in split: if_splits)
    show "ws \<noteq> None" using w by simp
    show "c_id c = i" using label [OF c, of "''privos.id''" i] g by (force simp: map_entry_fields or_else_def truthy_def)
    show "c_workspaceId c = ws" using label [OF c, of "''privos.workspace''" w] w by (force simp: map_entry_fields)
  }
qed

definition demo_entry :: ContainerInfo where
  "demo_entry = \<lparr>le_Id = ''d1'', le_Names = [''/app-1''], le_Image = ''reg/app:2'', le_State = Some ''running'',
     le_Labels = [(''privos.id'', ''c1''), (''privos.subdomain'', ''shop''), (''privos.domain'', ''example.com''),
       (''privos.port'', ''3001''), (''privos.workspace'', ''w1''), (''privos.managed'', ''true'')], le_Ports = [],
     le_Networks = [(''privos-ws-1'', Some ''172.18.0.5'')], le_Created = 5, le_Mounts = []\<rparr>"

definition demo_docker :: docker_env where
  "demo_docker = \<lparr>ps_list = \<lambda>fs. if set fs \<subseteq> set [MANAGED_LABEL, ''privos.id=c1'', ''privos.workspace=w1'',
       ''privos.subdomain=shop'', ''privos.domain=example.com''] then [demo_entry] else [],
     date_parse = \<lambda>_. None, clock = 7, health_of = \<lambda>_. None, oom_of = \<lambda>_. None\<rparr>"

lemma takeWhile_until: "c \<notin> set k \<Longrightarrow> takeWhile (\<lambda>x. x \<noteq> c) (k @ c # v) = k"
  by (induction k) auto

lemma label_filter_split:
  "label_filter k v = s \<Longrightarrow> CHR ''='' \<notin> set k \<Longrightarrow> k = takeWhile (\<lambda>c. c \<noteq> CHR ''='') s \<and> v = drop (length k + 1) s"
  by (auto simp: label_filter_def takeWhile_until)

lemma demo_labels:
  "label_filter k v \<in> set [MANAGED_LABEL, ''privos.id=c1'', ''privos.workspace=w1'', ''privos.subdomain=shop'',
     ''privos.domain=example.com''] \<Longrightarrow> CHR ''='' \<notin> set k \<Longrightarrow>
   (k, v) \<in> set [(''privos.managed'', ''true''), (''privos.id'', ''c1''), (''privos.workspace'', ''w1''),
     (''privos.subdomain'', ''shop''), (''privos.domain'', ''example.com'')]"
  unfolding set_simps MANAGED_LABEL_def
  by (elim insertE emptyE; drule (1) label_filter_split; simp)

lemma demo_honours: "honours_filters (ps_list demo_docker)"
  unfolding honours_filters_def
proof (intro allI impI ballI)
  fix fs k v e
  assume a: "label_filter k v \<in> set fs \<and> CHR ''='' \<notin> set k" and e: "e \<in> set (ps_list demo_docker fs)"
  then have "label_filter k v \<in> set [MANAGED_LABEL, ''privos.id=c1'', ''privos.workspace=w1'',
       ''privos.subdomain=shop'', ''privos.domain=example.com'']" and ed: "e = demo_entry"
    by (auto simp: demo_docker_def split: if_splits)
  from demo_labels [OF this(1)] a have "(k, v) \<in> set [(''privos.managed'', ''true''), (''privos.id'', ''c1''), (''privos.workspace'', ''w1''),
     (''privos.subdomain'', ''shop''), (''privos.domain'', ''example.com'')]" by blast
  then show "map_of (le_Labels e) k = Some v"
    unfolding ed demo_entry_def by (elim set_ConsD [elim_format] disjE) (simp_all add: ed demo_entry_def)
qed

lemma demo_findByHost:
  "map_option (\<lambda>c. (c_id c, c_state c, c_port c, c_mcpV2 c)) (findByHost demo_docker ''shop'' (Some ''example.com''))
     = Some (''c1'', CS_running, 3001, False)"
  by (simp add: demo_docker_def demo_entry_def findByHost_def inspectManaged_def pickActivePerId_def pick_step_def
      map_entry_def mapListEntryToContainer_def buildContainer_def labelOrNull_def label_filter_def truthy_def
      isEligibleForLegacyHostFallback_def MANAGED_LABEL_def or_else_def Let_def mapState_def label_port_def
      parse_int_def char_digit_def is_digit_def is_js_space_def digits_value_def u_def)

lemma lookups_stay_in_scope_witness:
  "\<exists>c. findByHost demo_docker ''shop'' (Some ''example.com'') = Some c \<and> c_subdomain c = Some ''shop'' \<and> \<not> c_mcpV3 c"
proof -
  from demo_findByHost obtain c where c: "findByHost demo_docker ''shop'' (Some ''example.com'') = Some c" by auto
  with lookups_stay_in_scope [OF demo_honours, of "''shop''" "Some ''example.com''" c] show ?thesis by auto
qed

end
