(* ===== verification/Health_Monitor.thy ===== *)
theory Health_Monitor
  imports Docker_State
begin

text \<open>
  The agent's health monitor, \<open>src/services/health-monitor.ts\<close>. One tick lists the managed containers,
  probes the running ones and restarts those over their threshold; \<open>tick_world\<close> holds what the outside
  answers during one tick. The probes of one tick run concurrently but each touches only the map entry of
  its own container id, and \<open>busy\<close> keeps ticks apart, so a tick is the fold of its checks.
\<close>

record tick_world =
  docker_list :: docker_env
  list_fails :: bool
  fetch_status :: "string \<Rightarrow> nat option"
  restartContainer :: "string \<Rightarrow> bool"
  oom_inspect :: "string \<Rightarrow> (bool \<times> string option) option"
  tick_now :: int
  restart_now :: int

record monitor =
  healthState :: "HealthCheck obj"
  oomState :: "int obj"
  busy :: bool

section \<open>The decision\<close>

definition computeHealthTransition :: "HealthCheck \<Rightarrow> bool \<Rightarrow> HealthPolicy \<Rightarrow> int \<Rightarrow> HealthCheck \<times> bool" where
  "computeHealthTransition current healthy policy now = (if healthy
     then (\<lparr>hc_status = HS_healthy, hc_failCount = 0, hc_restartCount = hc_restartCount current, hc_lastCheck = Some now\<rparr>, False)
     else let failCount = hc_failCount current + 1 in
       if hp_maxFails policy \<le> int failCount \<and> hp_restart policy
       then (\<lparr>hc_status = HS_unknown, hc_failCount = 0, hc_restartCount = hc_restartCount current + 1, hc_lastCheck = Some now\<rparr>, True)
       else (\<lparr>hc_status = HS_unhealthy, hc_failCount = failCount, hc_restartCount = hc_restartCount current, hc_lastCheck = Some now\<rparr>, False))"

definition revertFailedRestart :: "HealthCheck \<Rightarrow> HealthPolicy \<Rightarrow> int \<Rightarrow> HealthCheck" where
  "revertFailedRestart afterRestart policy now = \<lparr>hc_status = HS_unhealthy, hc_failCount = nat (hp_maxFails policy),
     hc_restartCount = hc_restartCount afterRestart, hc_lastCheck = Some now\<rparr>"

section \<open>Probing and restarting\<close>

definition response_ok :: "nat \<Rightarrow> bool" where
  "response_ok status = (200 \<le> status \<and> status \<le> 299)"

definition probe :: "(string \<Rightarrow> nat option) \<Rightarrow> string \<Rightarrow> string \<Rightarrow> bool" where
  "probe fetch internalUrl healthPath = (case fetch (internalUrl @ healthPath) of
     None \<Rightarrow> False
   | Some status \<Rightarrow> response_ok status \<or> (status = 404 \<and>
       (case fetch (internalUrl @ ''/.well-known/mcp/manifest.json'') of None \<Rightarrow> False | Some fallback \<Rightarrow> response_ok fallback)))"

text \<open>The second component collects the containers a restart was tried on.\<close>

definition checkOne :: "tick_world \<Rightarrow> Container \<Rightarrow> HealthCheck obj \<times> string list \<Rightarrow> HealthCheck obj \<times> string list" where
  "checkOne w c st = (let
     (hs, attempts) = st;
     policy = c_healthPolicy c;
     current = or_else (map_of hs (c_id c)) (c_healthCheck c);
     healthy = probe (fetch_status w) (c_internalUrl c) (hp_path policy);
     (next, shouldRestart) = computeHealthTransition current healthy policy (tick_now w);
     hs1 = obj_set (c_id c) next hs
   in if \<not> shouldRestart then (hs1, attempts)
      else if restartContainer w (c_dockerContainerId c) then (hs1, attempts @ [c_id c])
      else (obj_set (c_id c) (revertFailedRestart next policy (restart_now w)) hs1, attempts @ [c_id c]))"

definition captureOomSignal :: "tick_world \<Rightarrow> Container \<Rightarrow> int obj \<Rightarrow> int obj" where
  "captureOomSignal w c os = (if map_of os (c_id c) \<noteq> None then os
     else case oom_inspect w (c_dockerContainerId c) of
       Some (True, finishedAt) \<Rightarrow>
         obj_set (c_id c) (or_else (toEpoch (date_parse (docker_list w)) finishedAt) (tick_now w)) os
     | _ \<Rightarrow> os)"

definition prune :: "string list \<Rightarrow> 'v obj \<Rightarrow> 'v obj" where
  "prune liveIds m = filter (\<lambda>(i, _). i \<in> set liveIds) m"

definition with_overlays :: "monitor \<Rightarrow> docker_env \<Rightarrow> docker_env" where
  "with_overlays s d = d\<lparr>health_of := map_of (healthState s), oom_of := map_of (oomState s)\<rparr>"

definition checkAll :: "tick_world \<Rightarrow> monitor \<Rightarrow> monitor \<times> string list" where
  "checkAll w s = (let
     containers = listManaged (with_overlays s (docker_list w)) None;
     liveIds = map c_id containers;
     hs = prune liveIds (healthState s);
     os = prune liveIds (oomState s);
     (hs', attempts) = fold (checkOne w) (filter (\<lambda>c. c_state c = CS_running) containers) (hs, []);
     os' = fold (captureOomSignal w) (filter (\<lambda>c. c_state c = CS_stopped) containers) os
   in (s\<lparr>healthState := hs', oomState := os'\<rparr>, attempts))"

definition tick :: "tick_world \<Rightarrow> monitor \<Rightarrow> monitor \<times> string list" where
  "tick w s = (if busy s then (s, [])
     else if list_fails w then (s, []) else checkAll w s)"

text \<open>The restarts tried in each of a sequence of ticks.\<close>

fun monitor_run :: "tick_world list \<Rightarrow> monitor \<Rightarrow> string list list" where
  "monitor_run [] s = []"
| "monitor_run (w # ws) s = (let (s', attempts) = tick w s in attempts # monitor_run ws s')"

definition fresh_monitor :: monitor where
  "fresh_monitor = \<lparr>healthState = [], oomState = [], busy = False\<rparr>"

section \<open>The abstract monitor: counting failed probes\<close>

text \<open>
  The specification keeps, for each container id, how many probes in a row have failed since the
  last good one, the last restart that worked, or the container's first sight; a restart is due at the
  threshold of the container's policy.
\<close>

type_synonym streaks = "string \<Rightarrow> nat"

definition healthy :: "tick_world \<Rightarrow> Container \<Rightarrow> bool" where
  "healthy w c = probe (fetch_status w) (c_internalUrl c) (hp_path (c_healthPolicy c))"

definition restart_due :: "tick_world \<Rightarrow> streaks \<Rightarrow> Container \<Rightarrow> bool" where
  "restart_due w streak c = (\<not> healthy w c \<and> hp_restart (c_healthPolicy c)
     \<and> hp_maxFails (c_healthPolicy c) \<le> int (streak (c_id c) + 1))"

definition next_streak :: "tick_world \<Rightarrow> streaks \<Rightarrow> Container \<Rightarrow> nat" where
  "next_streak w streak c = (if healthy w c \<or> restart_due w streak c \<and> restartContainer w (c_dockerContainerId c)
     then 0 else streak (c_id c) + 1)"

text \<open>The fields the specification reads; the two in-memory overlays are not among them.\<close>

definition view :: "Container \<Rightarrow> Container" where
  "view c = c\<lparr>c_oomKilledAt := None, c_healthCheck := DEFAULT_HEALTH\<rparr>"

definition listed :: "tick_world \<Rightarrow> Container list" where
  "listed w = map view (listManaged (docker_list w) None)"

definition probed :: "tick_world \<Rightarrow> Container list" where
  "probed w = filter (\<lambda>c. c_state c = CS_running) (listed w)"

definition streaks_after :: "tick_world \<Rightarrow> Container list \<Rightarrow> streaks \<Rightarrow> streaks" where
  "streaks_after w cs streak = (\<lambda>i. case List.find (\<lambda>c. c_id c = i) cs of
     Some c \<Rightarrow> next_streak w streak c | None \<Rightarrow> streak i)"

definition spec_tick :: "tick_world \<Rightarrow> streaks \<Rightarrow> streaks \<times> string list" where
  "spec_tick w streak = (if list_fails w then (streak, []) else let
     known = (\<lambda>i. if i \<in> c_id ` set (listed w) then streak i else 0)
   in (streaks_after w (probed w) known, map c_id (filter (restart_due w known) (probed w))))"

fun spec_run :: "tick_world list \<Rightarrow> streaks \<Rightarrow> string list list" where
  "spec_run [] streak = []"
| "spec_run (w # ws) streak = (let (streak', attempts) = spec_tick w streak in attempts # spec_run ws streak')"

text \<open>The container's counter is its streak, cut at the threshold when restarts are enabled.\<close>

definition counts :: "(string \<Rightarrow> HealthPolicy) \<Rightarrow> (string \<Rightarrow> HealthCheck option) \<Rightarrow> streaks \<Rightarrow> bool" where
  "counts pol hs streak \<longleftrightarrow> (\<forall>i. hc_failCount (or_else (hs i) DEFAULT_HEALTH)
     = (if hp_restart (pol i) then min (streak i) (nat (hp_maxFails (pol i))) else streak i))"

lemma view_fields [simp]:
  "c_id (view c) = c_id c" "c_state (view c) = c_state c" "c_createdAt (view c) = c_createdAt c"
  "c_internalUrl (view c) = c_internalUrl c" "c_healthPolicy (view c) = c_healthPolicy c"
  "c_dockerContainerId (view c) = c_dockerContainerId c"
  by (simp_all add: view_def)

lemma view_spec [simp]:
  "healthy w (view c) = healthy w c" "restart_due w streak (view c) = restart_due w streak c"
  "next_streak w streak (view c) = next_streak w streak c"
  by (simp_all add: healthy_def restart_due_def next_streak_def)

lemma map_entry_view: "apfst view (map_entry (with_overlays s d) e) = apfst view (map_entry d e)"
  by (simp add: map_entry_def with_overlays_def view_def mapListEntryToContainer_def buildContainer_def Let_def)

lemma obj_set_map: "obj_set k (f v) (map (apsnd f) m) = map (apsnd f) (obj_set k v m)"
  by (induction k v m rule: obj_set.induct) auto

lemma map_of_apsnd: "map_of (map (apsnd f) m) k = map_option f (map_of m k)"
  by (induction m) auto

lemma pick_step_view:
  "pick_step (apfst view x) (map (apsnd (apfst view)) best) = map (apsnd (apfst view)) (pick_step x best)"
  by (simp add: pick_step_def map_of_apsnd isMoreActive_def obj_set_map split: option.splits)

lemma pickActivePerId_view: "pickActivePerId (map (apfst view) items) = map view (pickActivePerId items)"
proof -
  have "fold pick_step (map (apfst view) items) (map (apsnd (apfst view)) best)
      = map (apsnd (apfst view)) (fold pick_step items best)" for best
    by (induction items arbitrary: best) (simp_all add: pick_step_view)
  from this [of "[]"] show ?thesis by (simp add: pickActivePerId_def split_beta)
qed

lemma sort_key_map: "sort_key f (map g xs) = map g (sort_key (f \<circ> g) xs)"
proof -
  have "insort_key f (g x) (map g ys) = map g (insort_key (f \<circ> g) x ys)" for x ys
    by (induction ys) auto
  then show ?thesis by (induction xs) auto
qed

lemma listManaged_view: "map view (listManaged (with_overlays s d) ws) = map view (listManaged d ws)"
proof -
  have "map view (inspectManaged (with_overlays s d) fs) = map view (inspectManaged d fs)" for fs
    by (simp add: inspectManaged_def map_entry_view comp_def with_overlays_def [of s d]
        flip: pickActivePerId_view) (simp add: map_entry_view flip: with_overlays_def)
  moreover have "map view (listManaged d' ws) = sort_key (\<lambda>c. - c_createdAt c) (map view (inspectManaged d' (MANAGED_LABEL # workspace_filter ws)))" for d'
    by (simp add: listManaged_def sort_key_map comp_def)
  ultimately show ?thesis by simp
qed

lemma listed_distinct: "distinct (map c_id (listed w))"
proof -
  have "distinct (map c_id (pickActivePerId items))" for items
  proof -
    note b = best_of_pick [of items, unfolded best_of_def]
    have "map c_id (pickActivePerId items) = map fst (fold pick_step items [])"
      unfolding pickActivePerId_def using b map_of_mem_iff [OF b [THEN conjunct1]] by (auto intro!: map_idI)
    with b show ?thesis by simp
  qed
  then have "distinct (map c_id (inspectManaged d fs))" for d fs by (simp add: inspectManaged_def)
  then show ?thesis by (simp add: listed_def listManaged_def distinct_map comp_def inj_on_def)
qed

lemma parse_maxFails_pos: "0 < hp_maxFails (parseHealthPolicy labels)"
  by (simp add: parseHealthPolicy_def HEALTH_DEFAULTS_def split: option.splits)

lemma listManaged_entry: "c \<in> set (listManaged d ws) \<Longrightarrow> \<exists>e. c = fst (map_entry d e)"
  using inspectManaged_entry [of c d] by (auto simp: listManaged_def)

lemma listed_maxFails: "c \<in> set (listed w) \<Longrightarrow> 0 < hp_maxFails (c_healthPolicy c)"
  by (auto simp: listed_def map_entry_def mapListEntryToContainer_def buildContainer_def Let_def parse_maxFails_pos
      dest!: listManaged_entry)

lemma overlaid_health: "c \<in> set (listManaged (with_overlays s d) ws) \<Longrightarrow>
    c_healthCheck c = or_else (map_of (healthState s) (c_id c)) DEFAULT_HEALTH"
  by (auto simp: map_entry_def with_overlays_def mapListEntryToContainer_def buildContainer_def Let_def
      dest!: listManaged_entry)

lemma prune_lookup: "map_of (prune ids m) i = (if i \<in> set ids then map_of m i else None)"
  by (induction m) (auto simp: prune_def)

section \<open>The monitor implements the specification\<close>

lemma checkOne_counts:
  assumes R: "counts pol (map_of hs) streak" and c: "c_healthPolicy c = pol (c_id c)" "0 < hp_maxFails (pol (c_id c))"
    and cur: "or_else (map_of hs (c_id c)) (c_healthCheck c) = or_else (map_of hs (c_id c)) DEFAULT_HEALTH"
  shows "\<exists>hs'. checkOne w c (hs, att) = (hs', att @ (if restart_due w streak c then [c_id c] else []))
    \<and> counts pol (map_of hs') (streak(c_id c := next_streak w streak c))
    \<and> (\<forall>i. i \<noteq> c_id c \<longrightarrow> map_of hs' i = map_of hs i)"
proof -
  let ?cur = "or_else (map_of hs (c_id c)) (c_healthCheck c)" and ?p = "pol (c_id c)"
  from R have fc: "hc_failCount ?cur = (if hp_restart ?p then min (streak (c_id c)) (nat (hp_maxFails ?p)) else streak (c_id c))"
    unfolding counts_def cur by blast
  have due: "restart_due w streak c \<longleftrightarrow> snd (computeHealthTransition ?cur (healthy w c) (c_healthPolicy c) (tick_now w))"
    using c(2) by (auto simp: restart_due_def computeHealthTransition_def fc c(1) Let_def)
  have R': "counts pol ((map_of hs)(c_id c := Some h)) (streak(c_id c := n))"
    if "hc_failCount h = (if hp_restart ?p then min n (nat (hp_maxFails ?p)) else n)" for h n
    using R that by (auto simp: counts_def or_else_def)
  obtain nxt sr where t: "computeHealthTransition ?cur (healthy w c) (c_healthPolicy c) (tick_now w) = (nxt, sr)" by force
  with due have sr: "sr = restart_due w streak c" by simp
  show ?thesis
  proof (cases "restart_due w streak c \<and> \<not> restartContainer w (c_dockerContainerId c)")
    case True
    then have "checkOne w c (hs, att) = (obj_set (c_id c) (revertFailedRestart nxt (c_healthPolicy c) (restart_now w)) (obj_set (c_id c) nxt hs), att @ [c_id c])"
      using t sr unfolding healthy_def by (simp add: checkOne_def Let_def)
    moreover have "counts pol ((map_of hs)(c_id c := Some (revertFailedRestart nxt (c_healthPolicy c) (restart_now w)))) (streak(c_id c := next_streak w streak c))"
      using True by (intro R') (auto simp: next_streak_def restart_due_def revertFailedRestart_def c)
    ultimately show ?thesis using True by (simp add: fun_upd_upd)
  next
    case False
    then have "checkOne w c (hs, att) = (obj_set (c_id c) nxt hs, att @ (if restart_due w streak c then [c_id c] else []))"
      using t sr unfolding healthy_def by (simp add: checkOne_def Let_def)
    moreover have "hc_failCount nxt = (if hp_restart ?p then min (next_streak w streak c) (nat (hp_maxFails ?p)) else next_streak w streak c)"
      using t False c(2) by (auto simp: computeHealthTransition_def next_streak_def restart_due_def fc c(1) Let_def split: if_splits)
    ultimately show ?thesis using R' by simp
  qed
qed

lemma checks_count:
  assumes "counts pol (map_of hs) streak" "distinct (map c_id cs)"
    and "\<And>c. c \<in> set cs \<Longrightarrow> c_healthPolicy c = pol (c_id c) \<and> 0 < hp_maxFails (pol (c_id c))
      \<and> or_else (map_of hs (c_id c)) (c_healthCheck c) = or_else (map_of hs (c_id c)) DEFAULT_HEALTH"
  shows "\<exists>hs'. fold (checkOne w) cs (hs, att) = (hs', att @ map c_id (filter (restart_due w streak) cs))
    \<and> counts pol (map_of hs') (streaks_after w cs streak)"
  using assms
proof (induction cs arbitrary: hs streak att)
  case Nil
  then show ?case by (simp add: streaks_after_def)
next
  case (Cons c cs)
  let ?streak = "streak(c_id c := next_streak w streak c)"
  from checkOne_counts [OF Cons.prems(1), of c w att] Cons.prems(3) [of c] obtain hs1 where
    1: "checkOne w c (hs, att) = (hs1, att @ (if restart_due w streak c then [c_id c] else []))"
      "counts pol (map_of hs1) ?streak" "\<And>i. i \<noteq> c_id c \<Longrightarrow> map_of hs1 i = map_of hs i" by auto
  have "c_id d \<noteq> c_id c" if "d \<in> set cs" for d using Cons.prems(2) that by (metis distinct.simps(2) image_eqI list.simps(9) list.set_map)
  with 1(3) Cons.prems(3) obtain hs' where
    2: "fold (checkOne w) cs (hs1, att @ (if restart_due w streak c then [c_id c] else []))
        = (hs', (att @ (if restart_due w streak c then [c_id c] else [])) @ map c_id (filter (restart_due w ?streak) cs))"
      "counts pol (map_of hs') (streaks_after w cs ?streak)"
    using Cons.IH [OF 1(2)] Cons.prems(2) by (metis distinct.simps(2) list.simps(9) list.set_intros(2))
  have same: "restart_due w ?streak d = restart_due w streak d" "next_streak w ?streak d = next_streak w streak d"
    if "c_id d \<noteq> c_id c" for d using that by (simp_all add: restart_due_def next_streak_def)
  have f: "filter (restart_due w ?streak) cs = filter (restart_due w streak) cs"
    using same \<open>\<And>d. d \<in> set cs \<Longrightarrow> c_id d \<noteq> c_id c\<close> by (intro filter_cong) auto
  have "List.find (\<lambda>d. c_id d = c_id c) cs = None"
    using \<open>\<And>d. d \<in> set cs \<Longrightarrow> c_id d \<noteq> c_id c\<close> by (auto simp: find_None_iff2)
  then have "streaks_after w cs ?streak = streaks_after w (c # cs) streak"
    by (auto simp: streaks_after_def fun_eq_iff same dest: find_SomeD split: option.splits)
  with 1(1) 2 f show ?case by simp
qed

lemma tick_refines:
  assumes R: "counts pol (map_of (healthState s)) streak" and b: "\<not> busy s"
    and pol: "\<And>c. c \<in> set (listed w) \<Longrightarrow> c_healthPolicy c = pol (c_id c)"
  shows "snd (tick w s) = snd (spec_tick w streak)
    \<and> counts pol (map_of (healthState (fst (tick w s)))) (fst (spec_tick w streak)) \<and> \<not> busy (fst (tick w s))"
proof (cases "list_fails w")
  case True
  with R b show ?thesis by (simp add: tick_def spec_tick_def)
next
  case False
  define cs where "cs = listManaged (with_overlays s (docker_list w)) None"
  define known where "known = (\<lambda>i. if i \<in> c_id ` set (listed w) then streak i else 0)"
  define hs where "hs = prune (map c_id cs) (healthState s)"
  let ?run = "filter (\<lambda>c. c_state c = CS_running) cs"
  have l: "listed w = map view cs" by (simp add: listed_def cs_def listManaged_view)
  then have p: "probed w = map view ?run" by (simp add: probed_def filter_map comp_def)
  have ids: "c_id ` set (listed w) = c_id ` set cs" by (auto simp: l image_iff)
  from listed_distinct [of w] have d: "distinct (map c_id ?run)" by (simp add: l comp_def distinct_map inj_on_def)
  have k: "counts pol (map_of hs) known"
    using R unfolding counts_def hs_def prune_lookup known_def ids by (auto simp: or_else_def DEFAULT_HEALTH_def)
  have c: "c_healthPolicy c = pol (c_id c) \<and> 0 < hp_maxFails (pol (c_id c))
      \<and> or_else (map_of hs (c_id c)) (c_healthCheck c) = or_else (map_of hs (c_id c)) DEFAULT_HEALTH" if "c \<in> set ?run" for c
  proof -
    from that have v: "view c \<in> set (listed w)" and "c \<in> set cs" by (auto simp: l)
    with overlaid_health [of c s "docker_list w" None]
    have "map_of hs (c_id c) = None \<Longrightarrow> c_healthCheck c = DEFAULT_HEALTH"
      by (auto simp: hs_def prune_lookup cs_def or_else_def)
    with pol [OF v] listed_maxFails [OF v] show ?thesis by (auto simp: or_else_def split: option.split)
  qed
  from checks_count [OF k d c, of w "[]"] obtain hs' where
    f: "fold (checkOne w) ?run (hs, []) = (hs', map c_id (filter (restart_due w known) ?run))"
      "counts pol (map_of hs') (streaks_after w ?run known)" by auto
  have "streaks_after w (probed w) known = streaks_after w ?run known"
  proof -
    have "List.find (\<lambda>c. c_id c = i) (map view xs) = map_option view (List.find (\<lambda>c. c_id c = i) xs)" for i xs
      by (induction xs) auto
    then show ?thesis by (auto simp: streaks_after_def p fun_eq_iff split: option.splits)
  qed
  moreover have "map c_id (filter (restart_due w known) (probed w)) = map c_id (filter (restart_due w known) ?run)"
    by (simp add: p filter_map comp_def)
  ultimately show ?thesis
    using f b False unfolding hs_def cs_def
    by (simp add: tick_def spec_tick_def checkAll_def Let_def known_def [symmetric])
qed

text \<open>
  C12. The monitor refines the specification that counts failed probes: over any sequence of ticks, each with its
  own Docker listing, probe answers and failed restarts, the containers it restarts in each tick are exactly those
  that were running, had restarts enabled and whose probes have failed at least \<open>maxFails\<close> times in a row, provided
  a container id keeps its health policy.
\<close>

theorem health_monitor_refines_streaks:
  assumes "list_all (\<lambda>w. list_all (\<lambda>c. c_healthPolicy c = pol (c_id c)) (listed w)) ws"
  shows "monitor_run ws fresh_monitor = spec_run ws (\<lambda>_. 0)"
proof -
  have "monitor_run ws s = spec_run ws streak"
    if "counts pol (map_of (healthState s)) streak" "\<not> busy s" for s streak
    using that assms
  proof (induction ws arbitrary: s streak)
    case (Cons w ws)
    from tick_refines [OF Cons.prems(1,2), of w] Cons.prems(3)
    have "snd (tick w s) = snd (spec_tick w streak)"
      "counts pol (map_of (healthState (fst (tick w s)))) (fst (spec_tick w streak))" "\<not> busy (fst (tick w s))"
      by (simp_all add: list_all_iff)
    with Cons.IH [OF this(2,3)] Cons.prems(3) show ?case by (simp add: split_beta)
  qed simp
  then show ?thesis by (simp add: fresh_monitor_def counts_def or_else_def DEFAULT_HEALTH_def)
qed

text \<open>Three failed probes in a row, the third restart attempt failing, then a fourth that works.\<close>

definition demo_tick :: "bool \<Rightarrow> tick_world" where
  "demo_tick restarts = \<lparr>docker_list = demo_docker\<lparr>ps_list := \<lambda>fs. [demo_entry]\<rparr>, list_fails = False, fetch_status = \<lambda>_. Some 500,
     restartContainer = \<lambda>_. restarts, oom_inspect = \<lambda>_. None, tick_now = 1, restart_now = 2\<rparr>"

lemma demo_listed: "\<exists>c. listed (demo_tick b) = [c] \<and> c_id c = ''c1'' \<and> c_state c = CS_running \<and> c_healthPolicy c = HEALTH_DEFAULTS"
  by (simp add: listed_def listManaged_def view_def inspectManaged_def pickActivePerId_def pick_step_def demo_tick_def demo_docker_def demo_entry_def
      map_entry_def mapListEntryToContainer_def buildContainer_def truthy_def or_else_def Let_def mapState_def
      parseHealthPolicy_def HEALTH_DEFAULTS_def parse_int_def)

lemma health_monitor_refines_streaks_witness:
  "monitor_run [demo_tick True, demo_tick True, demo_tick False, demo_tick True, demo_tick True] fresh_monitor
     = [[], [], [''c1''], [''c1''], []]"
proof -
  let ?ws = "[demo_tick True, demo_tick True, demo_tick False, demo_tick True, demo_tick True]"
  obtain c where c: "\<And>b. listed (demo_tick b) = [c]" "c_id c = ''c1''" "c_state c = CS_running" "c_healthPolicy c = HEALTH_DEFAULTS"
    using demo_listed [of True] by (auto simp: listed_def demo_tick_def)
  then have "list_all (\<lambda>w. list_all (\<lambda>c. c_healthPolicy c = HEALTH_DEFAULTS) (listed w)) ?ws" by simp
  from health_monitor_refines_streaks [of "\<lambda>_. HEALTH_DEFAULTS", OF this]
  have run: "monitor_run ?ws fresh_monitor = spec_run ?ws (\<lambda>_. 0)" .
  have probed: "probed (demo_tick b) = [c]" for b using c by (simp add: probed_def)
  have unhealthy: "\<not> healthy (demo_tick b) c" for b by (simp add: healthy_def probe_def demo_tick_def response_ok_def)
  have restart: "restartContainer (demo_tick b) x = b" "\<not> list_fails (demo_tick b)" for b x by (simp_all add: demo_tick_def)
  show ?thesis unfolding run
    by (simp add: spec_tick_def probed streaks_after_def next_streak_def restart_due_def unhealthy restart c HEALTH_DEFAULTS_def)
qed

end
