(* ===== verification/Http.thy ===== *)
theory Http
  imports Prelude
begin

text \<open>
  The view of an HTTP request that the proxy listeners use: Node's \<open>IncomingMessage\<close> with its
  header object (\<open>string | string[] | undefined\<close> values), and the header helpers that
  \<open>src/proxy/ingress-listener.ts\<close> and \<open>src/proxy/runtime-listener.ts\<close> both define.
\<close>

datatype hval = One string | Many "string list" | Undef

type_synonym headers = "hval obj"

record http_req =
  req_method :: "string option"
  req_url :: "string option"
  req_headers :: headers

definition method_of :: "http_req \<Rightarrow> string" where
  "method_of req = (case req_method req of None \<Rightarrow> ''GET'' | Some m \<Rightarrow> m)"

definition url_of :: "http_req \<Rightarrow> string" where
  "url_of req = (case req_url req of None \<Rightarrow> ''/'' | Some u \<Rightarrow> u)"

definition has_body :: "http_req \<Rightarrow> bool" where
  "has_body req = (method_of req \<noteq> ''GET'' \<and> method_of req \<noteq> ''HEAD'')"

text \<open>\<open>firstHeader(h[name])\<close>: an absent or undefined header, and an empty array, give undefined.\<close>

definition firstHeader :: "hval option \<Rightarrow> string option" where
  "firstHeader v = (case v of
      None \<Rightarrow> None
    | Some Undef \<Rightarrow> None
    | Some (One s) \<Rightarrow> Some s
    | Some (Many []) \<Rightarrow> None
    | Some (Many (s # _)) \<Rightarrow> Some s)"

definition header :: "http_req \<Rightarrow> string \<Rightarrow> string option" where
  "header req name = firstHeader (map_of (req_headers req) name)"

definition joined :: "hval \<Rightarrow> string" where
  "joined v = (case v of One s \<Rightarrow> s | Many xs \<Rightarrow> join_with '', '' xs | Undef \<Rightarrow> [])"

section \<open>Filtering loops over header objects\<close>

text \<open>
  \<open>for (const [key, value] of Object.entries(h)) { if (value === undefined) continue;
  if (drop(key.toLowerCase())) continue; out[key] = joined(value); }\<close>
\<close>

fun copy_headers :: "(string \<Rightarrow> bool) \<Rightarrow> headers \<Rightarrow> string obj \<Rightarrow> string obj" where
  "copy_headers dropped [] out = out"
| "copy_headers dropped ((key, value) # hs) out =
     (if value = Undef then copy_headers dropped hs out
      else if dropped (to_lower key) then copy_headers dropped hs out
      else copy_headers dropped hs (obj_set key (joined value) out))"

lemma keys_copy_headers:
  "k \<in> keys (copy_headers dropped hs out) \<Longrightarrow> k \<in> keys out \<or> (k \<in> keys hs \<and> \<not> dropped (to_lower k))"
proof (induction dropped hs out rule: copy_headers.induct)
  case (2 dropped key v hs out)
  consider "v = Undef" | "v \<noteq> Undef" "dropped (to_lower key)"
    | "v \<noteq> Undef" "\<not> dropped (to_lower key)" by blast
  then show ?case
  proof cases
    case 3
    with 2 have "k \<in> keys (obj_set key (joined v) out) \<or> (k \<in> keys hs \<and> \<not> dropped (to_lower k))"
      by simp
    with 3 show ?thesis by auto
  qed (use 2 in auto)
qed simp

lemma map_of_copy_headers:
  "distinct (map fst hs) \<Longrightarrow> map_of (copy_headers dropped hs out) k =
     (case map_of hs k of
        Some w \<Rightarrow> if w = Undef \<or> dropped (to_lower k) then map_of out k else Some (joined w)
      | None \<Rightarrow> map_of out k)"
proof (induction dropped hs out rule: copy_headers.induct)
  case (2 dropped key v hs out)
  then have "key \<notin> dom (map_of hs)" by (simp add: dom_map_of_conv_image_fst)
  then have key: "map_of hs key = None" by blast
  consider "v = Undef" | "v \<noteq> Undef" "dropped (to_lower key)"
    | "v \<noteq> Undef" "\<not> dropped (to_lower key)" by blast
  then show ?case by cases (use 2 key in \<open>auto split: option.splits\<close>)
qed simp

section \<open>What a handler does\<close>

text \<open>
  A request handed to undici's \<open>request\<close> and the response it gives (\<open>None\<close> where it throws); the
  answer a handler writes to its own client; and what an upgrade handler does with its socket.
  \<open>Unhandled\<close> is a handler whose promise rejects, which leaves the client without an answer.
\<close>

record upstream_req =
  up_url :: string
  up_method :: string
  up_headers :: "string obj"
  up_body :: bool

record upstream_resp =
  us_status :: nat
  us_headers :: headers

datatype client_reply =
    Reply nat headers string
  | Piped nat headers
  | Unhandled

datatype upgrade_outcome =
    UpgradeRefused string
  | UpgradeDestroyed
  | UpgradeTunnel string string

text \<open>\<open>sendPlain\<close> and \<open>sendJson\<close> of both listeners, before any header is sent.\<close>

definition sendPlain :: "nat \<Rightarrow> string \<Rightarrow> client_reply" where
  "sendPlain status body =
     Reply status [(''content-type'', One ''text/plain''), (''cache-control'', One ''no-store'')] body"

definition crlf :: string where
  "crlf = [char_of (13::nat), char_of (10::nat)]"

text \<open>The request head an upgrade handler writes: a request line, one line per header, a blank line.\<close>

definition raw_head :: "string \<Rightarrow> string obj \<Rightarrow> string" where
  "raw_head request_line hs =
     join_with crlf (request_line # map (\<lambda>(k, v). k @ '': '' @ v) hs) @ crlf @ crlf"

definition undefined_str :: "string option \<Rightarrow> string" where
  "undefined_str v = (case v of Some s \<Rightarrow> s | None \<Rightarrow> ''undefined'')"

end
