(* ===== verification/Forward_Signature.thy ===== *)
theory Forward_Signature
  imports Http
begin

text \<open>
  \<open>src/proxy/forward-signature.ts\<close>: the signing string of the ingress-to-runtime hop, signing
  and verification over it, and the signing identity file. Ed25519, base64, SHA-256 and the
  number/string conversions of the JavaScript engine are fields of the \<open>crypto_lib\<close> parameter.
\<close>

definition EDGE_SIGNATURE_HEADERS :: "string list" where
  "EDGE_SIGNATURE_HEADERS =
     [''x-privos-target-node'', ''x-privos-nonce'', ''x-privos-ts'', ''x-privos-kid'',
      ''x-privos-client-ip'', ''x-privos-sig'']"

record SignedRequestFields =
  sf_targetNodeId :: string
  sf_nonce :: string
  sf_ts :: rat
  sf_method :: string
  sf_host :: string
  sf_requestTarget :: string
  sf_clientIp :: string

record jwk =
  jwk_kty :: string
  jwk_crv :: string
  jwk_x :: "string option"
  jwk_d :: "string option"

text \<open>
  \<open>sign\<close>/\<open>verify\<close> take and give base64 text; \<open>verify\<close> is \<open>None\<close> where Node throws.
  \<open>to_number\<close> is \<open>Number(s)\<close> restricted to finite results, \<open>number_str\<close> is \<open>String(n)\<close>.
\<close>

record crypto_lib =
  sign :: "jwk \<Rightarrow> string \<Rightarrow> string"
  verify :: "jwk \<Rightarrow> string \<Rightarrow> string \<Rightarrow> bool option"
  sha256_b64url :: "string \<Rightarrow> string"
  to_number :: "string \<Rightarrow> rat option"
  number_str :: "rat \<Rightarrow> string"

definition newline :: string where
  "newline = [char_of (10::nat)]"

definition canonicalSigningString :: "crypto_lib \<Rightarrow> SignedRequestFields \<Rightarrow> string" where
  "canonicalSigningString lib f = join_with newline
     [sf_targetNodeId f, sf_nonce f, number_str lib (sf_ts f), to_upper (sf_method f), sf_host f,
      sf_requestTarget f, sf_clientIp f]"

definition signRequest :: "crypto_lib \<Rightarrow> SignedRequestFields \<Rightarrow> jwk \<Rightarrow> string" where
  "signRequest lib f privateKey = sign lib privateKey (canonicalSigningString lib f)"

definition verifyRequest :: "crypto_lib \<Rightarrow> SignedRequestFields \<Rightarrow> string \<Rightarrow> jwk \<Rightarrow> bool" where
  "verifyRequest lib f signatureBase64 publicJwk =
     (case verify lib publicJwk (canonicalSigningString lib f) signatureBase64 of
        Some b \<Rightarrow> b
      | None \<Rightarrow> False)"

text \<open>A signature made with the matching private key verifies: the documented Ed25519 contract.\<close>

definition keypair :: "crypto_lib \<Rightarrow> jwk \<Rightarrow> jwk \<Rightarrow> bool" where
  "keypair lib priv pub \<longleftrightarrow> (\<forall>m. verify lib pub m (sign lib priv m) = Some True)"

lemma verify_signed: "keypair lib priv pub \<Longrightarrow> verifyRequest lib f (signRequest lib f priv) pub"
  by (simp add: keypair_def verifyRequest_def signRequest_def)

section \<open>The signing string binds every field\<close>

lemma join_with_inj:
  assumes "length xs = length ys"
    and "\<forall>x \<in> set xs. c \<notin> set x" and "\<forall>y \<in> set ys. c \<notin> set y"
    and "join_with [c] xs = join_with [c] ys"
  shows "xs = ys"
proof -
  have split: "split_on c (join_with [c] (z # zs)) = z # zs" if "\<forall>x \<in> set (z # zs). c \<notin> set x"
    for z zs
    using that
  proof (induction zs arbitrary: z)
    case Nil
    then show ?case by (simp add: join_with_def split_on_absent)
  next
    case (Cons a zs)
    have "join_with [c] (z # a # zs) = z @ c # join_with [c] (a # zs)"
      by (simp add: join_with_def)
    with Cons show ?case by (simp add: split_on_append_sep split_on_absent)
  qed
  have all: "zs \<noteq> [] \<Longrightarrow> \<forall>x \<in> set zs. c \<notin> set x \<Longrightarrow> split_on c (join_with [c] zs) = zs" for zs
    by (cases zs) (use split in \<open>auto simp del: split_on.simps\<close>)
  show ?thesis
  proof (cases "xs = []")
    case True
    with assms(1) show ?thesis by simp
  next
    case False
    with assms(1) have "ys \<noteq> []" by auto
    with False all [of xs] all [of ys] assms(2-4) show ?thesis by metis
  qed
qed

definition newline_free :: "crypto_lib \<Rightarrow> SignedRequestFields \<Rightarrow> bool" where
  "newline_free lib f \<longleftrightarrow> (\<forall>s \<in> {sf_targetNodeId f, sf_nonce f, number_str lib (sf_ts f), to_upper (sf_method f),
     sf_host f, sf_requestTarget f, sf_clientIp f}. char_of (10::nat) \<notin> set s)"

text \<open>
  The signing string binds every field: two requests whose fields contain no newline and that
  sign the same string agree on target node, nonce, timestamp text, method up to case, host,
  request target and client address, so a signature cannot be moved to another request.
\<close>

theorem canonicalSigningString_inj:
  assumes "newline_free lib f" and "newline_free lib g"
    and "canonicalSigningString lib f = canonicalSigningString lib g"
  shows "sf_targetNodeId f = sf_targetNodeId g \<and> sf_nonce f = sf_nonce g
    \<and> number_str lib (sf_ts f) = number_str lib (sf_ts g)
    \<and> to_upper (sf_method f) = to_upper (sf_method g) \<and> sf_host f = sf_host g
    \<and> sf_requestTarget f = sf_requestTarget g \<and> sf_clientIp f = sf_clientIp g"
proof -
  let ?p = "\<lambda>h. [sf_targetNodeId h, sf_nonce h, number_str lib (sf_ts h), to_upper (sf_method h), sf_host h,
      sf_requestTarget h, sf_clientIp h]"
  have "?p f = ?p g"
    by (rule join_with_inj [where c = "char_of (10::nat)"])
      (use assms in \<open>auto simp: newline_free_def canonicalSigningString_def newline_def\<close>)
  then show ?thesis by simp
qed

lemma canonicalSigningString_inj_witness:
  "sf_nonce \<lparr>sf_targetNodeId = ''a'', sf_nonce = ''b'', sf_ts = 1, sf_method = ''get'', sf_host = ''h'',
     sf_requestTarget = ''/'', sf_clientIp = ''i''\<rparr> = ''b''"
proof -
  let ?lib = "\<lparr>sign = \<lambda>k m. m, verify = \<lambda>k m s. Some (s = m), sha256_b64url = (\<lambda>s. s),
     to_number = (\<lambda>s. Some 1), number_str = (\<lambda>n. ''1'')\<rparr>"
  let ?f = "\<lambda>m. \<lparr>sf_targetNodeId = ''a'', sf_nonce = ''b'', sf_ts = 1, sf_method = m, sf_host = ''h'',
     sf_requestTarget = ''/'', sf_clientIp = ''i''\<rparr>"
  have u: "to_upper ''get'' = ''GET''" "to_upper ''GET'' = ''GET''" "char_of (10::nat) = CHR 0x0A" by code_simp+
  have "newline_free ?lib (?f ''get'')" "newline_free ?lib (?f ''GET'')"
    "canonicalSigningString ?lib (?f ''get'') = canonicalSigningString ?lib (?f ''GET'')"
    by (simp_all add: newline_free_def canonicalSigningString_def u)
  from canonicalSigningString_inj [OF this] show ?thesis by simp
qed

section \<open>The signing identity file\<close>

record StoredSigningKey =
  ssk_version :: int
  ssk_nodeId :: string
  ssk_privateJwk :: jwk
  ssk_publicJwk :: jwk
  ssk_kid :: string

record SigningIdentity =
  si_nodeId :: string
  si_kid :: string
  si_privateKey :: jwk
  si_publicJwk :: jwk

datatype identity_error =
    signing_jwk_invalid
  | ingress_signing_key_invalid
  | read_failed
  | write_failed

text \<open>\<open>JSON.stringify\<close> of a string: quotes, backslashes and control characters are escaped.\<close>

definition hex_digit :: "nat \<Rightarrow> char" where
  "hex_digit n = (if n < 10 then char_of (48 + n) else char_of (87 + n))"

definition json_escape_char :: "char \<Rightarrow> string" where
  "json_escape_char c = (let n = (of_char c :: nat) in
     if n = 34 then [char_of (92::nat), char_of (34::nat)]
     else if n = 92 then [char_of (92::nat), char_of (92::nat)]
     else if n = 8 then [char_of (92::nat), CHR ''b'']
     else if n = 9 then [char_of (92::nat), CHR ''t'']
     else if n = 10 then [char_of (92::nat), CHR ''n'']
     else if n = 12 then [char_of (92::nat), CHR ''f'']
     else if n = 13 then [char_of (92::nat), CHR ''r'']
     else if n < 32 then char_of (92::nat) # ''u00'' @ [hex_digit (n div 16), hex_digit (n mod 16)]
     else [c])"

definition json_quote :: "string \<Rightarrow> string" where
  "json_quote s = char_of (34::nat) # concat (map json_escape_char s) @ [char_of (34::nat)]"

definition thumbprint_input :: "jwk \<Rightarrow> string \<Rightarrow> string" where
  "thumbprint_input j x = ''{'' @ json_quote ''crv'' @ '':'' @ json_quote (jwk_crv j) @ '','' @
     json_quote ''kty'' @ '':'' @ json_quote (jwk_kty j) @ '','' @ json_quote ''x'' @ '':'' @ json_quote x @ ''}''"

definition ed25519Thumbprint :: "crypto_lib \<Rightarrow> jwk \<Rightarrow> (identity_error, string) result" where
  "ed25519Thumbprint lib j =
     (case truthy (jwk_x j) of
        Some x \<Rightarrow>
          if jwk_kty j \<noteq> ''OKP'' \<or> jwk_crv j \<noteq> ''Ed25519'' \<or> truthy (jwk_d j) \<noteq> None
          then Inl signing_jwk_invalid
          else Inr (sha256_b64url lib (thumbprint_input j x))
      | None \<Rightarrow> Inl signing_jwk_invalid)"

definition validateStoredKey ::
  "crypto_lib \<Rightarrow> StoredSigningKey \<Rightarrow> string \<Rightarrow> (identity_error, StoredSigningKey) result" where
  "validateStoredKey lib value node =
     (if ssk_version value \<noteq> 1 \<or> ssk_nodeId value \<noteq> node \<or> jwk_kty (ssk_privateJwk value) \<noteq> ''OKP''
         \<or> jwk_crv (ssk_privateJwk value) \<noteq> ''Ed25519'' \<or> truthy (jwk_d (ssk_privateJwk value)) = None
      then Inl ingress_signing_key_invalid
      else bindE (ed25519Thumbprint lib (ssk_publicJwk value)) (\<lambda>tp.
        if tp \<noteq> ssk_kid value then Inl ingress_signing_key_invalid else Inr value))"

definition toIdentity :: "StoredSigningKey \<Rightarrow> SigningIdentity" where
  "toIdentity stored = \<lparr>si_nodeId = ssk_nodeId stored, si_kid = ssk_kid stored,
     si_privateKey = ssk_privateJwk stored, si_publicJwk = ssk_publicJwk stored\<rparr>"

text \<open>
  The identity file as the code meets it: absent, unreadable (I/O error or bad JSON), or a
  parsed key. \<open>racing\<close> is what another process has put there by the time of the exclusive
  write (\<open>EEXIST\<close>); the result carries the file's content afterwards.
\<close>

datatype id_file = Absent | Unreadable | Holds StoredSigningKey

definition loadOrCreateSigningIdentity ::
  "crypto_lib \<Rightarrow> id_file \<Rightarrow> id_file \<Rightarrow> jwk \<times> jwk \<Rightarrow> string \<Rightarrow>
     (identity_error, SigningIdentity) result \<times> id_file" where
  "loadOrCreateSigningIdentity lib idf racing pair node =
     (case idf of
        Holds k \<Rightarrow> (bindE (validateStoredKey lib k node) (\<lambda>k. Inr (toIdentity k)), idf)
      | Unreadable \<Rightarrow> (Inl read_failed, idf)
      | Absent \<Rightarrow>
          (case ed25519Thumbprint lib (snd pair) of
             Inl e \<Rightarrow> (Inl e, racing)
           | Inr tp \<Rightarrow>
               (let stored = \<lparr>ssk_version = 1, ssk_nodeId = node, ssk_privateJwk = fst pair,
                              ssk_publicJwk = snd pair, ssk_kid = tp\<rparr> in
                case racing of
                  Absent \<Rightarrow> (Inr (toIdentity stored), Holds stored)
                | Unreadable \<Rightarrow> (Inl read_failed, racing)
                | Holds k \<Rightarrow> (bindE (validateStoredKey lib k node) (\<lambda>k. Inr (toIdentity k)), racing))))"

text \<open>A private key Node generated: an Ed25519 JWK with its secret part.\<close>

definition ed25519_private :: "jwk \<Rightarrow> bool" where
  "ed25519_private j \<longleftrightarrow> jwk_kty j = ''OKP'' \<and> jwk_crv j = ''Ed25519'' \<and> truthy (jwk_d j) \<noteq> None"

text \<open>
  The signing identity is created once: after any successful start, whether it read the key
  file, created it, or lost the creation race, every later start (with whatever fresh key pair and
  racing writer) yields the same identity for the same node.
\<close>

theorem loadOrCreate_stable:
  assumes gen: "ed25519_private (fst pair)"
    and ok: "loadOrCreateSigningIdentity lib idf racing pair node = (Inr ident, idf')"
  shows "loadOrCreateSigningIdentity lib idf' racing' pair' node = (Inr ident, idf') \<and> si_nodeId ident = node"
  using ok
proof (cases idf)
  case Absent
  with ok show ?thesis using gen
    by (cases "ed25519Thumbprint lib (snd pair)"; cases racing)
      (auto simp: loadOrCreateSigningIdentity_def Let_def validateStoredKey_def ed25519_private_def
        toIdentity_def bindE_Inr_iff split: if_splits)
qed (auto simp: loadOrCreateSigningIdentity_def bindE_Inr_iff validateStoredKey_def toIdentity_def
      split: if_splits)

lemma loadOrCreate_stable_witness:
  "si_nodeId \<lparr>si_nodeId = ''n'', si_kid = ''t'', si_privateKey = \<lparr>jwk_kty = ''OKP'', jwk_crv = ''Ed25519'', jwk_x = Some ''x'', jwk_d = Some ''d''\<rparr>,
     si_publicJwk = \<lparr>jwk_kty = ''OKP'', jwk_crv = ''Ed25519'', jwk_x = Some ''x'', jwk_d = None\<rparr>\<rparr> = ''n''"
proof -
  let ?priv = "\<lparr>jwk_kty = ''OKP'', jwk_crv = ''Ed25519'', jwk_x = Some ''x'', jwk_d = Some ''d''\<rparr>"
  let ?pub = "\<lparr>jwk_kty = ''OKP'', jwk_crv = ''Ed25519'', jwk_x = Some ''x'', jwk_d = None\<rparr>"
  let ?lib = "\<lparr>sign = \<lambda>k m. m, verify = \<lambda>k m s. Some (s = m), sha256_b64url = (\<lambda>s. ''t''),
     to_number = (\<lambda>s. Some 1), number_str = (\<lambda>n. ''1'')\<rparr>"
  have "loadOrCreateSigningIdentity ?lib Absent Absent (?priv, ?pub) ''n'' =
    (Inr \<lparr>si_nodeId = ''n'', si_kid = ''t'', si_privateKey = ?priv, si_publicJwk = ?pub\<rparr>,
     Holds \<lparr>ssk_version = 1, ssk_nodeId = ''n'', ssk_privateJwk = ?priv, ssk_publicJwk = ?pub, ssk_kid = ''t''\<rparr>)"
    by (simp add: loadOrCreateSigningIdentity_def ed25519Thumbprint_def truthy_def toIdentity_def)
  from loadOrCreate_stable [OF _ this] show ?thesis by (simp add: ed25519_private_def truthy_def)
qed

end
