(* ===== verification/Master_Types.thy ===== *)
theory Master_Types
  imports Container_Types Forward_Signature
begin

text \<open>
  The documents of the apps master (\<open>src/master/types.ts\<close>): workspaces, nodes, apps with their
  replicas, and lifecycle events. Timestamps are milliseconds. Of
  \<open>MasterApp\<close> the fields that the modelled services read or write are kept.
\<close>

record WorkspaceQuota =
  maxMemoryMb :: rat
  maxCpus :: rat
  maxApps :: nat

record MasterWorkspace =
  mw_workspaceId :: string
  mw_quota :: WorkspaceQuota
  mw_active :: bool

record NodeCapacity =
  cap_memoryMb :: rat
  cap_cpus :: rat
  cap_diskBytes :: rat

datatype NodeStatus = NODE_ACTIVE | NODE_DRAINING | NODE_RETIRED

datatype NodeRole = INGRESS | RUNTIME | BOTH

record MasterNode =
  mn_nodeId :: string
  mn_portalNodeId :: "string option"
  mn_url :: string
  mn_region :: string
  mn_failureDomain :: string
  mn_capacity :: NodeCapacity
  mn_status :: NodeStatus
  mn_keyId :: string
  mn_encryptedFleetKey :: string
  mn_tunnelId :: "string option"
  mn_createdAt :: int
  mn_updatedAt :: int
  mn_role :: "NodeRole option"
  mn_meshIp :: "string option"
  mn_ingressSigningKid :: "string option"
  mn_ingressSigningPublicJwk :: "jwk option"

record AppReplica =
  rp_replicaId :: string
  rp_nodeId :: string
  rp_containerId :: string
  rp_state :: string

datatype AppKind = KIND_raw | KIND_mcp_v2 | KIND_mcp_v3

record MasterApp =
  ma_appId :: string
  ma_workspaceId :: string
  ma_listingId :: string
  ma_versionDigest :: string
  ma_image :: string
  ma_imageDigest :: string
  ma_resources :: ContainerResources
  ma_port :: int
  ma_envVars :: json
  ma_volumes :: "ContainerVolume list"
  ma_storageBytes :: rat
  ma_stateless :: bool
  ma_subdomain :: "string option"
  ma_uiUrl :: "string option"
  ma_replicas :: "AppReplica list"
  ma_state :: string
  ma_quarantinedAt :: "int option"
  ma_createdAt :: int
  ma_updatedAt :: int
  ma_kind :: "AppKind option"
  ma_generationId :: "string option"
  ma_suspendedWithWorkspace :: bool
  ma_lastOomAt :: "int option"

datatype LifecycleEventType = STARTED | STOPPED | REDEPLOYED | REMOVED | QUARANTINED | INSTALLED
  | UNINSTALLED | REPLICAS_CHANGED | RESIZED

record AppLifecycleEvent =
  ev_eventId :: string
  ev_workspaceId :: string
  ev_appId :: string
  ev_replicaId :: "string option"
  ev_type :: LifecycleEventType
  ev_resources :: ContainerResources
  ev_storageBytes :: "rat option"
  ev_replicaCount :: "nat option"
  ev_at :: int

text \<open>Concrete documents, for evaluating the services on.\<close>

definition demo_app :: MasterApp where
  "demo_app = \<lparr>ma_appId = ''a1'', ma_workspaceId = ''w'', ma_listingId = ''l'', ma_versionDigest = ''v'', ma_image = ''i'',
     ma_imageDigest = ''d'', ma_resources = \<lparr>memoryMb = 256, cpus = 1 / 2, tmpSizeMb = 64\<rparr>, ma_port = 80, ma_envVars = JObj [] None,
     ma_volumes = [], ma_storageBytes = 0, ma_stateless = True, ma_subdomain = None, ma_uiUrl = None,
     ma_replicas = [\<lparr>rp_replicaId = ''r'', rp_nodeId = ''n1'', rp_containerId = ''c'', rp_state = ''running''\<rparr>],
     ma_state = ''RUNNING'', ma_quarantinedAt = None, ma_createdAt = 0, ma_updatedAt = 0, ma_kind = None,
     ma_generationId = None, ma_suspendedWithWorkspace = False, ma_lastOomAt = None\<rparr>"

definition demo_node :: "string \<Rightarrow> MasterNode" where
  "demo_node i = \<lparr>mn_nodeId = i, mn_portalNodeId = None, mn_url = ''u'', mn_region = ''eu'', mn_failureDomain = i,
     mn_capacity = \<lparr>cap_memoryMb = 1024, cap_cpus = 4, cap_diskBytes = 1000\<rparr>, mn_status = NODE_ACTIVE, mn_keyId = i,
     mn_encryptedFleetKey = ''k'', mn_tunnelId = None, mn_createdAt = 0, mn_updatedAt = 0, mn_role = None,
     mn_meshIp = Some (''10.0.0.'' @ i), mn_ingressSigningKid = None, mn_ingressSigningPublicJwk = None\<rparr>"

end
