(* ===== verification/Label_Namespace.thy ===== *)
theory Label_Namespace
  imports Prelude
begin

text \<open>
  The shared label namespace of the apps master: \<open>src/master/label-namespace.ts\<close> and the random
  allocator over it, \<open>src/master/subdomain-registry.ts\<close>. The MongoDB collection \<open>host_labels\<close> is
  an association list by \<open>_id\<close>; its unique index is \<open>hold\<close>'s test. The locale
  \<open>label_authority\<close> is what the host registry relies on.
\<close>

datatype label_state = HELD | RECLAIMED

record HostLabelRecord =
  hl_state :: label_state
  hl_workspaceId :: "string option"
  hl_listingId :: "string option"
  hl_createdAt :: int
  hl_updatedAt :: int

type_synonym host_labels = "HostLabelRecord obj"

datatype label_error = LABEL_ALREADY_CLAIMED | LABEL_NOT_RECLAIMED | UNABLE_TO_ALLOCATE

definition isAvailable :: "string \<Rightarrow> host_labels \<Rightarrow> bool" where
  "isAvailable label labels = (map_of labels label = None)"

definition isAvailableFor :: "string \<Rightarrow> string \<Rightarrow> host_labels \<Rightarrow> bool" where
  "isAvailableFor label workspaceId labels = (case map_of labels label of
     None \<Rightarrow> True
   | Some existing \<Rightarrow> hl_state existing = HELD \<and> hl_workspaceId existing = Some workspaceId)"

definition hold :: "int \<Rightarrow> string \<Rightarrow> string \<times> string \<Rightarrow> host_labels \<Rightarrow> (label_error, host_labels) result" where
  "hold now label owner labels = (if map_of labels label \<noteq> None then Inl LABEL_ALREADY_CLAIMED
     else Inr (obj_set label \<lparr>hl_state = HELD, hl_workspaceId = Some (fst owner), hl_listingId = Some (snd owner),
       hl_createdAt = now, hl_updatedAt = now\<rparr> labels))"

text \<open>\<open>updateOne\<close> of the row with this id, if there is one.\<close>

definition update_one :: "'k \<Rightarrow> ('v \<Rightarrow> 'v) \<Rightarrow> ('k \<times> 'v) list \<Rightarrow> ('k \<times> 'v) list" where
  "update_one k f xs = (case map_of xs k of None \<Rightarrow> xs | Some v \<Rightarrow> obj_set k (f v) xs)"

definition release :: "int \<Rightarrow> string \<Rightarrow> host_labels \<Rightarrow> host_labels" where
  "release now label labels = update_one label
     (\<lambda>r. r\<lparr>hl_state := RECLAIMED, hl_updatedAt := now, hl_workspaceId := None, hl_listingId := None\<rparr>) labels"

definition reassign :: "int \<Rightarrow> string \<Rightarrow> string \<times> string \<Rightarrow> host_labels \<Rightarrow> (label_error, host_labels) result" where
  "reassign now label owner labels = (case map_of labels label of
     Some r \<Rightarrow> if hl_state r = RECLAIMED
       then Inr (obj_set label (r\<lparr>hl_state := HELD, hl_workspaceId := Some (fst owner),
              hl_listingId := Some (snd owner), hl_updatedAt := now\<rparr>) labels)
       else Inl LABEL_NOT_RECLAIMED
   | None \<Rightarrow> Inl LABEL_NOT_RECLAIMED)"

text \<open>The bounded retry loop, over the candidates it draws.\<close>

fun allocate_from :: "int \<Rightarrow> string list \<Rightarrow> string \<times> string \<Rightarrow> host_labels \<Rightarrow> (label_error, string \<times> host_labels) result" where
  "allocate_from now [] owner labels = Inl UNABLE_TO_ALLOCATE"
| "allocate_from now (label # ls) owner labels = (case hold now label owner labels of
     Inr labels' \<Rightarrow> Inr (label, labels')
   | Inl e \<Rightarrow> if e \<noteq> LABEL_ALREADY_CLAIMED then Inl e else allocate_from now ls owner labels)"

definition allocate :: "int \<Rightarrow> (nat \<Rightarrow> string) \<Rightarrow> nat \<Rightarrow> string \<times> string \<Rightarrow> host_labels \<Rightarrow> (label_error, string \<times> host_labels) result" where
  "allocate now next_label maxAttempts owner labels = allocate_from now (map next_label [0..<maxAttempts]) owner labels"

section \<open>The random allocator\<close>

definition slug_char :: "char \<Rightarrow> bool" where
  "slug_char c = (let n = (of_char c :: nat) in (97 \<le> n \<and> n \<le> 122) \<or> (48 \<le> n \<and> n \<le> 57) \<or> n = 45)"

text \<open>\<open>replace(/[^a-z0-9-]+/g, '-').replace(/-+/g, '-')\<close>: each maximal run becomes one hyphen.\<close>

fun squash :: "bool \<Rightarrow> string \<Rightarrow> string" where
  "squash after_hyphen [] = []"
| "squash after_hyphen (c # cs) =
     (if slug_char c \<and> c \<noteq> CHR ''-'' then c # squash False cs
      else if after_hyphen then squash True cs else CHR ''-'' # squash True cs)"

definition trim_hyphens :: "string \<Rightarrow> string" where
  "trim_hyphens s = (let t = (case s of c # cs \<Rightarrow> if c = CHR ''-'' then cs else s | [] \<Rightarrow> []) in
     if t \<noteq> [] \<and> last t = CHR ''-'' then butlast t else t)"

definition slug :: "string \<Rightarrow> string" where
  "slug val = (let s = take 48 (trim_hyphens (squash False (to_lower val))) in if s = [] then ''app'' else s)"

text \<open>\<open>hex i\<close> is the attempt's \<open>randomBytes(3).toString('hex')\<close>.\<close>

definition allocate_subdomain ::
  "int \<Rightarrow> (nat \<Rightarrow> string) \<Rightarrow> string \<Rightarrow> string \<Rightarrow> host_labels \<Rightarrow> (label_error, string \<times> host_labels) result" where
  "allocate_subdomain now hex listingId workspaceId labels =
     allocate now (\<lambda>i. slug listingId @ ''-'' @ hex i) 10 (workspaceId, listingId) labels"

section \<open>The authority over labels\<close>

locale label_authority =
  fixes claim_label :: "'l \<Rightarrow> 'o \<Rightarrow> 's \<Rightarrow> 's option"
    and owner_of :: "'s \<Rightarrow> 'l \<Rightarrow> 'w option"
    and claimed :: "'s \<Rightarrow> 'l \<Rightarrow> bool"
    and ws :: "'o \<Rightarrow> 'w"
  assumes claim_iff: "claim_label l ow s \<noteq> None \<longleftrightarrow> \<not> claimed s l"
    and claim_owner: "claim_label l ow s = Some s' \<Longrightarrow> owner_of s' l = Some (ws ow)"
    and claim_other: "claim_label l ow s = Some s' \<Longrightarrow> k \<noteq> l \<Longrightarrow> owner_of s' k = owner_of s k"
    and claim_claimed: "claim_label l ow s = Some s' \<Longrightarrow> claimed s' k \<longleftrightarrow> k = l \<or> claimed s k"
    and owner_claimed: "owner_of s l = Some w \<Longrightarrow> claimed s l"
begin

lemma owner_kept: "owner_of s k = Some w \<Longrightarrow> claim_label l ow s = Some s' \<Longrightarrow> owner_of s' k = Some w"
  by (metis claim_iff claim_other option.distinct(1) owner_claimed)

lemma second_claim_fails: "claim_label l ow s = Some s' \<Longrightarrow> claim_label l ow' s' = None"
  using claim_iff claim_claimed by blast

end

definition try_hold :: "int \<Rightarrow> string \<Rightarrow> string \<times> string \<Rightarrow> host_labels \<Rightarrow> host_labels option" where
  "try_hold now label owner labels = (case hold now label owner labels of Inr l \<Rightarrow> Some l | Inl _ \<Rightarrow> None)"

definition label_owner :: "host_labels \<Rightarrow> string \<Rightarrow> string option" where
  "label_owner labels label = (case map_of labels label of
     Some r \<Rightarrow> if hl_state r = HELD then hl_workspaceId r else None | None \<Rightarrow> None)"

interpretation labels: label_authority "try_hold now" label_owner "\<lambda>ls l. map_of ls l \<noteq> None" fst for now
  by unfold_locales
    (auto simp: try_hold_def hold_def label_owner_def split: if_splits option.splits)

lemma update_one_lookup: "map_of (update_one k f xs) = (map_of xs)(k := map_option f (map_of xs k))"
  by (auto simp: update_one_def fun_eq_iff split: option.splits)

section \<open>Histories of the namespace\<close>

datatype label_op = Hold int string "string \<times> string" | Release int string | Reassign int string "string \<times> string"

fun apply_label :: "label_op \<Rightarrow> host_labels \<Rightarrow> host_labels" where
  "apply_label (Hold now l ow) s = (case hold now l ow s of Inl _ \<Rightarrow> s | Inr s' \<Rightarrow> s')"
| "apply_label (Release now l) s = release now l s"
| "apply_label (Reassign now l ow) s = (case reassign now l ow s of Inl _ \<Rightarrow> s | Inr s' \<Rightarrow> s')"

lemma claimed_step: "map_of s l \<noteq> None \<Longrightarrow> map_of (apply_label op s) l \<noteq> None"
  by (cases op) (auto simp: hold_def release_def reassign_def update_one_lookup split: option.splits)

lemma claimed_run: "map_of s l \<noteq> None \<Longrightarrow> map_of (fold apply_label ops s) l \<noteq> None"
  by (induction ops arbitrary: s) (use claimed_step in \<open>simp_all del: not_None_eq\<close>)

text \<open>
  A label is never deleted and never re-allocated: once it has been claimed, then after any
  holds, releases and reassignments, claiming it again is refused and it reads as unavailable to
  every workspace that does not currently hold it.
\<close>

theorem label_claimed_forever:
  assumes "hold now label owner labels = Inr labels'"
  shows "hold now' label owner' (fold apply_label ops labels') = Inl LABEL_ALREADY_CLAIMED
    \<and> \<not> isAvailable label (fold apply_label ops labels')
    \<and> (isAvailableFor label w (fold apply_label ops labels') \<longleftrightarrow>
         label_owner (fold apply_label ops labels') label = Some w)"
proof -
  from assms have "map_of labels' label \<noteq> None" by (auto simp: hold_def split: if_splits)
  then obtain r where "map_of (fold apply_label ops labels') label = Some r"
    using claimed_run by blast
  then show ?thesis
    by (simp add: hold_def isAvailable_def isAvailableFor_def label_owner_def)
qed

lemma label_claimed_forever_witness:
  "hold 5 ''acme'' (''w2'', ''l2'') (fold apply_label [Release 3 ''acme''] [(''acme'', \<lparr>hl_state = HELD,
      hl_workspaceId = Some ''w1'', hl_listingId = Some ''l1'', hl_createdAt = 1, hl_updatedAt = 1\<rparr>)]) = Inl LABEL_ALREADY_CLAIMED"
proof -
  have "hold 1 ''acme'' (''w1'', ''l1'') [] = Inr [(''acme'', \<lparr>hl_state = HELD,
      hl_workspaceId = Some ''w1'', hl_listingId = Some ''l1'', hl_createdAt = 1, hl_updatedAt = 1\<rparr>)]"
    by (simp add: hold_def)
  from label_claimed_forever [OF this] show ?thesis by blast
qed

lemma allocate_from_result:
  "allocate_from now ls owner labels = Inr (label, labels') \<Longrightarrow>
     label \<in> set ls \<and> map_of labels label = None \<and> hold now label owner labels = Inr labels'"
  by (induction ls) (auto simp: hold_def split: if_splits)

end
