(* ===== verification/App_Host_Registry.thy ===== *)
theory App_Host_Registry
  imports Label_Namespace
begin

text \<open>
  The public-hostname registry of the apps master: \<open>src/master/app-host-registry.ts\<close>. The
  collections \<open>app_hosts\<close> and \<open>host_labels\<close> are one database state. A call runs under its
  workspace's lock, but other workspaces, the Cloudflare worker and other processes write between
  its database operations: \<open>env n\<close> is what they do just before the call's n-th operation.
\<close>

datatype AppHostKind = TENANT | VANITY | CUSTOM

datatype AppHostState = PENDING | ACTIVE_HOST | SUSPENDED | WS_SUSPENDED | CF_RELEASED | FAILED_HOST | DELETING

record AppHostRecord =
  ah_workspaceId :: string
  ah_appId :: string
  ah_listingId :: string
  ah_generationId :: "string option"
  ah_kind :: AppHostKind
  ah_primary :: bool
  ah_state :: AppHostState
  ah_cfHostnameId :: "string option"
  ah_lastError :: "string option"
  ah_wsSuspendedAt :: "int option"
  ah_preSuspendState :: "AppHostState option"
  ah_createdAt :: int
  ah_updatedAt :: int

type_synonym app_hosts = "AppHostRecord obj"

record host_db =
  db_hosts :: app_hosts
  db_labels :: host_labels

record DesiredAppHost =
  dh_hostname :: string
  dh_kind :: AppHostKind
  dh_primary :: bool
  dh_state :: AppHostState

datatype host_error = HOST_ALREADY_RESERVED | HOST_LABEL_CLAIMED | HOST_CONFLICT | MULTIPLE_PRIMARY_HOSTS

definition namespaceLabelOf :: "string \<Rightarrow> AppHostKind \<Rightarrow> string option" where
  "namespaceLabelOf hostname kind = (if kind = CUSTOM then None else Some (hd (split_on (CHR ''.'') hostname)))"

section \<open>Database operations\<close>

type_synonym env = "nat \<Rightarrow> host_db \<Rightarrow> host_db"

definition insert_host :: "string \<Rightarrow> AppHostRecord \<Rightarrow> host_db \<Rightarrow> host_db option" where
  "insert_host h r db = (if map_of (db_hosts db) h = None then Some (db\<lparr>db_hosts := obj_set h r (db_hosts db)\<rparr>) else None)"

definition update_hosts :: "(string \<Rightarrow> AppHostRecord \<Rightarrow> bool) \<Rightarrow> (AppHostRecord \<Rightarrow> AppHostRecord) \<Rightarrow> host_db \<Rightarrow> host_db" where
  "update_hosts P f db = db\<lparr>db_hosts := map (\<lambda>(h, r). (h, if P h r then f r else r)) (db_hosts db)\<rparr>"

definition delete_hosts :: "(string \<Rightarrow> AppHostRecord \<Rightarrow> bool) \<Rightarrow> host_db \<Rightarrow> host_db" where
  "delete_hosts P db = db\<lparr>db_hosts := filter (\<lambda>(h, r). \<not> P h r) (db_hosts db)\<rparr>"

definition count_hosts :: "(string \<Rightarrow> AppHostRecord \<Rightarrow> bool) \<Rightarrow> host_db \<Rightarrow> nat" where
  "count_hosts P db = length (filter (\<lambda>(h, r). P h r) (db_hosts db))"

text \<open>
  \<open>hold\<close>, and where the label is already claimed the self-healing check that the caller's own
  workspace holds it; two database operations, so the world may move between them.
\<close>

definition hold_or_own :: "env \<Rightarrow> nat \<Rightarrow> int \<Rightarrow> string \<Rightarrow> string \<times> string \<Rightarrow> host_db \<Rightarrow> bool \<times> host_db" where
  "hold_or_own env n now label owner db0 = (let db = env n db0 in
     (case hold now label owner (db_labels db) of
        Inr labels \<Rightarrow> (True, db\<lparr>db_labels := labels\<rparr>)
      | Inl _ \<Rightarrow> let db' = env (n + 1) db in (isAvailableFor label (fst owner) (db_labels db'), db')))"

section \<open>reserve\<close>

record ReserveInput =
  ri_workspaceId :: string
  ri_appId :: string
  ri_listingId :: string
  ri_hostname :: string
  ri_kind :: AppHostKind

definition reserved_row :: "int \<Rightarrow> ReserveInput \<Rightarrow> AppHostRecord" where
  "reserved_row now i = \<lparr>ah_workspaceId = ri_workspaceId i, ah_appId = ri_appId i, ah_listingId = ri_listingId i,
     ah_generationId = None, ah_kind = ri_kind i, ah_primary = False, ah_state = PENDING, ah_cfHostnameId = None,
     ah_lastError = None, ah_wsSuspendedAt = None, ah_preSuspendState = None, ah_createdAt = now, ah_updatedAt = now\<rparr>"

definition reserve :: "env \<Rightarrow> int \<Rightarrow> ReserveInput \<Rightarrow> host_db \<Rightarrow> (host_error, AppHostRecord) result \<times> host_db" where
  "reserve env now i db0 = (let db1 = env 0 db0 in
     case map_of (db_hosts db1) (ri_hostname i) of
       Some existing \<Rightarrow>
         (if ah_workspaceId existing = ri_workspaceId i \<and> ah_appId existing = ri_appId i
          then Inr existing else Inl HOST_ALREADY_RESERVED, db1)
     | None \<Rightarrow>
         (let (ok, db2) = (case truthy (namespaceLabelOf (ri_hostname i) (ri_kind i)) of
                None \<Rightarrow> (True, db1)
              | Some label \<Rightarrow> hold_or_own env 1 now label (ri_workspaceId i, ri_listingId i) db1)
          in if \<not> ok then (Inl HOST_LABEL_CLAIMED, db2)
             else let db3 = env 3 db2; row = reserved_row now i in
               (case insert_host (ri_hostname i) row db3 of
                  None \<Rightarrow> (Inl HOST_CONFLICT, db3)
                | Some db4 \<Rightarrow> (Inr row, db4))))"

section \<open>setDesiredHosts\<close>

record DesiredInput =
  di_workspaceId :: string
  di_appId :: string
  di_listingId :: string
  di_generationId :: "string option"
  di_hosts :: "DesiredAppHost list"

definition desired_row :: "int \<Rightarrow> DesiredInput \<Rightarrow> DesiredAppHost \<Rightarrow> AppHostRecord" where
  "desired_row now i host = \<lparr>ah_workspaceId = di_workspaceId i, ah_appId = di_appId i, ah_listingId = di_listingId i,
     ah_generationId = di_generationId i, ah_kind = dh_kind host, ah_primary = dh_primary host, ah_state = PENDING,
     ah_cfHostnameId = None, ah_lastError = None, ah_wsSuspendedAt = None, ah_preSuspendState = None,
     ah_createdAt = now, ah_updatedAt = now\<rparr>"

definition desired_update :: "int \<Rightarrow> DesiredInput \<Rightarrow> DesiredAppHost \<Rightarrow> AppHostRecord \<Rightarrow> AppHostRecord" where
  "desired_update now i host r = r\<lparr>ah_primary := dh_primary host, ah_state := dh_state host,
     ah_generationId := di_generationId i, ah_updatedAt := now\<rparr>"

text \<open>The loop over the desired hosts; \<open>current\<close> is the snapshot read before it, \<open>n\<close> counts operations.\<close>

fun write_hosts :: "env \<Rightarrow> nat \<Rightarrow> int \<Rightarrow> DesiredInput \<Rightarrow> app_hosts \<Rightarrow> DesiredAppHost list \<Rightarrow> app_hosts \<Rightarrow>
    host_db \<Rightarrow> (host_error, app_hosts) result \<times> host_db" where
  "write_hosts env n now i current [] written db = (Inr written, db)"
| "write_hosts env n now i current (host # hs) written db = (case map_of current (dh_hostname host) of
     Some existing \<Rightarrow>
       write_hosts env (n + 1) now i current hs (written @ [(dh_hostname host, desired_update now i host existing)])
         (update_hosts (\<lambda>h _. h = dh_hostname host) (desired_update now i host) (env n db))
   | None \<Rightarrow>
       (let (ok, db2) = (case truthy (namespaceLabelOf (dh_hostname host) (dh_kind host)) of
              None \<Rightarrow> (True, db)
            | Some label \<Rightarrow> hold_or_own env n now label (di_workspaceId i, di_listingId i) db)
        in if \<not> ok then (Inl HOST_CONFLICT, db2)
           else let db3 = env (n + 2) db2; row = desired_row now i host in
             (case insert_host (dh_hostname host) row db3 of
                None \<Rightarrow> (Inl HOST_CONFLICT, db3)
              | Some db4 \<Rightarrow> write_hosts env (n + 3) now i current hs (written @ [(dh_hostname host, row)]) db4)))"

definition retire :: "env \<Rightarrow> nat \<Rightarrow> (string \<Rightarrow> AppHostRecord \<Rightarrow> bool) \<Rightarrow> int \<Rightarrow> host_db \<Rightarrow> nat \<times> host_db" where
  "retire env n P now db0 = (let
     db1 = env n db0;
     dead = (\<lambda>h r. P h r \<and> ah_cfHostnameId r = None);
     deleted = count_hosts dead db1;
     db2 = env (n + 1) (delete_hosts dead db1);
     live = (\<lambda>h r. P h r \<and> ah_state r \<noteq> DELETING)
   in (deleted + count_hosts live db2,
       update_hosts live (\<lambda>r. r\<lparr>ah_state := DELETING, ah_updatedAt := now\<rparr>) db2))"

definition setDesiredHosts :: "env \<Rightarrow> int \<Rightarrow> DesiredInput \<Rightarrow> host_db \<Rightarrow> (host_error, app_hosts) result \<times> host_db" where
  "setDesiredHosts env now i db0 = (if 1 < length (filter dh_primary (di_hosts i)) then (Inl MULTIPLE_PRIMARY_HOSTS, db0)
   else let
     mine = (\<lambda>r. ah_workspaceId r = di_workspaceId i \<and> ah_appId r = di_appId i);
     db1 = delete_hosts (\<lambda>h r. mine r \<and> ah_state r = DELETING \<and> ah_cfHostnameId r = None) (env 0 db0);
     db2 = env 1 db1;
     current = filter (\<lambda>(h, r). mine r \<and> ah_state r \<noteq> DELETING) (db_hosts db2)
   in (case write_hosts env 2 now i current (di_hosts i) [] db2 of
         (Inl e, db3) \<Rightarrow> (Inl e, db3)
       | (Inr written, db3) \<Rightarrow>
           (let removed = filter (\<lambda>(h, r). h \<notin> dh_hostname ` set (di_hosts i)) current in
            (Inr (written @ map (\<lambda>(h, r). (h, r\<lparr>ah_state := DELETING, ah_updatedAt := now\<rparr>)) removed),
             if removed = [] then db3
             else snd (retire env (2 + 3 * length (di_hosts i)) (\<lambda>h _. h \<in> fst ` set removed) now db3)))))"

section \<open>Queries and removal\<close>

definition get_hosts :: "string \<Rightarrow> string \<Rightarrow> host_db \<Rightarrow> app_hosts" where
  "get_hosts workspaceId appId db =
     filter (\<lambda>(h, r). ah_workspaceId r = workspaceId \<and> ah_appId r = appId) (db_hosts db)"

definition primaryOf :: "string \<Rightarrow> string \<Rightarrow> host_db \<Rightarrow> (string \<times> AppHostRecord) option" where
  "primaryOf workspaceId appId db = List.find (\<lambda>(h, r). ah_workspaceId r = workspaceId \<and> ah_appId r = appId
     \<and> ah_primary r \<and> ah_state r \<in> {PENDING, ACTIVE_HOST, SUSPENDED}) (db_hosts db)"

definition removeAllAppHosts :: "env \<Rightarrow> string \<Rightarrow> string option \<Rightarrow> int \<Rightarrow> host_db \<Rightarrow> nat \<times> host_db" where
  "removeAllAppHosts env appId generationId now db = retire env 0 (\<lambda>h r. ah_appId r = appId
     \<and> (case truthy generationId of Some g \<Rightarrow> ah_generationId r = Some g | None \<Rightarrow> True)) now db"

section \<open>Workspace power\<close>

text \<open>One \<open>updateMany\<close>: the new state and the number of rows it modified.\<close>

definition sweep_hosts :: "(string \<Rightarrow> AppHostRecord \<Rightarrow> bool) \<Rightarrow> (AppHostRecord \<Rightarrow> AppHostRecord) \<Rightarrow>
    nat \<times> host_db \<Rightarrow> nat \<times> host_db" where
  "sweep_hosts P f = (\<lambda>(k, db). (k + count_hosts P db, update_hosts P f db))"

definition suspend_hosts :: "string \<Rightarrow> int \<Rightarrow> AppHostState \<Rightarrow> nat \<times> host_db \<Rightarrow> nat \<times> host_db" where
  "suspend_hosts workspaceId now st = sweep_hosts (\<lambda>h r. ah_workspaceId r = workspaceId \<and> ah_state r = st)
     (\<lambda>r. r\<lparr>ah_state := WS_SUSPENDED, ah_preSuspendState := Some st, ah_wsSuspendedAt := Some now, ah_updatedAt := now\<rparr>)"

definition resume_hosts :: "string \<Rightarrow> int \<Rightarrow> AppHostState \<Rightarrow> nat \<times> host_db \<Rightarrow> nat \<times> host_db" where
  "resume_hosts workspaceId now st = sweep_hosts (\<lambda>h r. ah_workspaceId r = workspaceId
       \<and> ah_state r \<in> {WS_SUSPENDED, CF_RELEASED} \<and> ah_preSuspendState r = Some st)
     (\<lambda>r. r\<lparr>ah_state := st, ah_preSuspendState := None, ah_wsSuspendedAt := None, ah_updatedAt := now\<rparr>)"

definition setWorkspaceHostsSuspended :: "env \<Rightarrow> string \<Rightarrow> bool \<Rightarrow> int \<Rightarrow> host_db \<Rightarrow> nat \<times> host_db" where
  "setWorkspaceHostsSuspended env workspaceId suspended now db0 = (if suspended then
       suspend_hosts workspaceId now SUSPENDED (apsnd (env 2)
         (suspend_hosts workspaceId now ACTIVE_HOST (apsnd (env 1)
           (suspend_hosts workspaceId now PENDING (0, env 0 db0)))))
     else
       sweep_hosts (\<lambda>h r. ah_workspaceId r = workspaceId \<and> ah_state r \<in> {WS_SUSPENDED, CF_RELEASED} \<and> ah_preSuspendState r = None)
         (\<lambda>r. r\<lparr>ah_state := ACTIVE_HOST, ah_wsSuspendedAt := None, ah_updatedAt := now\<rparr>) (apsnd (env 3)
         (resume_hosts workspaceId now SUSPENDED (apsnd (env 2)
           (resume_hosts workspaceId now ACTIVE_HOST (apsnd (env 1)
             (resume_hosts workspaceId now PENDING (0, env 0 db0))))))))"

definition findSuspendedHostsPastCfRetention :: "int \<Rightarrow> int \<Rightarrow> host_db \<Rightarrow> app_hosts" where
  "findSuspendedHostsPastCfRetention retentionDays now db = (let cutoff = now - retentionDays * 24 * 60 * 60 * 1000 in
     filter (\<lambda>(h, r). ah_state r = WS_SUSPENDED \<and> ah_kind r = CUSTOM \<and> ah_cfHostnameId r \<noteq> None
       \<and> (case ah_wsSuspendedAt r of Some t \<Rightarrow> t \<le> cutoff | None \<Rightarrow> False)) (db_hosts db))"

section \<open>Labels of the registered hosts are held\<close>

text \<open>
  The invariant of the two collections, and what one database write may do to them: labels stay
  claimed by their owner, and the invariant is kept. The rely of a call is that everything the
  world does between its operations is such a step; the lemmas show that the calls themselves
  only make such steps, which is what their concurrent peers rely on.
\<close>

definition row_ok :: "host_labels \<Rightarrow> string \<times> AppHostRecord \<Rightarrow> bool" where
  "row_ok labels = (\<lambda>(h, r). case truthy (namespaceLabelOf h (ah_kind r)) of None \<Rightarrow> True
     | Some l \<Rightarrow> label_owner labels l = Some (ah_workspaceId r))"

definition hosts_ok :: "host_db \<Rightarrow> bool" where
  "hosts_ok db \<longleftrightarrow> distinct (map fst (db_hosts db)) \<and> list_all (row_ok (db_labels db)) (db_hosts db)"

definition host_step :: "host_db \<Rightarrow> host_db \<Rightarrow> bool" where
  "host_step db db' \<longleftrightarrow> (hosts_ok db \<longrightarrow> hosts_ok db')
     \<and> (\<forall>l. map_of (db_labels db) l \<noteq> None \<longrightarrow> map_of (db_labels db') l \<noteq> None)
     \<and> (\<forall>l w. label_owner (db_labels db) l = Some w \<longrightarrow> label_owner (db_labels db') l = Some w)"

definition rely :: "env \<Rightarrow> bool" where
  "rely env \<longleftrightarrow> (\<forall>n db. host_step db (env n db))"

named_theorems host_steps \<open>database writes that are steps\<close>

lemma relyD: "rely env \<Longrightarrow> host_step db (env n db)"
  by (simp add: rely_def)

lemma host_step_refl [host_steps]: "host_step db db"
  by (simp add: host_step_def)

lemma host_step_trans: "host_step a b \<Longrightarrow> host_step b c \<Longrightarrow> host_step a c"
  by (simp add: host_step_def)

lemma host_step_claimed: "host_step a b \<Longrightarrow> map_of (db_labels a) l \<noteq> None \<Longrightarrow> map_of (db_labels b) l \<noteq> None"
  unfolding host_step_def by blast

lemma host_step_owner: "host_step a b \<Longrightarrow> label_owner (db_labels a) l = Some w \<Longrightarrow> label_owner (db_labels b) l = Some w"
  by (simp add: host_step_def)

lemma map_fst_update: "map fst (map (\<lambda>(h, r). (h, F h r)) xs) = map fst xs"
  by (induction xs) auto

lemma row_ok_update:
  "row_ok labels (h, r) \<Longrightarrow> ah_kind r' = ah_kind r \<Longrightarrow> ah_workspaceId r' = ah_workspaceId r \<Longrightarrow> row_ok labels (h, r')"
  by (simp add: row_ok_def del: truthy_Some_iff split: option.splits)

lemma row_ok_mono:
  "row_ok labels x \<Longrightarrow> (\<And>l w. label_owner labels l = Some w \<Longrightarrow> label_owner labels' l = Some w) \<Longrightarrow> row_ok labels' x"
  by (auto simp: row_ok_def simp del: truthy_Some_iff split: option.splits)

lemma step_update [host_steps]:
  assumes "\<And>r. ah_kind (f r) = ah_kind r" "\<And>r. ah_workspaceId (f r) = ah_workspaceId r"
  shows "host_step db (update_hosts P f db)"
proof -
  have "hosts_ok (update_hosts P f db)" if "hosts_ok db"
    using that row_ok_update [OF _ assms]
    unfolding hosts_ok_def update_hosts_def by (auto simp: map_fst_update list_all_iff simp del: map_map)
  then show ?thesis by (simp add: host_step_def update_hosts_def)
qed

lemma step_delete [host_steps]: "host_step db (delete_hosts P db)"
  by (simp add: host_step_def hosts_ok_def delete_hosts_def list_all_iff distinct_map_filter)

lemma step_insert:
  assumes "insert_host h r db = Some db'" "row_ok (db_labels db) (h, r)"
  shows "host_step db db'"
  using assms unfolding host_step_def hosts_ok_def insert_host_def
  by (auto simp: list_all_iff split: if_splits dest!: obj_set_memD)

lemma step_hold:
  assumes "hold now l ow (db_labels db) = Inr ls"
  shows "host_step db (db\<lparr>db_labels := ls\<rparr>)" "label_owner ls l = Some (fst ow)"
proof -
  have h: "try_hold now l ow (db_labels db) = Some ls" using assms by (simp add: try_hold_def)
  show "label_owner ls l = Some (fst ow)" by (rule labels.claim_owner [OF h])
  have "label_owner ls k = Some w" if "label_owner (db_labels db) k = Some w" for k w
    using labels.owner_kept [OF that h] .
  moreover have "map_of ls k \<noteq> None" if "map_of (db_labels db) k \<noteq> None" for k
    using labels.claim_claimed [OF h] that by blast
  ultimately show "host_step db (db\<lparr>db_labels := ls\<rparr>)"
    by (auto simp: host_step_def hosts_ok_def list_all_iff intro: row_ok_mono)
qed

lemma hold_or_own_step:
  assumes env: "rely env" and r: "hold_or_own env n now l ow db = (ok, db')"
  shows "host_step db db'" "ok \<Longrightarrow> label_owner (db_labels db') l = Some (fst ow)"
proof -
  let ?db = "env n db"
  note s1 = relyD [OF env, of db n] and s2 = relyD [OF env, of ?db "n + 1"]
  have "host_step db db' \<and> (ok \<longrightarrow> label_owner (db_labels db') l = Some (fst ow))"
  proof (cases "hold now l ow (db_labels ?db)")
    case (Inr ls)
    with r have "ok" "db' = ?db\<lparr>db_labels := ls\<rparr>" by (auto simp: hold_or_own_def Let_def)
    then show ?thesis using step_hold [OF Inr] s1 host_step_trans by auto
  next
    case (Inl e)
    then have claimed: "map_of (db_labels ?db) l \<noteq> None" by (auto simp: hold_def split: if_splits)
    from Inl r have o: "ok = isAvailableFor l (fst ow) (db_labels db')" "db' = env (n + 1) ?db"
      by (auto simp: hold_or_own_def Let_def)
    from host_step_claimed [OF s2 claimed] o obtain x where "map_of (db_labels db') l = Some x" by auto
    then show ?thesis using s1 s2 o host_step_trans
      by (auto simp: isAvailableFor_def label_owner_def)
  qed
  then show "host_step db db'" "ok \<Longrightarrow> label_owner (db_labels db') l = Some (fst ow)" by simp_all
qed

text \<open>A new row's label, held or already the caller's, then the insert.\<close>

lemma label_then_insert:
  assumes env: "rely env"
    and r: "(case truthy (namespaceLabelOf h (ah_kind row)) of None \<Rightarrow> (True, db)
       | Some label \<Rightarrow> hold_or_own env n now label (ah_workspaceId row, lst) db) = (ok, db2)"
  shows "host_step db db2" "ok \<Longrightarrow> host_step db2 db3 \<Longrightarrow> insert_host h row db3 = Some db4 \<Longrightarrow> host_step db2 db4"
proof -
  have a: "host_step db db2 \<and> (ok \<longrightarrow> row_ok (db_labels db2) (h, row))"
  proof (cases "truthy (namespaceLabelOf h (ah_kind row))")
    case None
    with r show ?thesis using host_step_refl by (simp add: row_ok_def)
  next
    case (Some label)
    with r have "hold_or_own env n now label (ah_workspaceId row, lst) db = (ok, db2)" by simp
    from hold_or_own_step [OF env this] Some show ?thesis by (simp add: row_ok_def del: truthy_Some_iff)
  qed
  then show "host_step db db2" by blast
  assume "ok" and s: "host_step db2 db3" and i: "insert_host h row db3 = Some db4"
  with a have "row_ok (db_labels db3) (h, row)"
    using row_ok_mono host_step_owner [OF s] by blast
  from step_insert [OF i this] s show "host_step db2 db4" using host_step_trans by blast
qed

section \<open>Every call is such a step\<close>

lemma step_sweep: "host_step a (snd x) \<Longrightarrow> (\<And>r. ah_kind (f r) = ah_kind r) \<Longrightarrow>
    (\<And>r. ah_workspaceId (f r) = ah_workspaceId r) \<Longrightarrow> host_step a (snd (sweep_hosts P f x))"
  by (cases x) (simp add: sweep_hosts_def host_step_trans [OF _ step_update])

lemma step_env: "rely env \<Longrightarrow> host_step a (snd x) \<Longrightarrow> host_step a (snd (apsnd (env n) x))"
  by (cases x) (auto intro: host_step_trans relyD)

lemma step_retire: "rely env \<Longrightarrow> host_step a db \<Longrightarrow> host_step a (snd (retire env n P now db))"
  unfolding retire_def Let_def snd_conv
  by (rule host_step_trans [OF _ step_update], rule host_step_trans [OF _ relyD], rule host_step_trans [OF _ step_delete])
    (auto intro: host_step_trans relyD)

lemma step_reserve:
  assumes env: "rely env"
  shows "host_step db (snd (reserve env now i db))"
proof -
  let ?db1 = "env 0 db" and ?row = "reserved_row now i"
  note s1 = relyD [OF env, of db 0]
  obtain ok db2 where h: "(case truthy (namespaceLabelOf (ri_hostname i) (ri_kind i)) of None \<Rightarrow> (True, ?db1)
    | Some label \<Rightarrow> hold_or_own env 1 now label (ri_workspaceId i, ri_listingId i) ?db1) = (ok, db2)"
    by force
  have fields: "ah_kind ?row = ri_kind i" "ah_workspaceId ?row = ri_workspaceId i" by (simp_all add: reserved_row_def)
  note ins = label_then_insert [OF env, where h = "ri_hostname i" and row = ?row, unfolded fields, OF h]
  have s2: "host_step db db2" using ins(1) s1 host_step_trans by blast
  have s3: "host_step db2 (env 3 db2)" by (rule relyD [OF env])
  show ?thesis
  proof (cases "map_of (db_hosts ?db1) (ri_hostname i)")
    case (Some e)
    then show ?thesis using s1 by (simp add: reserve_def)
  next
    case None
    show ?thesis
    proof (cases "insert_host (ri_hostname i) ?row (env 3 db2)")
      case None
      then show ?thesis using \<open>map_of _ _ = None\<close> h s1 s2 s3
        by (auto simp: reserve_def Let_def intro: host_step_trans)
    next
      case (Some db4)
      then show ?thesis using \<open>map_of _ _ = None\<close> h s1 s2 ins(2) [OF _ s3 Some]
        by (auto simp: reserve_def Let_def intro: host_step_trans)
    qed
  qed
qed

lemma step_write_hosts:
  "rely env \<Longrightarrow> host_step a db \<Longrightarrow> host_step a (snd (write_hosts env n now i current hosts written db))"
proof (induction hosts arbitrary: n written db)
  case (Cons host hs)
  show ?case
  proof (cases "map_of current (dh_hostname host)")
    case (Some existing)
    have "host_step db (update_hosts (\<lambda>h _. h = dh_hostname host) (desired_update now i host) (env n db))"
      by (rule host_step_trans [OF relyD [OF Cons.prems(1)] step_update]) (simp_all add: desired_update_def)
    from Cons.IH [OF Cons.prems(1) host_step_trans [OF Cons.prems(2) this]] Some show ?thesis by simp
  next
    case None
    let ?row = "desired_row now i host"
    obtain ok db2 where h: "(case truthy (namespaceLabelOf (dh_hostname host) (dh_kind host)) of None \<Rightarrow> (True, db)
      | Some label \<Rightarrow> hold_or_own env n now label (di_workspaceId i, di_listingId i) db) = (ok, db2)"
      by force
    have fields: "ah_kind ?row = dh_kind host" "ah_workspaceId ?row = di_workspaceId i" by (simp_all add: desired_row_def)
    note ins = label_then_insert [OF Cons.prems(1), where h = "dh_hostname host" and row = ?row, unfolded fields, OF h]
    have s2: "host_step a db2" using ins(1) Cons.prems(2) host_step_trans by blast
    have s3: "host_step db2 (env (n + 2) db2)" by (rule relyD [OF Cons.prems(1)])
    show ?thesis
    proof (cases "ok \<and> insert_host (dh_hostname host) ?row (env (n + 2) db2) \<noteq> None")
      case True
      then obtain db4 where i: "insert_host (dh_hostname host) ?row (env (n + 2) db2) = Some db4" by auto
      from True ins(2) [OF _ s3 i] have "host_step a db4" using s2 host_step_trans by blast
      with True i h None Cons show ?thesis by (simp add: Let_def)
    next
      case False
      with h None s2 host_step_trans [OF s2 s3] show ?thesis by (auto simp: Let_def)
    qed
  qed
qed simp

lemma step_setDesiredHosts:
  assumes env: "rely env"
  shows "host_step db (snd (setDesiredHosts env now i db))"
proof -
  define mine where "mine = (\<lambda>r :: AppHostRecord. ah_workspaceId r = di_workspaceId i \<and> ah_appId r = di_appId i)"
  define db2 where "db2 = env 1 (delete_hosts (\<lambda>h r. mine r \<and> ah_state r = DELETING \<and> ah_cfHostnameId r = None) (env 0 db))"
  define current where "current = filter (\<lambda>(h, r). mine r \<and> ah_state r \<noteq> DELETING) (db_hosts db2)"
  have "host_step db db2" unfolding db2_def
    by (rule host_step_trans [OF relyD [OF env]], rule host_step_trans [OF step_delete relyD [OF env]])
  then have w: "host_step db (snd (write_hosts env 2 now i current (di_hosts i) [] db2))"
    by (rule step_write_hosts [OF env])
  obtain r db3 where r: "write_hosts env 2 now i current (di_hosts i) [] db2 = (r, db3)" by force
  have d: "setDesiredHosts env now i db = (if 1 < length (filter dh_primary (di_hosts i)) then (Inl MULTIPLE_PRIMARY_HOSTS, db)
    else (case (r, db3) of
         (Inl e, db3) \<Rightarrow> (Inl e, db3)
       | (Inr written, db3) \<Rightarrow>
           (let removed = filter (\<lambda>(h, r). h \<notin> dh_hostname ` set (di_hosts i)) current in
            (Inr (written @ map (\<lambda>(h, r). (h, r\<lparr>ah_state := DELETING, ah_updatedAt := now\<rparr>)) removed),
             if removed = [] then db3
             else snd (retire env (2 + 3 * length (di_hosts i)) (\<lambda>h _. h \<in> fst ` set removed) now db3)))))"
    unfolding setDesiredHosts_def mine_def db2_def current_def Let_def r [unfolded mine_def db2_def current_def Let_def] by simp
  from w r show ?thesis unfolding d
    by (cases r) (simp_all add: Let_def host_step_refl step_retire [OF env])
qed

lemma step_setWorkspaceHostsSuspended:
  "rely env \<Longrightarrow> host_step db (snd (setWorkspaceHostsSuspended env w s now db))"
  unfolding setWorkspaceHostsSuspended_def suspend_hosts_def resume_hosts_def if_distrib [of snd]
  by (cases s; simp only: if_True if_False; intro step_sweep step_env; simp add: relyD)

section \<open>Histories\<close>

datatype host_op =
    Reserve int ReserveInput
  | SetDesired int DesiredInput
  | RemoveAll string "string option" int
  | Power string bool int

fun apply_host_op :: "env \<times> host_op \<Rightarrow> host_db \<Rightarrow> host_db" where
  "apply_host_op (env, Reserve now i) db = snd (reserve env now i db)"
| "apply_host_op (env, SetDesired now i) db = snd (setDesiredHosts env now i db)"
| "apply_host_op (env, RemoveAll appId g now) db = snd (removeAllAppHosts env appId g now db)"
| "apply_host_op (env, Power w s now) db = snd (setWorkspaceHostsSuspended env w s now db)"

lemma step_apply: "rely (fst op) \<Longrightarrow> host_step db (apply_host_op op db)"
  by (cases "(op, db)" rule: apply_host_op.cases)
    (simp_all add: removeAllAppHosts_def step_reserve step_setDesiredHosts step_retire step_setWorkspaceHostsSuspended host_step_refl)

lemma step_run: "(\<forall>op \<in> set ops. rely (fst op)) \<Longrightarrow> host_step db (fold apply_host_op ops db)"
  by (induction ops arbitrary: db) (auto intro: host_step_refl host_step_trans step_apply)

text \<open>
  C13. Whatever other writers that keep the same promises do between the database operations, any
  sequence of reservations, desired-set writes, removals and workspace suspensions, successful or
  failing part-way, leaves every registered hostname under a label that its own workspace holds in
  the shared namespace (custom domains have none), and takes no label away from its owner.
\<close>

theorem registered_hosts_hold_their_labels:
  assumes "list_all (\<lambda>op. rely (fst op)) ops" and "hosts_ok db"
  shows "hosts_ok (fold apply_host_op ops db)
    \<and> (label_owner (db_labels db) l = Some w \<longrightarrow> label_owner (db_labels (fold apply_host_op ops db)) l = Some w)"
  using step_run [of ops db] assms by (simp add: list_all_iff host_step_def)

lemma rely_id [simp]: "rely (\<lambda>_ db. db)"
  by (simp add: rely_def host_step_refl)

lemma registered_hosts_hold_their_labels_witness:
  "hosts_ok (fold apply_host_op
     [(\<lambda>_ db. db, Reserve 5 \<lparr>ri_workspaceId = ''w'', ri_appId = ''a'', ri_listingId = ''l'',
         ri_hostname = ''shop.privos.link'', ri_kind = TENANT\<rparr>),
      (\<lambda>_ db. db, Power ''w'' True 6)] \<lparr>db_hosts = [], db_labels = []\<rparr>)"
  by (rule registered_hosts_hold_their_labels [THEN conjunct1]) (simp_all add: hosts_ok_def)

section \<open>Suspend and resume\<close>

definition relabel :: "(AppHostRecord \<Rightarrow> AppHostRecord) \<Rightarrow> host_db \<Rightarrow> host_db" where
  "relabel F db = db\<lparr>db_hosts := map (\<lambda>(h, r). (h, F r)) (db_hosts db)\<rparr>"

lemma sweep_relabel: "snd (sweep_hosts (\<lambda>_. P) f (k, db)) = relabel (\<lambda>r. if P r then f r else r) db"
  by (simp add: sweep_hosts_def update_hosts_def relabel_def)

lemma relabel_relabel: "relabel F (relabel G db) = relabel (F \<circ> G) db"
  by (simp add: relabel_def comp_def split_def)

lemma sweep_pair: "sweep_hosts P f x = (fst (sweep_hosts P f x), snd (sweep_hosts P f x))"
  by simp

lemma relabel_labels [simp]: "db_labels (relabel F db) = db_labels db"
  by (simp add: relabel_def)

lemma map_of_relabel: "map_of (db_hosts (relabel F db)) h = map_option F (map_of (db_hosts db) h)"
  by (simp add: relabel_def map_of_map)

lemma suspend_hosts_relabel: "suspend_hosts w now st (k, db) = (k + count_hosts (\<lambda>h r. ah_workspaceId r = w \<and> ah_state r = st) db,
    relabel (\<lambda>r. if ah_workspaceId r = w \<and> ah_state r = st then r\<lparr>ah_state := WS_SUSPENDED,
      ah_preSuspendState := Some st, ah_wsSuspendedAt := Some now, ah_updatedAt := now\<rparr> else r) db)"
  by (simp add: suspend_hosts_def sweep_hosts_def update_hosts_def relabel_def)

lemma resume_hosts_relabel: "resume_hosts w now st (k, db) = (k + count_hosts (\<lambda>h r. ah_workspaceId r = w \<and>
      ah_state r \<in> {WS_SUSPENDED, CF_RELEASED} \<and> ah_preSuspendState r = Some st) db,
    relabel (\<lambda>r. if ah_workspaceId r = w \<and> ah_state r \<in> {WS_SUSPENDED, CF_RELEASED} \<and> ah_preSuspendState r = Some st
      then r\<lparr>ah_state := st, ah_preSuspendState := None, ah_wsSuspendedAt := None, ah_updatedAt := now\<rparr> else r) db)"
  by (simp add: resume_hosts_def sweep_hosts_def update_hosts_def relabel_def)

definition suspended_row :: "string \<Rightarrow> int \<Rightarrow> AppHostRecord \<Rightarrow> AppHostRecord" where
  "suspended_row w now r = (if ah_workspaceId r = w \<and> ah_state r \<in> {PENDING, ACTIVE_HOST, SUSPENDED}
     then r\<lparr>ah_state := WS_SUSPENDED, ah_preSuspendState := Some (ah_state r), ah_wsSuspendedAt := Some now, ah_updatedAt := now\<rparr>
     else r)"

definition resumed_row :: "string \<Rightarrow> int \<Rightarrow> AppHostRecord \<Rightarrow> AppHostRecord" where
  "resumed_row w now r = (if ah_workspaceId r = w \<and> ah_state r \<in> {WS_SUSPENDED, CF_RELEASED} then
     (case ah_preSuspendState r of
        None \<Rightarrow> r\<lparr>ah_state := ACTIVE_HOST, ah_wsSuspendedAt := None, ah_updatedAt := now\<rparr>
      | Some st \<Rightarrow> if st \<in> {PENDING, ACTIVE_HOST, SUSPENDED}
          then r\<lparr>ah_state := st, ah_preSuspendState := None, ah_wsSuspendedAt := None, ah_updatedAt := now\<rparr> else r)
     else r)"

lemma relabel_cong: "(\<And>r. F r = G r) \<Longrightarrow> relabel F db = relabel G db"
  by presburger

lemma suspend_is_relabel:
  "snd (setWorkspaceHostsSuspended (\<lambda>_ db. db) w True now db) = relabel (suspended_row w now) db"
  unfolding setWorkspaceHostsSuspended_def if_True apsnd_conv suspend_hosts_relabel relabel_relabel snd_conv
  apply (rule relabel_cong)
  subgoal for r by (cases "ah_workspaceId r = w"; cases "ah_state r"; simp add: suspended_row_def)
  done

lemma resume_is_relabel:
  "snd (setWorkspaceHostsSuspended (\<lambda>_ db. db) w False now db) = relabel (resumed_row w now) db"
  unfolding setWorkspaceHostsSuspended_def if_False apsnd_conv resume_hosts_relabel sweep_relabel relabel_relabel
  apply (rule relabel_cong)
  subgoal for r
  proof (cases "ah_preSuspendState r")
    case None
    then show ?thesis by (auto simp: resumed_row_def)
  next
    case (Some st)
    show ?thesis
    proof (cases "ah_workspaceId r = w \<and> (ah_state r = WS_SUSPENDED \<or> ah_state r = CF_RELEASED)")
      case True
      with Some show ?thesis by (cases st) (auto simp: resumed_row_def)
    next
      case False
      have skip: "(if ah_workspaceId r = w \<and> ah_state r \<in> {WS_SUSPENDED, CF_RELEASED} \<and> P then a else b) = b" for P and a b :: AppHostRecord
        using False by auto
      show ?thesis using False by (simp only: comp_def skip) (auto simp: resumed_row_def)
    qed
  qed
  done

text \<open>
  C30. Suspending a workspace and resuming it restores every host exactly: a host that was pending,
  active or individually suspended is out of the routing tables in between and comes back in that
  very state, with its Cloudflare hostname, primary flag and label untouched, and hosts of other
  workspaces never change.
\<close>

theorem suspend_resume_restores:
  defines "suspended w t db \<equiv> snd (setWorkspaceHostsSuspended (\<lambda>_ db. db) w True t db)"
    and "resumed w t db \<equiv> snd (setWorkspaceHostsSuspended (\<lambda>_ db. db) w False t db)"
  assumes "map_of (db_hosts db) h = Some r" and "ah_state r \<in> {PENDING, ACTIVE_HOST, SUSPENDED}"
  shows "map_option ah_state (map_of (db_hosts (suspended w t db)) h)
      = Some (if ah_workspaceId r = w then WS_SUSPENDED else ah_state r)
    \<and> map_of (db_hosts (resumed w t' (suspended w t db))) h
      = Some (if ah_workspaceId r = w then r\<lparr>ah_preSuspendState := None, ah_wsSuspendedAt := None, ah_updatedAt := t'\<rparr> else r)
    \<and> db_labels (resumed w t' (suspended w t db)) = db_labels db"
  using assms(3,4) unfolding suspended_def resumed_def suspend_is_relabel resume_is_relabel
  by (auto simp: map_of_relabel suspended_row_def resumed_row_def)

lemma suspend_resume_restores_witness:
  "\<exists>r. map_of (db_hosts (snd (setWorkspaceHostsSuspended (\<lambda>_ db. db) ''w'' False 9 (snd (setWorkspaceHostsSuspended (\<lambda>_ db. db) ''w'' True 7
      \<lparr>db_hosts = [(''h'', reserved_row 1 \<lparr>ri_workspaceId = ''w'', ri_appId = ''a'', ri_listingId = ''l'', ri_hostname = ''h'', ri_kind = VANITY\<rparr>)],
        db_labels = []\<rparr>))))) ''h'' = Some r \<and> ah_state r = PENDING"
  using suspend_resume_restores [where h = "''h''" and w = "''w''" and t = 7 and t' = 9 and
      r = "reserved_row 1 \<lparr>ri_workspaceId = ''w'', ri_appId = ''a'', ri_listingId = ''l'', ri_hostname = ''h'', ri_kind = VANITY\<rparr>"
      and db = "\<lparr>db_hosts = [(''h'', reserved_row 1 \<lparr>ri_workspaceId = ''w'', ri_appId = ''a'', ri_listingId = ''l'', ri_hostname = ''h'', ri_kind = VANITY\<rparr>)],
        db_labels = []\<rparr>"]
  by (simp add: reserved_row_def)

text \<open>
  A desired-set write does not look at the workspace's power state: it sets the host of a suspended
  workspace \<open>ACTIVE\<close>, so it is routed again, and leaves the recorded state behind.
\<close>

lemma desired_write_reactivates_suspended:
  "ah_state (desired_update now i \<lparr>dh_hostname = h, dh_kind = k, dh_primary = p, dh_state = ACTIVE_HOST\<rparr> (suspended_row w t r)) = ACTIVE_HOST"
  by (simp add: desired_update_def)

end
