(* ===== verification/App_Lifecycle.thy ===== *)
theory App_Lifecycle
  imports Master_Types App_Host_Registry
begin

text \<open>
  The life of an installed app on the apps master: \<open>src/master/app-lifecycle-service.ts\<close> (start, stop,
  restart, redeploy, workspace power, quarantine, removal) and \<open>src/master/quarantine-reaper.ts\<close>. An
  operation gives its result and the database afterwards: what it wrote before it threw stays written.
  The agents' answers, the CNAME removal, the clock and fresh ids are the fields of \<open>lc_world\<close>.
\<close>

record agent_call =
  ac_nodeId :: string
  ac_workspaceId :: string
  ac_method :: string
  ac_path :: string

text \<open>\<open>apps\<close> has a unique index on \<open>appId\<close>: it is keyed by it.\<close>

record lc_db =
  lc_apps :: "MasterApp obj"
  lc_nodes :: "MasterNode list"
  lc_events :: "AppLifecycleEvent list"
  lc_hosts :: host_db
  lc_calls :: "agent_call list"
  lc_dirty :: nat

record lc_world =
  agent_answer :: "agent_call \<Rightarrow> nat option"
  remove_cname :: "string \<Rightarrow> bool"
  hosts_env :: env
  uuid :: "nat \<Rightarrow> string"
  now_ms :: int

datatype lc_error = AppNotFound | MCP_SIGNED_LIFECYCLE_REQUIRED | MCP_SIGNED_REDEPLOYMENT_REQUIRED
  | AgentRejected | AgentOperationFailed | NodeNotFound | NoReplicas | CnameFailed

section \<open>Shared steps\<close>

definition find_app :: "string \<Rightarrow> string \<Rightarrow> lc_db \<Rightarrow> MasterApp option" where
  "find_app workspaceId appId db = (case map_of (lc_apps db) appId of
     Some app \<Rightarrow> if ma_workspaceId app = workspaceId then Some app else None | None \<Rightarrow> None)"

definition load_app :: "string \<Rightarrow> string \<Rightarrow> lc_db \<Rightarrow> (lc_error, MasterApp) result" where
  "load_app workspaceId appId db = (case find_app workspaceId appId db of
     Some app \<Rightarrow> if ma_state app \<noteq> ''REMOVED'' then Inr app else Inl AppNotFound | None \<Rightarrow> Inl AppNotFound)"

text \<open>\<open>apps.updateOne({ appId, workspaceId, ... }, ...)\<close>: the row matched, if any, and whether one was.\<close>

definition update_app :: "string \<Rightarrow> string \<Rightarrow> (MasterApp \<Rightarrow> bool) \<Rightarrow> (MasterApp \<Rightarrow> MasterApp) \<Rightarrow> lc_db \<Rightarrow> bool \<times> lc_db" where
  "update_app workspaceId appId P f db = (case find_app workspaceId appId db of
     Some app \<Rightarrow> if P app then (True, db\<lparr>lc_apps := obj_set appId (f app) (lc_apps db)\<rparr>) else (False, db)
   | None \<Rightarrow> (False, db))"

definition node_of :: "lc_db \<Rightarrow> AppReplica \<Rightarrow> MasterNode option" where
  "node_of db replica = List.find (\<lambda>n. mn_nodeId n = rp_nodeId replica) (lc_nodes db)"

definition replica_call :: "string \<Rightarrow> string \<Rightarrow> string \<Rightarrow> MasterNode \<Rightarrow> AppReplica \<Rightarrow> agent_call" where
  "replica_call workspaceId method sfx node replica = \<lparr>ac_nodeId = mn_nodeId node, ac_workspaceId = workspaceId,
     ac_method = method, ac_path = ''/api/v1/apps/'' @ rp_containerId replica @ sfx\<rparr>"

text \<open>The calls for the replicas whose node is known.\<close>

definition calls_for :: "lc_db \<Rightarrow> string \<Rightarrow> string \<Rightarrow> string \<Rightarrow> AppReplica list \<Rightarrow> agent_call list" where
  "calls_for db workspaceId method sfx replicas = concat (map (\<lambda>r. case node_of db r of
     Some node \<Rightarrow> [replica_call workspaceId method sfx node r] | None \<Rightarrow> []) replicas)"

definition assertResponses :: "bool \<Rightarrow> nat list \<Rightarrow> bool" where
  "assertResponses tolerateNotFound statuses =
     (\<not> (\<exists>status \<in> set statuses. 300 \<le> status \<and> \<not> (tolerateNotFound \<and> status = 404)))"

text \<open>\<open>await Promise.all(calls)\<close>, then \<open>assertResponses\<close>; every call is made in any case.\<close>

definition run_calls :: "lc_world \<Rightarrow> bool \<Rightarrow> agent_call list \<Rightarrow> lc_db \<Rightarrow> (lc_error, unit) result \<times> lc_db" where
  "run_calls w tolerateNotFound calls db = (let db' = db\<lparr>lc_calls := lc_calls db @ calls\<rparr>; answers = map (agent_answer w) calls in
     (if None \<in> set answers then Inl AgentRejected
      else if \<not> assertResponses tolerateNotFound (map the answers) then Inl AgentOperationFailed else Inr (), db'))"

definition all_nodes_known :: "lc_db \<Rightarrow> AppReplica list \<Rightarrow> bool" where
  "all_nodes_known db replicas = list_all (\<lambda>r. node_of db r \<noteq> None) replicas"

definition replica_event :: "lc_world \<Rightarrow> LifecycleEventType \<Rightarrow> MasterApp \<Rightarrow> ContainerResources \<Rightarrow> nat \<Rightarrow> AppReplica \<Rightarrow> AppLifecycleEvent" where
  "replica_event w type app resources k r = \<lparr>ev_eventId = uuid w k, ev_workspaceId = ma_workspaceId app, ev_appId = ma_appId app,
     ev_replicaId = Some (rp_replicaId r), ev_type = type, ev_resources = resources, ev_storageBytes = None,
     ev_replicaCount = None, ev_at = now_ms w\<rparr>"

definition insert_replica_events :: "lc_world \<Rightarrow> LifecycleEventType \<Rightarrow> MasterApp \<Rightarrow> ContainerResources \<Rightarrow> lc_db \<Rightarrow> lc_db" where
  "insert_replica_events w type app resources db = db\<lparr>lc_events := lc_events db
     @ map (\<lambda>(k, r). replica_event w type app resources (length (lc_events db) + k) r) (enumerate 0 (ma_replicas app))\<rparr>"

definition insert_app_event :: "lc_world \<Rightarrow> LifecycleEventType \<Rightarrow> MasterApp \<Rightarrow> rat option \<Rightarrow> nat option \<Rightarrow> lc_db \<Rightarrow> lc_db" where
  "insert_app_event w type app storage count db = db\<lparr>lc_events := lc_events db @ [\<lparr>ev_eventId = uuid w (length (lc_events db)),
     ev_workspaceId = ma_workspaceId app, ev_appId = ma_appId app, ev_replicaId = None, ev_type = type,
     ev_resources = ma_resources app, ev_storageBytes = storage, ev_replicaCount = count, ev_at = now_ms w\<rparr>]\<rparr>"

definition mark_dirty :: "lc_db \<Rightarrow> lc_db" where
  "mark_dirty db = db\<lparr>lc_dirty := lc_dirty db + 1\<rparr>"

definition with_state :: "lc_world \<Rightarrow> string \<Rightarrow> MasterApp \<Rightarrow> MasterApp" where
  "with_state w state app = app\<lparr>ma_state := state, ma_updatedAt := now_ms w,
     ma_replicas := map (\<lambda>r. r\<lparr>rp_state := to_lower state\<rparr>) (ma_replicas app)\<rparr>"

section \<open>Start, stop, restart\<close>

datatype app_action = Start | Stop | Restart

definition action_path :: "app_action \<Rightarrow> string" where
  "action_path a = (case a of Start \<Rightarrow> ''/start'' | Stop \<Rightarrow> ''/stop'' | Restart \<Rightarrow> ''/restart'')"

text \<open>A replica whose node is unknown makes \<open>agentClient.request\<close> reject; the other calls are made.\<close>

definition invoke :: "lc_world \<Rightarrow> string \<Rightarrow> string \<Rightarrow> app_action \<Rightarrow> lc_db \<Rightarrow> (lc_error, MasterApp) result \<times> lc_db" where
  "invoke w workspaceId appId action db = (case load_app workspaceId appId db of
     Inl e \<Rightarrow> (Inl e, db)
   | Inr app \<Rightarrow>
       if ma_kind app = Some KIND_mcp_v3 then (Inl MCP_SIGNED_LIFECYCLE_REQUIRED, db)
       else (case run_calls w False (calls_for db workspaceId ''POST'' (action_path action) (ma_replicas app)) db of
           (Inl e, db1) \<Rightarrow> (Inl e, db1)
         | (Inr _, db1) \<Rightarrow>
             if \<not> all_nodes_known db (ma_replicas app) then (Inl AgentRejected, db1)
             else let
               db2 = snd (update_app workspaceId appId (\<lambda>_. True) (with_state w (if action = Stop then ''STOPPED'' else ''RUNNING'')) db1);
               db3 = (if action \<noteq> Restart then insert_replica_events w (if action = Stop then STOPPED else STARTED) app (ma_resources app) db2 else db2);
               db4 = mark_dirty db3
             in (load_app workspaceId appId db4, db4)))"

section \<open>Workspace power\<close>

definition power_selected :: "string \<Rightarrow> bool \<Rightarrow> lc_db \<Rightarrow> (string \<times> MasterApp) list" where
  "power_selected workspaceId suspending db = filter (\<lambda>(_, a). ma_workspaceId a = workspaceId
     \<and> (if suspending then ma_state a = ''RUNNING'' else ma_state a \<noteq> ''REMOVED'' \<and> ma_suspendedWithWorkspace a)) (lc_apps db)"

definition power_update :: "lc_world \<Rightarrow> bool \<Rightarrow> MasterApp \<Rightarrow> MasterApp" where
  "power_update w suspending app =
     (with_state w (if suspending then ''STOPPED'' else ''RUNNING'') app)\<lparr>ma_suspendedWithWorkspace := suspending\<rparr>"

fun power_loop :: "lc_world \<Rightarrow> string \<Rightarrow> bool \<Rightarrow> (string \<times> MasterApp) list \<Rightarrow> lc_db \<Rightarrow> (lc_error, unit) result \<times> lc_db" where
  "power_loop w workspaceId suspending [] db = (Inr (), db)"
| "power_loop w workspaceId suspending ((appId, app) # apps) db =
     (case run_calls w False (calls_for db workspaceId ''POST'' (if suspending then ''/stop'' else ''/start'') (ma_replicas app)) db of
        (Inl e, db1) \<Rightarrow> (Inl e, db1)
      | (Inr _, db1) \<Rightarrow> (let
          db2 = snd (update_app workspaceId appId (\<lambda>_. True) (power_update w suspending) db1);
          db3 = insert_replica_events w (if suspending then STOPPED else STARTED) app (ma_resources app) db2
        in power_loop w workspaceId suspending apps db3))"

definition setWorkspacePower :: "lc_world \<Rightarrow> string \<Rightarrow> bool \<Rightarrow> lc_db \<Rightarrow> (lc_error, nat) result \<times> lc_db" where
  "setWorkspacePower w workspaceId suspending db = (let
     apps = power_selected workspaceId suspending db;
     (affectedHosts, hosts') = setWorkspaceHostsSuspended (hosts_env w) workspaceId suspending (now_ms w) (lc_hosts db);
     db1 = db\<lparr>lc_hosts := hosts'\<rparr>
   in if apps = [] then (Inr 0, if 0 < affectedHosts then mark_dirty db1 else db1)
      else (case power_loop w workspaceId suspending apps db1 of
          (Inl e, db2) \<Rightarrow> (Inl e, db2)
        | (Inr _, db2) \<Rightarrow> (Inr (length apps), mark_dirty db2)))"

section \<open>Redeploy and proxying\<close>

text \<open>The body of the redeploy request (image, digest, resources, rolling) is not part of \<open>agent_call\<close>.\<close>

record PartialResources =
  pr_memoryMb :: "rat option"
  pr_cpus :: "rat option"
  pr_tmpSizeMb :: "rat option"

record RedeployInput =
  rd_image :: "string option"
  rd_digest :: "string option"
  rd_versionDigest :: "string option"
  rd_resources :: "PartialResources option"

definition or_default :: "'a option \<Rightarrow> 'a \<Rightarrow> 'a" where
  "or_default x d = (case x of Some v \<Rightarrow> v | None \<Rightarrow> d)"

definition merge_resources :: "ContainerResources \<Rightarrow> PartialResources option \<Rightarrow> ContainerResources" where
  "merge_resources r p = (case p of None \<Rightarrow> r | Some q \<Rightarrow> \<lparr>memoryMb = or_default (pr_memoryMb q) (memoryMb r),
     cpus = or_default (pr_cpus q) (cpus r), tmpSizeMb = or_default (pr_tmpSizeMb q) (tmpSizeMb r)\<rparr>)"

definition redeploy :: "lc_world \<Rightarrow> string \<Rightarrow> string \<Rightarrow> RedeployInput \<Rightarrow> lc_db \<Rightarrow> (lc_error, MasterApp) result \<times> lc_db" where
  "redeploy w workspaceId appId input db = (case load_app workspaceId appId db of
     Inl e \<Rightarrow> (Inl e, db)
   | Inr app \<Rightarrow>
       if ma_kind app = Some KIND_mcp_v2 \<or> ma_kind app = Some KIND_mcp_v3 then (Inl MCP_SIGNED_REDEPLOYMENT_REQUIRED, db)
       else (case run_calls w False (calls_for db workspaceId ''POST'' ''/redeploy'' (ma_replicas app)) db of
           (Inl e, db1) \<Rightarrow> (Inl e, db1)
         | (Inr _, db1) \<Rightarrow>
             if \<not> all_nodes_known db (ma_replicas app) then (Inl AgentRejected, db1)
             else let
               resources = merge_resources (ma_resources app) (rd_resources input);
               db2 = snd (update_app workspaceId appId (\<lambda>_. True) (\<lambda>a. (with_state w ''RUNNING'' a)
                 \<lparr>ma_image := or_default (rd_image input) (ma_image app), ma_imageDigest := or_default (rd_digest input) (ma_imageDigest app),
                  ma_versionDigest := or_default (rd_versionDigest input) (ma_versionDigest app), ma_resources := resources\<rparr>) db1);
               db3 = insert_replica_events w REDEPLOYED app resources db2
             in (load_app workspaceId appId db3, db3)))"

definition proxy_call :: "lc_world \<Rightarrow> string \<Rightarrow> string \<Rightarrow> string \<Rightarrow> string \<Rightarrow> lc_db \<Rightarrow> (lc_error, nat) result \<times> lc_db" where
  "proxy_call w workspaceId appId method sfx db = (case load_app workspaceId appId db of
     Inl e \<Rightarrow> (Inl e, db)
   | Inr app \<Rightarrow> (case ma_replicas app of
       [] \<Rightarrow> (Inl NoReplicas, db)
     | replica # _ \<Rightarrow> (case node_of db replica of
         None \<Rightarrow> (Inl AgentRejected, db)
       | Some node \<Rightarrow> (let call = replica_call workspaceId method sfx node replica in
           (case agent_answer w call of None \<Rightarrow> Inl AgentRejected | Some status \<Rightarrow> Inr status,
            db\<lparr>lc_calls := lc_calls db @ [call]\<rparr>)))))"

section \<open>Quarantine and removal\<close>

definition quarantine :: "lc_world \<Rightarrow> string \<Rightarrow> string \<Rightarrow> MasterApp \<Rightarrow> lc_db \<Rightarrow> lc_db" where
  "quarantine w workspaceId appId app db = (if ma_state app = ''QUARANTINED'' then db
   else let
     db1 = db\<lparr>lc_calls := lc_calls db @ calls_for db workspaceId ''POST'' ''/stop'' (ma_replicas app)\<rparr>;
     db2 = snd (update_app workspaceId appId (\<lambda>_. True) (\<lambda>a. a\<lparr>ma_state := ''QUARANTINED'', ma_quarantinedAt := Some (now_ms w),
       ma_updatedAt := now_ms w, ma_replicas := map (\<lambda>r. r\<lparr>rp_state := ''stopped''\<rparr>) (ma_replicas a), ma_suspendedWithWorkspace := False\<rparr>) db1)
   in mark_dirty (insert_replica_events w QUARANTINED app (ma_resources app) db2))"

text \<open>
  \<open>destroy\<close>. Without \<open>tolerant\<close> the \<open>flatMap\<close> throws at the first replica whose node is gone, after the
  calls for the replicas before it were made.
\<close>

definition destroy_finish :: "lc_world \<Rightarrow> string \<Rightarrow> string \<Rightarrow> MasterApp \<Rightarrow> lc_db \<Rightarrow> (lc_error, unit) result \<times> lc_db" where
  "destroy_finish w workspaceId appId app db =
     (if (case truthy (ma_subdomain app) of Some sub \<Rightarrow> \<not> remove_cname w sub | None \<Rightarrow> False) then (Inl CnameFailed, db)
      else let
        db1 = db\<lparr>lc_hosts := snd (removeAllAppHosts (hosts_env w) appId (ma_generationId app) (now_ms w) (lc_hosts db))\<rparr>;
        db2 = snd (update_app workspaceId appId (\<lambda>_. True) (\<lambda>a. a\<lparr>ma_state := ''REMOVED'', ma_updatedAt := now_ms w\<rparr>) db1)
      in (Inr (), insert_app_event w UNINSTALLED app None None
            (insert_replica_events w REMOVED app (ma_resources app) (mark_dirty db2))))"

definition destroy :: "lc_world \<Rightarrow> string \<Rightarrow> string \<Rightarrow> MasterApp \<Rightarrow> bool \<Rightarrow> lc_db \<Rightarrow> (lc_error, unit) result \<times> lc_db" where
  "destroy w workspaceId appId app tolerant db = (let
     db1 = snd (update_app workspaceId appId (\<lambda>_. True) (\<lambda>a. a\<lparr>ma_state := ''REMOVING'', ma_updatedAt := now_ms w\<rparr>) db);
     known = takeWhile (\<lambda>r. node_of db1 r \<noteq> None) (ma_replicas app)
   in if \<not> tolerant \<and> \<not> all_nodes_known db1 (ma_replicas app)
      then (Inl NodeNotFound, db1\<lparr>lc_calls := lc_calls db1 @ calls_for db1 workspaceId ''DELETE'' [] known\<rparr>)
      else (case run_calls w tolerant (calls_for db1 workspaceId ''DELETE'' [] (ma_replicas app)) db1 of
          (Inl e, db2) \<Rightarrow> (Inl e, db2)
        | (Inr _, db2) \<Rightarrow> destroy_finish w workspaceId appId app db2))"

definition remove_app :: "lc_world \<Rightarrow> string \<Rightarrow> string \<Rightarrow> bool \<Rightarrow> lc_db \<Rightarrow> (lc_error, unit) result \<times> lc_db" where
  "remove_app w workspaceId appId workspaceRevoked db = (case load_app workspaceId appId db of
     Inl e \<Rightarrow> (Inl e, db)
   | Inr app \<Rightarrow>
       if ma_kind app = Some KIND_mcp_v3 \<and> \<not> workspaceRevoked then (Inl MCP_SIGNED_LIFECYCLE_REQUIRED, db)
       else if workspaceRevoked then (Inr (), quarantine w workspaceId appId app db)
       else destroy w workspaceId appId app False db)"

definition is_quarantined :: "MasterApp \<Rightarrow> bool" where
  "is_quarantined app = (ma_state app = ''QUARANTINED'')"

definition reapQuarantined :: "lc_world \<Rightarrow> string \<Rightarrow> string \<Rightarrow> lc_db \<Rightarrow> (lc_error, unit) result \<times> lc_db" where
  "reapQuarantined w workspaceId appId db =
     (case update_app workspaceId appId is_quarantined (\<lambda>a. a\<lparr>ma_state := ''REMOVING'', ma_updatedAt := now_ms w\<rparr>) db of
        (False, db1) \<Rightarrow> (Inr (), db1)
      | (True, db1) \<Rightarrow> (case find_app workspaceId appId db1 of
          None \<Rightarrow> (Inr (), db1)
        | Some app \<Rightarrow> destroy w workspaceId appId app True db1))"

definition unquarantine :: "lc_world \<Rightarrow> string \<Rightarrow> string \<Rightarrow> lc_db \<Rightarrow> (lc_error, unit) result \<times> lc_db" where
  "unquarantine w workspaceId appId db =
     (case update_app workspaceId appId is_quarantined (\<lambda>a. (with_state w ''RUNNING'' a)\<lparr>ma_quarantinedAt := None\<rparr>) db of
        (False, db1) \<Rightarrow> (Inr (), db1)
      | (True, db1) \<Rightarrow> (case find_app workspaceId appId db1 of
          None \<Rightarrow> (Inr (), db1)
        | Some app \<Rightarrow> (case run_calls w False (calls_for db1 workspaceId ''POST'' ''/start'' (ma_replicas app)) db1 of
            (Inl e, db2) \<Rightarrow> (Inl e, db2)
          | (Inr _, db2) \<Rightarrow> (Inr (), mark_dirty (insert_app_event w INSTALLED app (Some (ma_storageBytes app))
               (Some (max (length (ma_replicas app)) 1)) (insert_replica_events w STARTED app (ma_resources app) db2))))))"

section \<open>The reaper\<close>

definition DEFAULT_QUARANTINE_GRACE_MS :: rat where
  "DEFAULT_QUARANTINE_GRACE_MS = 7 * 24 * 60 * 60 * 1000"

text \<open>\<open>Number(env....)\<close>: \<open>None\<close> for \<open>NaN\<close> and the infinities.\<close>

definition resolveQuarantineGraceMs :: "rat option \<Rightarrow> rat" where
  "resolveQuarantineGraceMs raw = (case raw of Some r \<Rightarrow> if 0 < r then r else DEFAULT_QUARANTINE_GRACE_MS
     | None \<Rightarrow> DEFAULT_QUARANTINE_GRACE_MS)"

definition expired :: "rat \<Rightarrow> int \<Rightarrow> MasterApp \<Rightarrow> bool" where
  "expired graceMs now app = (is_quarantined app \<and>
     (case ma_quarantinedAt app of Some t \<Rightarrow> of_int t \<le> of_int now - graceMs | None \<Rightarrow> False))"

fun reap_loop :: "lc_world \<Rightarrow> (string \<times> MasterApp) list \<Rightarrow> nat \<times> nat \<Rightarrow> lc_db \<Rightarrow> (nat \<times> nat) \<times> lc_db" where
  "reap_loop w [] counts db = (counts, db)"
| "reap_loop w ((appId, app) # apps) (reaped, failed) db = (case reapQuarantined w (ma_workspaceId app) appId db of
     (Inr _, db') \<Rightarrow> reap_loop w apps (reaped + 1, failed) db'
   | (Inl _, db') \<Rightarrow> reap_loop w apps (reaped, failed + 1) db')"

definition reapExpiredQuarantines :: "lc_world \<Rightarrow> rat \<Rightarrow> lc_db \<Rightarrow> (nat \<times> nat \<times> nat) \<times> lc_db" where
  "reapExpiredQuarantines w graceMs db = (let
     rows = filter (\<lambda>(_, a). expired graceMs (now_ms w) a) (lc_apps db);
     ((reaped, failed), db') = reap_loop w rows (0, 0) db
   in ((length rows, reaped, failed), db'))"

section \<open>What an operation leaves alone\<close>

named_theorems apps_frame \<open>steps that do not touch the app rows\<close>

lemma apps_unchanged [simp, apps_frame]:
  "lc_apps (mark_dirty db) = lc_apps db"
  "lc_apps (insert_replica_events w t app r db) = lc_apps db"
  "lc_apps (insert_app_event w t app s c db) = lc_apps db"
  by (simp_all add: mark_dirty_def insert_replica_events_def insert_app_event_def)

lemma run_calls_apps: "run_calls w b calls db = (r, db') \<Longrightarrow> lc_apps db' = lc_apps db"
  by (auto simp: run_calls_def Let_def)

lemma run_calls_events: "run_calls w b calls db = (r, db') \<Longrightarrow> lc_events db' = lc_events db"
  by (auto simp: run_calls_def Let_def)

lemma find_app_iff: "find_app ws i db = Some a \<longleftrightarrow> map_of (lc_apps db) i = Some a \<and> ma_workspaceId a = ws"
  by (auto simp: find_app_def split: option.splits)

lemma find_app_cong: "lc_apps db = lc_apps db' \<Longrightarrow> find_app ws i db = find_app ws i db'"
  by (simp add: find_app_def)

text \<open>The rows are keyed by their unique id, and a quarantined row never carries the suspension marker.\<close>

definition row_disciplined :: "MasterApp \<Rightarrow> bool" where
  "row_disciplined a \<longleftrightarrow> \<not> (is_quarantined a \<and> ma_suspendedWithWorkspace a)"

definition disciplined :: "MasterApp obj \<Rightarrow> bool" where
  "disciplined apps \<longleftrightarrow> distinct (map fst apps) \<and> list_all (\<lambda>(_, a). row_disciplined a) apps"

lemma disciplined_row: "disciplined apps \<Longrightarrow> map_of apps k = Some a \<Longrightarrow> row_disciplined a"
  by (auto simp: disciplined_def list_all_iff dest: map_of_SomeD)

lemma disciplined_set: "disciplined apps \<Longrightarrow> row_disciplined a \<Longrightarrow> disciplined (obj_set k a apps)"
  by (auto simp: disciplined_def list_all_iff dest!: obj_set_memD)

text \<open>A change of the rows that only concerns the given ids and keeps the discipline.\<close>

definition only :: "string set \<Rightarrow> MasterApp obj \<Rightarrow> MasterApp obj \<Rightarrow> bool" where
  "only I apps apps' \<longleftrightarrow> (\<forall>k. k \<notin> I \<longrightarrow> map_of apps' k = map_of apps k) \<and> (disciplined apps \<longrightarrow> disciplined apps')"

lemma only_refl [simp]: "only I apps apps"
  by (simp add: only_def)

lemma only_trans: "only I a b \<Longrightarrow> only I b c \<Longrightarrow> only I a c"
  by (simp add: only_def)

lemma only_mono: "only I a b \<Longrightarrow> I \<subseteq> J \<Longrightarrow> only J a b"
  unfolding only_def by blast

lemma only_update:
  assumes "lc_apps db1 = apps" and "\<And>a. row_disciplined a \<Longrightarrow> row_disciplined (f a)"
  shows "only {i} apps (lc_apps (snd (update_app ws i P f db1)))"
proof (cases "find_app ws i db1")
  case (Some a)
  then have "disciplined apps \<Longrightarrow> row_disciplined (f a)"
    using assms disciplined_row by (auto simp: find_app_iff)
  with Some assms(1) show ?thesis
    by (auto simp: update_app_def only_def intro: disciplined_set)
qed (simp add: update_app_def assms(1))

lemma states_disciplined [simp]:
  "row_disciplined (with_state w ''RUNNING'' a)" "row_disciplined (with_state w ''STOPPED'' a)"
  "row_disciplined ((with_state w ''RUNNING'' a)\<lparr>ma_quarantinedAt := q\<rparr>)"
  "row_disciplined ((with_state w ''RUNNING'' a)\<lparr>ma_image := i, ma_imageDigest := d, ma_versionDigest := v, ma_resources := r\<rparr>)"
  "row_disciplined (power_update w b a)"
  "row_disciplined (a\<lparr>ma_state := ''REMOVING'', ma_updatedAt := t\<rparr>)" "row_disciplined (a\<lparr>ma_state := ''REMOVED'', ma_updatedAt := t\<rparr>)"
  "row_disciplined (a\<lparr>ma_state := st, ma_quarantinedAt := q, ma_updatedAt := t, ma_replicas := rs, ma_suspendedWithWorkspace := False\<rparr>)"
  by (auto simp: row_disciplined_def is_quarantined_def with_state_def power_update_def)

lemma run_calls_cases:
  obtains r db1 where "run_calls w b calls db = (r, db1)" "lc_apps db1 = lc_apps db"
  using run_calls_apps by (metis surj_pair)

lemma invoke_only: "only {i} (lc_apps db) (lc_apps (snd (invoke w ws i action db)))"
proof (cases "load_app ws i db")
  case (Inr app)
  obtain r db1 where r: "run_calls w False (calls_for db ws ''POST'' (action_path action) (ma_replicas app)) db = (r, db1)" "lc_apps db1 = lc_apps db"
    by (rule run_calls_cases)
  show ?thesis
    using Inr r only_update [OF r(2)] by (simp add: invoke_def Let_def split: sum.splits)
qed (simp add: invoke_def)

lemma redeploy_only: "only {i} (lc_apps db) (lc_apps (snd (redeploy w ws i input db)))"
proof (cases "load_app ws i db")
  case (Inr app)
  obtain r db1 where r: "run_calls w False (calls_for db ws ''POST'' ''/redeploy'' (ma_replicas app)) db = (r, db1)" "lc_apps db1 = lc_apps db"
    by (rule run_calls_cases)
  show ?thesis
    using Inr r only_update [OF r(2)] by (simp add: redeploy_def Let_def split: sum.splits)
qed (simp add: redeploy_def)

lemma power_loop_only: "only (fst ` set apps) (lc_apps db) (lc_apps (snd (power_loop w ws b apps db)))"
proof (induction w ws b apps db rule: power_loop.induct)
  case (2 w ws b i app apps db)
  obtain r db1 where r: "run_calls w False (calls_for db ws ''POST'' (if b then ''/stop'' else ''/start'') (ma_replicas app)) db = (r, db1)" "lc_apps db1 = lc_apps db"
    by (rule run_calls_cases)
  show ?case
  proof (cases r)
    case (Inr u)
    have s: "only (insert i (fst ` set apps)) (lc_apps db) (lc_apps (snd (update_app ws i (\<lambda>_. True) (power_update w b) db1)))"
      using only_mono [OF only_update [OF r(2)]] by simp
    note ih = only_mono [OF "2.IH" [OF r(1) [symmetric] Inr refl refl] subset_insertI]
    have "only (insert i (fst ` set apps)) (lc_apps db) (lc_apps (snd (power_loop w ws b ((i, app) # apps) db)))"
      using only_trans [OF s] ih r Inr by (auto simp: Let_def)
    then show ?thesis by simp
  qed (use r in simp)
qed simp

lemma quarantine_only: "only {i} (lc_apps db) (lc_apps (quarantine w ws i app db))"
  using only_update by (simp add: quarantine_def Let_def)

lemma destroy_finish_only: "only {i} (lc_apps db) (lc_apps (snd (destroy_finish w ws i app db)))"
  using only_update by (simp add: destroy_finish_def Let_def)

lemma destroy_only: "only {i} (lc_apps db) (lc_apps (snd (destroy w ws i app tolerant db)))"
proof -
  let ?db1 = "snd (update_app ws i (\<lambda>_. True) (\<lambda>a. a\<lparr>ma_state := ''REMOVING'', ma_updatedAt := now_ms w\<rparr>) db)"
  have u: "only {i} (lc_apps db) (lc_apps ?db1)" by (rule only_update) simp_all
  obtain r db2 where r: "run_calls w tolerant (calls_for ?db1 ws ''DELETE'' [] (ma_replicas app)) ?db1 = (r, db2)" "lc_apps db2 = lc_apps ?db1"
    by (rule run_calls_cases)
  show ?thesis
    using u only_trans [OF u] destroy_finish_only [of i db2 w ws app] r by (auto simp: destroy_def Let_def split: sum.splits)
qed

lemma remove_only: "only {i} (lc_apps db) (lc_apps (snd (remove_app w ws i revoked db)))"
  by (auto simp: remove_app_def quarantine_only destroy_only split: sum.splits)

lemma reap_only: "only {i} (lc_apps db) (lc_apps (snd (reapQuarantined w ws i db)))"
proof -
  obtain b db1 where u: "update_app ws i is_quarantined (\<lambda>a. a\<lparr>ma_state := ''REMOVING'', ma_updatedAt := now_ms w\<rparr>) db = (b, db1)" by force
  have "only {i} (lc_apps db) (lc_apps db1)"
    using only_update [OF refl, of "\<lambda>a. a\<lparr>ma_state := ''REMOVING'', ma_updatedAt := now_ms w\<rparr>" i db ws is_quarantined] u by simp
  then show ?thesis
    using only_trans [OF _ destroy_only] u by (auto simp: reapQuarantined_def split: bool.splits option.splits)
qed

lemma unquarantine_only: "only {i} (lc_apps db) (lc_apps (snd (unquarantine w ws i db)))"
proof -
  obtain b db1 where u: "update_app ws i is_quarantined (\<lambda>a. (with_state w ''RUNNING'' a)\<lparr>ma_quarantinedAt := None\<rparr>) db = (b, db1)" by force
  have o: "only {i} (lc_apps db) (lc_apps db1)"
    using only_update [OF refl, of "\<lambda>a. (with_state w ''RUNNING'' a)\<lparr>ma_quarantinedAt := None\<rparr>" i db ws is_quarantined] u by simp
  have "lc_apps (snd (unquarantine w ws i db)) = lc_apps db1"
    using u run_calls_apps by (auto simp: unquarantine_def split: bool.splits option.splits sum.splits prod.splits)
  with o show ?thesis by simp
qed

lemma reap_loop_only: "only (fst ` set rows) (lc_apps db) (lc_apps (snd (reap_loop w rows counts db)))"
proof (induction w rows counts db rule: reap_loop.induct)
  case (2 w i app apps reaped failed db)
  obtain r db' where r: "reapQuarantined w (ma_workspaceId app) i db = (r, db')" by force
  have s: "only (insert i (fst ` set apps)) (lc_apps db) (lc_apps db')"
    using only_mono [OF reap_only [of i db w "ma_workspaceId app"]] r by simp
  show ?case
  proof (cases r)
    case (Inr u)
    from only_trans [OF s only_mono [OF "2.IH"(2) [OF r [symmetric] Inr] subset_insertI]] r Inr show ?thesis by auto
  next
    case (Inl e)
    from only_trans [OF s only_mono [OF "2.IH"(1) [OF r [symmetric] Inl] subset_insertI]] r Inl show ?thesis by auto
  qed
qed simp

section \<open>A quarantined app stays as it is\<close>

datatype lc_op =
    Op_invoke string string app_action
  | Op_power string bool
  | Op_redeploy string string RedeployInput
  | Op_remove string string bool
  | Op_unquarantine string string
  | Op_reap rat

fun apply_lc :: "lc_world \<times> lc_op \<Rightarrow> lc_db \<Rightarrow> lc_db" where
  "apply_lc (w, Op_invoke ws i a) db = snd (invoke w ws i a db)"
| "apply_lc (w, Op_power ws b) db = snd (setWorkspacePower w ws b db)"
| "apply_lc (w, Op_redeploy ws i input) db = snd (redeploy w ws i input db)"
| "apply_lc (w, Op_remove ws i revoked) db = snd (remove_app w ws i revoked db)"
| "apply_lc (w, Op_unquarantine ws i) db = snd (unquarantine w ws i db)"
| "apply_lc (w, Op_reap graceMs) db = snd (reapExpiredQuarantines w graceMs db)"

text \<open>
  The operations that are not addressed to the app itself, and those of them that are: a repeated
  revoke, workspace suspension and resumption, and a reaper run inside the grace window.
\<close>

fun spares :: "string \<Rightarrow> int \<Rightarrow> lc_world \<times> lc_op \<Rightarrow> bool" where
  "spares k t (w, Op_invoke ws i a) = (i \<noteq> k)"
| "spares k t (w, Op_power ws b) = True"
| "spares k t (w, Op_redeploy ws i input) = (i \<noteq> k)"
| "spares k t (w, Op_remove ws i revoked) = (revoked \<or> i \<noteq> k)"
| "spares k t (w, Op_unquarantine ws i) = (i \<noteq> k)"
| "spares k t (w, Op_reap graceMs) = (of_int (now_ms w) - graceMs < of_int t)"

lemma power_only:
  "only (fst ` set (power_selected ws b db)) (lc_apps db) (lc_apps (snd (setWorkspacePower w ws b db)))"
proof -
  obtain n hosts where h: "setWorkspaceHostsSuspended (hosts_env w) ws b (now_ms w) (lc_hosts db) = (n, hosts)" by force
  obtain r db2 where r: "power_loop w ws b (power_selected ws b db) (db\<lparr>lc_hosts := hosts\<rparr>) = (r, db2)" by force
  have "only (fst ` set (power_selected ws b db)) (lc_apps db) (lc_apps db2)"
    using power_loop_only [of "power_selected ws b db" "db\<lparr>lc_hosts := hosts\<rparr>" w ws b] r by simp
  with h r show ?thesis by (auto simp: setWorkspacePower_def Let_def split: sum.splits)
qed

lemma apply_lc_disciplined: "disciplined (lc_apps db) \<Longrightarrow> disciplined (lc_apps (apply_lc op db))"
proof (cases "(op, db)" rule: apply_lc.cases)
  case (6 w g db')
  assume d: "disciplined (lc_apps db)"
  let ?rows = "filter (\<lambda>(_, a). expired g (now_ms w) a) (lc_apps db)"
  have "lc_apps (apply_lc op db) = lc_apps (snd (reap_loop w ?rows (0, 0) db))"
    using 6 by (auto simp: reapExpiredQuarantines_def Let_def split: prod.splits)
  with d reap_loop_only [of ?rows db w "(0, 0)"] show ?thesis unfolding only_def by simp
qed (use invoke_only power_only redeploy_only remove_only unquarantine_only in \<open>auto simp: only_def\<close>)

lemma spared:
  assumes "disciplined (lc_apps db)" and row: "map_of (lc_apps db) k = Some a"
    and q: "is_quarantined a" "ma_quarantinedAt a = Some t" and "spares k t op"
  shows "map_of (lc_apps (apply_lc op db)) k = Some a"
proof -
  have uniq: "b = a" if "(k, b) \<in> set (lc_apps db)" for b
    using that assms(1) row map_of_mem_iff by (fastforce simp: disciplined_def)
  have keep: ?thesis if "only I (lc_apps db) (lc_apps (apply_lc op db))" "k \<notin> I" for I
    using that row by (simp add: only_def)
  show ?thesis
  proof (cases "(op, db)" rule: apply_lc.cases)
    case (1 w ws i act db')
    with assms(5) show ?thesis using keep [of "{i}"] invoke_only by simp
  next
    case (2 w ws b db')
    have out: "k \<notin> fst ` set (power_selected ws b db)"
      using uniq disciplined_row [OF assms(1) row] q(1) by (auto simp: power_selected_def row_disciplined_def is_quarantined_def split: if_splits)
    with 2 show ?thesis using keep [OF _ out] power_only by simp
  next
    case (3 w ws i input db')
    with assms(5) show ?thesis using keep [of "{i}"] redeploy_only by simp
  next
    case (4 w ws i revoked db')
    show ?thesis
    proof (cases "i = k")
      case True
      with 4 assms(5) have "revoked" by simp
      moreover have "load_app ws k db = Inr b \<Longrightarrow> b = a" for b
        using row by (auto simp: load_app_def find_app_def split: if_splits)
      ultimately have "lc_apps (snd (remove_app w ws k revoked db)) = lc_apps db"
        using q(1) by (auto simp: remove_app_def quarantine_def is_quarantined_def split: sum.splits)
      with 4 True row show ?thesis by simp
    next
      case False
      with 4 show ?thesis using keep [of "{i}"] remove_only by simp
    qed
  next
    case (5 w ws i db')
    with assms(5) show ?thesis using keep [of "{i}"] unquarantine_only by simp
  next
    case (6 w g db')
    let ?rows = "filter (\<lambda>(_, a). expired g (now_ms w) a) (lc_apps db)"
    have "k \<notin> fst ` set ?rows" using uniq q 6 assms(5) by (auto simp: expired_def)
    moreover have "lc_apps (apply_lc op db) = lc_apps (snd (reap_loop w ?rows (0, 0) db))"
      using 6 by (auto simp: reapExpiredQuarantines_def Let_def split: prod.splits)
    ultimately show ?thesis using keep reap_loop_only [of ?rows db w "(0, 0)"] by simp
  qed
qed

text \<open>
  C32. A revoked app waits out its grace window untouched: whatever happens to other apps, and however
  often its workspace is revoked again, suspended or resumed and the reaper runs before the window
  is over, its row stays exactly as the revoke left it, with the original grace clock; it is never
  restarted by a resume. (Database with one row per id in which no quarantined row carries the
  suspension marker, which every operation preserves.)
\<close>

theorem quarantine_is_stable:
  assumes "disciplined (lc_apps db)" and "map_of (lc_apps db) k = Some a"
    and "is_quarantined a" and "ma_quarantinedAt a = Some t" and "list_all (spares k t) ops"
  shows "map_of (lc_apps (fold apply_lc ops db)) k = Some a \<and> disciplined (lc_apps (fold apply_lc ops db))"
  using assms(1,2,5)
proof (induction ops arbitrary: db)
  case (Cons op ops)
  then show ?case using spared [OF _ _ assms(3,4)] apply_lc_disciplined by simp
qed simp

definition demo_world :: "int \<Rightarrow> lc_world" where
  "demo_world t = \<lparr>agent_answer = \<lambda>_. Some 200, remove_cname = \<lambda>_. True, hosts_env = \<lambda>_ db. db, uuid = \<lambda>_. ''u'', now_ms = t\<rparr>"

definition demo_quarantined :: MasterApp where
  "demo_quarantined = demo_app\<lparr>ma_state := ''QUARANTINED'', ma_quarantinedAt := Some 100\<rparr>"

definition demo_lc_db :: lc_db where
  "demo_lc_db = \<lparr>lc_apps = [(''a1'', demo_quarantined)], lc_nodes = [], lc_events = [],
     lc_hosts = \<lparr>db_hosts = [], db_labels = []\<rparr>, lc_calls = [], lc_dirty = 0\<rparr>"

lemma quarantine_is_stable_witness:
  "map_of (lc_apps (fold apply_lc [(demo_world 200, Op_remove ''w'' ''a1'' True), (demo_world 300, Op_power ''w'' False),
     (demo_world 400, Op_reap 500)] demo_lc_db)) ''a1'' = Some demo_quarantined"
  by (rule quarantine_is_stable [where t = 100, THEN conjunct1])
    (simp_all add: demo_lc_db_def demo_quarantined_def disciplined_def row_disciplined_def is_quarantined_def demo_app_def demo_world_def)

section \<open>Three gaps\<close>

text \<open>
  A reap that fails does not leave the app QUARANTINED for the next tick: it was set REMOVING first, and
  the reaper only looks at QUARANTINED rows.
\<close>

lemma failed_reap_not_retried:
  assumes "reapQuarantined w ws i db = (Inl e, db')"
  shows "\<exists>a. map_of (lc_apps db') i = Some a \<and> ma_state a = ''REMOVING'' \<and> \<not> expired g t a"
proof -
  let ?rem = "\<lambda>a. a\<lparr>ma_state := ''REMOVING'', ma_updatedAt := now_ms w\<rparr>"
  obtain db1 where u: "update_app ws i is_quarantined ?rem db = (True, db1)"
    using assms by (auto simp: reapQuarantined_def split: prod.splits bool.splits)
  obtain app where app: "find_app ws i db1 = Some app" "destroy w ws i app True db1 = (Inl e, db')"
    using assms u by (auto simp: reapQuarantined_def split: option.splits)
  let ?db2 = "snd (update_app ws i (\<lambda>_. True) ?rem db1)"
  have row: "map_of (lc_apps ?db2) i = Some (?rem app)"
    using app(1) by (simp add: update_app_def)
  obtain r db3 where r: "run_calls w True (calls_for ?db2 ws ''DELETE'' [] (ma_replicas app)) ?db2 = (r, db3)" "lc_apps db3 = lc_apps ?db2"
    by (rule run_calls_cases)
  have "lc_apps db' = lc_apps ?db2"
    using app(2) r by (auto simp: destroy_def destroy_finish_def Let_def split: sum.splits if_splits)
  with row show ?thesis by (auto simp: expired_def is_quarantined_def)
qed

text \<open>
  Starting a quarantined app through the ordinary route takes it out of the reaper's reach although its
  workspace is revoked, keeps the grace clock on the row and re-opens no billable interval.
\<close>

lemma invoke_revives_quarantined:
  assumes "invoke w ws i Start db = (Inr r, db')" and "load_app ws i db = Inr app" and "is_quarantined app"
  shows "ma_state r = ''RUNNING'' \<and> ma_quarantinedAt r = ma_quarantinedAt app
    \<and> filter (\<lambda>e. ev_type e = INSTALLED) (lc_events db') = filter (\<lambda>e. ev_type e = INSTALLED) (lc_events db)"
proof -
  obtain r1 db1 where r1: "run_calls w False (calls_for db ws ''POST'' (action_path Start) (ma_replicas app)) db = (r1, db1)" "lc_apps db1 = lc_apps db"
    by (rule run_calls_cases)
  have e: "lc_events db1 = lc_events db" by (rule run_calls_events [OF r1(1)])
  let ?db2 = "snd (update_app ws i (\<lambda>_. True) (with_state w ''RUNNING'') db1)"
  have f: "find_app ws i db1 = Some app"
    using assms(2) r1(2) by (auto simp: load_app_def find_app_def split: option.splits if_splits)
  have ws: "ma_workspaceId app = ws" using f by (simp add: find_app_iff)
  have db2: "?db2 = db1\<lparr>lc_apps := obj_set i (with_state w ''RUNNING'' app) (lc_apps db1)\<rparr>" by (simp add: update_app_def f)
  have f2: "find_app ws i ?db2 = Some (with_state w ''RUNNING'' app)" "lc_events ?db2 = lc_events db"
    unfolding db2 by (simp_all add: find_app_def with_state_def ws e)
  have db': "db' = mark_dirty (insert_replica_events w STARTED app (ma_resources app) ?db2)" "load_app ws i db' = Inr r"
    using assms(1,2) r1(1) by (auto simp: invoke_def Let_def split: if_splits sum.splits)
  have "find_app ws i db' = Some (with_state w ''RUNNING'' app)"
    unfolding db'(1) using f2(1) by (simp add: find_app_def)
  with db'(2) have "r = with_state w ''RUNNING'' app" by (auto simp: load_app_def split: if_splits)
  moreover have "filter (\<lambda>e. ev_type e = INSTALLED) (lc_events db') = filter (\<lambda>e. ev_type e = INSTALLED) (lc_events db)"
    unfolding db'(1) using f2(2) by (auto simp: mark_dirty_def insert_replica_events_def replica_event_def filter_empty_conv)
  ultimately show ?thesis by (simp add: with_state_def)
qed

text \<open>A revoke that arrives while a failed removal left the row REMOVING starts a new grace window.\<close>

lemma revoke_restarts_failed_removal:
  assumes "map_of (lc_apps db) i = Some a" and "ma_workspaceId a = ws" and "ma_state a = ''REMOVING''"
  shows "\<exists>a'. map_of (lc_apps (snd (remove_app w ws i True db))) i = Some a' \<and> is_quarantined a' \<and> ma_quarantinedAt a' = Some (now_ms w)"
  using assms by (simp add: remove_app_def load_app_def find_app_def quarantine_def update_app_def Let_def is_quarantined_def)

end
