(* ===== verification/Cluster_Auth.thy ===== *)
theory Cluster_Auth
  imports Http
begin

text \<open>
  Authentication of inbound cluster calls: \<open>src/plugins/auth.ts\<close> (token verification and the
  \<open>authenticate\<close> pre-handler) and \<open>src/cluster-secret.ts\<close> (which secret verifies it). The
  \<open>jsonwebtoken\<close> package is the \<open>jwt_lib\<close> parameter.
\<close>

record claims =
  cl_iss :: string
  cl_sub :: "string option"
  cl_workspaceId :: "string option"

record ClusterAuth =
  ca_iss :: string
  ca_sub :: "string option"
  ca_workspaceId :: "string option"
  ca_kid :: "string option"

text \<open>
  \<open>jwt_decode\<close> gives the header's \<open>kid\<close> without verification (\<open>None\<close>: not a token);
  \<open>jwt_verify token secret issuer\<close> is \<open>jwt.verify\<close> with \<open>algorithms: ['HS256']\<close> (\<open>None\<close>: throws).
\<close>

record jwt_lib =
  jwt_decode :: "string \<Rightarrow> string option option"
  jwt_verify :: "string \<Rightarrow> string \<Rightarrow> string \<Rightarrow> claims option"

text \<open>What the code relies on: a verified payload carries the issuer that was asked for.\<close>

definition jwt_checks_issuer :: "jwt_lib \<Rightarrow> bool" where
  "jwt_checks_issuer lib \<longleftrightarrow>
     (\<forall>token secret issuer p. jwt_verify lib token secret issuer = Some p \<longrightarrow> cl_iss p = issuer)"

record agent_config =
  FLEET_MODE :: bool
  FLEET_NODE_KEY :: "string option"
  FLEET_NODE_ID :: "string option"
  JWT_SECRET :: "string option"

section \<open>The cluster secret\<close>

definition resolveClusterSecretFrom :: "string option \<Rightarrow> string option \<Rightarrow> string option" where
  "resolveClusterSecretFrom credential configSecret =
     (case credential of
        Some c \<Rightarrow> (let trimmed = trim c in if trimmed \<noteq> [] then Some trimmed else configSecret)
      | None \<Rightarrow> configSecret)"

section \<open>Token verification\<close>

datatype auth_error =
    invalid_token
  | kid_mismatch
  | verify_failed
  | workspaceId_required

definition verifyClusterToken ::
  "jwt_lib \<Rightarrow> string \<Rightarrow> bool \<Rightarrow> string \<Rightarrow> string option \<Rightarrow> (auth_error, ClusterAuth) result" where
  "verifyClusterToken lib token fleetMode secret node =
     (case jwt_decode lib token of
        None \<Rightarrow> Inl invalid_token
      | Some kid \<Rightarrow>
          (let expectedIssuer = (if fleetMode then ''privos-apps-master'' else ''privos-chat'') in
           if fleetMode \<and> kid \<noteq> node then Inl kid_mismatch
           else case jwt_verify lib token secret expectedIssuer of
                  None \<Rightarrow> Inl verify_failed
                | Some payload \<Rightarrow>
                    if fleetMode \<and> truthy (cl_workspaceId payload) = None then Inl workspaceId_required
                    else Inr \<lparr>ca_iss = cl_iss payload, ca_sub = cl_sub payload,
                              ca_workspaceId = cl_workspaceId payload, ca_kid = kid\<rparr>))"

datatype auth_reply =
    Unpaired
  | Unauthorized
  | Authenticated ClusterAuth

definition authenticate :: "jwt_lib \<Rightarrow> agent_config \<Rightarrow> string option \<Rightarrow> http_req \<Rightarrow> auth_reply" where
  "authenticate lib cfg credential req =
     (case header req ''authorization'' of
        None \<Rightarrow> Unauthorized
      | Some authorization \<Rightarrow>
          if \<not> starts_with ''Bearer '' authorization then Unauthorized
          else
            (let token = drop 7 authorization;
                 secret = (if FLEET_MODE cfg then FLEET_NODE_KEY cfg
                           else resolveClusterSecretFrom credential (JWT_SECRET cfg))
             in case truthy secret of
                  None \<Rightarrow> Unpaired
                | Some key \<Rightarrow>
                    (case verifyClusterToken lib token (FLEET_MODE cfg) key (FLEET_NODE_ID cfg) of
                       Inl _ \<Rightarrow> Unauthorized
                     | Inr auth \<Rightarrow> Authenticated auth)))"

lemma verifyClusterToken_Inr:
  assumes "jwt_checks_issuer lib"
    and "verifyClusterToken lib token fleetMode secret node = Inr auth"
  shows "ca_iss auth = (if fleetMode then ''privos-apps-master'' else ''privos-chat'')"
    and "fleetMode \<Longrightarrow> ca_kid auth = node \<and> truthy (ca_workspaceId auth) \<noteq> None"
  using assms
  by (auto simp: verifyClusterToken_def jwt_checks_issuer_def Let_def split: option.splits if_splits)

lemma authenticate_Authenticated:
  assumes "authenticate lib cfg credential req = Authenticated auth"
  obtains token secret where
    "header req ''authorization'' = Some (''Bearer '' @ token)"
    "truthy (if FLEET_MODE cfg then FLEET_NODE_KEY cfg
             else resolveClusterSecretFrom credential (JWT_SECRET cfg)) = Some secret"
    "verifyClusterToken lib token (FLEET_MODE cfg) secret (FLEET_NODE_ID cfg) = Inr auth"
proof -
  from assms obtain a where a: "header req ''authorization'' = Some a" "starts_with ''Bearer '' a"
    by (auto simp: authenticate_def split: option.splits if_splits)
  from a(2) obtain t where t: "a = ''Bearer '' @ t" by (auto simp: starts_with_iff)
  let ?secret = "if FLEET_MODE cfg then FLEET_NODE_KEY cfg
    else resolveClusterSecretFrom credential (JWT_SECRET cfg)"
  from assms a t obtain key where key: "truthy ?secret = Some key"
    by (cases "truthy ?secret") (simp_all add: authenticate_def Let_def starts_with_def)
  from assms a t key have "verifyClusterToken lib t (FLEET_MODE cfg) key (FLEET_NODE_ID cfg) = Inr auth"
    by (cases "verifyClusterToken lib t (FLEET_MODE cfg) key (FLEET_NODE_ID cfg)")
      (simp_all add: authenticate_def Let_def starts_with_def)
  with a(1) t key that show ?thesis by blast
qed

lemma resolveClusterSecretFrom_paired:
  "trim c \<noteq> [] \<Longrightarrow> resolveClusterSecretFrom (Some c) s = Some (trim c)"
  by (simp add: resolveClusterSecretFrom_def Let_def)

end
