(* ===== verification/Host_Table.thy ===== *)
theory Host_Table
  imports Forward_Signature Cluster_Auth
begin

text \<open>
  The agent's copy of the fleet-wide routing tables: \<open>src/handlers/host-table.ts\<close> (the two
  PUT handlers and the module's in-memory tables) and \<open>src/proxy/host-table.ts\<close> (the lookups
  of the two listeners). The tables are replaced wholesale and gated by \<open>revision\<close> alone; the
  locale \<open>revision_store\<close> states that contract and what it gives for any sequence of pushes.
\<close>

record RuntimeApp =
  ra_appId :: string
  ra_workspaceId :: string
  ra_containerId :: string
  ra_hosts :: "string list"

record IngressRule =
  ir_host :: string
  ir_appId :: string
  ir_workspaceId :: string
  ir_nodes :: "string list"
  ir_suspended :: bool

record SigningKey =
  sk_nodeId :: string
  sk_kid :: string
  sk_publicJwk :: jwk

record 't StoredTable =
  st_bootTimestamp :: rat
  st_revision :: rat
  st_receivedAt :: int
  st_table :: 't

record RuntimePush =
  rp_bootTimestamp :: rat
  rp_revision :: rat
  rp_apps :: "RuntimeApp list"

record IngressPush =
  ip_bootTimestamp :: rat
  ip_revision :: rat
  ip_rules :: "IngressRule list"
  ip_signingKeys :: "SigningKey list"

record IngressTable =
  it_rules :: "IngressRule list"
  it_signingKeys :: "SigningKey list"

record HostTables =
  runtimeTable :: "RuntimeApp list StoredTable option"
  ingressTable :: "IngressTable StoredTable option"

section \<open>The zod schemas\<close>

text \<open>
  The refinements the schemas add to the shapes above: \<open>.int()\<close>, \<open>.nonnegative()\<close>,
  \<open>.positive()\<close>, \<open>.min(1)\<close>. The shape itself (fields, types, \<open>.strict()\<close>) is zod's work and
  is the handlers' \<open>shape\<close> argument.
\<close>

definition is_int :: "rat \<Rightarrow> bool" where
  "is_int r \<longleftrightarrow> of_int \<lfloor>r\<rfloor> = r"

definition RuntimeTableSchema :: "RuntimePush \<Rightarrow> bool" where
  "RuntimeTableSchema p \<longleftrightarrow>
     is_int (rp_bootTimestamp p) \<and> 0 \<le> rp_bootTimestamp p \<and>
     is_int (rp_revision p) \<and> 0 < rp_revision p \<and>
     (\<forall>a \<in> set (rp_apps p). ra_appId a \<noteq> [] \<and> ra_workspaceId a \<noteq> [] \<and> ra_containerId a \<noteq> [])"

definition IngressTableSchema :: "IngressPush \<Rightarrow> bool" where
  "IngressTableSchema p \<longleftrightarrow>
     is_int (ip_bootTimestamp p) \<and> 0 \<le> ip_bootTimestamp p \<and>
     is_int (ip_revision p) \<and> 0 < ip_revision p \<and>
     (\<forall>r \<in> set (ip_rules p). ir_host r \<noteq> [] \<and> ir_appId r \<noteq> [] \<and> ir_workspaceId r \<noteq> []) \<and>
     (\<forall>k \<in> set (ip_signingKeys p). sk_nodeId k \<noteq> [] \<and> sk_kid k \<noteq> [])"

section \<open>The handlers\<close>

datatype push_reply =
    AuthRefused auth_reply
  | FleetTokenRequired
  | ValidationError
  | Applied bool "rat option"

definition requireFleetCaller ::
  "jwt_lib \<Rightarrow> agent_config \<Rightarrow> string option \<Rightarrow> http_req \<Rightarrow> push_reply option" where
  "requireFleetCaller lib cfg credential req =
     (case authenticate lib cfg credential req of
        Authenticated auth \<Rightarrow>
          if ca_sub auth \<noteq> Some ''apps-master-fleet'' \<or> ca_workspaceId auth \<noteq> Some ''__fleet__''
          then Some FleetTokenRequired else None
      | refused \<Rightarrow> Some (AuthRefused refused))"

definition isNewer :: "rat \<Rightarrow> 't StoredTable option \<Rightarrow> bool" where
  "isNewer revision current =
     (case current of None \<Rightarrow> True | Some t \<Rightarrow> revision > st_revision t)"

definition applyRuntimePush :: "int \<Rightarrow> RuntimePush \<Rightarrow> HostTables \<Rightarrow> push_reply \<times> HostTables" where
  "applyRuntimePush now p s =
     (if \<not> isNewer (rp_revision p) (runtimeTable s)
      then (Applied False (map_option st_revision (runtimeTable s)), s)
      else (Applied True (Some (rp_revision p)),
            s\<lparr>runtimeTable := Some \<lparr>st_bootTimestamp = rp_bootTimestamp p, st_revision = rp_revision p,
                st_receivedAt = now, st_table = rp_apps p\<rparr>\<rparr>))"

definition applyIngressPush :: "int \<Rightarrow> IngressPush \<Rightarrow> HostTables \<Rightarrow> push_reply \<times> HostTables" where
  "applyIngressPush now p s =
     (if \<not> isNewer (ip_revision p) (ingressTable s)
      then (Applied False (map_option st_revision (ingressTable s)), s)
      else (Applied True (Some (ip_revision p)),
            s\<lparr>ingressTable := Some \<lparr>st_bootTimestamp = ip_bootTimestamp p, st_revision = ip_revision p,
                st_receivedAt = now,
                st_table = \<lparr>it_rules = ip_rules p, it_signingKeys = ip_signingKeys p\<rparr>\<rparr>\<rparr>))"

definition putRuntimeTable ::
  "jwt_lib \<Rightarrow> agent_config \<Rightarrow> string option \<Rightarrow> ('b \<Rightarrow> RuntimePush option) \<Rightarrow> int \<Rightarrow>
     http_req \<Rightarrow> 'b \<Rightarrow> HostTables \<Rightarrow> push_reply \<times> HostTables" where
  "putRuntimeTable lib cfg credential shape now req body s =
     (case requireFleetCaller lib cfg credential req of
        Some refused \<Rightarrow> (refused, s)
      | None \<Rightarrow>
          (case shape body of
             None \<Rightarrow> (ValidationError, s)
           | Some p \<Rightarrow> if \<not> RuntimeTableSchema p then (ValidationError, s) else applyRuntimePush now p s))"

definition putIngressTable ::
  "jwt_lib \<Rightarrow> agent_config \<Rightarrow> string option \<Rightarrow> ('b \<Rightarrow> IngressPush option) \<Rightarrow> int \<Rightarrow>
     http_req \<Rightarrow> 'b \<Rightarrow> HostTables \<Rightarrow> push_reply \<times> HostTables" where
  "putIngressTable lib cfg credential shape now req body s =
     (case requireFleetCaller lib cfg credential req of
        Some refused \<Rightarrow> (refused, s)
      | None \<Rightarrow>
          (case shape body of
             None \<Rightarrow> (ValidationError, s)
           | Some p \<Rightarrow> if \<not> IngressTableSchema p then (ValidationError, s) else applyIngressPush now p s))"

section \<open>The lookups of the listeners\<close>

definition findRuntimeAppByHost :: "HostTables \<Rightarrow> string \<Rightarrow> RuntimeApp option" where
  "findRuntimeAppByHost s host =
     (case runtimeTable s of
        None \<Rightarrow> None
      | Some t \<Rightarrow> List.find (\<lambda>app. host \<in> set (ra_hosts app)) (st_table t))"

definition findIngressRuleByHost :: "HostTables \<Rightarrow> string \<Rightarrow> IngressRule option" where
  "findIngressRuleByHost s host =
     (case ingressTable s of
        None \<Rightarrow> None
      | Some t \<Rightarrow> List.find (\<lambda>rule. ir_host rule = host) (it_rules (st_table t)))"

definition findSigningKey :: "HostTables \<Rightarrow> string \<Rightarrow> SigningKey option" where
  "findSigningKey s kid =
     (case ingressTable s of
        None \<Rightarrow> None
      | Some t \<Rightarrow> List.find (\<lambda>key. sk_kid key = kid) (it_signingKeys (st_table t)))"

definition ingressTableAgeMs :: "HostTables \<Rightarrow> int \<Rightarrow> int option" where
  "ingressTableAgeMs s now = map_option (\<lambda>t. now - st_receivedAt t) (ingressTable s)"

section \<open>Revision-gated stores\<close>

locale revision_store =
  fixes put :: "'p \<Rightarrow> 's \<Rightarrow> 's"
    and stored :: "'s \<Rightarrow> (rat \<times> 'c) option"
    and rev_of :: "'p \<Rightarrow> rat"
    and content_of :: "'p \<Rightarrow> 'c"
  assumes put_newer: "(case stored s of None \<Rightarrow> True | Some (r, _) \<Rightarrow> r < rev_of p) \<Longrightarrow>
      stored (put p s) = Some (rev_of p, content_of p)"
    and put_stale: "stored s = Some (r, c) \<Longrightarrow> \<not> r < rev_of p \<Longrightarrow> stored (put p s) = Some (r, c)"
begin

lemma stored_step:
  assumes "stored s = Some (r, c)"
  shows "stored (put p s) = (if r < rev_of p then Some (rev_of p, content_of p) else Some (r, c))"
  using put_newer [where s = s and p = p] put_stale [where s = s and p = p, OF assms] assms by (auto split: prod.splits)

lemma fold_stored:
  "stored s = Some (r, c) \<Longrightarrow> \<exists>r' c'. stored (fold put ps s) = Some (r', c')
     \<and> r \<le> r' \<and> (\<forall>p \<in> set ps. rev_of p \<le> r')
     \<and> ((r' = r \<and> c' = c) \<or> (\<exists>p \<in> set ps. r' = rev_of p \<and> c' = content_of p))"
proof (induction ps arbitrary: s r c)
  case (Cons p ps)
  show ?case
  proof (cases "r < rev_of p")
    case True
    with Cons.prems have "stored (put p s) = Some (rev_of p, content_of p)" by (simp add: stored_step)
    from Cons.IH [OF this] True show ?thesis by fastforce
  next
    case False
    with Cons.prems have "stored (put p s) = Some (r, c)" by (simp add: stored_step)
    from Cons.IH [OF this] False show ?thesis by fastforce
  qed
qed simp

text \<open>
  The last word is the highest revision, whatever order the pushes arrive in. With no two
  different contents under one revision the result is a function of the set of pushes.
\<close>

lemma highest_wins:
  assumes "stored s = None" and "p \<in> set ps" and "\<forall>q \<in> set ps. rev_of q \<le> rev_of p"
    and "\<forall>q \<in> set ps. rev_of q = rev_of p \<longrightarrow> content_of q = content_of p"
  shows "stored (fold put ps s) = Some (rev_of p, content_of p)"
proof (cases ps)
  case Nil
  with assms(2) show ?thesis by simp
next
  case (Cons q qs)
  have "stored (put q s) = Some (rev_of q, content_of q)"
    using assms(1) by (intro put_newer) simp
  from fold_stored [OF this, of qs] obtain r' c' where
    r': "stored (fold put ps s) = Some (r', c')" "rev_of q \<le> r'" "\<forall>p \<in> set qs. rev_of p \<le> r'"
      "(r' = rev_of q \<and> c' = content_of q) \<or> (\<exists>p \<in> set qs. r' = rev_of p \<and> c' = content_of p)"
    using Cons by auto
  from r'(2-4) Cons assms(2,3) have "r' = rev_of p" by fastforce
  moreover from this r'(4) Cons assms(4) have "c' = content_of p" by fastforce
  ultimately show ?thesis using r'(1) by simp
qed

lemma revision_never_decreases:
  "stored s = Some (r, c) \<Longrightarrow> \<exists>r' c'. stored (fold put ps s) = Some (r', c') \<and> r \<le> r'"
  using fold_stored [of s r c ps] by blast

end

definition putRuntime :: "int \<times> RuntimePush \<Rightarrow> HostTables \<Rightarrow> HostTables" where
  "putRuntime ev s = snd (applyRuntimePush (fst ev) (snd ev) s)"

definition putIngress :: "int \<times> IngressPush \<Rightarrow> HostTables \<Rightarrow> HostTables" where
  "putIngress ev s = snd (applyIngressPush (fst ev) (snd ev) s)"

interpretation rt: revision_store putRuntime
  "\<lambda>s. map_option (\<lambda>t. (st_revision t, st_table t)) (runtimeTable s)"
  "\<lambda>ev. rp_revision (snd ev)" "\<lambda>ev. rp_apps (snd ev)"
  by unfold_locales
    (auto simp: putRuntime_def applyRuntimePush_def isNewer_def split: option.splits)

interpretation it: revision_store putIngress
  "\<lambda>s. map_option (\<lambda>t. (st_revision t, st_table t)) (ingressTable s)"
  "\<lambda>ev. ip_revision (snd ev)" "\<lambda>ev. \<lparr>it_rules = ip_rules (snd ev), it_signingKeys = ip_signingKeys (snd ev)\<rparr>"
  by unfold_locales
    (auto simp: putIngress_def applyIngressPush_def isNewer_def split: option.splits)

section \<open>The tables under any traffic\<close>

text \<open>
  C26. After any sequence of accepted runtime-table pushes, in whatever order they arrive, a node
  that started empty serves the push with the highest revision (two pushes never share a revision
  with different content: the master bumps it on every change).
\<close>

theorem runtime_table_highest_wins:
  assumes "runtimeTable s = None" and "p \<in> set pushes"
    and "\<forall>q \<in> set pushes. rp_revision (snd q) \<le> rp_revision (snd p)"
    and "\<forall>q \<in> set pushes. rp_revision (snd q) = rp_revision (snd p) \<longrightarrow> rp_apps (snd q) = rp_apps (snd p)"
  shows "\<exists>t. runtimeTable (fold putRuntime pushes s) = Some t
    \<and> st_revision t = rp_revision (snd p) \<and> st_table t = rp_apps (snd p)"
proof -
  have "map_option (\<lambda>t. (st_revision t, st_table t)) (runtimeTable (fold putRuntime pushes s))
      = Some (rp_revision (snd p), rp_apps (snd p))"
    by (rule rt.highest_wins [OF _ assms(2-4)]) (simp add: assms(1))
  then show ?thesis by auto
qed

lemma runtime_table_highest_wins_witness:
  "\<exists>t. runtimeTable (fold putRuntime
      [(10, \<lparr>rp_bootTimestamp = 1, rp_revision = 5, rp_apps = []\<rparr>),
       (11, \<lparr>rp_bootTimestamp = 1, rp_revision = 3, rp_apps = [\<lparr>ra_appId = ''a'', ra_workspaceId = ''w'',
          ra_containerId = ''c'', ra_hosts = []\<rparr>]\<rparr>)]
      \<lparr>runtimeTable = None, ingressTable = None\<rparr>) = Some t \<and> st_revision t = 5 \<and> st_table t = []"
  by (rule runtime_table_highest_wins [where p = "(10, \<lparr>rp_bootTimestamp = 1, rp_revision = 5, rp_apps = []\<rparr>)", simplified])
    simp_all

text \<open>
  The ingress table never goes back: whatever pushes follow, its revision does not decrease,
  and its content is always the content of one of the pushes or what it was.
\<close>

theorem ingress_table_never_regresses:
  assumes "ingressTable s = Some t"
  shows "\<exists>t'. ingressTable (fold putIngress pushes s) = Some t' \<and> st_revision t \<le> st_revision t'
    \<and> ((st_revision t' = st_revision t \<and> st_table t' = st_table t)
       \<or> (\<exists>q \<in> set pushes. st_revision t' = ip_revision (snd q)
            \<and> st_table t' = \<lparr>it_rules = ip_rules (snd q), it_signingKeys = ip_signingKeys (snd q)\<rparr>))"
  using it.fold_stored [of s "st_revision t" "st_table t" pushes] assms by fastforce

lemma ingress_table_never_regresses_witness:
  "\<exists>t'. ingressTable (fold putIngress
      [(11, \<lparr>ip_bootTimestamp = 1, ip_revision = 3, ip_rules = [], ip_signingKeys = []\<rparr>)]
      \<lparr>runtimeTable = None, ingressTable = Some \<lparr>st_bootTimestamp = 1, st_revision = 7, st_receivedAt = 0,
         st_table = \<lparr>it_rules = [], it_signingKeys = []\<rparr>\<rparr>\<rparr>) = Some t' \<and> 7 \<le> st_revision t'"
  using ingress_table_never_regresses
    [of "\<lparr>runtimeTable = None, ingressTable = Some \<lparr>st_bootTimestamp = 1, st_revision = 7, st_receivedAt = 0,
         st_table = \<lparr>it_rules = [], it_signingKeys = []\<rparr>\<rparr>\<rparr>"
      "\<lparr>st_bootTimestamp = 1, st_revision = 7, st_receivedAt = 0, st_table = \<lparr>it_rules = [], it_signingKeys = []\<rparr>\<rparr>"
      "[(11, \<lparr>ip_bootTimestamp = 1, ip_revision = 3, ip_rules = [], ip_signingKeys = []\<rparr>)]"]
  by auto

lemma requireFleetCaller_None:
  assumes "requireFleetCaller lib cfg credential req = None"
  obtains auth where "authenticate lib cfg credential req = Authenticated auth"
    "ca_sub auth = Some ''apps-master-fleet''" "ca_workspaceId auth = Some ''__fleet__''"
  using assms by (auto simp: requireFleetCaller_def split: auth_reply.splits if_splits)



end
