(* ===== verification/Replay_Cache.thy ===== *)
theory Replay_Cache
  imports Prelude
begin

text \<open>
  The nonce replay guard of the signed ingress-to-runtime hop (\<open>src/proxy/replay-cache.ts\<close>).
  The closure's \<open>seenUntil\<close> map is an association list from nonce to expiry time; one call of
  \<open>checkAndRemember\<close> sweeps it and then tests and records the nonce. The locale
  \<open>replay_guard\<close> is what the runtime listener relies on.
\<close>

type_synonym nonce_log = "(string \<times> int) list"

definition default_ttl_ms :: int where
  "default_ttl_ms = 60000"

definition sweep :: "int \<Rightarrow> nonce_log \<Rightarrow> nonce_log" where
  "sweep nowMs seenUntil = filter (\<lambda>(nonce, expiresAt). \<not> expiresAt \<le> nowMs) seenUntil"

definition checkAndRemember :: "int \<Rightarrow> nonce_log \<Rightarrow> string \<Rightarrow> int \<Rightarrow> bool \<times> nonce_log" where
  "checkAndRemember ttlMs seenUntil nonce nowMs =
     (let swept = sweep nowMs seenUntil in
      if nonce \<in> keys swept then (False, swept)
      else (True, obj_set nonce (nowMs + ttlMs) swept))"

definition cache_size :: "nonce_log \<Rightarrow> nat" where
  "cache_size seenUntil = length seenUntil"

text \<open>A nonce is live at a time when some entry for it expires later.\<close>

definition live_at :: "nonce_log \<Rightarrow> string \<Rightarrow> int \<Rightarrow> bool" where
  "live_at seenUntil nonce t = (\<exists>e. (nonce, e) \<in> set seenUntil \<and> t < e)"

section \<open>The interface of a replay guard\<close>

locale replay_guard =
  fixes check :: "'s \<Rightarrow> 'n \<Rightarrow> int \<Rightarrow> bool \<times> 's"
    and live :: "'s \<Rightarrow> 'n \<Rightarrow> int \<Rightarrow> bool"
    and ttl :: int
  assumes accept_iff: "fst (check s n t) \<longleftrightarrow> \<not> live s n t"
    and remembers: "fst (check s n t) \<Longrightarrow> t' < t + ttl \<Longrightarrow> live (snd (check s n t)) n t'"
    and keeps: "live s n' t' \<Longrightarrow> t \<le> t' \<Longrightarrow> live (snd (check s n t)) n' t'"
    and live_earlier: "live s n t' \<Longrightarrow> t \<le> t' \<Longrightarrow> live s n t"
begin

definition after :: "('n \<times> int) list \<Rightarrow> 's \<Rightarrow> 's" where
  "after xs s = fold (\<lambda>(n, t) s. snd (check s n t)) xs s"

lemma after_simps [simp]:
  "after [] s = s"
  "after ((n, t) # xs) s = after xs (snd (check s n t))"
  by (simp_all add: after_def)

lemma after_keeps:
  "live s n t' \<Longrightarrow> (\<forall>(m, t) \<in> set xs. t \<le> t') \<Longrightarrow> live (after xs s) n t'"
proof (induction xs arbitrary: s)
  case (Cons x xs)
  obtain m t where x: "x = (m, t)" by force
  from Cons.prems x have "live (snd (check s m t)) n t'" by (auto intro: keeps)
  with Cons.IH Cons.prems(2) x show ?case by simp
qed simp

lemma second_accept_late:
  assumes first: "fst (check s n t)"
    and between: "\<forall>(m, u) \<in> set xs. u \<le> t'"
    and second: "fst (check (after xs (snd (check s n t))) n t')"
  shows "t + ttl \<le> t'"
proof (rule ccontr)
  assume "\<not> t + ttl \<le> t'"
  then have "live (snd (check s n t)) n t'" using first by (auto intro: remembers)
  then have "live (after xs (snd (check s n t))) n t'" using between by (rule after_keeps)
  with second show False by (simp add: accept_iff)
qed

end

section \<open>The cache is a replay guard\<close>

lemma live_at_sweep: "t \<le> t' \<Longrightarrow> live_at (sweep t l) n t' = live_at l n t'"
  by (auto simp: live_at_def sweep_def)

lemma sweep_keys: "n \<in> keys (sweep t l) \<longleftrightarrow> live_at l n t"
  by (force simp: live_at_def sweep_def image_iff)

lemma obj_set_keeps_other:
  "(n', e) \<in> set l \<Longrightarrow> n' \<noteq> n \<Longrightarrow> (n', e) \<in> set (obj_set n v l)"
  by (induction l) auto

lemma obj_set_has: "(n, v) \<in> set (obj_set n v l)"
  by (induction l) auto

lemma check_live_new:
  "n \<notin> keys (sweep t l) \<Longrightarrow> t' < t + ttl \<Longrightarrow> live_at (obj_set n (t + ttl) (sweep t l)) n t'"
  by (auto simp: live_at_def intro!: exI [of _ "t + ttl"] obj_set_has)

lemma check_keeps:
  assumes "live_at l n' t'" and "t \<le> t'"
  shows "live_at (snd (checkAndRemember ttl l n t)) n' t'"
proof -
  from assms obtain e where e: "(n', e) \<in> set (sweep t l)" "t' < e"
    by (auto simp: live_at_def sweep_def)
  show ?thesis
  proof (cases "n \<in> keys (sweep t l)")
    case True
    with e show ?thesis by (auto simp: checkAndRemember_def live_at_def)
  next
    case False
    with e(1) have "n' \<noteq> n" by force
    with e have "(n', e) \<in> set (obj_set n (t + ttl) (sweep t l))" by (simp add: obj_set_keeps_other)
    with e(2) False show ?thesis by (auto simp: checkAndRemember_def live_at_def)
  qed
qed

interpretation rc: replay_guard "checkAndRemember ttl" live_at ttl for ttl
proof unfold_locales
  fix s n t show "fst (checkAndRemember ttl s n t) = (\<not> live_at s n t)"
    by (simp add: checkAndRemember_def sweep_keys Let_def)
next
  fix s n t t'
  assume "fst (checkAndRemember ttl s n t)" and "t' < t + ttl"
  then show "live_at (snd (checkAndRemember ttl s n t)) n t'"
    by (auto simp: checkAndRemember_def Let_def check_live_new split: if_splits)
next
  fix s n' t' n t
  assume "live_at s n' t'" and "(t::int) \<le> t'"
  then show "live_at (snd (checkAndRemember ttl s n t)) n' t'" by (rule check_keeps)
qed (auto simp: live_at_def)

lemma sweep_length: "length (sweep t l) \<le> length l"
  by (simp add: sweep_def)

lemma checkAndRemember_size:
  "cache_size (snd (checkAndRemember ttl l n t)) \<le> Suc (cache_size (sweep t l))"
proof -
  have "length (obj_set n v xs) \<le> Suc (length xs)" for v :: int and xs
    by (induction xs) auto
  then show ?thesis by (simp add: checkAndRemember_def cache_size_def Let_def)
qed

end
