(* ===== verification/Canonical_Path.thy ===== *)
theory Canonical_Path
  imports Prelude
begin

text \<open>
  \<open>src/proxy/canonical-path.ts\<close>: canonicalisation of a raw request target and the
  longest-prefix route match. The part of the URL Standard's parser that
  \<open>new URL(rawTarget, 'http://placeholder.invalid')\<close> runs on a target that starts with \<open>/\<close> is
  modelled here; only the IDNA step of the host parser is a parameter (\<open>toASCII\<close>).
\<close>

section \<open>The URL parser on a target that starts with a slash\<close>

abbreviation (input) bslash :: char where
  "bslash \<equiv> char_of (92::nat)"

definition is_sep :: "char \<Rightarrow> bool" where
  "is_sep c = (c = CHR ''/'' \<or> c = bslash)"

definition tab_or_newline :: "char \<Rightarrow> bool" where
  "tab_or_newline c = (let n = (of_char c :: nat) in n = 9 \<or> n = 10 \<or> n = 13)"

definition c0_or_space :: "char \<Rightarrow> bool" where
  "c0_or_space c = ((of_char c :: nat) \<le> 32)"

text \<open>Input cleanup: outer C0 controls and spaces, then every tab and newline.\<close>

definition url_cleanup :: "string \<Rightarrow> string" where
  "url_cleanup s = filter (\<lambda>c. \<not> tab_or_newline c)
     (rev (dropWhile c0_or_space (rev (dropWhile c0_or_space s))))"

definition hexU :: "nat \<Rightarrow> char" where
  "hexU n = (if n < 10 then char_of (48 + n) else char_of (55 + n))"

definition pct_byte :: "nat \<Rightarrow> string" where
  "pct_byte n = [CHR ''%'', hexU (n div 16), hexU (n mod 16)]"

text \<open>UTF-8 percent-encoding of one Latin-1 code unit, by the given encode set.\<close>

definition pct_char :: "nat list \<Rightarrow> char \<Rightarrow> string" where
  "pct_char extra c = (let n = (of_char c :: nat) in
     if n \<ge> 128 then pct_byte (192 + n div 64) @ pct_byte (128 + n mod 64)
     else if n \<le> 31 \<or> n = 127 \<or> n \<in> set extra then pct_byte n
     else [c])"

text \<open>space \<open>"\<close> \<open>#\<close> \<open><\<close> \<open>></\<close> \<open>?\<close> \<open>^\<close> \<open>`\<close> \<open>{\<close> \<open>}\<close>, and for a special query space \<open>"\<close> \<open>#\<close> \<open><\<close> \<open>>\<close> \<open>'\<close>.\<close>

definition path_set :: "nat list" where
  "path_set = [32, 34, 35, 60, 62, 63, 94, 96, 123, 125]"

definition query_set :: "nat list" where
  "query_set = [32, 34, 35, 60, 62, 39]"

definition encode_path :: "string \<Rightarrow> string" where
  "encode_path s = concat (map (pct_char path_set) s)"

definition encode_query :: "string \<Rightarrow> string" where
  "encode_query s = concat (map (pct_char query_set) s)"

definition single_dot :: "string \<Rightarrow> bool" where
  "single_dot s = (to_lower s \<in> {''.'', ''%2e''})"

definition double_dot :: "string \<Rightarrow> bool" where
  "double_dot s = (to_lower s \<in> {''..'', ''.%2e'', ''%2e.'', ''%2e%2e''})"

fun split_sep :: "string \<Rightarrow> string list" where
  "split_sep [] = [[]]"
| "split_sep (x # xs) =
     (if is_sep x then [] # split_sep xs
      else case split_sep xs of [] \<Rightarrow> [[x]] | p # ps \<Rightarrow> (x # p) # ps)"

text \<open>The path state: dot segments are resolved, the last segment is always present.\<close>

fun path_state :: "string list \<Rightarrow> string list \<Rightarrow> string list" where
  "path_state path [] = path"
| "path_state path [s] =
     (if double_dot s then butlast path @ [[]]
      else if single_dot s then path @ [[]]
      else path @ [encode_path s])"
| "path_state path (s # t # ss) =
     path_state (if double_dot s then butlast path
                 else if single_dot s then path
                 else path @ [encode_path s]) (t # ss)"

definition join_path :: "string list \<Rightarrow> string" where
  "join_path segs = concat (map (\<lambda>s. CHR ''/'' # s) segs)"

definition url_pathname :: "string \<Rightarrow> string" where
  "url_pathname p = join_path (path_state []
     (split_sep (case p of [] \<Rightarrow> [] | c # cs \<Rightarrow> if is_sep c then cs else p)))"

definition url_search :: "string \<Rightarrow> string" where
  "url_search rest = (case rest of
       [] \<Rightarrow> []
     | c # cs \<Rightarrow> if c \<noteq> CHR ''?'' then []
         else (let q = before_any ''#'' cs in if q = [] then [] else CHR ''?'' # encode_query q))"

text \<open>
  A target \<open>/\<close> followed by another slash or backslash names its own authority. Only one
  answer matters to the code: whether the parsed host is the placeholder again.
\<close>

fun digits_val :: "nat \<Rightarrow> string \<Rightarrow> nat option" where
  "digits_val acc [] = Some acc"
| "digits_val acc (c # cs) = (let n = (of_char c :: nat) in
     if 48 \<le> n \<and> n \<le> 57 then digits_val (10 * acc + (n - 48)) cs else None)"

definition last_part :: "char \<Rightarrow> string \<Rightarrow> string" where
  "last_part c s = last (split_on c s)"

definition authority_is_placeholder :: "(string \<Rightarrow> string option) \<Rightarrow> string \<Rightarrow> bool" where
  "authority_is_placeholder toASCII authority =
     (let hostport = last_part (CHR ''@'') authority;
          host = before_any '':'' hostport;
          port = drop (Suc (length host)) hostport
      in toASCII host = Some ''placeholder.invalid'' \<and> (port = [] \<or> digits_val 0 port = Some 80))"

record CanonicalPath =
  pathname :: string
  search :: string

text \<open>\<open>None\<close>: the parser throws, or the host is not the placeholder; the code returns null for both.\<close>

definition placeholder_url :: "(string \<Rightarrow> string option) \<Rightarrow> string \<Rightarrow> CanonicalPath option" where
  "placeholder_url toASCII raw =
     (let s = url_cleanup raw;
          own_authority = (case s of c # d # _ \<Rightarrow> is_sep c \<and> is_sep d | _ \<Rightarrow> False);
          t = (if own_authority then dropWhile is_sep s else s);
          authority = (if own_authority then before_any [CHR ''/'', bslash, CHR ''?'', CHR ''#''] t else []);
          u = drop (length authority) t;
          p = before_any ''?#'' u
      in if own_authority \<and> \<not> authority_is_placeholder toASCII authority then None
         else Some \<lparr>pathname = url_pathname p, search = url_search (drop (length p) u)\<rparr>)"

section \<open>canonicalizePath\<close>

definition encoded_slash_or_backslash :: "string \<Rightarrow> bool" where
  "encoded_slash_or_backslash s = (contains ''%2f'' (to_lower s) \<or> contains ''%5c'' (to_lower s))"

definition canonicalizePath :: "(string \<Rightarrow> string option) \<Rightarrow> string \<Rightarrow> CanonicalPath option" where
  "canonicalizePath toASCII rawTarget =
     (let rawPath = before_any ''?#'' rawTarget in
      if encoded_slash_or_backslash rawPath then None
      else if \<not> starts_with ''/'' rawPath \<or> starts_with ''//'' rawPath then None
      else if contains ''//'' rawPath then None
      else if \<exists>segment \<in> set (split_on (CHR ''/'') rawPath). segment = ''.'' \<or> segment = ''..'' then None
      else case placeholder_url toASCII rawTarget of
             None \<Rightarrow> None
           | Some url \<Rightarrow>
               if \<not> starts_with ''/'' (pathname url) \<or> contains ''//'' (pathname url) then None
               else Some url)"

section \<open>Route matching\<close>

record 'v PathRoute =
  route_prefix :: string
  route_value :: 'v

definition prefixMatches :: "string \<Rightarrow> string \<Rightarrow> bool" where
  "prefixMatches pre path =
     (if pre = ''/'' \<or> pre = path then True
      else starts_with (if ends_with ''/'' pre then pre else pre @ ''/'') path)"

fun best_route :: "string \<Rightarrow> 'v PathRoute option \<Rightarrow> 'v PathRoute list \<Rightarrow> 'v PathRoute option" where
  "best_route path best [] = best"
| "best_route path best (route # routes) =
     (if \<not> prefixMatches (route_prefix route) path then best_route path best routes
      else case best of
             None \<Rightarrow> best_route path (Some route) routes
           | Some b \<Rightarrow>
               if length (route_prefix b) < length (route_prefix route)
               then best_route path (Some route) routes
               else best_route path best routes)"

definition matchLongestPrefix :: "string \<Rightarrow> 'v PathRoute list \<Rightarrow> 'v option" where
  "matchLongestPrefix path routes = map_option route_value (best_route path None routes)"

subsection \<open>Longest match\<close>

lemma best_route_mono:
  "best_route path (Some b) routes = Some r \<Longrightarrow> length (route_prefix b) \<le> length (route_prefix r)"
  by (induction routes arbitrary: b) (fastforce split: if_splits)+

lemma best_route_Some:
  assumes "best_route path best routes = Some r"
  shows "(best = Some r \<or> (r \<in> set routes \<and> prefixMatches (route_prefix r) path))
    \<and> (\<forall>q \<in> set routes. prefixMatches (route_prefix q) path
         \<longrightarrow> length (route_prefix q) \<le> length (route_prefix r))"
  using assms
proof (induction path best routes rule: best_route.induct)
  case (2 path best route routes)
  show ?case
  proof (cases "prefixMatches (route_prefix route) path")
    case False
    with 2 show ?thesis by auto
  next
    case True
    show ?thesis
    proof (cases best)
      case None
      with 2 True have "best_route path (Some route) routes = Some r" by simp
      with 2(2) [OF _ None] True best_route_mono [OF this] show ?thesis by auto
    next
      case (Some b)
      show ?thesis
      proof (cases "length (route_prefix b) < length (route_prefix route)")
        case longer: True
        with 2 True Some have r: "best_route path (Some route) routes = Some r" by simp
        with 2(3) [OF _ Some longer] True best_route_mono [OF r] show ?thesis by auto
      next
        case False
        with 2 True Some have r: "best_route path (Some b) routes = Some r" by simp
        with 2(4) [OF _ Some False] True Some best_route_mono [OF r] False show ?thesis by auto
      qed
    qed
  qed
qed simp

lemma best_route_None:
  "best_route path best routes = None \<longleftrightarrow>
     best = None \<and> (\<forall>q \<in> set routes. \<not> prefixMatches (route_prefix q) path)"
  by (induction path best routes rule: best_route.induct) (auto split: option.splits)

lemma prefixMatches_cases:
  "prefixMatches pre path \<longleftrightarrow>
     pre = ''/'' \<or> pre = path \<or> (\<exists>t. path = pre @ t \<and> (ends_with ''/'' pre \<or> starts_with ''/'' t))"
proof -
  have "(\<exists>t. path = (if ends_with ''/'' pre then pre else pre @ ''/'') @ t) \<longleftrightarrow>
        (\<exists>t. path = pre @ t \<and> (ends_with ''/'' pre \<or> starts_with ''/'' t))"
    by (auto simp: starts_with_iff)
  then show ?thesis by (auto simp: prefixMatches_def starts_with_iff)
qed

section \<open>What an accepted path looks like\<close>

text \<open>
  Percent-encoding leaves a character alone or replaces it by blocks \<open>%XY\<close> that spell no dot,
  slash or backslash; checked over all 256 characters.
\<close>

definition bad_pairs :: "string list" where
  "bad_pairs = [''2e'', ''2f'', ''5c'']"

definition safe_block :: "string \<Rightarrow> bool" where
  "safe_block w = (case w of
     [p, x, y] \<Rightarrow> p = CHR ''%'' \<and> \<not> is_sep x \<and> \<not> is_sep y \<and> lower_char x \<noteq> CHR ''%'' \<and> lower_char y \<noteq> CHR ''%''
       \<and> to_lower [x, y] \<notin> set bad_pairs
   | _ \<Rightarrow> False)"

definition pct_ok :: "char \<Rightarrow> bool" where
  "pct_ok c = (let w = pct_char path_set c in
     w = [c] \<or> safe_block w \<or> (safe_block (take 3 w) \<and> safe_block (drop 3 w)))"

lemma lower_char_lits [simp]:
  "lower_char CHR ''%'' = CHR ''%''" "lower_char CHR ''.'' = CHR ''.''"
  "lower_char CHR ''/'' = CHR ''/''" "lower_char bslash = bslash"
  by (simp_all add: lower_char_def)

lemma hexU_lower: "k < 16 \<Longrightarrow> lower_char (hexU k) = ''0123456789abcdef'' ! k"
proof -
  assume "k < 16"
  then have "k = 0 \<or> k = 1 \<or> k = 2 \<or> k = 3 \<or> k = 4 \<or> k = 5 \<or> k = 6 \<or> k = 7
    \<or> k = 8 \<or> k = 9 \<or> k = 10 \<or> k = 11 \<or> k = 12 \<or> k = 13 \<or> k = 14 \<or> k = 15" by arith
  then show ?thesis by (elim disjE; hypsubst; code_simp)
qed

lemma hex_digits_distinct:
  assumes "k < 16" and "m < 16" and "''0123456789abcdef'' ! k = ''0123456789abcdef'' ! m"
  shows "k = m"
proof -
  have "distinct ''0123456789abcdef''" by simp
  from nth_eq_iff_index_eq [OF this, of k m] assms show ?thesis by simp
qed

lemma safe_pct_byte:
  assumes "n < 256" and "n \<notin> {46, 47, 92}"
  shows "safe_block (pct_byte n)"
proof -
  let ?h = "n div 16" and ?l = "n mod 16" and ?d = "\<lambda>k. ''0123456789abcdef'' ! k"
  have hl: "?h < 16" "?l < 16" using assms(1) by auto
  have "set ''0123456789abcdef'' \<inter> {CHR ''%'', CHR ''/'', bslash} = {}" by code_simp
  then have np: "?d k \<notin> {CHR ''%'', CHR ''/'', bslash}" if "k < 16" for k
    using that nth_mem [of k "''0123456789abcdef''"] by fastforce
  have ns: "\<not> is_sep (hexU k)" if "k < 16" for k
    using np [OF that] hexU_lower [OF that] by (auto simp: is_sep_def)
  have "[?d ?h, ?d ?l] \<notin> set bad_pairs"
  proof
    assume "[?d ?h, ?d ?l] \<in> set bad_pairs"
    then consider "?d ?h = ?d 2" "?d ?l = ?d 14" | "?d ?h = ?d 2" "?d ?l = ?d 15"
      | "?d ?h = ?d 5" "?d ?l = ?d 12" by (auto simp: bad_pairs_def)
    then consider "?h = 2" "?l = 14" | "?h = 2" "?l = 15" | "?h = 5" "?l = 12"
      using hl hex_digits_distinct by cases force+
    then show False
      using assms(2) div_mult_mod_eq [of n 16] by cases auto
  qed
  then show ?thesis
    using hl np ns by (simp add: safe_block_def pct_byte_def hexU_lower to_lower_def)
qed

lemma pct_ok_all: "pct_ok c"
proof -
  define n where "n = (of_char c :: nat)"
  have n: "n < 256" by (simp add: n_def)
  consider "128 \<le> n" | "n < 128" "n \<le> 31 \<or> n = 127 \<or> n \<in> set path_set"
    | "n < 128" "\<not> (n \<le> 31 \<or> n = 127 \<or> n \<in> set path_set)" by linarith
  then show ?thesis
  proof cases
    case 1
    have "n mod 64 < 64" "n div 64 < 4" using n by auto
    then have "safe_block (pct_byte (192 + n div 64))" "safe_block (pct_byte (128 + n mod 64))"
      by (auto intro!: safe_pct_byte)
    with 1 show ?thesis by (simp add: pct_ok_def pct_char_def Let_def pct_byte_def flip: n_def)
  next
    case 2
    then have "safe_block (pct_byte n)" by (auto intro!: safe_pct_byte simp: path_set_def)
    with 2 show ?thesis by (auto simp: pct_ok_def pct_char_def Let_def simp flip: n_def)
  next
    case 3
    then show ?thesis by (auto simp: pct_ok_def pct_char_def Let_def simp flip: n_def)
  qed
qed

lemma pct_char_cases:
  obtains (plain) "pct_char path_set c = [c]"
  | (one) "safe_block (pct_char path_set c)"
  | (two) u v where "pct_char path_set c = u @ v" "safe_block u" "safe_block v"
proof -
  have "pct_ok c" by (rule pct_ok_all)
  then show thesis
    unfolding pct_ok_def Let_def using that by (metis append_take_drop_id)
qed

lemma of_char_lower: "(of_char (lower_char c) :: nat) = of_char c \<or> 97 \<le> (of_char (lower_char c) :: nat)"
  by (auto simp: lower_char_def Let_def of_char_of)

lemma lower_percent: "lower_char c = CHR ''%'' \<longleftrightarrow> c = CHR ''%''"
proof
  assume "lower_char c = CHR ''%''"
  moreover have "(of_char CHR ''%'' :: nat) = 37" by simp
  ultimately have "(of_char c :: nat) = of_char CHR ''%''" using of_char_lower [of c] by simp
  then show "c = CHR ''%''" by (simp only: of_char_eq_iff)
qed simp

lemma safe_blockE:
  assumes "safe_block w"
  obtains x y where "w = [CHR ''%'', x, y]" "\<not> is_sep x" "\<not> is_sep y" "lower_char x \<noteq> CHR ''%''" "lower_char y \<noteq> CHR ''%''"
    "to_lower [x, y] \<notin> set bad_pairs"
  using assms that unfolding safe_block_def by (auto split: list.splits)

lemma encode_path_simps [simp]:
  "encode_path [] = []"
  "encode_path (c # s) = pct_char path_set c @ encode_path s"
  by (simp_all add: encode_path_def)

lemma to_lower_simps [simp]:
  "to_lower [] = []"
  "to_lower (c # s) = lower_char c # to_lower s"
  "to_lower (u @ v) = to_lower u @ to_lower v"
  by (simp_all add: to_lower_def)

text \<open>A prefix without a percent sign can only come from characters that stay as they are.\<close>

lemma starts_with_encode:
  assumes "CHR ''%'' \<notin> set p" and "starts_with p (to_lower (encode_path s))"
  shows "starts_with p (to_lower s) \<and>
    to_lower (encode_path s) = to_lower (take (length p) s) @ to_lower (encode_path (drop (length p) s))"
  using assms
proof (induction p arbitrary: s)
  case (Cons a p)
  from Cons.prems obtain c t where s: "s = c # t" by (cases s) auto
  have plain: "pct_char path_set c = [c]"
  proof (cases rule: pct_char_cases [of c])
    case one
    with Cons.prems s show ?thesis by (auto elim!: safe_blockE simp: lower_percent)
  next
    case (two u v)
    with Cons.prems s show ?thesis by (auto elim!: safe_blockE simp: lower_percent)
  qed
  with Cons.prems s have "a = lower_char c" "starts_with p (to_lower (encode_path t))" by auto
  with Cons.IH [of t] Cons.prems(1) s plain show ?case by auto
qed simp

lemma contains_block:
  assumes "safe_block w" and "[a, b] \<in> set bad_pairs"
    and "contains [CHR ''%'', a, b] (to_lower w @ L)"
  shows "contains [CHR ''%'', a, b] L"
  using assms(1)
proof (rule safe_blockE)
  fix x y assume w: "w = [CHR ''%'', x, y]" and xy: "lower_char x \<noteq> CHR ''%''" "lower_char y \<noteq> CHR ''%''"
    "to_lower [x, y] \<notin> set bad_pairs"
  from xy(3) assms(2) have "\<not> (a = lower_char x \<and> b = lower_char y)" by auto
  with assms(3) w xy(1,2) show ?thesis by (auto simp: lower_percent)
qed

lemma contains_encode:
  assumes bad: "[a, b] \<in> set bad_pairs"
  shows "contains [CHR ''%'', a, b] (to_lower (encode_path s)) \<Longrightarrow> contains [CHR ''%'', a, b] (to_lower s)"
proof (induction s)
  case (Cons c s)
  have nop: "CHR ''%'' \<notin> set [a, b]" using bad by (auto simp: bad_pairs_def)
  show ?case
  proof (cases rule: pct_char_cases [of c])
    case plain
    with Cons.prems consider "starts_with [CHR ''%'', a, b] (lower_char c # to_lower (encode_path s))"
      | "contains [CHR ''%'', a, b] (to_lower (encode_path s))" by auto
    then show ?thesis
    proof cases
      case 1
      then have "lower_char c = CHR ''%''" "starts_with [a, b] (to_lower (encode_path s))" by auto
      with starts_with_encode [OF nop] show ?thesis by auto
    next
      case 2
      with Cons.IH show ?thesis by simp
    qed
  next
    case one
    from contains_block [OF one bad] Cons show ?thesis by simp
  next
    case (two u v)
    from Cons.prems two(1)
    have "contains [CHR ''%'', a, b] (to_lower u @ (to_lower v @ to_lower (encode_path s)))" by simp
    from contains_block [OF two(3) bad contains_block [OF two(2) bad this]]
    have "contains [CHR ''%'', a, b] (to_lower (encode_path s))" .
    with Cons.IH show ?thesis by simp
  qed
qed simp

lemma encode_identity:
  assumes "starts_with [a] (to_lower (encode_path (x # r)))" and "a \<noteq> CHR ''%''"
  shows "pct_char path_set x = [x]"
proof (cases rule: pct_char_cases [of x])
  case one
  with assms show ?thesis by (auto elim!: safe_blockE)
next
  case (two u v)
  with assms show ?thesis by (auto elim!: safe_blockE)
qed

text \<open>Words made of dots and of \<open>%2e\<close>: the encoder produces one only from itself.\<close>

inductive dotty :: "string \<Rightarrow> bool" where
  dotty_Nil: "dotty []"
| dotty_dot: "dotty w \<Longrightarrow> dotty (CHR ''.'' # w)"
| dotty_pct: "dotty w \<Longrightarrow> dotty (CHR ''%'' # CHR ''2'' # CHR ''e'' # w)"

inductive_simps dotty_Cons: "dotty (c # w)"

lemma dotty_encode: "dotty (to_lower (encode_path s)) \<Longrightarrow> encode_path s = s"
proof (induction s rule: length_induct)
  case (1 s)
  note IH = "1.IH" and dot = "1.prems"
  show ?case
  proof (cases s)
    case (Cons c t)
    show ?thesis
    proof (cases rule: pct_char_cases [of c])
      case plain
      with dot Cons have d: "dotty (lower_char c # to_lower (encode_path t))" by simp
      then consider (dot) "lower_char c = CHR ''.''" "dotty (to_lower (encode_path t))"
        | (pct) w where "lower_char c = CHR ''%''" "to_lower (encode_path t) = CHR ''2'' # CHR ''e'' # w" "dotty w"
        by (auto simp: dotty_Cons)
      then show ?thesis
      proof cases
        case dot
        with IH Cons plain show ?thesis by simp
      next
        case (pct w)
        then have st: "starts_with ''2e'' (to_lower (encode_path t))" by simp
        have sw: "starts_with ''2e'' (to_lower t)"
          and e: "to_lower (encode_path t) = to_lower (take 2 t) @ to_lower (encode_path (drop 2 t))"
          using starts_with_encode [OF _ st] by (simp_all add: numeral_2_eq_2)
        from starts_with_length [OF sw] have len: "2 \<le> length t" by (simp add: to_lower_def)
        from len obtain x y r where t: "t = x # y # r"
          by (metis Suc_le_length_iff numeral_2_eq_2)
        from pct(2) have "starts_with ''2'' (to_lower (encode_path t))" by simp
        then have x: "pct_char path_set x = [x]"
          unfolding t by (rule encode_identity) simp
        have y: "pct_char path_set y = [y]"
          by (rule encode_identity [of "CHR ''e''" y r]) (use pct t x in auto)
        from pct t x y have "dotty (to_lower (encode_path r))" by simp
        then have "encode_path r = r" using IH Cons t by simp
        then show ?thesis using Cons t plain x y by simp
      qed
    next
      case one
      with dot Cons show ?thesis
        by (auto elim!: safe_blockE simp: dotty_Cons bad_pairs_def lower_percent)
    next
      case (two u v)
      with dot Cons show ?thesis
        by (auto elim!: safe_blockE simp: dotty_Cons bad_pairs_def lower_percent)
    qed
  qed simp
qed

definition clean_segment :: "string \<Rightarrow> bool" where
  "clean_segment seg = (\<not> single_dot seg \<and> \<not> double_dot seg \<and> (\<forall>c \<in> set seg. \<not> is_sep c))"

lemma dot_dotty: "single_dot s \<or> double_dot s \<Longrightarrow> dotty (to_lower s)"
  by (auto simp: single_dot_def double_dot_def intro!: dotty.intros)

lemma pct_not_sep: "\<not> is_sep (CHR ''%'')"
  by code_simp

lemma safe_block_no_sep: "safe_block w \<Longrightarrow> d \<in> set w \<Longrightarrow> \<not> is_sep d"
  by (erule safe_blockE) (auto simp: pct_not_sep)

lemma encode_path_no_sep: "\<forall>c \<in> set s. \<not> is_sep c \<Longrightarrow> \<forall>c \<in> set (encode_path s). \<not> is_sep c"
proof (induction s)
  case (Cons c s)
  have "\<not> is_sep d" if "d \<in> set (pct_char path_set c)" for d
  proof (cases rule: pct_char_cases [of c])
    case plain
    with that Cons.prems show ?thesis by simp
  next
    case one
    from safe_block_no_sep [OF this that] show ?thesis .
  next
    case (two u v)
    with that safe_block_no_sep show ?thesis by auto
  qed
  with Cons show ?case by auto
qed simp

lemma clean_encode:
  assumes "\<forall>c \<in> set s. \<not> is_sep c" and "\<not> single_dot s" and "\<not> double_dot s"
  shows "clean_segment (encode_path s)"
proof -
  have "\<not> (single_dot (encode_path s) \<or> double_dot (encode_path s))"
    using dot_dotty dotty_encode [of s] assms(2,3) by fastforce
  then show ?thesis using encode_path_no_sep [OF assms(1)] by (simp add: clean_segment_def)
qed

lemma clean_Nil [simp]: "clean_segment []"
  by (simp add: clean_segment_def single_dot_def double_dot_def)

lemma split_sep_no_sep: "\<forall>s \<in> set (split_sep p). \<forall>c \<in> set s. \<not> is_sep c"
  by (induction p) (auto split: if_splits list.splits)

lemma split_sep_head: "\<exists>h t. split_sep p = h # t \<and> prefix h p"
  by (induction p) (auto split: list.splits)

lemma split_sep_sublist: "s \<in> set (split_sep p) \<Longrightarrow> sublist s p"
proof (induction p arbitrary: s)
  case (Cons x xs)
  show ?case
  proof (cases "is_sep x")
    case True
    with Cons show ?thesis by (auto simp: sublist_Cons_right)
  next
    case False
    from split_sep_head [of xs] obtain h t where h: "split_sep xs = h # t" "prefix h xs" by blast
    with Cons.prems False have "s = x # h \<or> s \<in> set (split_sep xs)" by auto
    then show ?thesis
      using Cons.IH [of s] h(2) by (auto simp: sublist_Cons_right)
  qed
qed simp

lemma path_state_segments:
  "seg \<in> set (path_state path ss) \<Longrightarrow>
     seg \<in> set path \<or> seg = [] \<or> (\<exists>s \<in> set ss. seg = encode_path s \<and> \<not> single_dot s \<and> \<not> double_dot s)"
proof (induction path ss rule: path_state.induct)
  case (3 path s t ss)
  then show ?case by (auto split: if_splits dest: in_set_butlastD)
qed (auto split: if_splits dest: in_set_butlastD)

lemma join_path_Cons: "join_path (seg # segs) = CHR ''/'' # seg @ join_path segs"
  by (simp add: join_path_def)

lemma contains_join_path:
  assumes "CHR ''/'' \<notin> set p" and "contains p (to_lower (join_path segs))"
  shows "p = [] \<or> (\<exists>seg \<in> set segs. contains p (to_lower seg))"
  using assms(2)
proof (induction segs)
  case Nil
  then show ?case by (simp add: join_path_def)
next
  case (Cons seg segs)
  have c: "contains p (to_lower seg @ to_lower (join_path segs)) \<or> p = []"
    using Cons.prems assms(1) by (cases p) (auto simp: join_path_Cons)
  show ?case
  proof (cases segs)
    case Nil
    with c show ?thesis by (auto simp: join_path_def)
  next
    case (Cons a as)
    then have j: "to_lower (join_path segs) = CHR ''/'' # to_lower (a @ join_path as)"
      by (simp add: join_path_Cons)
    with c contains_across [of p "to_lower seg" "CHR ''/''"] assms(1)
    have "p = [] \<or> contains p (to_lower seg) \<or> contains p (to_lower (a @ join_path as))" by auto
    moreover have "contains p (to_lower (a @ join_path as)) \<Longrightarrow> contains p (to_lower (join_path segs))"
      unfolding j by simp
    ultimately show ?thesis using Cons.IH by auto
  qed
qed


section \<open>Accepted paths are canonical\<close>

lemma before_any_sublist: "sublist (before_any cs s) s"
  by (simp add: before_any_def prefix_imp_sublist prefix_takeWhile)

lemma path_state_clean:
  assumes "seg \<in> set (path_state [] (split_sep p))"
  shows "clean_segment seg \<and> (seg = [] \<or> (\<exists>s. sublist s p \<and> seg = encode_path s))"
proof -
  from path_state_segments [OF assms] consider "seg = []"
    | s where "s \<in> set (split_sep p)" "seg = encode_path s" "\<not> single_dot s" "\<not> double_dot s" by auto
  then show ?thesis
  proof cases
    case 2
    then have "clean_segment (encode_path s)" using split_sep_no_sep by (intro clean_encode) blast+
    with 2 split_sep_sublist show ?thesis by blast
  qed simp
qed

lemma sublist_to_lower: "sublist s p \<Longrightarrow> sublist (to_lower s) (to_lower p)"
  unfolding to_lower_def sublist_def by (metis map_append)

lemma pathname_no_encoded_sep:
  assumes "[a, b] \<in> set bad_pairs" and "a \<noteq> CHR ''/''" and "b \<noteq> CHR ''/''"
    and "contains [CHR ''%'', a, b] (to_lower (url_pathname p))"
  shows "contains [CHR ''%'', a, b] (to_lower p)"
proof -
  define q where "q = (case p of [] \<Rightarrow> [] | c # cs \<Rightarrow> if is_sep c then cs else p)"
  have q: "sublist q p"
    by (auto simp: q_def sublist_Cons_right split: list.splits)
  obtain seg where seg: "seg \<in> set (path_state [] (split_sep q))"
    and c: "contains [CHR ''%'', a, b] (to_lower seg)"
    using contains_join_path [of "[CHR ''%'', a, b]" "path_state [] (split_sep q)"] assms(2-4)
    by (auto simp: url_pathname_def q_def)
  from path_state_clean [OF seg] c obtain s where "sublist s q" "seg = encode_path s" by auto
  with c contains_encode [OF assms(1)] have "contains [CHR ''%'', a, b] (to_lower s)" by simp
  moreover have "sublist (to_lower s) (to_lower p)"
    by (rule sublist_to_lower [OF sublist_order.order_trans [OF \<open>sublist s q\<close> q]])
  ultimately show ?thesis unfolding contains_sublist by (rule sublist_order.order_trans)
qed

text \<open>
  The parser's input is the raw target without its outer blanks; a target without control
  characters or blanks, the only kind Node's HTTP parser hands over, is unchanged by the cleanup.
\<close>

definition no_blanks :: "string \<Rightarrow> bool" where
  "no_blanks s = (\<forall>c \<in> set s. \<not> c0_or_space c)"

lemma cleanup_id: "no_blanks s \<Longrightarrow> url_cleanup s = s"
proof -
  assume nb: "no_blanks s"
  have d: "dropWhile c0_or_space r = r" if "set r \<subseteq> set s" for r
    using nb that by (cases r) (auto simp: no_blanks_def)
  have "filter (\<lambda>c. \<not> tab_or_newline c) s = s"
    using nb by (intro filter_True) (auto simp: no_blanks_def c0_or_space_def tab_or_newline_def Let_def)
  then show ?thesis by (simp add: url_cleanup_def d)
qed

lemma before_any_drop:
  "\<forall>c \<in> set d. c \<notin> set cs \<Longrightarrow> before_any cs (d @ u) = d @ before_any cs u"
  by (auto simp: before_any_def)

lemma placeholder_url_path:
  assumes "no_blanks raw" and "placeholder_url toASCII raw = Some cp"
  shows "\<exists>p. pathname cp = url_pathname p \<and> sublist p (before_any ''?#'' raw)"
proof -
  define own where "own = (case raw of c # d # _ \<Rightarrow> is_sep c \<and> is_sep d | _ \<Rightarrow> False)"
  define t where "t = (if own then dropWhile is_sep raw else raw)"
  define a where "a = (if own then before_any [CHR ''/'', bslash, CHR ''?'', CHR ''#''] t else [])"
  define u where "u = drop (length a) t"
  have "placeholder_url toASCII raw = (if own \<and> \<not> authority_is_placeholder toASCII a then None
    else Some \<lparr>pathname = url_pathname (before_any ''?#'' u), search = url_search (drop (length (before_any ''?#'' u)) u)\<rparr>)"
    unfolding placeholder_url_def cleanup_id [OF assms(1)] Let_def u_def a_def t_def own_def by (rule refl)
  with assms(2) have p: "pathname cp = url_pathname (before_any ''?#'' u)" by (auto split: if_splits)
  have "\<exists>d. raw = d @ u \<and> (\<forall>c \<in> set d. c \<notin> set ''?#'')"
  proof -
    have "takeWhile P t @ drop (length (takeWhile P t)) t = t" for P
      by (simp flip: dropWhile_eq_drop)
    then have a1: "t = a @ u" by (simp add: a_def u_def before_any_def)
    have a2: "\<forall>c \<in> set a. c \<notin> set ''?#''"
      by (auto simp: a_def before_any_def dest: set_takeWhileD)
    have "\<not> is_sep CHR ''?''" "\<not> is_sep CHR ''#''" by code_simp+
    moreover define d0 where "d0 = (if own then takeWhile is_sep raw else [])"
    ultimately have r1: "raw = d0 @ t" and r2: "\<forall>c \<in> set d0. c \<notin> set ''?#''"
      by (auto simp: t_def dest!: set_takeWhileD)
    from r1 a1 have "raw = (d0 @ a) @ u" by simp
    moreover from r2 a2 have "\<forall>c \<in> set (d0 @ a). c \<notin> set ''?#''" by (simp add: ball_Un)
    ultimately show ?thesis by blast
  qed
  then obtain d where d: "raw = d @ u" "\<forall>c \<in> set d. c \<notin> set ''?#''" by blast
  have "before_any ''?#'' raw = d @ before_any ''?#'' u"
    unfolding d(1) by (rule before_any_drop [OF d(2)])
  then have "sublist (before_any ''?#'' u) (before_any ''?#'' raw)"
    by (simp add: sublist_append_leftI)
  with p show ?thesis by blast
qed

lemma canonicalizePath_SomeD:
  assumes "canonicalizePath toASCII raw = Some cp"
  shows "placeholder_url toASCII raw = Some cp" and "\<not> encoded_slash_or_backslash (before_any ''?#'' raw)"
    and "starts_with ''/'' (pathname cp)" and "\<not> contains ''//'' (pathname cp)"
  using assms by (auto simp: canonicalizePath_def Let_def split: if_splits option.splits)

lemma bad_pairs_encoded:
  "encoded_slash_or_backslash s \<longleftrightarrow>
     contains [CHR ''%'', CHR ''2'', CHR ''f''] (to_lower s) \<or> contains [CHR ''%'', CHR ''5'', CHR ''c''] (to_lower s)"
  by (simp add: encoded_slash_or_backslash_def)

lemma encoded_sublist:
  "sublist p q \<Longrightarrow> encoded_slash_or_backslash p \<Longrightarrow> encoded_slash_or_backslash q"
  unfolding encoded_slash_or_backslash_def contains_sublist
  using sublist_order.order_trans [OF _ sublist_to_lower] by blast

lemma url_pathname_encoded:
  "encoded_slash_or_backslash (url_pathname p) \<Longrightarrow> encoded_slash_or_backslash p"
  unfolding bad_pairs_encoded
  using pathname_no_encoded_sep [of "CHR ''2''" "CHR ''f''" p] pathname_no_encoded_sep [of "CHR ''5''" "CHR ''c''" p]
  by (auto simp: bad_pairs_def)

text \<open>
  C25. Whatever \<open>canonicalizePath\<close> accepts is a canonical absolute path: it is \<open>/\<close>-separated clean
  segments (no dot segment in any spelling, \<open>%2e\<close> included, and no slash or backslash inside a
  segment), has no empty segment in the middle, and contains no encoded slash or backslash, for
  every raw target without blanks and control characters (the only ones Node's parser delivers).
\<close>

theorem canonicalizePath_canonical:
  assumes "canonicalizePath toASCII raw = Some cp" and "no_blanks raw"
  shows "\<exists>segs. segs \<noteq> [] \<and> pathname cp = join_path segs \<and> (\<forall>seg \<in> set segs. clean_segment seg)
    \<and> \<not> contains ''//'' (pathname cp) \<and> \<not> encoded_slash_or_backslash (pathname cp)"
proof -
  note cp = canonicalizePath_SomeD [OF assms(1)]
  from placeholder_url_path [OF assms(2) cp(1)] obtain p
    where p: "pathname cp = url_pathname p" "sublist p (before_any ''?#'' raw)" by blast
  define q where "q = (case p of [] \<Rightarrow> [] | c # cs \<Rightarrow> if is_sep c then cs else p)"
  have segs: "pathname cp = join_path (path_state [] (split_sep q))"
    by (simp add: p(1) url_pathname_def q_def)
  have "path_state [] (split_sep q) \<noteq> []"
    using cp(3) unfolding segs by (auto simp: join_path_def)
  moreover have "\<not> encoded_slash_or_backslash (pathname cp)"
    using cp(2) url_pathname_encoded encoded_sublist [OF p(2)] unfolding p(1) by blast
  ultimately show ?thesis using segs path_state_clean cp(4) by metis
qed

lemma canonicalizePath_canonical_witness:
  "\<exists>segs. segs \<noteq> [] \<and> ''/b/caf%20'' = join_path segs \<and> list_all clean_segment segs
    \<and> \<not> contains ''//'' ''/b/caf%20'' \<and> \<not> encoded_slash_or_backslash ''/b/caf%20''"
proof -
  have "canonicalizePath Some ''/a/%2E%2e/b/caf%20?x=1'' = Some \<lparr>pathname = ''/b/caf%20'', search = ''?x=1''\<rparr>"
    by code_simp
  from canonicalizePath_canonical [OF this] show ?thesis
    by (simp add: no_blanks_def c0_or_space_def list_all_iff)
qed

text \<open>
  \<open>matchLongestPrefix\<close> finds a route exactly when one matches, and then a longest one; a match
  ends at a segment boundary of the path, so \<open>/api\<close> never captures \<open>/apiary\<close>.
\<close>

theorem matchLongestPrefix_longest:
  "case matchLongestPrefix path routes of
     None \<Rightarrow> \<forall>q \<in> set routes. \<not> prefixMatches (route_prefix q) path
   | Some v \<Rightarrow> \<exists>r \<in> set routes. route_value r = v \<and>
       (route_prefix r = ''/'' \<or> route_prefix r = path \<or>
         (\<exists>t. path = route_prefix r @ t \<and> (ends_with ''/'' (route_prefix r) \<or> starts_with ''/'' t))) \<and>
       (\<forall>q \<in> set routes. prefixMatches (route_prefix q) path \<longrightarrow> length (route_prefix q) \<le> length (route_prefix r))"
proof (cases "best_route path None routes")
  case None
  then have "matchLongestPrefix path routes = None" by (simp add: matchLongestPrefix_def)
  with None show ?thesis by (simp add: best_route_None)
next
  case (Some r)
  then have "matchLongestPrefix path routes = Some (route_value r)" by (simp add: matchLongestPrefix_def)
  with best_route_Some [OF Some] show ?thesis
    unfolding prefixMatches_cases [symmetric] by auto
qed

lemma matchLongestPrefix_longest_witness:
  "\<exists>r \<in> set [\<lparr>route_prefix = ''/'', route_value = 1\<rparr>, \<lparr>route_prefix = ''/api'', route_value = (2::nat)\<rparr>].
     route_value r = 2 \<and> length (route_prefix r) = 4"
proof -
  have "matchLongestPrefix ''/api/x'' [\<lparr>route_prefix = ''/'', route_value = 1\<rparr>, \<lparr>route_prefix = ''/api'', route_value = (2::nat)\<rparr>]
    = Some 2" by code_simp
  with matchLongestPrefix_longest [where path = "''/api/x''" and routes =
      "[\<lparr>route_prefix = ''/'', route_value = 1\<rparr>, \<lparr>route_prefix = ''/api'', route_value = (2::nat)\<rparr>]"]
  show ?thesis by auto
qed

text \<open>
  The comment on \<open>canonicalizePath\<close> says that dot segments are rejected; those spelled with
  \<open>%2e\<close>, or separated by a backslash, are resolved by the parser instead.
\<close>

lemma encoded_dot_segments_resolved:
  "canonicalizePath toASCII ''/a/%2e%2e/admin'' = Some \<lparr>pathname = ''/admin'', search = []\<rparr>"
  by code_simp


end
