(* ===== verification/Cookie_Domain_Strip.thy ===== *)
theory Cookie_Domain_Strip
  imports Prelude
begin

text \<open>
  \<open>src/proxy/cookie-domain-strip.ts\<close>: removal of a \<open>Domain=privos.link\<close> attribute from a
  \<open>Set-Cookie\<close> value. The regular expression \<open>/;\s*domain\s*=\s*([^;]*)/i\<close> is written as a
  matcher at one position and a leftmost search.
\<close>

definition domain_attr_at :: "string \<Rightarrow> (string \<times> string) option" where
  "domain_attr_at s = (case s of
       [] \<Rightarrow> None
     | c # t \<Rightarrow>
         if c \<noteq> CHR '';'' then None
         else (let t1 = dropWhile is_js_space t in
           if \<not> (6 \<le> length t1 \<and> to_lower (take 6 t1) = ''domain'') then None
           else (case dropWhile is_js_space (drop 6 t1) of
               [] \<Rightarrow> None
             | d # u \<Rightarrow>
                 if d \<noteq> CHR ''='' then None
                 else (let v = dropWhile is_js_space u in
                   Some (takeWhile (\<lambda>x. x \<noteq> CHR '';'') v, dropWhile (\<lambda>x. x \<noteq> CHR '';'') v)))))"

text \<open>Leftmost match: the text before it, its capture group, the text after it.\<close>

fun DOMAIN_ATTRIBUTE :: "string \<Rightarrow> (string \<times> string \<times> string) option" where
  "DOMAIN_ATTRIBUTE [] = None"
| "DOMAIN_ATTRIBUTE (c # s) =
     (case domain_attr_at (c # s) of
        Some (v, rest) \<Rightarrow> Some ([], v, rest)
      | None \<Rightarrow>
          (case DOMAIN_ATTRIBUTE s of
             None \<Rightarrow> None
           | Some (before, v, rest) \<Rightarrow> Some (c # before, v, rest)))"

definition targetsPrivosLink :: "string \<Rightarrow> bool" where
  "targetsPrivosLink rawValue =
     (let t = trim rawValue;
          normalized = to_lower (if starts_with ''.'' t then drop 1 t else t)
      in normalized = ''privos.link'' \<or> ends_with ''.privos.link'' normalized)"

definition stripPrivosLinkCookieDomain :: "string \<Rightarrow> string" where
  "stripPrivosLinkCookieDomain setCookieValue =
     (case DOMAIN_ATTRIBUTE setCookieValue of
        None \<Rightarrow> setCookieValue
      | Some (before, v, rest) \<Rightarrow>
          if \<not> targetsPrivosLink v then setCookieValue else trim (before @ rest))"

definition stripPrivosLinkCookieDomains :: "string list \<Rightarrow> string list" where
  "stripPrivosLinkCookieDomains setCookieValues = map stripPrivosLinkCookieDomain setCookieValues"

section \<open>What the search finds\<close>

text \<open>The shape of a match, without the search order.\<close>

definition attr_block :: "string \<Rightarrow> bool" where
  "attr_block b \<longleftrightarrow> (\<exists>w1 d w2. b = CHR '';'' # w1 @ d @ w2 @ ''='' \<and> to_lower d = ''domain''
     \<and> (\<forall>c \<in> set (w1 @ w2). is_js_space c))"

lemma space_lits: "\<not> is_js_space CHR '';''" "\<not> is_js_space CHR ''=''" "\<not> is_js_space CHR ''d''"
  "\<not> is_js_space CHR ''D''"
  by code_simp+

lemma lower_space: "is_js_space c \<Longrightarrow> lower_char c = c"
  by (auto simp: is_js_space_def lower_char_def Let_def)

lemma lower_d: "lower_char c = CHR ''d'' \<Longrightarrow> \<not> is_js_space c"
  using lower_space space_lits(3) by metis

lemma lower_semicolon: "lower_char c = CHR ''d'' \<or> lower_char c = CHR ''o'' \<or> lower_char c = CHR ''m''
  \<or> lower_char c = CHR ''a'' \<or> lower_char c = CHR ''i'' \<or> lower_char c = CHR ''n'' \<Longrightarrow> c \<noteq> CHR '';''"
proof -
  have "lower_char CHR '';'' = CHR '';''" by code_simp
  then show "lower_char c = CHR ''d'' \<or> lower_char c = CHR ''o'' \<or> lower_char c = CHR ''m''
  \<or> lower_char c = CHR ''a'' \<or> lower_char c = CHR ''i'' \<or> lower_char c = CHR ''n'' \<Longrightarrow> c \<noteq> CHR '';''"
    by auto
qed

lemma domain_word: "to_lower d = ''domain'' \<Longrightarrow> length d = 6 \<and> \<not> is_js_space (hd d) \<and> CHR '';'' \<notin> set d"
proof -
  assume "to_lower d = ''domain''"
  then have "map lower_char d = ''domain''" by (simp add: to_lower_def)
  then obtain a b c e f g where "d = [a, b, c, e, f, g]" "lower_char a = CHR ''d''" "lower_char b = CHR ''o''"
    "lower_char c = CHR ''m''" "lower_char e = CHR ''a''" "lower_char f = CHR ''i''" "lower_char g = CHR ''n''"
    by (auto simp: map_eq_Cons_conv)
  then show ?thesis using lower_d lower_semicolon by auto
qed

lemma attr_block_semicolon: "attr_block (c # b) \<Longrightarrow> c = CHR '';'' \<and> CHR '';'' \<notin> set b"
  unfolding attr_block_def using domain_word space_lits by fastforce

lemma domain_attr_at_iff:
  "domain_attr_at s \<noteq> None \<longleftrightarrow> (\<exists>b t. s = b @ t \<and> attr_block b)"
proof
  assume "domain_attr_at s \<noteq> None"
  then obtain t where s: "s = CHR '';'' # t" by (auto simp: domain_attr_at_def split: list.splits if_splits)
  define t1 where "t1 = dropWhile is_js_space t"
  from \<open>domain_attr_at s \<noteq> None\<close> s obtain u where
    d: "to_lower (take 6 t1) = ''domain''" and u: "dropWhile is_js_space (drop 6 t1) = CHR ''='' # u"
    by (auto simp: domain_attr_at_def t1_def [symmetric] Let_def split: list.splits if_splits)
  have "t = takeWhile is_js_space t @ take 6 t1 @ takeWhile is_js_space (drop 6 t1) @ CHR ''='' # u"
    unfolding u [symmetric] by (simp add: t1_def)
  then have "s = (CHR '';'' # takeWhile is_js_space t @ take 6 t1 @ takeWhile is_js_space (drop 6 t1) @ ''='') @ u"
    using s by simp
  moreover have "attr_block (CHR '';'' # takeWhile is_js_space t @ take 6 t1 @ takeWhile is_js_space (drop 6 t1) @ ''='')"
    unfolding attr_block_def
    by (intro exI [of _ "takeWhile is_js_space t"] exI [of _ "take 6 t1"]
          exI [of _ "takeWhile is_js_space (drop 6 t1)"]) (use d in \<open>auto dest: set_takeWhileD\<close>)
  ultimately show "\<exists>b t. s = b @ t \<and> attr_block b" by blast
next
  assume "\<exists>b t. s = b @ t \<and> attr_block b"
  then obtain w1 d w2 t where s: "s = CHR '';'' # w1 @ d @ w2 @ ''='' @ t" and d: "to_lower d = ''domain''"
    and w: "\<forall>c \<in> set w1. is_js_space c" "\<forall>c \<in> set w2. is_js_space c"
    by (auto simp: attr_block_def)
  note dw = domain_word [OF d]
  have "dropWhile is_js_space (w1 @ d @ w2 @ ''='' @ t) = d @ w2 @ ''='' @ t"
    using w(1) dw by (cases d) (simp_all add: dropWhile_append2)
  moreover have "dropWhile is_js_space (w2 @ ''='' @ t) = ''='' @ t"
    using w(2) space_lits by (simp add: dropWhile_append2)
  ultimately show "domain_attr_at s \<noteq> None"
    using dw d by (simp add: domain_attr_at_def s Let_def)
qed


lemma domain_attr_at_None_iff:
  "domain_attr_at s = None \<longleftrightarrow> \<not> (\<exists>b t. s = b @ t \<and> attr_block b)"
  using domain_attr_at_iff [of s] by blast

lemma DOMAIN_ATTRIBUTE_None_iff:
  "DOMAIN_ATTRIBUTE s = None \<longleftrightarrow> \<not> (\<exists>u b t. s = u @ b @ t \<and> attr_block b)"
proof (induction s)
  case Nil
  then show ?case by (simp add: attr_block_def)
next
  case (Cons c s)
  have "(\<exists>u b t. c # s = u @ b @ t \<and> attr_block b) \<longleftrightarrow>
    (\<exists>b t. c # s = b @ t \<and> attr_block b) \<or> (\<exists>u b t. s = u @ b @ t \<and> attr_block b)" (is "?L \<longleftrightarrow> ?R")
  proof
    assume ?L
    then obtain u b t where "c # s = u @ b @ t" "attr_block b" by blast
    then show ?R by (cases u) auto
  next
    assume ?R
    then show ?L by (metis append_Cons append_Nil)
  qed
  moreover have "DOMAIN_ATTRIBUTE (c # s) = None \<longleftrightarrow> domain_attr_at (c # s) = None \<and> DOMAIN_ATTRIBUTE s = None"
    by (auto split: option.splits)
  moreover have "domain_attr_at (c # s) = None \<longleftrightarrow> \<not> (\<exists>b t. c # s = b @ t \<and> attr_block b)"
    by (rule domain_attr_at_None_iff)
  ultimately show ?case unfolding Cons.IH by simp
qed

lemma DOMAIN_ATTRIBUTE_SomeD:
  assumes "DOMAIN_ATTRIBUTE s = Some (before, v, rest)"
  shows "\<exists>m. s = before @ m @ rest \<and> m \<noteq> [] \<and> hd m = CHR '';'' \<and> domain_attr_at (m @ rest) = Some (v, rest)
    \<and> (rest = [] \<or> hd rest = CHR '';'') \<and> (\<forall>u b. before = u @ b \<longrightarrow> \<not> (\<exists>b' t. b = b' @ t \<and> attr_block b'))"
  using assms
proof (induction s arbitrary: before)
  case (Cons c s)
  show ?case
  proof (cases "domain_attr_at (c # s)")
    case None
    with Cons.prems obtain before' where b: "before = c # before'" "DOMAIN_ATTRIBUTE s = Some (before', v, rest)"
      by (auto split: option.splits)
    from Cons.IH [OF b(2)] obtain m where m: "s = before' @ m @ rest" "m \<noteq> []" "hd m = CHR '';''"
      "domain_attr_at (m @ rest) = Some (v, rest)" "rest = [] \<or> hd rest = CHR '';''"
      "\<forall>u b. before' = u @ b \<longrightarrow> \<not> (\<exists>b' t. b = b' @ t \<and> attr_block b')" by blast
    have "\<not> (\<exists>b' t. w = b' @ t \<and> attr_block b')" if "before = u @ w" for u w
    proof (cases u)
      case Nil
      show ?thesis
      proof
        assume "\<exists>b' t. w = b' @ t \<and> attr_block b'"
        then obtain b' t where "w = b' @ t" "attr_block b'" by blast
        with Nil that b(1) m(1) have "c # s = b' @ (t @ m @ rest)" by (metis append.assoc append_Cons append_Nil)
        with \<open>attr_block b'\<close> have "\<exists>b t. c # s = b @ t \<and> attr_block b" by blast
        with None show False using domain_attr_at_None_iff [of "c # s"] by blast
      qed
    next
      case (Cons a us)
      with that b(1) m(6) show ?thesis by auto
    qed
    with b(1) m show ?thesis by (intro exI [of _ m]) auto
  next
    case (Some a)
    with Cons.prems have b: "before = []" "domain_attr_at (c # s) = Some (v, rest)" by auto
    have "\<exists>m. c # s = m @ rest \<and> m \<noteq> [] \<and> hd m = CHR '';''" and r: "rest = [] \<or> hd rest = CHR '';''"
    proof -
      from b(2) have c: "c = CHR '';''" by (auto simp: domain_attr_at_def split: if_splits)
      obtain u where u: "dropWhile is_js_space (drop 6 (dropWhile is_js_space s)) = CHR ''='' # u"
      proof (cases "dropWhile is_js_space (drop 6 (dropWhile is_js_space s))")
        case Nil
        show ?thesis
          using b(2) unfolding domain_attr_at_def Let_def list.case Nil by (auto split: if_splits)
      next
        case (Cons d u)
        have "d = CHR ''=''"
          using b(2) unfolding domain_attr_at_def Let_def list.case Cons by (auto split: if_splits)
        with Cons that show ?thesis by blast
      qed
      have t3: "rest = dropWhile (\<lambda>x. x \<noteq> CHR '';'') (dropWhile is_js_space u)"
        using b(2) unfolding domain_attr_at_def Let_def list.case u by (auto split: if_splits)
      have "suffix rest (dropWhile is_js_space u)" unfolding t3 by (rule suffix_dropWhile)
      moreover have "suffix (dropWhile is_js_space u) u" by (rule suffix_dropWhile)
      moreover have "suffix u (CHR ''='' # u)" by (simp add: suffix_Cons)
      moreover have "suffix (CHR ''='' # u) (drop 6 (dropWhile is_js_space s))"
        unfolding u [symmetric] by (rule suffix_dropWhile)
      moreover have "suffix (drop 6 (dropWhile is_js_space s)) (dropWhile is_js_space s)" by (rule suffix_drop)
      moreover have "suffix (dropWhile is_js_space s) s" by (rule suffix_dropWhile)
      ultimately have "suffix rest s" by (meson suffix_order.order_trans)
      then obtain w where "s = w @ rest" by (rule suffixE)
      with c show "\<exists>m. c # s = m @ rest \<and> m \<noteq> [] \<and> hd m = CHR '';''"
        by (intro exI [of _ "c # w"]) simp
      show "rest = [] \<or> hd rest = CHR '';''"
        unfolding t3 using hd_dropWhile [of "\<lambda>x. x \<noteq> CHR '';''"] by blast
    qed
    then obtain m where "c # s = m @ rest" "m \<noteq> []" "hd m = CHR '';''" by blast
    with b r show ?thesis by (intro exI [of _ m]) (auto simp: attr_block_def)
  qed
qed simp


lemma trim_mid: "\<exists>u w. s = u @ trim s @ w"
proof -
  define r where "r = dropWhile is_js_space s"
  have "s = takeWhile is_js_space s @ r" by (simp add: r_def)
  moreover have "r = trim s @ rev (takeWhile is_js_space (rev r))"
  proof -
    have "rev (takeWhile is_js_space (rev r) @ dropWhile is_js_space (rev r)) = r" by simp
    then show ?thesis unfolding rev_append by (simp add: trim_def r_def)
  qed
  ultimately have "s = takeWhile is_js_space s @ trim s @ rev (takeWhile is_js_space (rev r))" by simp
  then show ?thesis by blast
qed

text \<open>
  A \<open>Set-Cookie\<close> value with one \<open>Domain\<close> attribute leaves the runtime listener without a
  \<open>privos.link\<close> domain: the result's \<open>Domain\<close> attribute, if any, does not name \<open>privos.link\<close>
  or a subdomain of it.
\<close>

theorem stripPrivosLinkCookieDomain_scoped:
  assumes "\<And>before v rest. DOMAIN_ATTRIBUTE cookie = Some (before, v, rest) \<Longrightarrow> DOMAIN_ATTRIBUTE rest = None"
    and "DOMAIN_ATTRIBUTE (stripPrivosLinkCookieDomain cookie) = Some (before', v', rest')"
  shows "\<not> targetsPrivosLink v'"
proof (cases "DOMAIN_ATTRIBUTE cookie")
  case None
  with assms(2) show ?thesis by (simp add: stripPrivosLinkCookieDomain_def)
next
  case (Some x)
  obtain before v rest where x: "DOMAIN_ATTRIBUTE cookie = Some (before, v, rest)"
    using Some by (cases x) auto
  show ?thesis
  proof (cases "targetsPrivosLink v")
    case False
    with assms(2) x show ?thesis by (simp add: stripPrivosLinkCookieDomain_def)
  next
    case True
    with assms(2) x have "DOMAIN_ATTRIBUTE (trim (before @ rest)) \<noteq> None"
      by (simp add: stripPrivosLinkCookieDomain_def)
    then obtain u b t where "trim (before @ rest) = u @ b @ t" and b: "attr_block b"
      unfolding DOMAIN_ATTRIBUTE_None_iff by blast
    moreover obtain u1 w1 where "before @ rest = u1 @ trim (before @ rest) @ w1"
      using trim_mid by blast
    ultimately have "before @ rest = (u1 @ u) @ b @ (t @ w1)" by simp
    then obtain u' t' where e: "before @ rest = u' @ b @ t'" by blast
    from b have "b \<noteq> []" by (auto simp: attr_block_def)
    then obtain bs where bs: "b = CHR '';'' # bs" "CHR '';'' \<notin> set bs"
      using b attr_block_semicolon by (metis list.exhaust)
    from DOMAIN_ATTRIBUTE_SomeD [OF x] have r: "rest = [] \<or> hd rest = CHR '';''"
      and nb: "\<And>u b t. before = u @ b @ t \<Longrightarrow> \<not> attr_block b" by blast+
    from e consider (left) k where "before = u' @ b @ k"
      | (right) k where "rest = k @ b @ t'"
      | (across) k l where "bs = k @ l" "l @ t' = rest" "l \<noteq> []"
    proof -
      from e consider us where "before = u' @ us" "us @ rest = b @ t'" | us where "rest = us @ b @ t'"
        unfolding append_eq_append_conv2 by blast
      then show thesis
      proof cases
        case (1 us)
        from 1(2) consider k where "us = b @ k" | l where "us @ l = b" "rest = l @ t'"
          unfolding append_eq_append_conv2 by blast
        then show thesis
        proof cases
          case (2 l)
          show thesis
          proof (cases "us = [] \<or> l = []")
            case True
            with 1 2 left [of "[]"] right [of "[]"] show thesis by auto
          next
            case False
            with 2(1) bs(1) have "bs = tl us @ l" by (cases us) auto
            with 2(2) False across show thesis by blast
          qed
        qed (use 1 left in blast)
      qed (use right in blast)
    qed
    then show ?thesis
    proof cases
      case left
      with nb b show ?thesis by blast
    next
      case right
      with b have "DOMAIN_ATTRIBUTE rest \<noteq> None" unfolding DOMAIN_ATTRIBUTE_None_iff by blast
      with assms(1) [OF x] show ?thesis by simp
    next
      case across
      with r have "hd l = CHR '';''" by (cases l) auto
      with across bs(2) show ?thesis by (cases l) auto
    qed
  qed
qed

lemma stripPrivosLinkCookieDomain_scoped_witness:
  "\<not> targetsPrivosLink ''example.org''"
proof -
  have d: "DOMAIN_ATTRIBUTE ''a=1; Domain=example.org; Path=/'' = Some (''a=1'', ''example.org'', ''; Path=/'')"
    by code_simp
  have "DOMAIN_ATTRIBUTE ''; Path=/'' = None" by code_simp
  moreover have "DOMAIN_ATTRIBUTE (stripPrivosLinkCookieDomain ''a=1; Domain=example.org; Path=/'')
    = Some (''a=1'', ''example.org'', ''; Path=/'')" by code_simp
  ultimately show ?thesis
    using stripPrivosLinkCookieDomain_scoped [of "''a=1; Domain=example.org; Path=/''" "''a=1''" "''example.org''" "''; Path=/''"] d
    by auto
qed

text \<open>Only the first \<open>Domain\<close> attribute is looked at; browsers honour the last one.\<close>

lemma second_domain_attribute_survives:
  "stripPrivosLinkCookieDomain ''a=1; Domain=x; Domain=privos.link'' = ''a=1; Domain=x; Domain=privos.link''"
  by code_simp

end
