(* ===== verification/Runtime_Listener.thy ===== *)
theory Runtime_Listener
  imports Replay_Cache Forward_Signature Host_Table Canonical_Path Container_Types Cookie_Domain_Strip
begin

text \<open>
  The mesh-facing runtime listener, \<open>src/proxy/runtime-listener.ts\<close>: signature, freshness and
  replay checks, host resolution, the header sets sent to the container and back to the ingress
  node, and the request and upgrade handlers as state transformers over the nonce log.
\<close>

definition SIGNATURE_TS_SKEW_MS :: int where
  "SIGNATURE_TS_SKEW_MS = 30000"

definition HOP_BY_HOP :: "string list" where
  "HOP_BY_HOP = [''connection'', ''keep-alive'', ''proxy-authenticate'', ''proxy-authorization'',
     ''te'', ''trailer'', ''transfer-encoding'', ''upgrade'', ''host'']"

definition UPGRADE_HOP_BY_HOP :: "string list" where
  "UPGRADE_HOP_BY_HOP = [''keep-alive'', ''proxy-authenticate'', ''proxy-authorization'', ''te'',
     ''trailer'', ''transfer-encoding'', ''host'']"

definition RESP_HOP_BY_HOP :: "string list" where
  "RESP_HOP_BY_HOP = [''connection'', ''keep-alive'', ''proxy-authenticate'', ''proxy-authorization'',
     ''te'', ''trailer'', ''transfer-encoding'', ''upgrade'']"

text \<open>\<open>/^(?:\<dots>)(?:\/|$)/i\<close> over the five private MCP surfaces.\<close>

definition mcp_surfaces :: "string list" where
  "mcp_surfaces = [''/mcp'', ''/bootstrap'', ''/identity'', ''/.well-known/privos/bootstrap'',
     ''/.well-known/privos/identity'', ''/api/v1/mcp-workload'']"

definition BLOCKED_MCP_PATH :: "string \<Rightarrow> bool" where
  "BLOCKED_MCP_PATH path =
     (\<exists>p \<in> set mcp_surfaces. to_lower path = p \<or> starts_with (p @ ''/'') (to_lower path))"

record RuntimeListenerDeps =
  selfMeshIp :: string
  findAppByHost :: "string \<Rightarrow> RuntimeApp option"
  findSigningKeyByKid :: "string \<Rightarrow> SigningKey option"
  findContainerByAppId :: "string \<Rightarrow> string \<Rightarrow> (unit, Container option) result"
  getContainerIp :: "string \<Rightarrow> (unit, string option) result"

section \<open>Authentication\<close>

record ParsedSignatureHeaders =
  ps_targetNodeId :: string
  ps_nonce :: string
  ps_ts :: rat
  ps_kid :: string
  ps_clientIp :: string
  ps_signature :: string

definition readSignatureHeaders :: "crypto_lib \<Rightarrow> http_req \<Rightarrow> ParsedSignatureHeaders option" where
  "readSignatureHeaders lib req =
     (case (truthy (header req ''x-privos-target-node''), truthy (header req ''x-privos-nonce''),
            truthy (header req ''x-privos-ts''), truthy (header req ''x-privos-kid''),
            truthy (header req ''x-privos-client-ip''), truthy (header req ''x-privos-sig'')) of
        (Some targetNodeId, Some nonce, Some tsRaw, Some kid, Some clientIp, Some signature) \<Rightarrow>
          (case to_number lib tsRaw of
             None \<Rightarrow> None
           | Some ts \<Rightarrow> Some \<lparr>ps_targetNodeId = targetNodeId, ps_nonce = nonce, ps_ts = ts, ps_kid = kid,
               ps_clientIp = clientIp, ps_signature = signature\<rparr>)
      | _ \<Rightarrow> None)"

datatype AuthResult = AuthOk string | AuthFailed nat string

text \<open>\<open>req.headers.host ?? dflt\<close>: Node keeps one \<open>host\<close> value.\<close>

definition host_or :: "string \<Rightarrow> http_req \<Rightarrow> string" where
  "host_or dflt req = (case header req ''host'' of Some h \<Rightarrow> h | None \<Rightarrow> dflt)"

definition live_fields :: "http_req \<Rightarrow> ParsedSignatureHeaders \<Rightarrow> SignedRequestFields" where
  "live_fields req parsed = \<lparr>sf_targetNodeId = ps_targetNodeId parsed, sf_nonce = ps_nonce parsed,
     sf_ts = ps_ts parsed, sf_method = method_of req, sf_host = host_or [] req,
     sf_requestTarget = url_of req, sf_clientIp = ps_clientIp parsed\<rparr>"

definition authenticateRuntimeRequest ::
  "crypto_lib \<Rightarrow> RuntimeListenerDeps \<Rightarrow> http_req \<Rightarrow> int \<Rightarrow> nonce_log \<Rightarrow> AuthResult \<times> nonce_log" where
  "authenticateRuntimeRequest lib deps req now seen =
     (case readSignatureHeaders lib req of
        None \<Rightarrow> (AuthFailed 401 ''signature_missing'', seen)
      | Some parsed \<Rightarrow>
          if ps_targetNodeId parsed \<noteq> selfMeshIp deps then (AuthFailed 403 ''wrong_target_node'', seen)
          else if \<bar>of_int now - ps_ts parsed\<bar> > of_int SIGNATURE_TS_SKEW_MS
          then (AuthFailed 403 ''signature_stale'', seen)
          else case findSigningKeyByKid deps (ps_kid parsed) of
            None \<Rightarrow> (AuthFailed 401 ''signing_key_unknown'', seen)
          | Some key \<Rightarrow>
              if \<not> verifyRequest lib (live_fields req parsed) (ps_signature parsed) (sk_publicJwk key)
              then (AuthFailed 401 ''signature_invalid'', seen)
              else
                (let (fresh, seen') = checkAndRemember default_ttl_ms seen (ps_nonce parsed) now in
                 if \<not> fresh then (AuthFailed 401 ''signature_replayed'', seen')
                 else (AuthOk (ps_clientIp parsed), seen')))"

section \<open>Resolution and header sets\<close>

datatype ResolveError = RE_unknown_host | RE_no_route | RE_upstream_unavailable

record RuntimeTarget =
  rtg_url :: string
  rtg_containerId :: string

text \<open>The outer \<open>Inl\<close> is a rejected \<open>findContainerByAppId\<close>, which this function does not catch.\<close>

definition resolveTarget ::
  "RuntimeListenerDeps \<Rightarrow> string \<Rightarrow> string \<Rightarrow> (unit, (ResolveError, RuntimeTarget) result) result" where
  "resolveTarget deps host path =
     (case findAppByHost deps host of
        None \<Rightarrow> Inr (Inl RE_unknown_host)
      | Some app \<Rightarrow>
          if matchLongestPrefix path [\<lparr>route_prefix = ''/'', route_value = True\<rparr>] = None
          then Inr (Inl RE_no_route)
          else bindE (findContainerByAppId deps (ra_appId app) (ra_workspaceId app)) (\<lambda>found.
            case found of
              None \<Rightarrow> Inr (Inl RE_upstream_unavailable)
            | Some c \<Rightarrow>
                if c_state c \<noteq> CS_running then Inr (Inl RE_upstream_unavailable)
                else
                  (case getContainerIp deps (c_dockerContainerId c) of
                     Inl _ \<Rightarrow> Inr (Inl RE_upstream_unavailable)
                   | Inr ip \<Rightarrow>
                       (case truthy ip of
                          None \<Rightarrow> Inr (Inl RE_upstream_unavailable)
                        | Some addr \<Rightarrow> Inr (Inr \<lparr>rtg_url = http_origin addr (c_port c), rtg_containerId = c_id c\<rparr>)))))"

definition buildForwardedHeaders :: "http_req \<Rightarrow> string \<Rightarrow> string \<Rightarrow> string list \<Rightarrow> string obj" where
  "buildForwardedHeaders req clientIp host hopByHop =
     (let copied = copy_headers (\<lambda>lower. lower \<in> set hopByHop \<or> starts_with ''x-forwarded-'' lower
            \<or> lower \<in> set EDGE_SIGNATURE_HEADERS) (req_headers req) [] in
      obj_set ''x-forwarded-host'' host
        (obj_set ''x-forwarded-proto'' ''https''
          (obj_set ''x-forwarded-for'' clientIp (obj_set ''host'' host copied))))"

fun buildResponseHeaders_from :: "headers \<Rightarrow> headers \<Rightarrow> headers" where
  "buildResponseHeaders_from [] out = out"
| "buildResponseHeaders_from ((key, v) # hs) out =
     (if v = Undef then buildResponseHeaders_from hs out
      else if to_lower key \<in> set RESP_HOP_BY_HOP then buildResponseHeaders_from hs out
      else if to_lower key = ''set-cookie''
      then buildResponseHeaders_from hs (obj_set key (Many (stripPrivosLinkCookieDomains
             (case v of Many vs \<Rightarrow> vs | One s \<Rightarrow> [s] | Undef \<Rightarrow> []))) out)
      else buildResponseHeaders_from hs (obj_set key v out))"

definition buildResponseHeaders :: "headers \<Rightarrow> headers" where
  "buildResponseHeaders upstreamHeaders = buildResponseHeaders_from upstreamHeaders []"

section \<open>The handlers\<close>

text \<open>\<open>JSON.stringify({ error: code })\<close>\<close>

definition error_json :: "string \<Rightarrow> string" where
  "error_json code = ''{'' @ json_quote ''error'' @ '':'' @ json_quote code @ ''}''"

definition sendJsonError :: "nat \<Rightarrow> string \<Rightarrow> client_reply" where
  "sendJsonError status code =
     Reply status [(''content-type'', One ''application/json''), (''cache-control'', One ''no-store'')] (error_json code)"

definition sendUnknownHost :: client_reply where
  "sendUnknownHost = Reply 404 [(''content-type'', One ''text/plain''), (''cache-control'', One ''no-store''),
     (''x-privos-error'', One ''unknown-host'')] ''404 Not Found''"

text \<open>
  \<open>handleRequest\<close> gives the request it dials (if any), its answer, and the nonce log afterwards.
  \<open>fetch\<close> is undici's \<open>request\<close>, \<open>toASCII\<close> the URL parser's IDNA step.
\<close>

definition handleRequest ::
  "crypto_lib \<Rightarrow> (string \<Rightarrow> string option) \<Rightarrow> (upstream_req \<Rightarrow> upstream_resp option) \<Rightarrow> RuntimeListenerDeps \<Rightarrow>
     http_req \<Rightarrow> int \<Rightarrow> nonce_log \<Rightarrow> upstream_req option \<times> client_reply \<times> nonce_log" where
  "handleRequest lib toASCII fetch deps req now seen =
     (let (auth, seen') = authenticateRuntimeRequest lib deps req now seen in
      case auth of
        AuthFailed status code \<Rightarrow> (None, sendJsonError status code, seen')
      | AuthOk clientIp \<Rightarrow>
          (case canonicalizePath toASCII (url_of req) of
             None \<Rightarrow> (None, sendPlain 400 ''400 Bad Request'', seen')
           | Some canonical \<Rightarrow>
               if BLOCKED_MCP_PATH (pathname canonical) then (None, sendPlain 404 ''404 Not Found'', seen')
               else
                 (let host = host_or [] req in
                  case resolveTarget deps host (pathname canonical) of
                    Inl _ \<Rightarrow> (None, Unhandled, seen')
                  | Inr (Inl RE_unknown_host) \<Rightarrow> (None, sendUnknownHost, seen')
                  | Inr (Inl RE_no_route) \<Rightarrow> (None, sendPlain 404 ''404 Not Found'', seen')
                  | Inr (Inl RE_upstream_unavailable) \<Rightarrow> (None, sendPlain 502 ''502 Bad Gateway'', seen')
                  | Inr (Inr target) \<Rightarrow>
                      (let up = \<lparr>up_url = rtg_url target @ pathname canonical @ search canonical,
                                 up_method = method_of req,
                                 up_headers = buildForwardedHeaders req clientIp host HOP_BY_HOP,
                                 up_body = has_body req\<rparr> in
                       case fetch up of
                         None \<Rightarrow> (Some up, sendPlain 502 ''502 Bad Gateway'', seen')
                       | Some upstream \<Rightarrow>
                           (Some up, Piped (us_status upstream) (buildResponseHeaders (us_headers upstream)), seen')))))"

definition rejectUpgrade :: "nat \<Rightarrow> string \<Rightarrow> upgrade_outcome" where
  "rejectUpgrade status reason =
     UpgradeRefused (''HTTP/1.1 '' @ show_nat status @ '' '' @ reason @ crlf @ ''Connection: close'' @ crlf @ crlf)"

definition handleUpgrade ::
  "crypto_lib \<Rightarrow> (string \<Rightarrow> string option) \<Rightarrow> RuntimeListenerDeps \<Rightarrow> http_req \<Rightarrow> string \<Rightarrow> int \<Rightarrow> nonce_log \<Rightarrow>
     upgrade_outcome \<times> nonce_log" where
  "handleUpgrade lib toASCII deps req head_bytes now seen =
     (let (auth, seen') = authenticateRuntimeRequest lib deps req now seen in
      case auth of
        AuthFailed status _ \<Rightarrow> (rejectUpgrade status ''Forbidden'', seen')
      | AuthOk clientIp \<Rightarrow>
          (case canonicalizePath toASCII (url_of req) of
             None \<Rightarrow> (rejectUpgrade 400 ''Bad Request'', seen')
           | Some canonical \<Rightarrow>
               if BLOCKED_MCP_PATH (pathname canonical) then (rejectUpgrade 404 ''Not Found'', seen')
               else
                 (let host = host_or [] req in
                  case resolveTarget deps host (pathname canonical) of
                    Inl _ \<Rightarrow> (UpgradeDestroyed, seen')
                  | Inr (Inl e) \<Rightarrow> (rejectUpgrade (if e = RE_upstream_unavailable then 502 else 404) ''Not Found'', seen')
                  | Inr (Inr target) \<Rightarrow>
                      (UpgradeTunnel (rtg_url target)
                         (raw_head (undefined_str (req_method req) @ '' '' @ pathname canonical @ search canonical @ '' HTTP/1.1'')
                            (buildForwardedHeaders req clientIp host UPGRADE_HOP_BY_HOP) @ head_bytes), seen'))))"

definition runtimeDeps ::
  "string option \<Rightarrow> HostTables \<Rightarrow> (string \<Rightarrow> string \<Rightarrow> (unit, Container option) result) \<Rightarrow>
     (string \<Rightarrow> (unit, string option) result) \<Rightarrow> RuntimeListenerDeps" where
  "runtimeDeps MESH_BIND_IP tables containers ips =
     \<lparr>selfMeshIp = (case MESH_BIND_IP of Some ip \<Rightarrow> ip | None \<Rightarrow> []),
      findAppByHost = findRuntimeAppByHost tables, findSigningKeyByKid = findSigningKey tables,
      findContainerByAppId = containers, getContainerIp = ips\<rparr>"

section \<open>Authentication: soundness and replay\<close>

definition valid_request :: "crypto_lib \<Rightarrow> RuntimeListenerDeps \<Rightarrow> http_req \<Rightarrow> int \<Rightarrow> ParsedSignatureHeaders \<Rightarrow> bool" where
  "valid_request lib deps req now parsed \<longleftrightarrow>
     readSignatureHeaders lib req = Some parsed \<and> ps_targetNodeId parsed = selfMeshIp deps \<and>
     \<bar>of_int now - ps_ts parsed\<bar> \<le> 30000 \<and>
     (\<exists>key. findSigningKeyByKid deps (ps_kid parsed) = Some key \<and>
        verifyRequest lib (live_fields req parsed) (ps_signature parsed) (sk_publicJwk key))"

lemma auth_unfold:
  "authenticateRuntimeRequest lib deps req now seen =
     (case readSignatureHeaders lib req of
        Some parsed \<Rightarrow>
          if valid_request lib deps req now parsed
          then (if fst (checkAndRemember 60000 seen (ps_nonce parsed) now)
                then (AuthOk (ps_clientIp parsed), snd (checkAndRemember 60000 seen (ps_nonce parsed) now))
                else (AuthFailed 401 ''signature_replayed'', snd (checkAndRemember 60000 seen (ps_nonce parsed) now)))
          else authenticateRuntimeRequest lib deps req now seen
      | None \<Rightarrow> (AuthFailed 401 ''signature_missing'', seen))"
  by (auto simp: authenticateRuntimeRequest_def valid_request_def SIGNATURE_TS_SKEW_MS_def default_ttl_ms_def
      Let_def split: option.splits prod.splits)

lemma auth_valid:
  assumes "valid_request lib deps req now parsed"
  shows "authenticateRuntimeRequest lib deps req now seen =
    (if fst (checkAndRemember 60000 seen (ps_nonce parsed) now) then AuthOk (ps_clientIp parsed)
     else AuthFailed 401 ''signature_replayed'',
     snd (checkAndRemember 60000 seen (ps_nonce parsed) now))"
proof -
  from assms have "readSignatureHeaders lib req = Some parsed" by (simp add: valid_request_def)
  with assms show ?thesis by (subst auth_unfold) simp
qed

lemma auth_invalid:
  assumes "\<And>parsed. \<not> valid_request lib deps req now parsed"
  shows "\<exists>status code. authenticateRuntimeRequest lib deps req now seen = (AuthFailed status code, seen)
    \<and> code \<noteq> ''signature_replayed''"
  using assms
  by (auto simp: authenticateRuntimeRequest_def valid_request_def SIGNATURE_TS_SKEW_MS_def split: option.splits)

lemma auth_cases:
  obtains (valid) parsed where "valid_request lib deps req now parsed"
      "snd (authenticateRuntimeRequest lib deps req now seen) = snd (checkAndRemember 60000 seen (ps_nonce parsed) now)"
    | (invalid) status code where "authenticateRuntimeRequest lib deps req now seen = (AuthFailed status code, seen)"
  using auth_valid auth_invalid by (metis snd_conv)

lemma auth_keeps_live:
  "live_at seen n t' \<Longrightarrow> now \<le> t' \<Longrightarrow> live_at (snd (authenticateRuntimeRequest lib deps req now seen)) n t'"
  by (cases rule: auth_cases [of lib deps req now seen]) (auto intro: rc.keeps)

text \<open>A sequence of inbound requests, each with the clock reading at its arrival.\<close>

definition serve :: "crypto_lib \<Rightarrow> RuntimeListenerDeps \<Rightarrow> (http_req \<times> int) list \<Rightarrow> nonce_log \<Rightarrow> nonce_log" where
  "serve lib deps xs seen = fold (\<lambda>(req, now) s. snd (authenticateRuntimeRequest lib deps req now s)) xs seen"

lemma serve_keeps_live:
  "live_at seen n t' \<Longrightarrow> \<forall>(req, now) \<in> set xs. now \<le> t' \<Longrightarrow> live_at (serve lib deps xs seen) n t'"
proof (induction xs arbitrary: seen)
  case (Cons x xs)
  obtain req now where x: "x = (req, now)" by force
  have "live_at (snd (authenticateRuntimeRequest lib deps req now seen)) n t'"
    using Cons.prems x by (intro auth_keeps_live) auto
  with Cons.IH Cons.prems(2) x show ?case by (simp add: serve_def)
qed (simp add: serve_def)

lemma auth_okD:
  assumes "authenticateRuntimeRequest lib deps req now seen = (AuthOk ip, seen')"
  obtains parsed where "valid_request lib deps req now parsed" "ip = ps_clientIp parsed"
    "\<not> live_at seen (ps_nonce parsed) now" "\<forall>t < now + 60000. live_at seen' (ps_nonce parsed) t"
proof (cases "\<exists>parsed. valid_request lib deps req now parsed")
  case True
  then obtain parsed where v: "valid_request lib deps req now parsed" by blast
  from auth_valid [OF v, of seen] assms have ok: "fst (checkAndRemember 60000 seen (ps_nonce parsed) now)"
    "ip = ps_clientIp parsed" "seen' = snd (checkAndRemember 60000 seen (ps_nonce parsed) now)"
    by (auto split: if_splits)
  show thesis
    by (rule that [OF v ok(2)]) (use ok rc.accept_iff rc.remembers in auto)
next
  case False
  with auth_invalid [of lib deps req now seen] assms show thesis by auto
qed

text \<open>A concrete cryptography and request, for evaluating the listener.\<close>

definition demo_lib :: crypto_lib where
  "demo_lib = \<lparr>sign = \<lambda>k m. CHR ''s'' # m, verify = \<lambda>k m s. Some (s = CHR ''s'' # m), sha256_b64url = (\<lambda>s. s),
     to_number = (\<lambda>s. if s = ''40000'' then Some 40000 else None), number_str = (\<lambda>n. ''40000'')\<rparr>"

definition demo_jwk :: jwk where
  "demo_jwk = \<lparr>jwk_kty = ''OKP'', jwk_crv = ''Ed25519'', jwk_x = Some ''x'', jwk_d = None\<rparr>"

definition demo_req :: http_req where
  "demo_req = \<lparr>req_method = Some ''GET'', req_url = Some ''/v1?q=1'',
     req_headers = [(''host'', One ''app.privos.link''), (''x-privos-target-node'', One ''10.0.0.2''),
       (''x-privos-nonce'', One ''n1''), (''x-privos-ts'', One ''40000''), (''x-privos-kid'', One ''k1''),
       (''x-privos-client-ip'', One ''1.2.3.4''),
       (''x-privos-sig'', One (CHR ''s'' # canonicalSigningString demo_lib \<lparr>sf_targetNodeId = ''10.0.0.2'',
          sf_nonce = ''n1'', sf_ts = 40000, sf_method = ''GET'', sf_host = ''app.privos.link'',
          sf_requestTarget = ''/v1?q=1'', sf_clientIp = ''1.2.3.4''\<rparr>)),
       (''X-Forwarded-For'', One ''6.6.6.6''), (''accept'', One ''*/*'')]\<rparr>"

definition demo_container :: Container where
  "demo_container = \<lparr>c_id = ''c1'', c_appId = Some ''a1'', c_workspaceId = Some ''w1'', c_listingId = None,
     c_versionDigest = None, c_securityProfile = None, c_dockerContainerId = ''d1'', c_dockerContainerName = ''n'',
     c_image = ''i'', c_tag = ''t'', c_imageDigest = None, c_state = CS_running, c_internalUrl = [],
     c_port = 3001, c_hostPort = None, c_resources = \<lparr>memoryMb = 256, cpus = 1, tmpSizeMb = 64\<rparr>, c_envVars = JObj [] None,
     c_healthCheck = \<lparr>hc_status = HS_unknown, hc_failCount = 0, hc_restartCount = 0, hc_lastCheck = None\<rparr>,
     c_createdAt = 0, c_startedAt = None, c_stoppedAt = None, c_volumes = [], c_subdomain = None, c_domain = None,
     c_healthPolicy = \<lparr>hp_path = ''/health'', hp_maxFails = 3, hp_restart = True\<rparr>, c_mcpV2 = True, c_mcpV3 = True,
     c_oomKilledAt = None\<rparr>"

definition demo_deps :: RuntimeListenerDeps where
  "demo_deps = \<lparr>selfMeshIp = ''10.0.0.2'',
     findAppByHost = (\<lambda>h. if h = ''app.privos.link'' then Some \<lparr>ra_appId = ''a1'', ra_workspaceId = ''w1'',
       ra_containerId = ''x'', ra_hosts = [h]\<rparr> else None),
     findSigningKeyByKid = (\<lambda>k. if k = ''k1'' then Some \<lparr>sk_nodeId = ''ing'', sk_kid = k, sk_publicJwk = demo_jwk\<rparr> else None),
     findContainerByAppId = (\<lambda>a w. Inr (if a = ''a1'' \<and> w = ''w1'' then Some demo_container else None)),
     getContainerIp = (\<lambda>_. Inr (Some ''172.18.0.5''))\<rparr>"

definition demo_parsed :: ParsedSignatureHeaders where
  "demo_parsed = \<lparr>ps_targetNodeId = ''10.0.0.2'', ps_nonce = ''n1'', ps_ts = 40000, ps_kid = ''k1'',
     ps_clientIp = ''1.2.3.4'', ps_signature = CHR ''s'' # canonicalSigningString demo_lib \<lparr>sf_targetNodeId = ''10.0.0.2'',
          sf_nonce = ''n1'', sf_ts = 40000, sf_method = ''GET'', sf_host = ''app.privos.link'',
          sf_requestTarget = ''/v1?q=1'', sf_clientIp = ''1.2.3.4''\<rparr>\<rparr>"

lemma demo_headers: "readSignatureHeaders demo_lib demo_req = Some demo_parsed"
  by code_simp

lemma demo_valid: "valid_request demo_lib demo_deps demo_req now demo_parsed \<longleftrightarrow> \<bar>of_int now - 40000\<bar> \<le> (30000 :: rat)"
  unfolding valid_request_def demo_headers
  by (simp add: demo_parsed_def demo_deps_def verifyRequest_def demo_lib_def live_fields_def demo_req_def
      method_of_def host_or_def header_def firstHeader_def url_of_def)

lemma demo_auth:
  "10000 \<le> now \<Longrightarrow> now \<le> 70000 \<Longrightarrow>
     authenticateRuntimeRequest demo_lib demo_deps demo_req now seen =
       (if fst (checkAndRemember 60000 seen ''n1'' now) then AuthOk ''1.2.3.4'' else AuthFailed 401 ''signature_replayed'',
        snd (checkAndRemember 60000 seen ''n1'' now))"
proof -
  assume "10000 \<le> now" "now \<le> 70000"
  then have "\<bar>of_int now - 40000\<bar> \<le> (30000 :: rat)" by linarith
  with demo_valid have "valid_request demo_lib demo_deps demo_req now demo_parsed" by blast
  from auth_valid [OF this, of seen] show ?thesis
    by (simp add: demo_parsed_def)
qed

text \<open>
  C24. A request passes the runtime listener's authentication exactly when its six signature
  headers are present, it is addressed to this node, its timestamp is within 30 s of the clock,
  its key id names a known ingress signing key, that key verifies the signature over the live
  method, host and request target, and its nonce is not live in the replay cache.
\<close>

theorem authenticateRuntimeRequest_accepts_iff:
  "fst (authenticateRuntimeRequest lib deps req now seen) = AuthOk ip \<longleftrightarrow>
     (\<exists>parsed key. readSignatureHeaders lib req = Some parsed
        \<and> ps_targetNodeId parsed = selfMeshIp deps
        \<and> \<bar>of_int now - ps_ts parsed\<bar> \<le> 30000
        \<and> findSigningKeyByKid deps (ps_kid parsed) = Some key
        \<and> verifyRequest lib (live_fields req parsed) (ps_signature parsed) (sk_publicJwk key)
        \<and> \<not> live_at seen (ps_nonce parsed) now
        \<and> ip = ps_clientIp parsed)" (is "?L \<longleftrightarrow> ?R")
proof
  assume ?L
  then obtain seen' where "authenticateRuntimeRequest lib deps req now seen = (AuthOk ip, seen')"
    by (metis prod.collapse)
  then show ?R by (rule auth_okD) (auto simp: valid_request_def)
next
  assume ?R
  then obtain parsed where "valid_request lib deps req now parsed" "\<not> live_at seen (ps_nonce parsed) now"
    "ip = ps_clientIp parsed" by (auto simp: valid_request_def)
  then show ?L by (simp add: auth_valid rc.accept_iff)
qed

text \<open>
  C28. A refused request never consumes a nonce: at every later time the same nonces are live as
  without it, so an unauthenticated sender cannot burn the nonce of a genuine request.
\<close>

theorem refused_request_consumes_no_nonce:
  assumes "authenticateRuntimeRequest lib deps req now seen = (AuthFailed status code, seen')"
    and "now \<le> t"
  shows "live_at seen' n t = live_at seen n t"
proof (cases "\<exists>parsed. valid_request lib deps req now parsed")
  case True
  then obtain parsed where v: "valid_request lib deps req now parsed" by blast
  from auth_valid [OF v, of seen] assms(1) have "seen' = sweep now seen"
    by (auto simp: checkAndRemember_def Let_def split: if_splits)
  with live_at_sweep [OF assms(2)] show ?thesis by simp
next
  case False
  with auth_invalid [of lib deps req now seen] assms(1) show ?thesis by auto
qed

lemma refused_request_consumes_no_nonce_witness: "live_at [(''n1'', 90000)] ''n1'' (45000::int) = True"
proof -
  have "authenticateRuntimeRequest demo_lib demo_deps demo_req 40000 [(''n1'', 90000)]
    = (AuthFailed 401 ''signature_replayed'', [(''n1'', 90000)])"
    by (simp add: demo_auth checkAndRemember_def sweep_def)
  from refused_request_consumes_no_nonce [OF this, of 45000 "''n1''"] show ?thesis
    by (simp add: live_at_def)
qed

text \<open>
  C2. Replay protection over any traffic in between: if two requests carrying the same nonce and
  timestamp are both accepted, then the first arrived exactly 30 s before its timestamp and the
  second exactly 60 s after the first. Every other replay is refused.
\<close>

theorem replay_only_at_boundary:
  assumes "authenticateRuntimeRequest lib deps req1 t1 seen = (AuthOk ip1, seen1)"
    and "\<forall>(req, t) \<in> set traffic. t \<le> t2"
    and "authenticateRuntimeRequest lib deps req2 t2 (serve lib deps traffic seen1) = (AuthOk ip2, seen2)"
    and "readSignatureHeaders lib req1 = Some p1" and "readSignatureHeaders lib req2 = Some p2"
    and "ps_nonce p2 = ps_nonce p1" and "ps_ts p2 = ps_ts p1"
  shows "t2 = t1 + 60000 \<and> ps_ts p1 = of_int t1 + 30000"
proof -
  from assms(1) obtain q1 where q1: "valid_request lib deps req1 t1 q1"
    "\<forall>t < t1 + 60000. live_at seen1 (ps_nonce q1) t" by (rule auth_okD)
  from assms(3) obtain q2 where q2: "valid_request lib deps req2 t2 q2"
    "\<not> live_at (serve lib deps traffic seen1) (ps_nonce q2) t2" by (rule auth_okD)
  have q: "q1 = p1" "q2 = p2" using q1(1) q2(1) assms(4,5) by (auto simp: valid_request_def)
  have "t1 + 60000 \<le> t2"
  proof (rule ccontr)
    assume "\<not> t1 + 60000 \<le> t2"
    then have "live_at seen1 (ps_nonce p1) t2" using q1(2) q by simp
    then have "live_at (serve lib deps traffic seen1) (ps_nonce p1) t2"
      using assms(2) by (rule serve_keeps_live)
    with q2(2) q assms(6) show False by simp
  qed
  moreover have "\<bar>of_int t1 - ps_ts p1\<bar> \<le> 30000" "\<bar>of_int t2 - ps_ts p1\<bar> \<le> 30000"
    using q1(1) q2(1) q assms(7) by (auto simp: valid_request_def)
  moreover from \<open>t1 + 60000 \<le> t2\<close> have "of_int t1 + 60000 \<le> (of_int t2 :: rat)"
    by (metis of_int_add of_int_le_iff of_int_numeral)
  ultimately have "(of_int t2 :: rat) = of_int t1 + 60000" "ps_ts p1 = of_int t1 + 30000" by linarith+
  then show ?thesis by (metis of_int_add of_int_eq_iff of_int_numeral)
qed

text \<open>The boundary case exists: the cache entry is dropped at the instant it expires.\<close>

lemma boundary_replay_accepted:
  "authenticateRuntimeRequest demo_lib demo_deps demo_req 10000 [] = (AuthOk ''1.2.3.4'', [(''n1'', 70000)])"
  "authenticateRuntimeRequest demo_lib demo_deps demo_req 70000 [(''n1'', 70000)] = (AuthOk ''1.2.3.4'', [(''n1'', 130000)])"
  by (simp_all add: demo_auth checkAndRemember_def sweep_def)

lemma replay_only_at_boundary_witness: "(70000::int) = 10000 + 60000 \<and> ps_ts demo_parsed = of_int 10000 + 30000"
  by (rule replay_only_at_boundary [where traffic = "[]", OF boundary_replay_accepted(1) _ _ demo_headers demo_headers])
    (simp_all add: serve_def boundary_replay_accepted(2))

section \<open>What reaches a container\<close>

lemma lower_lits: "to_lower ''host'' = ''host''" "to_lower ''x-forwarded-for'' = ''x-forwarded-for''"
  "to_lower ''x-forwarded-proto'' = ''x-forwarded-proto''" "to_lower ''x-forwarded-host'' = ''x-forwarded-host''"
  by code_simp+

lemma forwarded_lookup:
  "map_of (buildForwardedHeaders req clientIp host hop) ''host'' = Some host"
  "map_of (buildForwardedHeaders req clientIp host hop) ''x-forwarded-for'' = Some clientIp"
  "map_of (buildForwardedHeaders req clientIp host hop) ''x-forwarded-proto'' = Some ''https''"
  "map_of (buildForwardedHeaders req clientIp host hop) ''x-forwarded-host'' = Some host"
  by (simp_all add: buildForwardedHeaders_def Let_def)

lemma forwarded_keys:
  assumes "k \<in> keys (buildForwardedHeaders req clientIp host hop)"
  shows "k \<in> {''host'', ''x-forwarded-for'', ''x-forwarded-proto'', ''x-forwarded-host''} \<or>
    (k \<in> keys (req_headers req) \<and> to_lower k \<notin> set hop \<and> \<not> starts_with ''x-forwarded-'' (to_lower k)
      \<and> to_lower k \<notin> set EDGE_SIGNATURE_HEADERS)"
  using assms keys_copy_headers [of k "\<lambda>lower. lower \<in> set hop \<or> starts_with ''x-forwarded-'' lower
      \<or> lower \<in> set EDGE_SIGNATURE_HEADERS" "req_headers req" "[]"]
  by (auto simp: buildForwardedHeaders_def Let_def)

lemma resolveTarget_found:
  assumes "resolveTarget deps host path = Inr (Inr target)"
  shows "\<exists>app c ip. findAppByHost deps host = Some app
    \<and> findContainerByAppId deps (ra_appId app) (ra_workspaceId app) = Inr (Some c) \<and> c_state c = CS_running
    \<and> getContainerIp deps (c_dockerContainerId c) = Inr (Some ip) \<and> ip \<noteq> []
    \<and> rtg_url target = http_origin ip (c_port c) \<and> rtg_containerId target = c_id c"
proof -
  from assms obtain app where app: "findAppByHost deps host = Some app"
    by (cases "findAppByHost deps host") (simp_all add: resolveTarget_def)
  with assms obtain found where f: "findContainerByAppId deps (ra_appId app) (ra_workspaceId app) = Inr found"
    by (cases "findContainerByAppId deps (ra_appId app) (ra_workspaceId app)")
      (simp_all add: resolveTarget_def split: if_splits)
  from assms app f obtain c where c: "found = Some c" "c_state c = CS_running"
    by (cases found) (simp_all add: resolveTarget_def split: if_splits)
  from assms app f c obtain ipo where i: "getContainerIp deps (c_dockerContainerId c) = Inr ipo"
    by (cases "getContainerIp deps (c_dockerContainerId c)") (simp_all add: resolveTarget_def split: if_splits)
  from assms app f c i obtain ip where ip: "truthy ipo = Some ip"
    by (cases "truthy ipo") (simp_all add: resolveTarget_def split: if_splits)
  with assms app f c i have "target = \<lparr>rtg_url = http_origin ip (c_port c), rtg_containerId = c_id c\<rparr>"
    by (simp add: resolveTarget_def truthy_def split: if_splits)
  with app f c i ip show ?thesis by auto
qed

text \<open>
  C1. The runtime listener dials a container only for an authenticated request whose canonical
  path is outside the private MCP surfaces, and then only the running container of the app and
  workspace the host table names for the live \<open>Host\<close>, at that container's own IP and port. The
  container sees the canonical path, the authenticated client address and the public host; no
  other \<open>X-Forwarded-*\<close>, edge signature or hop-by-hop header passes.
\<close>

theorem runtime_dials_only_authorised:
  assumes "handleRequest lib toASCII fetch deps req now seen = (Some up, reply, seen')"
  shows "\<exists>parsed canonical app c ip.
      valid_request lib deps req now parsed \<and> \<not> live_at seen (ps_nonce parsed) now
      \<and> canonicalizePath toASCII (url_of req) = Some canonical \<and> \<not> BLOCKED_MCP_PATH (pathname canonical)
      \<and> findAppByHost deps (host_or [] req) = Some app
      \<and> findContainerByAppId deps (ra_appId app) (ra_workspaceId app) = Inr (Some c) \<and> c_state c = CS_running
      \<and> getContainerIp deps (c_dockerContainerId c) = Inr (Some ip)
      \<and> up_url up = http_origin ip (c_port c) @ pathname canonical @ search canonical
      \<and> map_of (up_headers up) ''host'' = Some (host_or [] req)
      \<and> map_of (up_headers up) ''x-forwarded-for'' = Some (ps_clientIp parsed)
      \<and> map_of (up_headers up) ''x-forwarded-host'' = Some (host_or [] req)
      \<and> (\<forall>k \<in> keys (up_headers up). k \<in> {''host'', ''x-forwarded-for'', ''x-forwarded-proto'', ''x-forwarded-host''}
           \<or> (to_lower k \<notin> set HOP_BY_HOP \<and> \<not> starts_with ''x-forwarded-'' (to_lower k)
               \<and> to_lower k \<notin> set EDGE_SIGNATURE_HEADERS))"
proof -
  obtain auth s where a: "authenticateRuntimeRequest lib deps req now seen = (auth, s)" by force
  with assms obtain clientIp where ok: "auth = AuthOk clientIp"
    by (cases auth) (auto simp: handleRequest_def)
  with assms a obtain canonical where c: "canonicalizePath toASCII (url_of req) = Some canonical"
    by (cases "canonicalizePath toASCII (url_of req)") (auto simp: handleRequest_def)
  with assms a ok have nb: "\<not> BLOCKED_MCP_PATH (pathname canonical)"
    by (auto simp: handleRequest_def split: if_splits)
  with assms a ok c obtain target where t: "resolveTarget deps (host_or [] req) (pathname canonical) = Inr (Inr target)"
    by (auto simp: handleRequest_def Let_def split: sum.splits ResolveError.splits)
  have up: "up_url up = rtg_url target @ pathname canonical @ search canonical"
    "up_headers up = buildForwardedHeaders req clientIp (host_or [] req) HOP_BY_HOP"
    using assms a ok c nb t by (auto simp: handleRequest_def Let_def split: option.splits)
  from a ok obtain parsed where p: "valid_request lib deps req now parsed" "clientIp = ps_clientIp parsed"
    "\<not> live_at seen (ps_nonce parsed) now" by (auto elim: auth_okD)
  from resolveTarget_found [OF t] obtain app ct ip where r: "findAppByHost deps (host_or [] req) = Some app"
    "findContainerByAppId deps (ra_appId app) (ra_workspaceId app) = Inr (Some ct)" "c_state ct = CS_running"
    "getContainerIp deps (c_dockerContainerId ct) = Inr (Some ip)" "rtg_url target = http_origin ip (c_port ct)" by blast
  have "\<forall>k \<in> keys (up_headers up). k \<in> {''host'', ''x-forwarded-for'', ''x-forwarded-proto'', ''x-forwarded-host''}
      \<or> (to_lower k \<notin> set HOP_BY_HOP \<and> \<not> starts_with ''x-forwarded-'' (to_lower k)
         \<and> to_lower k \<notin> set EDGE_SIGNATURE_HEADERS)"
    unfolding up(2) using forwarded_keys by blast
  with p c nb r up forwarded_lookup show ?thesis
    by (intro exI [of _ parsed] exI [of _ canonical] exI [of _ app] exI [of _ ct] exI [of _ ip]) simp
qed

definition demo_up :: upstream_req where
  "demo_up = \<lparr>up_url = ''http://172.18.0.5:3001/v1?q=1'', up_method = ''GET'',
     up_headers = [(''accept'', ''*/*''), (''host'', ''app.privos.link''), (''x-forwarded-for'', ''1.2.3.4''),
       (''x-forwarded-proto'', ''https''), (''x-forwarded-host'', ''app.privos.link'')], up_body = False\<rparr>"

lemma demo_dial:
  "handleRequest demo_lib Some (\<lambda>_. None) demo_deps demo_req 40000 []
     = (Some demo_up, sendPlain 502 ''502 Bad Gateway'', [(''n1'', 100000)])"
proof -
  have "authenticateRuntimeRequest demo_lib demo_deps demo_req 40000 [] = (AuthOk ''1.2.3.4'', [(''n1'', 100000)])"
    by (simp add: demo_auth checkAndRemember_def sweep_def)
  moreover have "canonicalizePath Some (url_of demo_req) = Some \<lparr>pathname = ''/v1'', search = ''?q=1''\<rparr>" by code_simp
  moreover have "\<not> BLOCKED_MCP_PATH ''/v1''" by code_simp
  moreover have "resolveTarget demo_deps (host_or [] demo_req) ''/v1'' =
      Inr (Inr \<lparr>rtg_url = ''http://172.18.0.5:3001'', rtg_containerId = ''c1''\<rparr>)" by code_simp
  moreover have "buildForwardedHeaders demo_req ''1.2.3.4'' (host_or [] demo_req) HOP_BY_HOP = up_headers demo_up"
    by code_simp
  ultimately show ?thesis
    by (simp add: handleRequest_def demo_up_def method_of_def has_body_def demo_req_def)
qed

lemma runtime_dials_only_authorised_witness:
  "\<exists>(parsed :: ParsedSignatureHeaders) (app :: RuntimeApp).
     valid_request demo_lib demo_deps demo_req 40000 parsed
     \<and> findAppByHost demo_deps (host_or [] demo_req) = Some app
     \<and> map_of (up_headers demo_up) ''x-forwarded-for'' = Some (ps_clientIp parsed)"
  by (insert runtime_dials_only_authorised [OF demo_dial], elim exE conjE) (intro exI conjI; assumption)

text \<open>
  Two observations. The private-surface test sees the percent-encoded path, so an encoded letter
  passes it; and the \<open>unknown-host\<close> marker the ingress node retries on is also copied through
  from a container's own response.
\<close>

lemma encoded_mcp_path_not_blocked:
  "canonicalizePath toASCII ''/%6dcp'' = Some \<lparr>pathname = ''/%6dcp'', search = []\<rparr>"
  "\<not> BLOCKED_MCP_PATH ''/%6dcp''" "BLOCKED_MCP_PATH ''/mcp''"
  by code_simp+

lemma container_can_send_unknown_host_marker:
  "buildResponseHeaders [(''x-privos-error'', One ''unknown-host'')] = [(''x-privos-error'', One ''unknown-host'')]"
  by code_simp

end
