(* ===== verification/Ingress_Listener.thy ===== *)
theory Ingress_Listener
  imports Runtime_Listener
begin

text \<open>
  The loopback ingress listener, \<open>src/proxy/ingress-listener.ts\<close>: exact-host lookup, the signed
  header set of the hop to a runtime node, the retry loop over a rule's replicas, and the request
  and upgrade handlers. The last section joins it with the runtime listener.
\<close>

definition HEALTH_STALE_MS :: int where
  "HEALTH_STALE_MS = 10 * 60000"

definition HOP_BY_HOP_ingress :: "string list" where
  "HOP_BY_HOP_ingress = [''connection'', ''keep-alive'', ''proxy-authenticate'', ''proxy-authorization'',
     ''te'', ''trailer'', ''transfer-encoding'', ''upgrade'']"

definition UPGRADE_HOP_BY_HOP_ingress :: "string list" where
  "UPGRADE_HOP_BY_HOP_ingress = [''keep-alive'', ''proxy-authenticate'', ''proxy-authorization'', ''te'',
     ''trailer'', ''transfer-encoding'']"

record IngressListenerDeps =
  ing_nodeId :: string
  ing_selfMeshIp :: "string option"
  findRuleByHost :: "string \<Rightarrow> IngressRule option"
  signingIdentity :: SigningIdentity
  isTableStale :: "int \<Rightarrow> bool"
  dialTarget :: "string \<Rightarrow> string \<times> int"

text \<open>\<open>(rawHost ?? '').split(':')[0].trim().toLowerCase().replace(/\.$/, '')\<close>\<close>

definition hostOnly :: "string option \<Rightarrow> string" where
  "hostOnly rawHost = strip_trailing_dot (to_lower (trim
     (hd (split_on CHR '':'' (case rawHost of Some h \<Rightarrow> h | None \<Rightarrow> [])))))"

definition clientIpFrom :: "http_req \<Rightarrow> string option" where
  "clientIpFrom req =
     (case header req ''cf-connecting-ip'' of
        Some v \<Rightarrow> if v \<noteq> [] \<and> trim v \<noteq> [] then Some (trim v) else None
      | None \<Rightarrow> None)"

definition pickNodeOrder :: "IngressRule \<Rightarrow> string option \<Rightarrow> string list" where
  "pickNodeOrder rule self =
     (case truthy self of
        None \<Rightarrow> ir_nodes rule
      | Some ip \<Rightarrow> filter (\<lambda>n. n = ip) (ir_nodes rule) @ filter (\<lambda>n. n \<noteq> ip) (ir_nodes rule))"

definition stripClientHeaders :: "http_req \<Rightarrow> string list \<Rightarrow> string obj" where
  "stripClientHeaders req hopByHop =
     copy_headers (\<lambda>lower. lower \<in> set hopByHop \<or> lower = ''host'' \<or> starts_with ''x-forwarded-'' lower
       \<or> lower \<in> set EDGE_SIGNATURE_HEADERS) (req_headers req) []"

text \<open>\<open>fresh\<close> is the nonce and the clock reading the call draws.\<close>

definition signed_fields :: "http_req \<Rightarrow> string \<Rightarrow> string \<Rightarrow> string \<Rightarrow> string \<times> int \<Rightarrow> SignedRequestFields" where
  "signed_fields req meshIp host clientIp fresh = \<lparr>sf_targetNodeId = meshIp, sf_nonce = fst fresh,
     sf_ts = of_int (snd fresh), sf_method = method_of req, sf_host = host, sf_requestTarget = url_of req,
     sf_clientIp = clientIp\<rparr>"

definition signedHeadersFor ::
  "crypto_lib \<Rightarrow> IngressListenerDeps \<Rightarrow> http_req \<Rightarrow> string \<Rightarrow> string \<Rightarrow> string \<Rightarrow> string list \<Rightarrow> string \<times> int \<Rightarrow> string obj" where
  "signedHeadersFor lib deps req meshIp host clientIp hopByHop fresh =
     (let fields = signed_fields req meshIp host clientIp fresh in
      obj_set ''x-privos-sig'' (signRequest lib fields (si_privateKey (signingIdentity deps)))
       (obj_set ''x-privos-client-ip'' clientIp
        (obj_set ''x-privos-kid'' (si_kid (signingIdentity deps))
         (obj_set ''x-privos-ts'' (number_str lib (sf_ts fields))
          (obj_set ''x-privos-nonce'' (sf_nonce fields)
           (obj_set ''x-privos-target-node'' meshIp
            (obj_set ''host'' host (stripClientHeaders req hopByHop))))))))"

definition buildResponseHeaders_ingress :: "headers \<Rightarrow> headers" where
  "buildResponseHeaders_ingress upstreamHeaders =
     fold (\<lambda>(key, v) out. if v = Undef \<or> to_lower key \<in> set RESP_HOP_BY_HOP then out else obj_set key v out)
       upstreamHeaders []"

text \<open>The UTF-8 octets of the em dash in the suspended page.\<close>

definition sendSuspended :: client_reply where
  "sendSuspended = Reply 503 [(''content-type'', One ''text/plain''), (''cache-control'', One ''no-store''),
     (''retry-after'', One ''60'')]
     (''503 Service Unavailable '' @ map char_of [226, 128, 148 :: nat] @ '' workspace suspended'')"

section \<open>The forward loop\<close>

definition unknown_host_answer :: "upstream_resp \<Rightarrow> bool" where
  "unknown_host_answer upstream \<longleftrightarrow> us_status upstream = 404
     \<and> firstHeader (map_of (us_headers upstream) ''x-privos-error'') = Some ''unknown-host''"

text \<open>
  One iteration per replica. \<open>fresh i\<close> and \<open>fetch i\<close> are the nonce, clock and network outcome of
  attempt \<open>i\<close>; the result lists the requests dialled, in order, and the answer to the client.
\<close>

definition forward_request ::
  "crypto_lib \<Rightarrow> IngressListenerDeps \<Rightarrow> http_req \<Rightarrow> string \<Rightarrow> string \<Rightarrow> string \<times> int \<Rightarrow> string \<Rightarrow> upstream_req" where
  "forward_request lib deps req host clientIp fresh meshIp =
     (let (dial_host, dial_port) = dialTarget deps meshIp in
      \<lparr>up_url = http_origin dial_host dial_port @ url_of req, up_method = method_of req,
       up_headers = signedHeadersFor lib deps req meshIp (host_or host req) clientIp HOP_BY_HOP_ingress fresh,
       up_body = has_body req\<rparr>)"

fun forward_loop ::
  "crypto_lib \<Rightarrow> (nat \<Rightarrow> upstream_req \<Rightarrow> upstream_resp option) \<Rightarrow> IngressListenerDeps \<Rightarrow> http_req \<Rightarrow> string \<Rightarrow> string \<Rightarrow>
     (nat \<Rightarrow> string \<times> int) \<Rightarrow> nat \<Rightarrow> bool \<Rightarrow> nat \<times> string \<Rightarrow> string list \<Rightarrow> upstream_req list \<times> client_reply" where
  "forward_loop lib fetch deps req host clientIp fresh i bodyConsumed lastError [] =
     ([], sendPlain (fst lastError) (snd lastError))"
| "forward_loop lib fetch deps req host clientIp fresh i bodyConsumed lastError (meshIp # order) =
     (if bodyConsumed then ([], sendPlain (fst lastError) (snd lastError))
      else
        (let up = forward_request lib deps req host clientIp (fresh i) meshIp
         in case fetch i up of
              None \<Rightarrow>
                (let (dials, reply) = forward_loop lib fetch deps req host clientIp fresh (Suc i)
                   (bodyConsumed \<or> has_body req) (502, ''502 Bad Gateway'') order
                 in (up # dials, reply))
            | Some upstream \<Rightarrow>
                if unknown_host_answer upstream
                then (let (dials, reply) = forward_loop lib fetch deps req host clientIp fresh (Suc i)
                        (bodyConsumed \<or> has_body req) (404, ''404 Not Found'') order
                      in (up # dials, reply))
                else ([up], Piped (us_status upstream) (buildResponseHeaders_ingress (us_headers upstream)))))"

definition plain_ok :: "string \<Rightarrow> client_reply" where
  "plain_ok body = Reply 200 [(''content-type'', One ''text/plain'')] body"

definition find_rule :: "IngressListenerDeps \<Rightarrow> http_req \<Rightarrow> IngressRule option" where
  "find_rule deps req = (let host = hostOnly (header req ''host'') in
     if host \<noteq> [] then findRuleByHost deps host else None)"

definition handleRequest_ingress ::
  "crypto_lib \<Rightarrow> (nat \<Rightarrow> upstream_req \<Rightarrow> upstream_resp option) \<Rightarrow> (nat \<Rightarrow> string \<times> int) \<Rightarrow> IngressListenerDeps \<Rightarrow>
     http_req \<Rightarrow> int \<Rightarrow> upstream_req list \<times> client_reply" where
  "handleRequest_ingress lib fetch fresh deps req now =
     (let pathOnly = hd (split_on CHR ''?'' (url_of req)) in
      if pathOnly = ''/_privos/ingress-id'' then ([], plain_ok (ing_nodeId deps))
      else if pathOnly = ''/healthz''
      then (if isTableStale deps now then ([], sendPlain 503 ''503 stale'') else ([], plain_ok ''ok''))
      else
        (case find_rule deps req of
           None \<Rightarrow> ([], sendPlain 404 ''404 Not Found'')
         | Some rule \<Rightarrow>
             if ir_suspended rule then ([], sendSuspended)
             else (case clientIpFrom req of
                 None \<Rightarrow> ([], sendPlain 400 ''400 Bad Request'')
               | Some clientIp \<Rightarrow>
                   forward_loop lib fetch deps req (hostOnly (header req ''host'')) clientIp fresh 0 False
                     (502, ''502 Bad Gateway'') (pickNodeOrder rule (ing_selfMeshIp deps)))))"

definition handleUpgrade_ingress ::
  "crypto_lib \<Rightarrow> string \<times> int \<Rightarrow> IngressListenerDeps \<Rightarrow> http_req \<Rightarrow> string \<Rightarrow> upgrade_outcome" where
  "handleUpgrade_ingress lib fresh deps req head_bytes =
     (case find_rule deps req of
        None \<Rightarrow> UpgradeDestroyed
      | Some rule \<Rightarrow>
          if ir_suspended rule then UpgradeDestroyed
          else (case clientIpFrom req of
              None \<Rightarrow> UpgradeDestroyed
            | Some clientIp \<Rightarrow>
                (case pickNodeOrder rule (ing_selfMeshIp deps) of
                   [] \<Rightarrow> UpgradeDestroyed
                 | meshIp # _ \<Rightarrow>
                     if meshIp = [] then UpgradeDestroyed
                     else
                       (let hs = signedHeadersFor lib deps req meshIp
                                   (host_or (hostOnly (header req ''host'')) req) clientIp UPGRADE_HOP_BY_HOP_ingress fresh;
                            (dial_host, dial_port) = dialTarget deps meshIp
                        in UpgradeTunnel (http_origin dial_host dial_port)
                             (raw_head (undefined_str (req_method req) @ '' '' @ undefined_str (req_url req) @ '' HTTP/1.1'') hs
                                @ head_bytes)))))"

definition ingressDeps ::
  "string \<Rightarrow> string option \<Rightarrow> int \<Rightarrow> SigningIdentity \<Rightarrow> HostTables \<Rightarrow> IngressListenerDeps" where
  "ingressDeps FLEET_NODE_ID_cfg MESH_BIND_IP RUNTIME_PROXY_PORT ident tables =
     \<lparr>ing_nodeId = FLEET_NODE_ID_cfg, ing_selfMeshIp = MESH_BIND_IP, findRuleByHost = findIngressRuleByHost tables,
      signingIdentity = ident,
      isTableStale = (\<lambda>now. case ingressTableAgeMs tables now of None \<Rightarrow> True | Some age \<Rightarrow> age > HEALTH_STALE_MS),
      dialTarget = (\<lambda>ip. (ip, RUNTIME_PROXY_PORT))\<rparr>"

section \<open>Which requests are dialled\<close>

text \<open>What lets the loop go on to the next replica: a network failure or the unknown-host marker.\<close>

definition retryable :: "upstream_resp option \<Rightarrow> bool" where
  "retryable r \<longleftrightarrow> (case r of None \<Rightarrow> True | Some upstream \<Rightarrow> unknown_host_answer upstream)"

definition failure_answer :: "nat \<times> string \<Rightarrow> upstream_resp option list \<Rightarrow> client_reply" where
  "failure_answer dflt outcomes =
     (if outcomes = [] then sendPlain (fst dflt) (snd dflt)
      else case last outcomes of
        None \<Rightarrow> sendPlain 502 ''502 Bad Gateway''
      | Some _ \<Rightarrow> sendPlain 404 ''404 Not Found'')"

lemma forward_loop_dials:
  assumes "forward_loop lib fetch deps req host clientIp fresh i consumed err order = (dials, reply)"
  shows "length dials \<le> length order
    \<and> (\<forall>j < length dials. dials ! j = forward_request lib deps req host clientIp (fresh (i + j)) (order ! j))
    \<and> (\<forall>j. Suc j < length dials \<longrightarrow> retryable (fetch (i + j) (dials ! j)))
    \<and> (consumed \<longrightarrow> dials = []) \<and> (has_body req \<longrightarrow> length dials \<le> 1)"
  using assms
proof (induction order arbitrary: i consumed err dials)
  case (Cons meshIp order)
  define up where "up = forward_request lib deps req host clientIp (fresh i) meshIp"
  show ?case
  proof (cases consumed)
    case True
    with Cons.prems show ?thesis by simp
  next
    case nc: False
    show ?thesis
    proof (cases "retryable (fetch i up)")
      case True
      define err' where "err' = (case fetch i up of None \<Rightarrow> (502::nat, ''502 Bad Gateway'') | Some _ \<Rightarrow> (404, ''404 Not Found''))"
      have "(dials, reply) = (let (d, r) = forward_loop lib fetch deps req host clientIp fresh (Suc i)
          (has_body req) err' order in (up # d, r))"
        using Cons.prems nc True
        by (cases "fetch i up") (auto simp: up_def [symmetric] retryable_def err'_def Let_def split: prod.splits)
      then obtain d where d: "dials = up # d"
        "forward_loop lib fetch deps req host clientIp fresh (Suc i) (has_body req) err' order = (d, reply)"
        by (auto split: prod.splits)
      note IH = Cons.IH [OF d(2)]
      have "dials ! j = forward_request lib deps req host clientIp (fresh (i + j)) ((meshIp # order) ! j)"
        if "j < length dials" for j
        using that IH d(1) by (cases j) (auto simp: up_def)
      moreover have "retryable (fetch (i + j) (dials ! j))" if "Suc j < length dials" for j
        using that IH d(1) True by (cases j) auto
      ultimately show ?thesis using IH d(1) nc by auto
    next
      case False
      with Cons.prems nc have "dials = [up]"
        by (cases "fetch i up") (auto simp: up_def [symmetric] retryable_def Let_def split: prod.splits if_splits)
      with nc show ?thesis by (auto simp: up_def)
    qed
  qed
qed simp

lemma forward_loop_reply:
  assumes "forward_loop lib fetch deps req host clientIp fresh i consumed err order = (dials, reply)"
  shows "(\<exists>upstream. dials \<noteq> [] \<and> fetch (i + length dials - 1) (last dials) = Some upstream
            \<and> \<not> unknown_host_answer upstream
            \<and> reply = Piped (us_status upstream) (buildResponseHeaders_ingress (us_headers upstream)))
       \<or> ((\<forall>j < length dials. retryable (fetch (i + j) (dials ! j)))
            \<and> (\<not> consumed \<and> \<not> has_body req \<longrightarrow> length dials = length order)
            \<and> reply = failure_answer err (map (\<lambda>j. fetch (i + j) (dials ! j)) [0..<length dials]))"
  using assms
proof (induction order arbitrary: i consumed err dials)
  case Nil
  then show ?case by (simp add: failure_answer_def)
next
  case (Cons meshIp order)
  define up where "up = forward_request lib deps req host clientIp (fresh i) meshIp"
  show ?case
  proof (cases consumed)
    case True
    with Cons.prems show ?thesis by (simp add: failure_answer_def)
  next
    case nc: False
    show ?thesis
    proof (cases "retryable (fetch i up)")
      case True
      define err' where "err' = (case fetch i up of None \<Rightarrow> (502::nat, ''502 Bad Gateway'') | Some _ \<Rightarrow> (404, ''404 Not Found''))"
      have "(dials, reply) = (let (d, r) = forward_loop lib fetch deps req host clientIp fresh (Suc i)
          (has_body req) err' order in (up # d, r))"
        using Cons.prems nc True
        by (cases "fetch i up") (auto simp: up_def [symmetric] retryable_def err'_def Let_def split: prod.splits)
      then obtain d where d: "dials = up # d"
        "forward_loop lib fetch deps req host clientIp fresh (Suc i) (has_body req) err' order = (d, reply)"
        by (auto split: prod.splits)
      have shift: "map (\<lambda>j. fetch (i + j) (dials ! j)) [0..<length dials]
          = fetch i up # map (\<lambda>j. fetch (Suc i + j) (d ! j)) [0..<length d]"
        by (simp add: d(1) upt_conv_Cons map_Suc_upt [symmetric] del: upt_Suc)
      have fa: "failure_answer err (fetch i up # xs) = failure_answer err' xs" for xs
        by (auto simp: failure_answer_def err'_def split: option.splits)
      have re: "(\<forall>j < length dials. retryable (fetch (i + j) (dials ! j))) \<longleftrightarrow>
          (\<forall>j < length d. retryable (fetch (Suc i + j) (d ! j)))"
        unfolding d(1) using True by (simp add: All_less_Suc2)
      from Cons.IH [OF d(2)] show ?thesis
      proof (elim disjE exE)
        fix upstream
        assume a: "d \<noteq> [] \<and> fetch (Suc i + length d - 1) (last d) = Some upstream \<and> \<not> unknown_host_answer upstream
          \<and> reply = Piped (us_status upstream) (buildResponseHeaders_ingress (us_headers upstream))"
        then show ?thesis by (intro disjI1 exI [of _ upstream]) (simp add: d(1))
      next
        assume a: "(\<forall>j < length d. retryable (fetch (Suc i + j) (d ! j)))
            \<and> (\<not> has_body req \<and> \<not> has_body req \<longrightarrow> length d = length order)
            \<and> reply = failure_answer err' (map (\<lambda>j. fetch (Suc i + j) (d ! j)) [0..<length d])"
        then show ?thesis unfolding re shift fa using d(1) by auto
      qed
    next
      case False
      then obtain upstream where u: "fetch i up = Some upstream" "\<not> unknown_host_answer upstream"
        by (auto simp: retryable_def split: option.splits)
      with Cons.prems nc have "dials = [up]"
        "reply = Piped (us_status upstream) (buildResponseHeaders_ingress (us_headers upstream))"
        by (auto simp: up_def [symmetric] Let_def)
      with u show ?thesis by simp
    qed
  qed
qed

lemma find_rule_host: "find_rule deps req = Some rule \<Longrightarrow> hostOnly (header req ''host'') \<noteq> []"
  by (auto simp: find_rule_def Let_def split: if_splits)

lemma ingress_forwards:
  assumes "handleRequest_ingress lib fetch fresh deps req now = (dials, reply)" and "dials \<noteq> []"
  obtains rule clientIp where "find_rule deps req = Some rule" "\<not> ir_suspended rule" "clientIpFrom req = Some clientIp"
    "forward_loop lib fetch deps req (hostOnly (header req ''host'')) clientIp fresh 0 False (502, ''502 Bad Gateway'')
       (pickNodeOrder rule (ing_selfMeshIp deps)) = (dials, reply)"
proof -
  from assms obtain rule where rule: "find_rule deps req = Some rule"
    by (cases "find_rule deps req") (auto simp: handleRequest_ingress_def Let_def split: if_splits)
  with assms have "\<not> ir_suspended rule" by (auto simp: handleRequest_ingress_def Let_def split: if_splits)
  moreover from this assms rule obtain clientIp where "clientIpFrom req = Some clientIp"
    by (cases "clientIpFrom req") (auto simp: handleRequest_ingress_def Let_def split: if_splits)
  ultimately show thesis
    using assms rule that by (auto simp: handleRequest_ingress_def Let_def split: if_splits)
qed

definition demo_rule :: IngressRule where
  "demo_rule = \<lparr>ir_host = ''app.privos.link'', ir_appId = ''a1'', ir_workspaceId = ''w1'',
     ir_nodes = [''10.0.0.3'', ''10.0.0.2''], ir_suspended = False\<rparr>"

definition demo_ingress :: IngressListenerDeps where
  "demo_ingress = \<lparr>ing_nodeId = ''ing'', ing_selfMeshIp = Some ''10.0.0.2'',
     findRuleByHost = (\<lambda>h. if h = ir_host demo_rule then Some demo_rule else None),
     signingIdentity = \<lparr>si_nodeId = ''ing'', si_kid = ''k1'', si_privateKey = demo_jwk, si_publicJwk = demo_jwk\<rparr>,
     isTableStale = (\<lambda>_. False), dialTarget = (\<lambda>ip. (ip, 7800))\<rparr>"

definition demo_client :: "string \<Rightarrow> http_req" where
  "demo_client meth = \<lparr>req_method = Some meth, req_url = Some ''/v1?q=1'',
     req_headers = [(''host'', One ''app.privos.link''), (''cf-connecting-ip'', One '' 1.2.3.4''),
       (''x-forwarded-for'', One ''6.6.6.6''), (''x-privos-client-ip'', One ''6.6.6.6''), (''accept'', One ''*/*'')]\<rparr>"

lemma demo_ingress_run:
  "find_rule demo_ingress (demo_client meth) = Some demo_rule"
  "clientIpFrom (demo_client meth) = Some ''1.2.3.4''"
  "pickNodeOrder demo_rule (ing_selfMeshIp demo_ingress) = [''10.0.0.2'', ''10.0.0.3'']"
  "\<not> ir_suspended demo_rule"
proof -
  have h: "header (demo_client meth) ''host'' = Some ''app.privos.link''"
    "header (demo_client meth) ''cf-connecting-ip'' = Some '' 1.2.3.4''"
    by (simp_all add: header_def demo_client_def firstHeader_def)
  have "hostOnly (Some ''app.privos.link'') = ''app.privos.link''" by code_simp
  then show "find_rule demo_ingress (demo_client meth) = Some demo_rule"
    by (simp add: find_rule_def h demo_ingress_def demo_rule_def)
  have "trim '' 1.2.3.4'' = ''1.2.3.4''" by code_simp
  then show "clientIpFrom (demo_client meth) = Some ''1.2.3.4''" by (simp add: clientIpFrom_def h)
  show "pickNodeOrder demo_rule (ing_selfMeshIp demo_ingress) = [''10.0.0.2'', ''10.0.0.3'']"
    by (simp add: pickNodeOrder_def demo_ingress_def demo_rule_def truthy_def)
qed (simp add: demo_rule_def)

lemma demo_ingress_post:
  "\<exists>up. handleRequest_ingress demo_lib (\<lambda>_ _. None) (\<lambda>_. (''n1'', 40000)) demo_ingress (demo_client ''POST'') 0
     = ([up], sendPlain 502 ''502 Bad Gateway'')"
  by (simp add: handleRequest_ingress_def Let_def demo_ingress_run)
    (simp add: demo_client_def url_of_def demo_ingress_def Let_def has_body_def method_of_def)

text \<open>
  C16. The ingress listener forwards only for a known, unsuspended exact host and a Cloudflare
  client address, to the rule's replicas in order (this node first). It goes on to the next
  replica only after a network failure or the unknown-host marker, and a request with a body is
  sent at most once.
\<close>

theorem ingress_retries_safely:
  assumes "handleRequest_ingress lib fetch fresh deps req now = (dials, reply)" and "dials \<noteq> []"
  shows "\<exists>rule clientIp. find_rule deps req = Some rule \<and> \<not> ir_suspended rule \<and> clientIpFrom req = Some clientIp
    \<and> length dials \<le> length (pickNodeOrder rule (ing_selfMeshIp deps))
    \<and> (\<forall>j < length dials. dials ! j = forward_request lib deps req (hostOnly (header req ''host'')) clientIp (fresh j)
          (pickNodeOrder rule (ing_selfMeshIp deps) ! j))
    \<and> (\<forall>j. Suc j < length dials \<longrightarrow> retryable (fetch j (dials ! j)))
    \<and> (has_body req \<longrightarrow> length dials = 1)"
proof -
  from ingress_forwards [OF assms] obtain rule clientIp where
    r: "find_rule deps req = Some rule" "\<not> ir_suspended rule" "clientIpFrom req = Some clientIp"
    and l: "forward_loop lib fetch deps req (hostOnly (header req ''host'')) clientIp fresh 0 False (502, ''502 Bad Gateway'')
       (pickNodeOrder rule (ing_selfMeshIp deps)) = (dials, reply)" .
  from forward_loop_dials [OF l] assms(2) have "has_body req \<longrightarrow> length dials = 1"
    by (cases dials) auto
  with forward_loop_dials [OF l] r show ?thesis by auto
qed

lemma ingress_retries_safely_witness:
  "\<exists>up. handleRequest_ingress demo_lib (\<lambda>_ _. None) (\<lambda>_. (''n1'', 40000)) demo_ingress (demo_client ''POST'') 0
      = ([up], sendPlain 502 ''502 Bad Gateway'')
    \<and> up = forward_request demo_lib demo_ingress (demo_client ''POST'') (hostOnly (header (demo_client ''POST'') ''host''))
        ''1.2.3.4'' (''n1'', 40000) ''10.0.0.2''"
proof -
  from demo_ingress_post obtain up where
    e: "handleRequest_ingress demo_lib (\<lambda>_ _. None) (\<lambda>_. (''n1'', 40000)) demo_ingress (demo_client ''POST'') 0
      = ([up], sendPlain 502 ''502 Bad Gateway'')" by blast
  from ingress_retries_safely [OF this] e demo_ingress_run show ?thesis by auto
qed

text \<open>
  C27. The client of a bodiless request gets the first genuine answer: the response of the last
  replica dialled when it is not the unknown-host marker; otherwise every replica of the rule was
  tried and failed, and the answer is 404 or 502 after the last failure.
\<close>

theorem ingress_first_genuine_answer:
  assumes "handleRequest_ingress lib fetch fresh deps req now = (dials, reply)" and "dials \<noteq> []"
    and "\<not> has_body req"
  shows "(\<exists>upstream. fetch (length dials - 1) (last dials) = Some upstream \<and> \<not> unknown_host_answer upstream
            \<and> reply = Piped (us_status upstream) (buildResponseHeaders_ingress (us_headers upstream)))
       \<or> (\<exists>rule. find_rule deps req = Some rule \<and> length dials = length (pickNodeOrder rule (ing_selfMeshIp deps))
            \<and> (\<forall>j < length dials. retryable (fetch j (dials ! j)))
            \<and> reply = (if fetch (length dials - 1) (last dials) = None then sendPlain 502 ''502 Bad Gateway''
                       else sendPlain 404 ''404 Not Found''))"
proof -
  from ingress_forwards [OF assms(1,2)] obtain rule clientIp where r: "find_rule deps req = Some rule"
    and l: "forward_loop lib fetch deps req (hostOnly (header req ''host'')) clientIp fresh 0 False (502, ''502 Bad Gateway'')
       (pickNodeOrder rule (ing_selfMeshIp deps)) = (dials, reply)" by blast
  have "failure_answer (502, ''502 Bad Gateway'') (map (\<lambda>j. fetch (0 + j) (dials ! j)) [0..<length dials])
      = (if fetch (length dials - 1) (last dials) = None then sendPlain 502 ''502 Bad Gateway''
         else sendPlain 404 ''404 Not Found'')"
    using assms(2) by (auto simp: failure_answer_def last_map last_conv_nth split: option.splits)
  with forward_loop_reply [OF l] r assms(3) show ?thesis by auto
qed

lemma ingress_first_genuine_answer_witness:
  "\<exists>up1 up2. handleRequest_ingress demo_lib (\<lambda>_ _. None) (\<lambda>_. (''n1'', 40000)) demo_ingress (demo_client ''GET'') 0
      = ([up1, up2], sendPlain 502 ''502 Bad Gateway'')
    \<and> length [up1, up2] = length (pickNodeOrder demo_rule (ing_selfMeshIp demo_ingress))"
proof -
  have "\<exists>up1 up2. handleRequest_ingress demo_lib (\<lambda>_ _. None) (\<lambda>_. (''n1'', 40000)) demo_ingress (demo_client ''GET'') 0
      = ([up1, up2], sendPlain 502 ''502 Bad Gateway'')"
    by (simp add: handleRequest_ingress_def Let_def demo_ingress_run)
      (simp add: demo_client_def url_of_def demo_ingress_def Let_def has_body_def method_of_def)
  then obtain up1 up2 where e: "handleRequest_ingress demo_lib (\<lambda>_ _. None) (\<lambda>_. (''n1'', 40000)) demo_ingress (demo_client ''GET'') 0
      = ([up1, up2], sendPlain 502 ''502 Bad Gateway'')" by blast
  have "\<not> has_body (demo_client ''GET'')" by (simp add: has_body_def method_of_def demo_client_def)
  from ingress_first_genuine_answer [OF e _ this] demo_ingress_run(1) e show ?thesis by auto
qed

section \<open>The signed hop\<close>

lemma lower_edge: "h \<in> set EDGE_SIGNATURE_HEADERS \<Longrightarrow> to_lower h = h"
  unfolding EDGE_SIGNATURE_HEADERS_def by (auto simp: to_lower_def lower_char_def)

lemma signed_lookup:
  fixes lib deps req meshIp host clientIp hop fresh
  defines "H \<equiv> map_of (signedHeadersFor lib deps req meshIp host clientIp hop fresh)"
  shows "H ''host'' = Some host" "H ''x-privos-target-node'' = Some meshIp"
    "H ''x-privos-nonce'' = Some (fst fresh)" "H ''x-privos-ts'' = Some (number_str lib (of_int (snd fresh)))"
    "H ''x-privos-kid'' = Some (si_kid (signingIdentity deps))" "H ''x-privos-client-ip'' = Some clientIp"
    "H ''x-privos-sig'' = Some (signRequest lib (signed_fields req meshIp host clientIp fresh) (si_privateKey (signingIdentity deps)))"
  by (simp_all add: H_def signedHeadersFor_def Let_def signed_fields_def)

lemma signed_keys:
  assumes "k \<in> keys (signedHeadersFor lib deps req meshIp host clientIp hop fresh)"
  shows "k = ''host'' \<or> k \<in> set EDGE_SIGNATURE_HEADERS \<or>
    (k \<in> keys (req_headers req) \<and> to_lower k \<notin> set hop \<and> to_lower k \<noteq> ''host''
      \<and> \<not> starts_with ''x-forwarded-'' (to_lower k) \<and> to_lower k \<notin> set EDGE_SIGNATURE_HEADERS)"
  using assms keys_copy_headers [of k "\<lambda>lower. lower \<in> set hop \<or> lower = ''host'' \<or> starts_with ''x-forwarded-'' lower
      \<or> lower \<in> set EDGE_SIGNATURE_HEADERS" "req_headers req" "[]"]
  by (auto simp: signedHeadersFor_def Let_def stripClientHeaders_def EDGE_SIGNATURE_HEADERS_def)

text \<open>The request as the runtime node's HTTP parser gives it back.\<close>

definition received :: "http_req \<Rightarrow> upstream_req \<Rightarrow> http_req" where
  "received req up = \<lparr>req_method = Some (up_method up), req_url = Some (url_of req),
     req_headers = map (\<lambda>(k, v). (k, One v)) (up_headers up)\<rparr>"

lemma received_header: "header (received req up) k = map_of (up_headers up) k"
proof -
  have "map_of (map (\<lambda>(k, v). (k, One v)) xs) k = map_option One (map_of xs k)" for xs :: "string obj"
    by (induction xs) auto
  then show ?thesis
    by (simp add: header_def received_def firstHeader_def split: option.splits)
qed

lemma forward_request_headers:
  "up_headers (forward_request lib deps req host clientIp fresh meshIp)
     = signedHeadersFor lib deps req meshIp (host_or host req) clientIp HOP_BY_HOP_ingress fresh"
  "up_method (forward_request lib deps req host clientIp fresh meshIp) = method_of req"
  by (simp_all add: forward_request_def split: prod.splits)

text \<open>
  What the ingress listener sends carries only its own signature headers: the client address
  and target it signed, never a client-sent \<open>X-Forwarded-*\<close> or signature header, and no
  hop-by-hop header; the original \<open>Host\<close> travels unchanged.
\<close>

theorem ingress_header_hygiene:
  "(let H = up_headers (forward_request lib deps req host clientIp fresh meshIp) in
     map_of H ''x-privos-client-ip'' = Some clientIp \<and> map_of H ''x-privos-target-node'' = Some meshIp
     \<and> map_of H ''host'' = Some (host_or host req)
     \<and> map_of H ''x-privos-sig'' = Some (signRequest lib (signed_fields req meshIp (host_or host req) clientIp fresh)
          (si_privateKey (signingIdentity deps)))
     \<and> {k \<in> keys H. starts_with ''x-forwarded-'' (to_lower k) \<or> to_lower k \<in> set HOP_BY_HOP_ingress} = {}
     \<and> {k \<in> keys H. to_lower k \<in> set EDGE_SIGNATURE_HEADERS} \<subseteq> set EDGE_SIGNATURE_HEADERS)"
proof -
  let ?H = "up_headers (forward_request lib deps req host clientIp fresh meshIp)"
  have e: "\<not> starts_with ''x-forwarded-'' (to_lower k)" "to_lower k \<notin> set HOP_BY_HOP_ingress"
    if "k = ''host'' \<or> k \<in> set EDGE_SIGNATURE_HEADERS" for k
  proof -
    have "\<forall>k \<in> set (''host'' # EDGE_SIGNATURE_HEADERS). \<not> starts_with ''x-forwarded-'' (to_lower k)
        \<and> to_lower k \<notin> set HOP_BY_HOP_ingress" by code_simp
    moreover from that have "k \<in> set (''host'' # EDGE_SIGNATURE_HEADERS)" unfolding list.set(2) by blast
    ultimately show "\<not> starts_with ''x-forwarded-'' (to_lower k)" "to_lower k \<notin> set HOP_BY_HOP_ingress" by blast+
  qed
  have h: "to_lower ''host'' \<notin> set EDGE_SIGNATURE_HEADERS" by code_simp
  have "\<not> starts_with ''x-forwarded-'' (to_lower k) \<and> to_lower k \<notin> set HOP_BY_HOP_ingress
      \<and> (to_lower k \<in> set EDGE_SIGNATURE_HEADERS \<longrightarrow> k \<in> set EDGE_SIGNATURE_HEADERS)" if "k \<in> keys ?H" for k
  proof -
    note that [unfolded forward_request_headers]
    from signed_keys [OF this] consider "k = ''host''" | "k \<in> set EDGE_SIGNATURE_HEADERS"
      | "to_lower k \<notin> set HOP_BY_HOP_ingress" "\<not> starts_with ''x-forwarded-'' (to_lower k)"
        "to_lower k \<notin> set EDGE_SIGNATURE_HEADERS" by blast
    then show ?thesis using e [of k] h by cases simp_all
  qed
  then have "{k \<in> keys ?H. starts_with ''x-forwarded-'' (to_lower k) \<or> to_lower k \<in> set HOP_BY_HOP_ingress} = {}"
    and "{k \<in> keys ?H. to_lower k \<in> set EDGE_SIGNATURE_HEADERS} \<subseteq> set EDGE_SIGNATURE_HEADERS" by blast+
  then show ?thesis by (simp add: Let_def forward_request_headers signed_lookup)
qed


definition demo_fresh :: "string \<times> int" where
  "demo_fresh = (''n1'', 40000)"


end
