(* ===== verification/Host_Table_Publisher.thy ===== *)
theory Host_Table_Publisher
  imports Master_Types Host_Table App_Host_Registry Ingress_Listener
begin

text \<open>
  The global routing-table publisher, \<open>src/master/host-table-publisher.ts\<close>: the snapshot it builds
  from the apps, nodes and registered hosts, the two tables it pushes, and the single-flight,
  coalescing pump with its retries as a state machine whose events are the writes and marks of the
  rest of the master and the completions of the pump's own awaited calls.
\<close>

section \<open>The snapshot\<close>

record fleet_db =
  fd_apps :: "MasterApp list"
  fd_nodes :: "MasterNode list"
  fd_hosts :: app_hosts

record HostTableSnapshot =
  sn_apps :: "MasterApp list"
  sn_runtimeNodes :: "MasterNode list"
  sn_ingressNodes :: "MasterNode list"
  sn_rules :: "IngressRule list"
  sn_signingKeys :: "SigningKey list"

definition runtime_role :: "MasterNode \<Rightarrow> bool" where
  "runtime_role n = (mn_role n = None \<or> mn_role n = Some RUNTIME \<or> mn_role n = Some BOTH)"

definition ingress_role :: "MasterNode \<Rightarrow> bool" where
  "ingress_role n = (mn_role n = Some INGRESS \<or> mn_role n = Some BOTH)"

text \<open>\<open>[...new Set(xs)]\<close>\<close>

fun dedup :: "'a list \<Rightarrow> 'a list" where
  "dedup [] = []"
| "dedup (x # xs) = x # filter (\<lambda>y. y \<noteq> x) (dedup xs)"

definition mesh_ips :: "MasterNode list \<Rightarrow> MasterApp \<Rightarrow> string list" where
  "mesh_ips runtimeNodes app = dedup (concat (map (\<lambda>replica.
     case List.find (\<lambda>n. mn_nodeId n = rp_nodeId replica) runtimeNodes of
       None \<Rightarrow> []
     | Some n \<Rightarrow> (case truthy (mn_meshIp n) of None \<Rightarrow> [] | Some ip \<Rightarrow> [ip])) (ma_replicas app)))"

definition app_rules :: "string \<Rightarrow> MasterNode list \<Rightarrow> app_hosts \<Rightarrow> MasterApp \<Rightarrow> IngressRule list" where
  "app_rules baseDomain runtimeNodes hosts app = (let
     meshIps = mesh_ips runtimeNodes app;
     suspended = (ma_state app \<noteq> ''RUNNING'');
     rows = filter (\<lambda>(_, r). ah_appId r = ma_appId app) hosts
   in if rows \<noteq> [] then
        map (\<lambda>(h, r). \<lparr>ir_host = h, ir_appId = ma_appId app, ir_workspaceId = ma_workspaceId app, ir_nodes = meshIps,
          ir_suspended = (suspended \<or> ah_state r = WS_SUSPENDED \<or> ah_state r = SUSPENDED)\<rparr>) rows
      else (case truthy (ma_subdomain app) of
          Some sub \<Rightarrow> [\<lparr>ir_host = sub @ ''.'' @ baseDomain, ir_appId = ma_appId app, ir_workspaceId = ma_workspaceId app,
             ir_nodes = meshIps, ir_suspended = suspended\<rparr>]
        | None \<Rightarrow> []))"

definition node_signing_keys :: "MasterNode \<Rightarrow> SigningKey list" where
  "node_signing_keys node = (case (truthy (mn_ingressSigningKid node), mn_ingressSigningPublicJwk node) of
     (Some kid, Some jwk) \<Rightarrow> [\<lparr>sk_nodeId = mn_nodeId node, sk_kid = kid, sk_publicJwk = jwk\<rparr>] | _ \<Rightarrow> [])"

definition buildSnapshot :: "string \<Rightarrow> fleet_db \<Rightarrow> HostTableSnapshot" where
  "buildSnapshot baseDomain db = (let
     apps = filter (\<lambda>a. ma_state a \<in> set [''RUNNING'', ''QUARANTINED'', ''STOPPED'']) (fd_apps db);
     nodes = filter (\<lambda>n. mn_status n = NODE_ACTIVE) (fd_nodes db);
     hosts = filter (\<lambda>(_, r). ah_state r \<in> {PENDING, ACTIVE_HOST, SUSPENDED, WS_SUSPENDED}) (fd_hosts db);
     runtimeNodes = filter runtime_role nodes;
     ingressNodes = filter ingress_role nodes
   in \<lparr>sn_apps = apps, sn_runtimeNodes = runtimeNodes, sn_ingressNodes = ingressNodes,
       sn_rules = concat (map (app_rules baseDomain runtimeNodes hosts) apps),
       sn_signingKeys = concat (map node_signing_keys ingressNodes)\<rparr>)"

section \<open>The pushes\<close>

definition runtime_entries :: "MasterNode \<Rightarrow> MasterApp list \<Rightarrow> IngressRule list \<Rightarrow> RuntimeApp list" where
  "runtime_entries node apps rules = concat (map (\<lambda>app.
     map (\<lambda>replica. \<lparr>ra_appId = ma_appId app, ra_workspaceId = ma_workspaceId app, ra_containerId = rp_containerId replica,
           ra_hosts = map ir_host (filter (\<lambda>r. ir_appId r = ma_appId app) rules)\<rparr>)
       (filter (\<lambda>replica. rp_nodeId replica = mn_nodeId node) (ma_replicas app))) apps)"

definition pushRuntimeTable :: "rat \<Rightarrow> rat \<Rightarrow> HostTableSnapshot \<Rightarrow> MasterNode \<Rightarrow> RuntimePush" where
  "pushRuntimeTable bootTimestamp revision snapshot node = \<lparr>rp_bootTimestamp = bootTimestamp, rp_revision = revision,
     rp_apps = runtime_entries node (sn_apps snapshot) (sn_rules snapshot)\<rparr>"

definition pushIngressTable :: "rat \<Rightarrow> rat \<Rightarrow> HostTableSnapshot \<Rightarrow> IngressPush" where
  "pushIngressTable bootTimestamp revision snapshot = \<lparr>ip_bootTimestamp = bootTimestamp, ip_revision = revision,
     ip_rules = sn_rules snapshot, ip_signingKeys = sn_signingKeys snapshot\<rparr>"

datatype table_push = ToRuntime MasterNode RuntimePush | ToIngress MasterNode IngressPush

text \<open>
  One attempt: every runtime push, then every ingress push; it throws if any of them was refused, after
  all were sent. \<open>status\<close> is the agent's HTTP answer (\<open>None\<close> where the request fails).
\<close>

definition pushSnapshot :: "(table_push \<Rightarrow> nat option) \<Rightarrow> rat \<Rightarrow> HostTableSnapshot \<Rightarrow> rat \<Rightarrow> bool \<times> table_push list" where
  "pushSnapshot status bootTimestamp snapshot revision = (let
     pushes = map (\<lambda>n. ToRuntime n (pushRuntimeTable bootTimestamp revision snapshot n)) (sn_runtimeNodes snapshot)
            @ map (\<lambda>n. ToIngress n (pushIngressTable bootTimestamp revision snapshot)) (sn_ingressNodes snapshot);
     failed = filter (\<lambda>p. case status p of None \<Rightarrow> True | Some s \<Rightarrow> 300 \<le> s) pushes
   in (failed = [], pushes))"

section \<open>The pump\<close>

text \<open>
  Where the pump is: not running; waiting for the revision; waiting for the snapshot query; or pushing
  a snapshot, for the \<open>attempt\<close>-th time, a failed attempt's backoff sleep included.
\<close>

datatype pump_phase = Idle | Numbering | Reading rat | Pushing rat HostTableSnapshot nat

record publisher =
  pb_dirty :: bool
  pb_phase :: pump_phase
  pb_revision :: rat
  pb_world :: "fleet_db list"
  pb_marked :: nat
  pb_read :: nat
  pb_published :: "(rat \<times> HostTableSnapshot \<times> nat) list"

text \<open>
  \<open>pb_revision\<close> is the shared counter in \<open>apps_master_meta\<close>, which other masters increment too. The
  last four fields are history: the database states so far (the last is the current one), how many
  there were at the last mark and at the last snapshot query, and the acknowledged publications.
\<close>

datatype pub_event =
    DbWrite fleet_db
  | MarkDirty
  | OtherMaster
  | GotRevision
  | GotSnapshot
  | PushDone bool
  | DbFailed

definition loop_top :: "publisher \<Rightarrow> publisher" where
  "loop_top s = (if pb_dirty s then s\<lparr>pb_dirty := False, pb_phase := Numbering\<rparr> else s\<lparr>pb_phase := Idle\<rparr>)"

definition markDirty :: "publisher \<Rightarrow> publisher" where
  "markDirty s = (let s' = s\<lparr>pb_dirty := True, pb_marked := length (pb_world s)\<rparr> in
     if pb_phase s = Idle then loop_top s' else s')"

fun pub_step :: "string \<Rightarrow> pub_event \<Rightarrow> publisher \<Rightarrow> publisher" where
  "pub_step bd (DbWrite w) s = s\<lparr>pb_world := pb_world s @ [w]\<rparr>"
| "pub_step bd MarkDirty s = markDirty s"
| "pub_step bd OtherMaster s = s\<lparr>pb_revision := pb_revision s + 1\<rparr>"
| "pub_step bd GotRevision s = (case pb_phase s of
     Numbering \<Rightarrow> s\<lparr>pb_revision := pb_revision s + 1, pb_phase := Reading (pb_revision s + 1)\<rparr> | _ \<Rightarrow> s)"
| "pub_step bd GotSnapshot s = (case pb_phase s of
     Reading r \<Rightarrow> s\<lparr>pb_phase := Pushing r (buildSnapshot bd (last (pb_world s))) 0, pb_read := length (pb_world s)\<rparr> | _ \<Rightarrow> s)"
| "pub_step bd (PushDone ok) s = (case pb_phase s of
     Pushing r snap attempt \<Rightarrow>
       if ok then loop_top (s\<lparr>pb_published := pb_published s @ [(r, snap, pb_read s)]\<rparr>)
       else if pb_dirty s then loop_top s
       else s\<lparr>pb_phase := Pushing r snap (attempt + 1)\<rparr>
   | _ \<Rightarrow> s)"
| "pub_step bd DbFailed s = (case pb_phase s of
     Numbering \<Rightarrow> s\<lparr>pb_phase := Idle\<rparr> | Reading r \<Rightarrow> s\<lparr>pb_phase := Idle\<rparr> | _ \<Rightarrow> s)"

definition backoff_ms :: "nat \<Rightarrow> int" where
  "backoff_ms attempt = min (5 * 60 * 1000) (3000 * 2 ^ attempt)"

definition pub_init :: "fleet_db \<Rightarrow> rat \<Rightarrow> publisher" where
  "pub_init w r = \<lparr>pb_dirty = False, pb_phase = Idle, pb_revision = r, pb_world = [w], pb_marked = 0, pb_read = 0, pb_published = []\<rparr>"

inductive reachable :: "string \<Rightarrow> publisher \<Rightarrow> bool" for bd where
  start: "reachable bd (pub_init w r)"
| step: "reachable bd s \<Longrightarrow> e \<noteq> DbFailed \<Longrightarrow> reachable bd (pub_step bd e s)"

definition publishOnce :: "(table_push \<Rightarrow> nat option) \<Rightarrow> rat \<Rightarrow> string \<Rightarrow> fleet_db \<Rightarrow> rat \<Rightarrow> (rat \<times> nat \<times> nat) option \<times> rat" where
  "publishOnce status bootTimestamp bd db revision = (let snapshot = buildSnapshot bd db in
     (if fst (pushSnapshot status bootTimestamp snapshot (revision + 1))
      then Some (revision + 1, length (sn_runtimeNodes snapshot), length (sn_ingressNodes snapshot)) else None, revision + 1))"

section \<open>No mark is lost\<close>

text \<open>
  The pump's invariant: a mark is covered by the dirty flag, by a query still to come, by the
  snapshot being pushed, or by a publication.
\<close>

definition covered :: "string \<Rightarrow> publisher \<Rightarrow> bool" where
  "covered bd s \<longleftrightarrow> pb_world s \<noteq> [] \<and> pb_marked s \<le> length (pb_world s) \<and> pb_read s \<le> length (pb_world s)
     \<and> list_all (\<lambda>(r, snap, k). 0 < k \<and> k \<le> length (pb_world s) \<and> snap = buildSnapshot bd (pb_world s ! (k - 1)) \<and> r \<le> pb_revision s)
         (pb_published s)
     \<and> sorted_wrt (<) (map fst (pb_published s))
     \<and> (case pb_phase s of
          Idle \<Rightarrow> \<not> pb_dirty s \<and> (pb_marked s = 0 \<or> (pb_published s \<noteq> [] \<and> pb_marked s \<le> snd (snd (last (pb_published s)))))
        | Numbering \<Rightarrow> True
        | Reading r \<Rightarrow> r \<le> pb_revision s \<and> list_all (\<lambda>(r', _). r' < r) (pb_published s)
        | Pushing r snap attempt \<Rightarrow> r \<le> pb_revision s \<and> list_all (\<lambda>(r', _). r' < r) (pb_published s) \<and> 0 < pb_read s
            \<and> snap = buildSnapshot bd (pb_world s ! (pb_read s - 1)) \<and> (pb_dirty s \<or> pb_marked s \<le> pb_read s))"

lemma covered_init: "covered bd (pub_init w r)"
  by (simp add: covered_def pub_init_def)

lemma covered_write: "covered bd s \<Longrightarrow> covered bd (s\<lparr>pb_world := pb_world s @ [w]\<rparr>)"
  by (auto simp: covered_def list_all_iff nth_append split: pump_phase.splits)

lemma covered_other: "covered bd s \<Longrightarrow> covered bd (s\<lparr>pb_revision := pb_revision s + 1\<rparr>)"
  by (auto simp: covered_def list_all_iff split: pump_phase.splits)

lemma covered_mark: "covered bd s \<Longrightarrow> covered bd (markDirty s)"
  by (auto simp: covered_def markDirty_def loop_top_def Let_def split: pump_phase.splits)

lemma covered_step: "covered bd s \<Longrightarrow> e \<noteq> DbFailed \<Longrightarrow> covered bd (pub_step bd e s)"
proof (cases e)
  case GotRevision
  assume c: "covered bd s"
  show ?thesis
  proof (cases "pb_phase s")
    case Numbering
    with c have "list_all (\<lambda>(r', _). r' < pb_revision s + 1) (pb_published s)"
      by (fastforce simp: covered_def list_all_iff)
    with c Numbering GotRevision show ?thesis by (auto simp: covered_def list_all_iff)
  qed (use c GotRevision in auto)
next
  case (PushDone ok)
  assume c: "covered bd s"
  show ?thesis
  proof (cases "pb_phase s")
    case (Pushing r snap attempt)
    with c PushDone show ?thesis
      by (auto simp: covered_def loop_top_def list_all_iff sorted_wrt_append)
  qed (use c PushDone in auto)
next
  case GotSnapshot
  assume c: "covered bd s"
  then show ?thesis
    by (cases "pb_phase s") (auto simp: covered_def GotSnapshot last_conv_nth)
qed (use covered_write covered_other covered_mark in auto)

lemma reachable_covered: "reachable bd s \<Longrightarrow> covered bd s"
  by (induction rule: reachable.induct) (auto intro: covered_init covered_step)


definition demo_fleet :: fleet_db where
  "demo_fleet = \<lparr>fd_apps = [], fd_nodes = [], fd_hosts = []\<rparr>"

definition demo_events :: "pub_event list" where
  "demo_events = [DbWrite demo_fleet, MarkDirty, GotRevision, MarkDirty, GotSnapshot, PushDone False, GotRevision, GotSnapshot, PushDone True]"

lemma reachable_fold: "reachable bd s \<Longrightarrow> list_all (\<lambda>e. e \<noteq> DbFailed) es \<Longrightarrow> reachable bd (fold (pub_step bd) es s)"
  by (induction es arbitrary: s) (auto intro: reachable.step)

lemma demo_reachable: "reachable ''x'' (fold (pub_step ''x'') demo_events (pub_init demo_fleet 0))"
  by (intro reachable_fold reachable.start) (simp add: demo_events_def)


section \<open>The pump comes to rest\<close>

text \<open>What the pump does next when the database and the nodes answer.\<close>

definition pump_event :: "publisher \<Rightarrow> pub_event" where
  "pump_event s = (case pb_phase s of Numbering \<Rightarrow> GotRevision | Reading _ \<Rightarrow> GotSnapshot | _ \<Rightarrow> PushDone True)"

definition pump_on :: "string \<Rightarrow> publisher \<Rightarrow> publisher" where
  "pump_on bd s = pub_step bd (pump_event s) s"

lemma pump_on_reachable: "reachable bd s \<Longrightarrow> reachable bd ((pump_on bd ^^ n) s)"
proof (induction n)
  case (Suc n)
  have "pump_event t \<noteq> DbFailed" for t by (simp add: pump_event_def split: pump_phase.splits)
  with Suc show ?case by (simp add: pump_on_def reachable.step)
qed simp

lemma pump_on_cases:
  "pb_phase s = Idle \<Longrightarrow> pump_on bd s = s"
  "pb_phase s = Numbering \<Longrightarrow> pump_on bd s = s\<lparr>pb_revision := pb_revision s + 1, pb_phase := Reading (pb_revision s + 1)\<rparr>"
  "pb_phase s = Reading r \<Longrightarrow> pump_on bd s = s\<lparr>pb_phase := Pushing r (buildSnapshot bd (last (pb_world s))) 0, pb_read := length (pb_world s)\<rparr>"
  "pb_phase s = Pushing r snap k \<Longrightarrow> pump_on bd s = loop_top (s\<lparr>pb_published := pb_published s @ [(r, snap, pb_read s)]\<rparr>)"
  by (simp_all add: pump_on_def pump_event_def)

lemma six_steps: "(f ^^ 6) x = f (f (f (f (f (f x)))))"
  by (simp add: numeral_eq_Suc)

text \<open>
  C31. The pump comes to rest: from any reachable state, once the nodes accept the pushes and no new
  change is marked, six of its own steps leave it idle, with at most two more snapshots published
  however many changes had been marked, the last of them covering every mark.
\<close>

theorem pump_comes_to_rest:
  assumes "reachable bd s"
  defines "s' \<equiv> (pump_on bd ^^ 6) s"
  shows "pb_phase s' = Idle \<and> \<not> pb_dirty s' \<and> length (pb_published s') \<le> length (pb_published s) + 2
    \<and> (pb_marked s = 0 \<or> (pb_published s' \<noteq> [] \<and> pb_marked s \<le> snd (snd (last (pb_published s')))))"
proof -
  have c: "covered bd s'" unfolding s'_def by (intro reachable_covered pump_on_reachable assms)
  have "pb_phase s' = Idle \<and> length (pb_published s') \<le> length (pb_published s) + 2 \<and> pb_marked s' = pb_marked s"
  proof (cases "pb_phase s")
    case Idle
    then show ?thesis unfolding s'_def six_steps by (simp add: pump_on_cases)
  next
    case Numbering
    then show ?thesis unfolding s'_def six_steps
      by (cases "pb_dirty s") (simp_all add: pump_on_cases loop_top_def)
  next
    case (Reading r)
    then show ?thesis unfolding s'_def six_steps
      by (cases "pb_dirty s") (simp_all add: pump_on_cases loop_top_def)
  next
    case (Pushing r snap k)
    then show ?thesis unfolding s'_def six_steps
      by (cases "pb_dirty s") (simp_all add: pump_on_cases loop_top_def)
  qed
  with c show ?thesis by (auto simp: covered_def)
qed

lemma pump_comes_to_rest_witness:
  "pb_phase ((pump_on ''x'' ^^ 6) (pub_step ''x'' MarkDirty (pub_init demo_fleet 0))) = Idle"
  by (rule pump_comes_to_rest [THEN conjunct1]) (intro reachable.step reachable.start, simp)

text \<open>
  A database error in the revision or snapshot query ends the pump with the flag already cleared:
  the change stays unpublished until something else marks the table.
\<close>

lemma db_failure_drops_mark:
  "fold (pub_step bd) [MarkDirty, DbFailed] (pub_init w r) = (pub_init w r)\<lparr>pb_marked := 1\<rparr>"
  by (simp add: pub_init_def markDirty_def loop_top_def)

section \<open>The two tables agree\<close>

lemma set_dedup [simp]: "set (dedup xs) = set xs"
  by (induction xs) auto

lemma app_rules_fields:
  "rule \<in> set (app_rules bd rns hosts app) \<Longrightarrow> ir_appId rule = ma_appId app \<and> ir_workspaceId rule = ma_workspaceId app
     \<and> ir_nodes rule = mesh_ips rns app \<and> (ma_state app \<noteq> ''RUNNING'' \<longrightarrow> ir_suspended rule)"
  by (auto simp: app_rules_def Let_def split: if_splits option.splits)

text \<open>
  C17. The two tables of one publication agree: wherever an ingress rule sends a host's traffic, some
  runtime node has that mesh address and its own table lists that host for the rule's app and
  workspace; and the rules of an app that is not running are all marked suspended.
\<close>

theorem routes_resolve:
  assumes "rule \<in> set (ip_rules (pushIngressTable bt rvn (buildSnapshot bd db)))" and "ip \<in> set (ir_nodes rule)"
  shows "(\<exists>node \<in> set (sn_runtimeNodes (buildSnapshot bd db)). mn_meshIp node = Some ip
      \<and> (\<exists>e \<in> set (rp_apps (pushRuntimeTable bt rvn (buildSnapshot bd db) node)).
           ra_appId e = ir_appId rule \<and> ra_workspaceId e = ir_workspaceId rule \<and> ir_host rule \<in> set (ra_hosts e)))
    \<and> (\<exists>app \<in> set (fd_apps db). ma_appId app = ir_appId rule \<and> (ma_state app = ''RUNNING'' \<or> ir_suspended rule))"
proof -
  let ?sn = "buildSnapshot bd db"
  from assms(1) obtain app hosts where app: "app \<in> set (sn_apps ?sn)" "rule \<in> set (app_rules bd (sn_runtimeNodes ?sn) hosts app)"
    by (auto simp: pushIngressTable_def buildSnapshot_def Let_def)
  note f = app_rules_fields [OF app(2)]
  from assms(2) f have "ip \<in> set (mesh_ips (sn_runtimeNodes ?sn) app)" by simp
  then obtain replica where replica: "replica \<in> set (ma_replicas app)"
    "ip \<in> set (case List.find (\<lambda>n. mn_nodeId n = rp_nodeId replica) (sn_runtimeNodes ?sn) of
       None \<Rightarrow> [] | Some n \<Rightarrow> (case truthy (mn_meshIp n) of None \<Rightarrow> [] | Some ip \<Rightarrow> [ip]))"
    unfolding mesh_ips_def set_dedup set_concat set_map by blast
  obtain node where found: "List.find (\<lambda>n. mn_nodeId n = rp_nodeId replica) (sn_runtimeNodes ?sn) = Some node"
    using replica(2) by (cases "List.find (\<lambda>n. mn_nodeId n = rp_nodeId replica) (sn_runtimeNodes ?sn)") auto
  with replica(2) have "truthy (mn_meshIp node) = Some ip" by (cases "truthy (mn_meshIp node)") auto
  then have rn: "replica \<in> set (ma_replicas app)" "mn_meshIp node = Some ip"
    "List.find (\<lambda>n. mn_nodeId n = rp_nodeId replica) (sn_runtimeNodes ?sn) = Some node"
    using replica(1) found by simp_all
  from find_SomeD [OF rn(3)] have node: "node \<in> set (sn_runtimeNodes ?sn)" "mn_nodeId node = rp_nodeId replica" by auto
  have rule: "rule \<in> set (sn_rules ?sn)" using assms(1) by (simp add: pushIngressTable_def)
  let ?e = "\<lparr>ra_appId = ma_appId app, ra_workspaceId = ma_workspaceId app, ra_containerId = rp_containerId replica,
    ra_hosts = map ir_host (filter (\<lambda>r. ir_appId r = ma_appId app) (sn_rules ?sn))\<rparr>"
  have "?e \<in> set (rp_apps (pushRuntimeTable bt rvn ?sn node))"
    using app(1) rn(1) node(2) by (auto simp: pushRuntimeTable_def runtime_entries_def)
  moreover have "ir_host rule \<in> set (ra_hosts ?e)" using rule f by auto
  moreover have "app \<in> set (fd_apps db)" using app(1) by (simp add: buildSnapshot_def Let_def)
  ultimately show ?thesis using node(1) rn(2) f by (intro conjI bexI [of _ node] bexI [of _ ?e] bexI [of _ app]) auto
qed

lemma demo_mesh: "mn_nodeId (demo_node ''n1'') = ''n1'' \<and> mn_meshIp (demo_node ''n1'') = Some ''10.0.0.n1''"
  by (simp add: demo_node_def)

lemma routes_resolve_witness:
  "\<exists>node. mn_meshIp node = Some ''10.0.0.n1'' \<and> (\<exists>e \<in> set (rp_apps (pushRuntimeTable 0 1
     (buildSnapshot ''privos.link'' \<lparr>fd_apps = [demo_app\<lparr>ma_subdomain := Some ''shop''\<rparr>], fd_nodes = [demo_node ''n1''], fd_hosts = []\<rparr>) node)).
     ''shop.privos.link'' \<in> set (ra_hosts e))"
proof -
  let ?db = "\<lparr>fd_apps = [demo_app\<lparr>ma_subdomain := Some ''shop''\<rparr>], fd_nodes = [demo_node ''n1''], fd_hosts = []\<rparr>"
  let ?rule = "\<lparr>ir_host = ''shop.privos.link'', ir_appId = ''a1'', ir_workspaceId = ''w'', ir_nodes = [''10.0.0.n1''], ir_suspended = False\<rparr>"
  have "?rule \<in> set (ip_rules (pushIngressTable 0 1 (buildSnapshot ''privos.link'' ?db)))"
    by (simp add: pushIngressTable_def buildSnapshot_def app_rules_def mesh_ips_def runtime_role_def demo_app_def demo_node_def truthy_def Let_def)
  from routes_resolve [OF this, of "''10.0.0.n1''"] show ?thesis by auto
qed

section \<open>Signing keys never reach a runtime-only node\<close>

text \<open>
  The signing keys travel in the ingress table, which is pushed to ingress nodes only. A node with
  the role RUNTIME receives runtime tables alone, so its listener knows no key and refuses every
  request an ingress node signs for it.
\<close>

definition apply_push :: "int \<Rightarrow> table_push \<Rightarrow> HostTables \<Rightarrow> HostTables" where
  "apply_push now p s = (case p of ToRuntime _ q \<Rightarrow> snd (applyRuntimePush now q s) | ToIngress _ q \<Rightarrow> snd (applyIngressPush now q s))"

definition push_node :: "table_push \<Rightarrow> MasterNode" where
  "push_node p = (case p of ToRuntime n _ \<Rightarrow> n | ToIngress n _ \<Rightarrow> n)"

definition received :: "string \<Rightarrow> table_push list \<Rightarrow> table_push list" where
  "received nodeId pushes = filter (\<lambda>p. mn_nodeId (push_node p) = nodeId) pushes"

lemma runtime_pushes_keep_ingress_empty:
  "list_all (\<lambda>p. \<not> ingress_role (push_node p)) ps \<Longrightarrow> list_all (\<lambda>p. \<forall>n q. p = ToIngress n q \<longrightarrow> ingress_role n) ps \<Longrightarrow>
     ingressTable s = None \<Longrightarrow> ingressTable (fold (apply_push now) ps s) = None"
proof (induction ps arbitrary: s)
  case (Cons p ps)
  then obtain n q where p: "p = ToRuntime n q" by (cases p) (auto simp: push_node_def)
  have "ingressTable (apply_push now p s) = None"
    using Cons.prems(3) p by (simp add: apply_push_def applyRuntimePush_def)
  with Cons show ?case by simp
qed simp

lemma pushSnapshot_ingress_role:
  "p \<in> set (snd (pushSnapshot status bt (buildSnapshot bd db) r)) \<Longrightarrow> p = ToIngress n q \<Longrightarrow> ingress_role n"
  by (auto simp: pushSnapshot_def buildSnapshot_def Let_def)

lemma runtime_only_node_has_no_signing_keys:
  assumes "list_all (\<lambda>p. \<exists>status bt db r. p \<in> set (snd (pushSnapshot status bt (buildSnapshot bd db) r))) pushes"
    and "list_all (\<lambda>p. mn_role (push_node p) = Some RUNTIME) (received nodeId pushes)"
    and "ingressTable tables = None"
  shows "findSigningKey (fold (apply_push now) (received nodeId pushes) tables) kid = None"
proof -
  have "list_all (\<lambda>p. \<forall>n q. p = ToIngress n q \<longrightarrow> ingress_role n) (received nodeId pushes)"
    using assms(1) pushSnapshot_ingress_role by (fastforce simp: list_all_iff received_def)
  moreover have "list_all (\<lambda>p. \<not> ingress_role (push_node p)) (received nodeId pushes)"
    using assms(2) by (auto simp: list_all_iff ingress_role_def)
  ultimately have "ingressTable (fold (apply_push now) (received nodeId pushes) tables) = None"
    using assms(3) by (intro runtime_pushes_keep_ingress_empty)
  then show ?thesis by (simp add: findSigningKey_def)
qed

lemma runtime_only_node_refuses_every_forward:
  assumes "findSigningKey tables = (\<lambda>_. None)"
  shows "\<exists>status code. fst (authenticateRuntimeRequest lib (runtimeDeps ip tables containers ips) req now seen) = AuthFailed status code"
  using assms by (auto simp: authenticateRuntimeRequest_def runtimeDeps_def split: option.splits)

end
