(* ===== verification/Quota_Scheduler.thy ===== *)
theory Quota_Scheduler
  imports Master_Types
begin

text \<open>
  Admission on the apps master: the workspace quota (\<open>src/master/quota-service.ts\<close>) and the choice
  of nodes by remaining capacity and failure domain (\<open>src/master/scheduler.ts\<close>). Sizes are rationals.
\<close>

section \<open>Workspace quota\<close>

datatype quota_error = WORKSPACE_NOT_FOUND | APP_QUOTA_EXCEEDED | MEMORY_QUOTA_EXCEEDED | CPU_QUOTA_EXCEEDED

definition STALLED_PROVISIONING_TIMEOUT_MS :: int where
  "STALLED_PROVISIONING_TIMEOUT_MS = 30 * 60 * 1000"

definition isInstalledForQuota :: "MasterApp \<Rightarrow> int \<Rightarrow> bool" where
  "isInstalledForQuota app now =
     (if ma_state app = ''RUNNING'' \<or> ma_state app = ''STOPPED'' then True
      else if ma_state app = ''QUARANTINED'' then ma_quarantinedAt app = None
      else if ma_state app = ''PROVISIONING'' then now - ma_createdAt app < STALLED_PROVISIONING_TIMEOUT_MS
      else False)"

definition INSTALLED_CANDIDATE_STATES :: "string list" where
  "INSTALLED_CANDIDATE_STATES = [''RUNNING'', ''STOPPED'', ''QUARANTINED'', ''PROVISIONING'']"

record quota_db =
  qd_workspaces :: "MasterWorkspace list"
  qd_apps :: "MasterApp list"

definition find_workspace :: "quota_db \<Rightarrow> string \<Rightarrow> MasterWorkspace option" where
  "find_workspace db workspaceId = List.find (\<lambda>w. mw_workspaceId w = workspaceId \<and> mw_active w) (qd_workspaces db)"

definition installed_apps :: "quota_db \<Rightarrow> string \<Rightarrow> int \<Rightarrow> MasterApp list" where
  "installed_apps db workspaceId now = filter (\<lambda>app. isInstalledForQuota app now)
     (filter (\<lambda>app. ma_workspaceId app = workspaceId \<and> ma_state app \<in> set INSTALLED_CANDIDATE_STATES) (qd_apps db))"

text \<open>\<open>installed.reduce(...)\<close>: reserved memory and CPU over all replicas.\<close>

definition used_resources :: "MasterApp list \<Rightarrow> rat \<times> rat" where
  "used_resources apps = foldl (\<lambda>(m, c) app. (m + memoryMb (ma_resources app) * of_nat (length (ma_replicas app)),
     c + cpus (ma_resources app) * of_nat (length (ma_replicas app)))) (0, 0) apps"

text \<open>The two headroom tests that close all three assertions.\<close>

definition check_headroom :: "rat \<times> rat \<Rightarrow> rat \<Rightarrow> rat \<Rightarrow> WorkspaceQuota \<Rightarrow> (quota_error, unit) result" where
  "check_headroom used dm dc quota =
     (if fst used + dm > maxMemoryMb quota then Inl MEMORY_QUOTA_EXCEEDED
      else if snd used + dc > maxCpus quota then Inl CPU_QUOTA_EXCEEDED else Inr ())"

definition assertDeployAllowed :: "quota_db \<Rightarrow> string \<Rightarrow> ContainerResources \<Rightarrow> nat \<Rightarrow> int \<Rightarrow> (quota_error, unit) result" where
  "assertDeployAllowed db workspaceId resources replicaCount now = (case find_workspace db workspaceId of
     None \<Rightarrow> Inl WORKSPACE_NOT_FOUND
   | Some workspace \<Rightarrow> (let installed = installed_apps db workspaceId now in
       if length installed \<ge> maxApps (mw_quota workspace) then Inl APP_QUOTA_EXCEEDED
       else check_headroom (used_resources installed) (memoryMb resources * of_nat replicaCount)
              (cpus resources * of_nat replicaCount) (mw_quota workspace)))"

definition assertResizeAllowed :: "quota_db \<Rightarrow> string \<Rightarrow> MasterApp \<Rightarrow> ContainerResources \<Rightarrow> int \<Rightarrow> (quota_error, unit) result" where
  "assertResizeAllowed db workspaceId app newResources now = (case find_workspace db workspaceId of
     None \<Rightarrow> Inl WORKSPACE_NOT_FOUND
   | Some workspace \<Rightarrow> (let n = of_nat (length (ma_replicas app)) in
       check_headroom (used_resources (installed_apps db workspaceId now))
         ((memoryMb newResources - memoryMb (ma_resources app)) * n)
         ((cpus newResources - cpus (ma_resources app)) * n) (mw_quota workspace)))"

definition assertAdditionalReplicaAllowed :: "quota_db \<Rightarrow> string \<Rightarrow> ContainerResources \<Rightarrow> int \<Rightarrow> (quota_error, unit) result" where
  "assertAdditionalReplicaAllowed db workspaceId resources now = (case find_workspace db workspaceId of
     None \<Rightarrow> Inl WORKSPACE_NOT_FOUND
   | Some workspace \<Rightarrow> check_headroom (used_resources (installed_apps db workspaceId now))
       (memoryMb resources) (cpus resources) (mw_quota workspace))"

section \<open>Node selection\<close>

record NodeReservation =
  nr_nodeId :: string
  nr_memoryMb :: rat
  nr_cpus :: rat
  nr_diskBytes :: rat

datatype scheduling_error = HA_CAPACITY_UNAVAILABLE | CAPACITY_UNAVAILABLE

definition add_reservation :: "NodeCapacity \<Rightarrow> NodeReservation \<Rightarrow> NodeCapacity" where
  "add_reservation acc r = \<lparr>cap_memoryMb = cap_memoryMb acc + nr_memoryMb r,
     cap_cpus = cap_cpus acc + nr_cpus r, cap_diskBytes = cap_diskBytes acc + nr_diskBytes r\<rparr>"

definition reserved_on :: "string \<Rightarrow> NodeReservation list \<Rightarrow> NodeCapacity" where
  "reserved_on nodeId reservations = foldl add_reservation \<lparr>cap_memoryMb = 0, cap_cpus = 0, cap_diskBytes = 0\<rparr>
     (filter (\<lambda>r. nr_nodeId r = nodeId) reservations)"

definition remainingNodeCapacity :: "MasterNode \<Rightarrow> NodeReservation list \<Rightarrow> NodeCapacity" where
  "remainingNodeCapacity node reservations = (let used = reserved_on (mn_nodeId node) reservations in
     \<lparr>cap_memoryMb = cap_memoryMb (mn_capacity node) - cap_memoryMb used,
      cap_cpus = cap_cpus (mn_capacity node) - cap_cpus used,
      cap_diskBytes = cap_diskBytes (mn_capacity node) - cap_diskBytes used\<rparr>)"

text \<open>\<open>b.free.memoryMb - a.free.memoryMb || b.free.diskBytes - a.free.diskBytes\<close>, and the stable sort by it.\<close>

definition freer :: "MasterNode \<times> NodeCapacity \<Rightarrow> MasterNode \<times> NodeCapacity \<Rightarrow> bool" where
  "freer a b \<longleftrightarrow> cap_memoryMb (snd b) < cap_memoryMb (snd a)
     \<or> (cap_memoryMb (snd b) = cap_memoryMb (snd a) \<and> cap_diskBytes (snd b) < cap_diskBytes (snd a))"

fun insert_free :: "MasterNode \<times> NodeCapacity \<Rightarrow> (MasterNode \<times> NodeCapacity) list \<Rightarrow> (MasterNode \<times> NodeCapacity) list" where
  "insert_free x [] = [x]"
| "insert_free x (y # ys) = (if freer y x then y # insert_free x ys else x # y # ys)"

definition sort_free :: "(MasterNode \<times> NodeCapacity) list \<Rightarrow> (MasterNode \<times> NodeCapacity) list" where
  "sort_free xs = foldr insert_free xs []"

definition candidates :: "MasterNode list \<Rightarrow> MasterNode list \<Rightarrow> NodeReservation list \<Rightarrow> ContainerResources \<Rightarrow> rat \<Rightarrow>
    (MasterNode \<times> NodeCapacity) list" where
  "candidates active selected reservations resources storageBytes = sort_free
     (filter (\<lambda>(_, free). cap_memoryMb free \<ge> memoryMb resources \<and> cap_cpus free \<ge> cpus resources \<and> cap_diskBytes free \<ge> storageBytes)
       (map (\<lambda>node. (node, remainingNodeCapacity node reservations))
         (filter (\<lambda>node. \<not> (\<exists>item \<in> set selected. mn_failureDomain item = mn_failureDomain node))
           (filter (\<lambda>node. \<not> (\<exists>item \<in> set selected. mn_nodeId item = mn_nodeId node)) active))))"

definition reservation_for :: "MasterNode \<Rightarrow> ContainerResources \<Rightarrow> rat \<Rightarrow> NodeReservation" where
  "reservation_for chosen resources storageBytes = \<lparr>nr_nodeId = mn_nodeId chosen, nr_memoryMb = memoryMb resources,
     nr_cpus = cpus resources, nr_diskBytes = storageBytes\<rparr>"

text \<open>
  The selection loop: \<open>k\<close> replicas are still to be placed. The caller's reservation array is extended
  in place, and keeps what was pushed before a failure.
\<close>

fun select_loop :: "nat \<Rightarrow> MasterNode list \<Rightarrow> ContainerResources \<Rightarrow> rat \<Rightarrow> scheduling_error \<Rightarrow> MasterNode list \<Rightarrow>
    NodeReservation list \<Rightarrow> (scheduling_error, MasterNode list) result \<times> NodeReservation list" where
  "select_loop 0 active resources storageBytes err selected reservations = (Inr selected, reservations)"
| "select_loop (Suc k) active resources storageBytes err selected reservations =
     (case candidates active selected reservations resources storageBytes of
        [] \<Rightarrow> (Inl err, reservations)
      | (chosen, _) # _ \<Rightarrow> select_loop k active resources storageBytes err (selected @ [chosen])
          (reservations @ [reservation_for chosen resources storageBytes]))"

definition selectNodes :: "MasterNode list \<Rightarrow> NodeReservation list \<Rightarrow> ContainerResources \<Rightarrow> rat \<Rightarrow> nat \<Rightarrow>
    (scheduling_error, MasterNode list) result \<times> NodeReservation list" where
  "selectNodes nodes reservations resources storageBytes replicas =
     select_loop replicas (filter (\<lambda>n. mn_status n = NODE_ACTIVE) nodes) resources storageBytes
       (if 1 < replicas then HA_CAPACITY_UNAVAILABLE else CAPACITY_UNAVAILABLE) [] reservations"

section \<open>Quota: exactly what fits is admitted\<close>

text \<open>The apps fit the quota's memory and CPU.\<close>

definition fits :: "WorkspaceQuota \<Rightarrow> MasterApp list \<Rightarrow> bool" where
  "fits quota apps \<longleftrightarrow>
     (\<Sum>app \<leftarrow> apps. memoryMb (ma_resources app) * of_nat (length (ma_replicas app))) \<le> maxMemoryMb quota
   \<and> (\<Sum>app \<leftarrow> apps. cpus (ma_resources app) * of_nat (length (ma_replicas app))) \<le> maxCpus quota"

lemma used_resources_sum:
  "used_resources apps = (\<Sum>app \<leftarrow> apps. memoryMb (ma_resources app) * of_nat (length (ma_replicas app)),
     \<Sum>app \<leftarrow> apps. cpus (ma_resources app) * of_nat (length (ma_replicas app)))"
proof -
  have "foldl (\<lambda>(m, c) app. (m + memoryMb (ma_resources app) * of_nat (length (ma_replicas app)),
      c + cpus (ma_resources app) * of_nat (length (ma_replicas app)))) (a, b) apps
    = (a + (\<Sum>app \<leftarrow> apps. memoryMb (ma_resources app) * of_nat (length (ma_replicas app))),
       b + (\<Sum>app \<leftarrow> apps. cpus (ma_resources app) * of_nat (length (ma_replicas app))))" for a b
    by (induction apps arbitrary: a b) (auto simp: add.assoc)
  then show ?thesis by (simp add: used_resources_def)
qed

lemma check_headroom_iff:
  "check_headroom used dm dc quota = Inr () \<longleftrightarrow> fst used + dm \<le> maxMemoryMb quota \<and> snd used + dc \<le> maxCpus quota"
  by (auto simp: check_headroom_def)


definition demo_quota_db :: quota_db where
  "demo_quota_db = \<lparr>qd_workspaces = [\<lparr>mw_workspaceId = ''w'', mw_quota = \<lparr>maxMemoryMb = 512, maxCpus = 2, maxApps = 3\<rparr>, mw_active = True\<rparr>],
     qd_apps = [demo_app]\<rparr>"


section \<open>Scheduling: distinct failure domains, no overcommitment\<close>

lemma set_insert_free [simp]: "set (insert_free x ys) = insert x (set ys)"
  by (induction ys) auto

lemma set_sort_free [simp]: "set (sort_free xs) = set xs"
  by (induction xs) (auto simp: sort_free_def)

lemma candidates_head:
  assumes "candidates active selected reservations resources storageBytes = (chosen, free) # rest"
  shows "chosen \<in> set active" "\<And>s. s \<in> set selected \<Longrightarrow> mn_nodeId s \<noteq> mn_nodeId chosen \<and> mn_failureDomain s \<noteq> mn_failureDomain chosen"
    "free = remainingNodeCapacity chosen reservations" "memoryMb resources \<le> cap_memoryMb free"
    "cpus resources \<le> cap_cpus free" "storageBytes \<le> cap_diskBytes free"
proof -
  have "(chosen, free) \<in> set (candidates active selected reservations resources storageBytes)" using assms by simp
  then show "chosen \<in> set active" "\<And>s. s \<in> set selected \<Longrightarrow> mn_nodeId s \<noteq> mn_nodeId chosen \<and> mn_failureDomain s \<noteq> mn_failureDomain chosen"
    "free = remainingNodeCapacity chosen reservations" "memoryMb resources \<le> cap_memoryMb free"
    "cpus resources \<le> cap_cpus free" "storageBytes \<le> cap_diskBytes free"
    by (auto simp: candidates_def)
qed

lemma reserved_on_snoc:
  "reserved_on i (rs @ [r]) = (if nr_nodeId r = i then add_reservation (reserved_on i rs) r else reserved_on i rs)"
  by (simp add: reserved_on_def)

text \<open>A node whose reservations leave nothing negative.\<close>

definition not_overcommitted :: "NodeReservation list \<Rightarrow> MasterNode \<Rightarrow> bool" where
  "not_overcommitted reservations node \<longleftrightarrow> 0 \<le> cap_memoryMb (remainingNodeCapacity node reservations)
     \<and> 0 \<le> cap_cpus (remainingNodeCapacity node reservations) \<and> 0 \<le> cap_diskBytes (remainingNodeCapacity node reservations)"

definition well_placed :: "MasterNode list \<Rightarrow> MasterNode list \<Rightarrow> NodeReservation list \<Rightarrow> bool" where
  "well_placed active selected reservations \<longleftrightarrow> set selected \<subseteq> set active \<and> distinct (map mn_nodeId selected)
     \<and> distinct (map mn_failureDomain selected) \<and> list_all (not_overcommitted reservations) selected"

lemma not_overcommitted_other:
  "mn_nodeId node \<noteq> nr_nodeId r \<Longrightarrow> not_overcommitted (rs @ [r]) node = not_overcommitted rs node"
  by (simp add: not_overcommitted_def remainingNodeCapacity_def reserved_on_snoc Let_def)

lemma well_placed_step:
  assumes "well_placed active selected reservations"
    and c: "candidates active selected reservations resources storageBytes = (chosen, free) # rest"
  shows "well_placed active (selected @ [chosen]) (reservations @ [reservation_for chosen resources storageBytes])"
proof -
  note h = candidates_head [OF c]
  have "not_overcommitted (reservations @ [reservation_for chosen resources storageBytes]) chosen"
    using h(3-6) by (simp add: not_overcommitted_def remainingNodeCapacity_def reserved_on_snoc reservation_for_def add_reservation_def Let_def)
  moreover have "list_all (not_overcommitted (reservations @ [reservation_for chosen resources storageBytes])) selected"
    using assms(1) h(2) by (auto simp: well_placed_def list_all_iff not_overcommitted_other reservation_for_def)
  moreover have "mn_nodeId chosen \<notin> mn_nodeId ` set selected" "mn_failureDomain chosen \<notin> mn_failureDomain ` set selected"
    using h(2) by fastforce+
  ultimately show ?thesis using assms(1) h(1) by (simp add: well_placed_def)
qed

lemma select_loop_placed:
  "select_loop k active resources storageBytes err selected reservations = (Inr result, reservations') \<Longrightarrow>
     well_placed active selected reservations \<Longrightarrow>
     well_placed active result reservations' \<and> length result = length selected + k"
proof (induction k arbitrary: selected reservations)
  case (Suc k)
  then show ?case
    using well_placed_step by (auto split: list.splits)
qed simp

text \<open>
  C19. A successful selection places every replica on its own active node, in its own failure domain,
  and after the reservations it records no chosen node is overcommitted in memory, CPU or disk.
\<close>

theorem selectNodes_no_overcommit:
  assumes "selectNodes nodes reservations resources storageBytes replicas = (Inr result, reservations')"
  shows "length result = replicas \<and> distinct (map mn_nodeId result) \<and> distinct (map mn_failureDomain result)
    \<and> list_all (\<lambda>n. n \<in> set nodes \<and> mn_status n = NODE_ACTIVE \<and> not_overcommitted reservations' n) result"
  using select_loop_placed [OF assms [unfolded selectNodes_def]]
  by (auto simp: well_placed_def list_all_iff)

lemma selectNodes_no_overcommit_witness:
  "\<exists>result reservations'. selectNodes [demo_node ''1'', demo_node ''2''] [] \<lparr>memoryMb = 600, cpus = 1, tmpSizeMb = 1\<rparr> 10 2 = (Inr result, reservations')
    \<and> distinct (map mn_failureDomain result)"
proof -
  let ?r = "\<lparr>memoryMb = 600, cpus = 1, tmpSizeMb = 1\<rparr>"
  have "selectNodes [demo_node ''1'', demo_node ''2''] [] ?r 10 2 = (Inr [demo_node ''1'', demo_node ''2''],
      [reservation_for (demo_node ''1'') ?r 10, reservation_for (demo_node ''2'') ?r 10])"
    by (simp add: selectNodes_def demo_node_def numeral_2_eq_2 candidates_def sort_free_def freer_def remainingNodeCapacity_def
        reserved_on_def add_reservation_def reservation_for_def Let_def)
  from selectNodes_no_overcommit [OF this] this show ?thesis by blast
qed

end
