(* ===== verification/Reverse_Proxy.thy ===== *)
theory Reverse_Proxy
  imports Runtime_Listener Docker_State
begin

text \<open>
  The legacy loopback proxy behind the Cloudflare tunnel: host resolution with its TTL cache
  (\<open>src/proxy/proxy-router.ts\<close>) and the request and upgrade handlers over it
  (\<open>src/proxy/reverse-proxy-server.ts\<close>). The cache is the router's state; a resolution reads it
  when it starts and writes it when Docker has answered, so it takes the cache at both moments.
\<close>

section \<open>Splitting a host\<close>

text \<open>\<open>Inl ()\<close> is the loop's early \<open>return null\<close>.\<close>

fun split_domains :: "string \<Rightarrow> string list \<Rightarrow> (string \<times> string) option" where
  "split_domains host [] = None"
| "split_domains host (raw # domains) = (let base = to_lower (trim raw) in
     if base = [] then split_domains host domains
     else if host = base then None
     else if ends_with (CHR ''.'' # base) host then
       (let subdomain = take (length host - length base - 1) host in
        if subdomain = [] \<or> CHR ''.'' \<in> set subdomain then None else Some (subdomain, base))
     else split_domains host domains)"

definition splitHost :: "string option \<Rightarrow> string list \<Rightarrow> (string \<times> string) option" where
  "splitHost rawHost domains = (case truthy rawHost of
     None \<Rightarrow> None
   | Some raw \<Rightarrow> (let host = strip_trailing_dot (to_lower (trim (hd (split_on CHR '':'' raw)))) in
       if host = [] then None else split_domains host domains))"

definition targetForContainer :: "Container \<Rightarrow> string option \<Rightarrow> string option" where
  "targetForContainer c ip = (if c_state c \<noteq> CS_running then None
     else case truthy ip of
       Some addr \<Rightarrow> Some (http_origin addr (c_port c))
     | None \<Rightarrow> (case nonzero (c_hostPort c) of Some hp \<Rightarrow> Some (http_origin ''localhost'' hp) | None \<Rightarrow> None))"

section \<open>The router\<close>

record ResolvedTarget =
  rt_url :: string
  rt_containerId :: string
  rt_mcpV2 :: bool

type_synonym route_cache = "(ResolvedTarget \<times> int) obj"

record RouterDeps =
  rd_findByHost :: "string \<Rightarrow> string option \<Rightarrow> (unit, Container option) result"
  rd_getContainerIp :: "string \<Rightarrow> (unit, string option) result"
  rd_getDomains :: "string list"
  rd_ttlMs :: int

definition DEFAULT_TTL_MS_router :: int where
  "DEFAULT_TTL_MS_router = 5000"

definition route_key :: "string \<times> string \<Rightarrow> string" where
  "route_key sd = fst sd @ ''.'' @ snd sd"

text \<open>What is resolved when the cache does not answer.\<close>

definition resolve_live :: "RouterDeps \<Rightarrow> string \<times> string \<Rightarrow> (unit, ResolvedTarget option) result" where
  "resolve_live deps sd = bindE (rd_findByHost deps (fst sd) (Some (snd sd))) (\<lambda>container.
     case container of
       None \<Rightarrow> Inr None
     | Some c \<Rightarrow> if c_state c \<noteq> CS_running then Inr None
         else (let ip = (case rd_getContainerIp deps (c_dockerContainerId c) of Inl _ \<Rightarrow> None | Inr ip \<Rightarrow> ip) in
           case targetForContainer c ip of
             None \<Rightarrow> Inr None
           | Some url \<Rightarrow> Inr (Some \<lparr>rt_url = url, rt_containerId = c_id c, rt_mcpV2 = c_mcpV2 c\<rparr>)))"

text \<open>
  \<open>now1\<close> and \<open>now2\<close> are the clock at the cache test and at the insertion; \<open>others\<close> is what the other
  resolutions and invalidations do to the cache while this one waits for Docker.
\<close>

definition cached_target :: "route_cache \<Rightarrow> string \<Rightarrow> int \<Rightarrow> ResolvedTarget option" where
  "cached_target cache key now = (case map_of cache key of
     Some (target, expires) \<Rightarrow> if now < expires then Some target else None | None \<Rightarrow> None)"

definition resolve :: "RouterDeps \<Rightarrow> string option \<Rightarrow> int \<Rightarrow> int \<Rightarrow> (route_cache \<Rightarrow> route_cache) \<Rightarrow> route_cache \<Rightarrow>
    (unit, ResolvedTarget option) result \<times> route_cache" where
  "resolve deps rawHost now1 now2 others cache = (case splitHost rawHost (rd_getDomains deps) of
     None \<Rightarrow> (Inr None, cache)
   | Some sd \<Rightarrow> (case cached_target cache (route_key sd) now1 of
       Some target \<Rightarrow> (Inr (Some target), cache)
     | None \<Rightarrow> (let r = resolve_live deps sd; cache' = others cache in
         (r, case r of
             Inr (Some target) \<Rightarrow> obj_set (route_key sd) (target, now2 + rd_ttlMs deps) cache'
           | _ \<Rightarrow> cache'))))"

definition refreshRoutes :: "route_cache \<Rightarrow> route_cache" where
  "refreshRoutes cache = []"

section \<open>The server\<close>

definition HOP_BY_HOP_proxy :: "string list" where
  "HOP_BY_HOP_proxy = [''connection'', ''keep-alive'', ''proxy-authenticate'', ''proxy-authorization'',
     ''te'', ''trailer'', ''transfer-encoding'', ''upgrade'', ''host'']"

definition RESP_HOP_BY_HOP_proxy :: "string list" where
  "RESP_HOP_BY_HOP_proxy = [''connection'', ''keep-alive'', ''proxy-authenticate'', ''proxy-authorization'',
     ''te'', ''trailer'', ''transfer-encoding'', ''upgrade'']"

definition forwarded_for :: "hval option \<Rightarrow> string \<Rightarrow> string" where
  "forwarded_for prior remote = (case prior of
     Some (One s) \<Rightarrow> if s = [] then remote else s @ '', '' @ remote
   | Some (Many xs) \<Rightarrow> join_with '', '' xs @ '', '' @ remote
   | _ \<Rightarrow> remote)"

definition buildForwardedHeaders_proxy :: "http_req \<Rightarrow> string \<Rightarrow> bool \<Rightarrow> string obj" where
  "buildForwardedHeaders_proxy req remote dropHopByHop =
     (let out = copy_headers (\<lambda>lower. dropHopByHop \<and> lower \<in> set HOP_BY_HOP_proxy) (req_headers req) [] in
      obj_set ''x-forwarded-for'' (forwarded_for (map_of (req_headers req) ''x-forwarded-for'') remote)
        (obj_set ''x-forwarded-host'' (host_or [] req) (obj_set ''x-forwarded-proto'' ''https'' out)))"

definition send502 :: client_reply where
  "send502 = Reply 502 [(''content-type'', One ''text/plain'')] ''502 Bad Gateway''"

definition send404 :: client_reply where
  "send404 = Reply 404 [(''content-type'', One ''text/plain''), (''cache-control'', One ''no-store'')] ''404 Not Found''"

text \<open>
  The path of \<open>new URL(raw, 'http://privos-app.invalid')\<close>, \<open>None\<close> where the parser throws. A target with
  a scheme of its own, and one that is relative, go to the rest of the parser, \<open>other\<close>.
\<close>

definition port_ok :: "string \<Rightarrow> bool" where
  "port_ok p = (p = [] \<or> (case digits_val 0 p of Some n \<Rightarrow> n \<le> 65535 | None \<Rightarrow> False))"

definition target_pathname :: "(string \<Rightarrow> string option) \<Rightarrow> (string \<Rightarrow> string option) \<Rightarrow> string \<Rightarrow> string option" where
  "target_pathname toASCII other raw = (let s = url_cleanup raw in
     (case s of
        c # d # _ \<Rightarrow> if is_sep c \<and> is_sep d then
            (let t = dropWhile is_sep s;
                 authority = before_any [CHR ''/'', bslash, CHR ''?'', CHR ''#''] t;
                 hostport = last_part CHR ''@'' authority;
                 host = before_any '':'' hostport;
                 port = drop (Suc (length host)) hostport
             in if toASCII host = None \<or> \<not> port_ok port then None
                else Some (url_pathname (before_any ''?#'' (drop (length authority) t))))
          else if is_sep c then Some (url_pathname (before_any ''?#'' s)) else other raw
      | [c] \<Rightarrow> if is_sep c then Some (url_pathname s) else other raw
      | [] \<Rightarrow> Some ''/''))"

definition isPublicMcpPathBlocked :: "(string \<Rightarrow> string option) \<Rightarrow> (string \<Rightarrow> string option) \<Rightarrow> ResolvedTarget \<Rightarrow> string option \<Rightarrow> bool" where
  "isPublicMcpPathBlocked toASCII other target rawUrl = (if \<not> rt_mcpV2 target then False
     else (case target_pathname toASCII other (or_else (truthy rawUrl) ''/'') of
       None \<Rightarrow> True
     | Some path \<Rightarrow> BLOCKED_MCP_PATH path))"

definition buildResponseHeaders_proxy :: "headers \<Rightarrow> headers" where
  "buildResponseHeaders_proxy upstreamHeaders =
     fold (\<lambda>(key, v) out. if to_lower key \<in> set RESP_HOP_BY_HOP_proxy \<or> v = Undef then out else obj_set key v out)
       upstreamHeaders []"

text \<open>\<open>handleRequest\<close> after \<open>r.resolve\<close>: the request dialled, if any, and the answer.\<close>

definition handleRequest_proxy :: "(string \<Rightarrow> string option) \<Rightarrow> (string \<Rightarrow> string option) \<Rightarrow> (upstream_req \<Rightarrow> upstream_resp option) \<Rightarrow>
    (unit, ResolvedTarget option) result \<Rightarrow> http_req \<Rightarrow> string \<Rightarrow> upstream_req option \<times> client_reply" where
  "handleRequest_proxy toASCII other fetch resolved req remote = (case resolved of
     Inl _ \<Rightarrow> (None, send502)
   | Inr None \<Rightarrow> (None, send502)
   | Inr (Some target) \<Rightarrow>
       if isPublicMcpPathBlocked toASCII other target (req_url req) then (None, send404)
       else (let up = \<lparr>up_url = rt_url target @ url_of req, up_method = method_of req,
               up_headers = buildForwardedHeaders_proxy req remote True, up_body = has_body req\<rparr> in
         (Some up, case fetch up of
             None \<Rightarrow> send502
           | Some upstream \<Rightarrow> Piped (us_status upstream) (buildResponseHeaders_proxy (us_headers upstream)))))"

definition handleUpgrade_proxy :: "(string \<Rightarrow> string option) \<Rightarrow> (string \<Rightarrow> string option) \<Rightarrow>
    (unit, ResolvedTarget option) result \<Rightarrow> http_req \<Rightarrow> string \<Rightarrow> string \<Rightarrow> upgrade_outcome" where
  "handleUpgrade_proxy toASCII other resolved req remote head_bytes = (case resolved of
     Inl _ \<Rightarrow> UpgradeDestroyed
   | Inr None \<Rightarrow> UpgradeDestroyed
   | Inr (Some target) \<Rightarrow>
       if isPublicMcpPathBlocked toASCII other target (req_url req) then UpgradeDestroyed
       else UpgradeTunnel (rt_url target)
         (raw_head (undefined_str (req_method req) @ '' '' @ undefined_str (req_url req) @ '' HTTP/1.1'')
            (buildForwardedHeaders_proxy req remote False) @ head_bytes))"

section \<open>What the router may serve\<close>

lemma split_domains_one_label:
  "split_domains host domains = Some (sub, dmn) \<Longrightarrow> sub \<noteq> [] \<and> CHR ''.'' \<notin> set sub \<and> host = sub @ CHR ''.'' # dmn
     \<and> dmn \<noteq> [] \<and> dmn \<in> set (map (\<lambda>d. to_lower (trim d)) domains)"
proof (induction domains)
  case (Cons raw domains)
  show ?case
  proof (cases "to_lower (trim raw) \<noteq> [] \<and> host \<noteq> to_lower (trim raw) \<and> ends_with (CHR ''.'' # to_lower (trim raw)) host")
    case True
    then obtain t where "host = t @ CHR ''.'' # to_lower (trim raw)" by (auto simp: ends_with_iff)
    with True Cons.prems show ?thesis by (auto simp: Let_def split: if_splits)
  next
    case False
    with Cons show ?thesis by (auto simp: Let_def split: if_splits)
  qed
qed simp

lemma splitHost_one_label:
  "splitHost rawHost domains = Some (sub, dmn) \<Longrightarrow> sub \<noteq> [] \<and> CHR ''.'' \<notin> set sub
     \<and> dmn \<noteq> [] \<and> dmn \<in> set (map (\<lambda>d. to_lower (trim d)) domains)"
  using split_domains_one_label by (auto simp: splitHost_def Let_def split: option.splits if_splits)

lemma route_key_inj:
  "route_key (s, d) = route_key (s', d') \<Longrightarrow> CHR ''.'' \<notin> set s \<Longrightarrow> CHR ''.'' \<notin> set s' \<Longrightarrow> s = s' \<and> d = d'"
  using takeWhile_until [of "CHR ''.''" s d] takeWhile_until [of "CHR ''.''" s' d'] by (auto simp: route_key_def)

text \<open>A Docker view that honours its filters offered this target for this host.\<close>

definition offered :: "docker_env \<Rightarrow> string \<times> string \<Rightarrow> ResolvedTarget \<Rightarrow> Container \<Rightarrow> bool" where
  "offered D sd t c \<longleftrightarrow> honours_filters (ps_list D) \<and> findByHost D (fst sd) (Some (snd sd)) = Some c \<and> c_state c = CS_running
     \<and> rt_containerId t = c_id c \<and> rt_mcpV2 t = c_mcpV2 c \<and> (\<exists>ip. targetForContainer c ip = Some (rt_url t))"

text \<open>Every cache entry was offered, at most \<open>ttl\<close> before it expires.\<close>

definition sourced :: "int \<Rightarrow> route_cache \<Rightarrow> bool" where
  "sourced ttl cache \<longleftrightarrow> (\<forall>k t e. map_of cache k = Some (t, e) \<longrightarrow>
     (\<exists>D sd c. k = route_key sd \<and> CHR ''.'' \<notin> set (fst sd) \<and> offered D sd t c \<and> e \<le> clock D + ttl))"

lemma sourced_Nil [simp]: "sourced ttl []"
  by (simp add: sourced_def)

lemma sourced_refresh [simp]: "sourced ttl (refreshRoutes cache)"
  by (simp add: refreshRoutes_def)

lemma sourced_insert:
  assumes "sourced ttl cache" and "offered D sd t c" and "CHR ''.'' \<notin> set (fst sd)"
  shows "sourced ttl (obj_set (route_key sd) (t, clock D + ttl) cache)"
  unfolding sourced_def
proof (intro allI impI)
  fix k t' e
  assume m: "map_of (obj_set (route_key sd) (t, clock D + ttl) cache) k = Some (t', e)"
  show "\<exists>D sd c. k = route_key sd \<and> CHR ''.'' \<notin> set (fst sd) \<and> offered D sd t' c \<and> e \<le> clock D + ttl"
  proof (cases "k = route_key sd")
    case True
    with m have "t' = t" "e = clock D + ttl" by simp_all
    with True assms(2,3) show ?thesis by blast
  next
    case False
    with m have "map_of cache k = Some (t', e)" by simp
    with assms(1) show ?thesis unfolding sourced_def by blast
  qed
qed

text \<open>The production wiring: \<open>docker-state.findByHost\<close> over the Docker view at the insertion.\<close>

definition routerDeps :: "docker_env \<Rightarrow> (string \<Rightarrow> (unit, string option) result) \<Rightarrow> string list \<Rightarrow> int \<Rightarrow> RouterDeps" where
  "routerDeps D ips domains ttl = \<lparr>rd_findByHost = \<lambda>s d. Inr (findByHost D s d), rd_getContainerIp = ips,
     rd_getDomains = domains, rd_ttlMs = ttl\<rparr>"

lemma resolve_live_offered:
  assumes "resolve_live (routerDeps D ips domains ttl) sd = Inr (Some t)" "honours_filters (ps_list D)"
  obtains c where "offered D sd t c"
proof -
  from assms(1) obtain c where c: "findByHost D (fst sd) (Some (snd sd)) = Some c" "c_state c = CS_running"
    and t: "targetForContainer c (case ips (c_dockerContainerId c) of Inl _ \<Rightarrow> None | Inr ip \<Rightarrow> ip) = Some (rt_url t)"
      "rt_containerId t = c_id c" "rt_mcpV2 t = c_mcpV2 c"
    by (auto simp: resolve_live_def routerDeps_def Let_def bindE_Inr_iff split: option.splits if_splits)
  then show thesis using assms(2) that [of c] unfolding offered_def by blast
qed

text \<open>
  C34. The legacy proxy is no open relay and never serves a protocol-3 app: with a cache whose entries
  were offered by Docker (an empty one, an invalidated one, or whatever other resolutions made of it),
  a host resolves only to a container that Docker showed running, not of protocol 3, under exactly
  the host's single label and one of the configured domains, at most the TTL ago.
\<close>

theorem legacy_proxy_serves_eligible:
  assumes "sourced ttl cache" and "sourced ttl (others cache)" and "honours_filters (ps_list D)"
    and "resolve (routerDeps D ips domains ttl) rawHost now1 (clock D) others cache = (Inr (Some t), cache')"
  shows "sourced ttl cache' \<and> (\<exists>D' c sub dmn. splitHost rawHost domains = Some (sub, dmn)
     \<and> dmn \<in> set (map (\<lambda>d. to_lower (trim d)) domains) \<and> (D' = D \<or> now1 < clock D' + ttl)
     \<and> rt_containerId t = c_id c \<and> c_state c = CS_running \<and> \<not> c_mcpV3 c
     \<and> c_subdomain c = Some sub \<and> c_domain c = Some dmn \<and> findByHost D' sub (Some dmn) = Some c)"
proof -
  have doms: "rd_getDomains (routerDeps D ips domains ttl) = domains" "rd_ttlMs (routerDeps D ips domains ttl) = ttl"
    by (simp_all add: routerDeps_def)
  from assms(4) obtain sub dmn where sp: "splitHost rawHost domains = Some (sub, dmn)"
    by (auto simp: resolve_def doms split: option.splits)
  note one = splitHost_one_label [OF sp]
  have fin: ?thesis if "sourced ttl cache'" "offered D' (sub, dmn) t c" "D' = D \<or> now1 < clock D' + ttl" for D' c
  proof -
    from that(2) have "findByHost D' sub (Some dmn) = Some c" "honours_filters (ps_list D')" "c_state c = CS_running" "rt_containerId t = c_id c"
      by (auto simp: offered_def)
    with findByHost_scope [of D' sub "Some dmn" c] one sp that(1,3) show ?thesis by blast
  qed
  show ?thesis
  proof (cases "cached_target cache (route_key (sub, dmn)) now1")
    case (Some t')
    with assms(4) sp have t: "t' = t" "cache' = cache" by (simp_all add: resolve_def doms)
    from Some t obtain e where e: "map_of cache (route_key (sub, dmn)) = Some (t, e)" "now1 < e"
      by (auto simp: cached_target_def split: option.splits if_splits)
    with assms(1) obtain D' sd c where d: "route_key (sub, dmn) = route_key sd" "CHR ''.'' \<notin> set (fst sd)" "offered D' sd t c" "e \<le> clock D' + ttl"
      unfolding sourced_def by blast
    from route_key_inj [of sub dmn "fst sd" "snd sd"] d(1,2) one have "sd = (sub, dmn)" by (simp add: prod_eq_iff)
    with d e assms(1) t show ?thesis by (intro fin) auto
  next
    case None
    with assms(4) sp have r: "resolve_live (routerDeps D ips domains ttl) (sub, dmn) = Inr (Some t)"
      and c': "cache' = obj_set (route_key (sub, dmn)) (t, clock D + ttl) (others cache)"
      by (auto simp: resolve_def doms Let_def)
    from resolve_live_offered [OF r assms(3)] obtain c where o: "offered D (sub, dmn) t c" .
    have "sourced ttl cache'"
      unfolding c' using assms(2) o one by (intro sourced_insert) simp_all
    with o show ?thesis by (intro fin) auto
  qed
qed

lemma show_3001: "show_int 3001 = ''3001''"
  by code_simp

lemma legacy_proxy_serves_eligible_witness:
  "\<exists>D c sub dmn. findByHost D sub (Some dmn) = Some c \<and> c_id c = ''c1'' \<and> c_state c = CS_running \<and> \<not> c_mcpV3 c"
proof -
  have "resolve (routerDeps demo_docker (\<lambda>_. Inr (Some ''172.18.0.5'')) [''example.com''] 5000) (Some ''Shop.example.com:80'') 3 (clock demo_docker) id []
     = (Inr (Some \<lparr>rt_url = ''http://172.18.0.5:3001'', rt_containerId = ''c1'', rt_mcpV2 = False\<rparr>),
        [(''shop.example.com'', \<lparr>rt_url = ''http://172.18.0.5:3001'', rt_containerId = ''c1'', rt_mcpV2 = False\<rparr>, 5007)])"
  proof -
    from demo_findByHost obtain c where c: "findByHost demo_docker ''shop'' (Some ''example.com'') = Some c"
      "c_id c = ''c1''" "c_state c = CS_running" "c_port c = 3001" "\<not> c_mcpV2 c" by auto
    have sp: "splitHost (Some ''Shop.example.com:80'') [''example.com''] = Some (''shop'', ''example.com'')"
      by code_simp
    have "resolve_live (routerDeps demo_docker (\<lambda>_. Inr (Some ''172.18.0.5'')) [''example.com''] 5000) (''shop'', ''example.com'')
      = Inr (Some \<lparr>rt_url = ''http://172.18.0.5:3001'', rt_containerId = ''c1'', rt_mcpV2 = False\<rparr>)"
      using c show_3001 by (simp add: resolve_live_def routerDeps_def targetForContainer_def truthy_def http_origin_def)
    with sp show ?thesis
      by (simp add: resolve_def cached_target_def route_key_def routerDeps_def demo_docker_def Let_def)
  qed
  from legacy_proxy_serves_eligible [OF _ _ demo_honours this]
  obtain D c sub dmn where "findByHost D sub (Some dmn) = Some c" "''c1'' = c_id c" "c_state c = CS_running" "\<not> c_mcpV3 c"
    by auto
  then show ?thesis by metis
qed

text \<open>
  Two gaps. A target that begins with two slashes names its first segment as an authority, so the
  private MCP surface \<open>//mcp/tools\<close> is checked as \<open>/tools\<close> but sent to the container as it is. And
  an invalidation that lands while a resolution waits for Docker is undone by that resolution: it
  inserts the target it saw before the invalidation, which is served for another TTL.
\<close>

lemma double_slash_mcp_not_blocked:
  "toASCII ''mcp'' = Some h \<Longrightarrow> isPublicMcpPathBlocked toASCII other \<lparr>rt_url = b, rt_containerId = i, rt_mcpV2 = True\<rparr> (Some ''//mcp/tools'') = False"
proof -
  assume a: "toASCII ''mcp'' = Some h"
  have "last_part CHR ''@'' ''mcp'' = ''mcp''" "before_any '':'' ''mcp'' = ''mcp''"
    "url_cleanup ''//mcp/tools'' = ''//mcp/tools''" "dropWhile is_sep ''//mcp/tools'' = ''mcp/tools''"
    "before_any [CHR ''/'', bslash, CHR ''?'', CHR ''#''] ''mcp/tools'' = ''mcp''"
    "url_pathname (before_any ''?#'' ''/tools'') = ''/tools''" "BLOCKED_MCP_PATH ''/tools'' = False" "is_sep CHR ''/''"
    by code_simp+
  with a show ?thesis
    by (simp add: isPublicMcpPathBlocked_def target_pathname_def or_else_def truthy_def Let_def port_ok_def)
qed

lemma refresh_lost_to_resolution_in_flight:
  assumes "splitHost rawHost (rd_getDomains deps) = Some sd" and "cached_target cache (route_key sd) now1 = None"
    and "resolve_live deps sd = Inr (Some t)" and "now3 < now2 + rd_ttlMs deps"
  shows "cached_target (snd (resolve deps rawHost now1 now2 refreshRoutes cache)) (route_key sd) now3 = Some t"
  using assms by (simp add: resolve_def refreshRoutes_def cached_target_def Let_def)

end
