(* ===== verification/Workspace_Lock.thy ===== *)
theory Workspace_Lock
  imports Prelude
begin

text \<open>
  The per-workspace lock of the apps master, \<open>src/master/workspace-lock.ts\<close>. Callers are numbered in the
  order of their calls of \<open>run\<close>; caller \<open>i\<close>'s tail is \<open>prior.then(() => current)\<close>, and \<open>tails\<close> keeps for each
  workspace the caller whose tail is the newest. What happens between two awaits is one step.
\<close>

datatype phase = Waiting | Running | Finished

record lock_call =
  lk_workspace :: string
  lk_prior :: "nat option"
  lk_phase :: phase

record lock_state =
  lk_calls :: "lock_call list"
  lk_tails :: "nat obj"

definition no_calls :: lock_state where
  "no_calls = \<lparr>lk_calls = [], lk_tails = []\<rparr>"

text \<open>A caller's tail is settled once its prior is and its own action has ended.\<close>

fun tail_settled :: "lock_call list \<Rightarrow> nat \<Rightarrow> bool" where
  "tail_settled cs i = (i < length cs \<and> lk_phase (cs ! i) = Finished \<and> (case lk_prior (cs ! i) of
     None \<Rightarrow> True | Some p \<Rightarrow> if p < i then tail_settled cs p else False))"

declare tail_settled.simps [simp del]

definition prior_settled :: "lock_call list \<Rightarrow> nat \<Rightarrow> bool" where
  "prior_settled cs i = (case lk_prior (cs ! i) of None \<Rightarrow> True | Some p \<Rightarrow> tail_settled cs p)"

datatype lock_event = Call string | Begin nat | End nat

definition set_phase :: "nat \<Rightarrow> phase \<Rightarrow> lock_state \<Rightarrow> lock_state" where
  "set_phase i p s = s\<lparr>lk_calls := (lk_calls s)[i := (lk_calls s ! i)\<lparr>lk_phase := p\<rparr>]\<rparr>"

text \<open>
  \<open>run\<close> up to its first await; the action of a caller whose prior has settled; the \<open>finally\<close> block,
  whether the action returned or threw.
\<close>

fun lock_step :: "lock_event \<Rightarrow> lock_state \<Rightarrow> lock_state option" where
  "lock_step (Call ws) s = Some (s\<lparr>
     lk_calls := lk_calls s @ [\<lparr>lk_workspace = ws, lk_prior = map_of (lk_tails s) ws, lk_phase = Waiting\<rparr>],
     lk_tails := obj_set ws (length (lk_calls s)) (lk_tails s)\<rparr>)"
| "lock_step (Begin i) s =
     (if i < length (lk_calls s) \<and> lk_phase (lk_calls s ! i) = Waiting \<and> prior_settled (lk_calls s) i
      then Some (set_phase i Running s) else None)"
| "lock_step (End i) s =
     (if i < length (lk_calls s) \<and> lk_phase (lk_calls s ! i) = Running
      then (let ws = lk_workspace (lk_calls s ! i); s' = set_phase i Finished s in
        Some (if map_of (lk_tails s) ws = Some i then s'\<lparr>lk_tails := obj_del ws (lk_tails s')\<rparr> else s'))
      else None)"

inductive lock_reachable :: "lock_state \<Rightarrow> bool" where
  start: "lock_reachable no_calls"
| step: "lock_reachable s \<Longrightarrow> lock_step e s = Some s' \<Longrightarrow> lock_reachable s'"

section \<open>The queue behind the promises\<close>

definition earlier_finished :: "lock_call list \<Rightarrow> nat \<Rightarrow> bool" where
  "earlier_finished cs i \<longleftrightarrow> (\<forall>j < i. lk_workspace (cs ! j) = lk_workspace (cs ! i) \<longrightarrow> lk_phase (cs ! j) = Finished)"

definition prior_ok :: "lock_call list \<Rightarrow> nat \<Rightarrow> bool" where
  "prior_ok cs i \<longleftrightarrow> (case lk_prior (cs ! i) of
     None \<Rightarrow> earlier_finished cs i
   | Some p \<Rightarrow> p < i \<and> lk_workspace (cs ! p) = lk_workspace (cs ! i)
       \<and> (\<forall>j. p < j \<and> j < i \<longrightarrow> lk_workspace (cs ! j) \<noteq> lk_workspace (cs ! i)))"

definition tail_ok :: "lock_call list \<Rightarrow> string \<Rightarrow> nat option \<Rightarrow> bool" where
  "tail_ok cs ws t \<longleftrightarrow> (case t of
     None \<Rightarrow> (\<forall>j < length cs. lk_workspace (cs ! j) = ws \<longrightarrow> lk_phase (cs ! j) = Finished)
   | Some p \<Rightarrow> p < length cs \<and> lk_workspace (cs ! p) = ws \<and> lk_phase (cs ! p) \<noteq> Finished
       \<and> (\<forall>j. p < j \<and> j < length cs \<longrightarrow> lk_workspace (cs ! j) \<noteq> ws))"

definition lock_inv :: "lock_state \<Rightarrow> bool" where
  "lock_inv s \<longleftrightarrow> (\<forall>i < length (lk_calls s). prior_ok (lk_calls s) i
       \<and> (lk_phase (lk_calls s ! i) \<noteq> Waiting \<longrightarrow> earlier_finished (lk_calls s) i))
     \<and> (\<forall>ws. tail_ok (lk_calls s) ws (map_of (lk_tails s) ws))"

lemma finished_mono:
  assumes "length cs' = length cs" and "\<And>j. j < length cs \<Longrightarrow> lk_workspace (cs' ! j) = lk_workspace (cs ! j)"
    and "\<And>j. j < length cs \<Longrightarrow> lk_phase (cs ! j) = Finished \<Longrightarrow> lk_phase (cs' ! j) = Finished" and "i < length cs"
  shows "earlier_finished cs i \<Longrightarrow> earlier_finished cs' i"
  using assms by (auto simp: earlier_finished_def)

lemma set_phase_nth [simp]:
  "length (lk_calls (set_phase i p s)) = length (lk_calls s)" "lk_tails (set_phase i p s) = lk_tails s"
  "j < length (lk_calls s) \<Longrightarrow> lk_calls (set_phase i p s) ! j
     = (if j = i then (lk_calls s ! i)\<lparr>lk_phase := p\<rparr> else lk_calls s ! j)"
  by (auto simp: set_phase_def nth_list_update)

lemma settled_finished: "tail_settled cs i \<Longrightarrow> i < length cs \<and> lk_phase (cs ! i) = Finished"
  by (subst (asm) tail_settled.simps) simp

lemma prior_settled_earlier:
  assumes "lock_inv s" "i < length (lk_calls s)" "prior_settled (lk_calls s) i"
  shows "earlier_finished (lk_calls s) i"
proof (cases "lk_prior (lk_calls s ! i)")
  case None
  with assms show ?thesis by (auto simp: lock_inv_def prior_ok_def)
next
  case (Some p)
  with assms have p: "p < i" "lk_workspace (lk_calls s ! p) = lk_workspace (lk_calls s ! i)" "lk_phase (lk_calls s ! p) = Finished"
    "\<forall>j. p < j \<and> j < i \<longrightarrow> lk_workspace (lk_calls s ! j) \<noteq> lk_workspace (lk_calls s ! i)"
    using settled_finished by (auto simp: lock_inv_def prior_ok_def prior_settled_def)
  with assms(1,2) have "earlier_finished (lk_calls s) p" unfolding lock_inv_def by (metis less_trans phase.distinct(3))
  with p show ?thesis unfolding earlier_finished_def by (metis nat_neq_iff)
qed

lemma inv_call: "lock_inv s \<Longrightarrow> lock_step (Call ws) s = Some s' \<Longrightarrow> lock_inv s'"
proof -
  assume I: "lock_inv s" and "lock_step (Call ws) s = Some s'"
  then have s': "s' = s\<lparr>lk_calls := lk_calls s @ [\<lparr>lk_workspace = ws, lk_prior = map_of (lk_tails s) ws, lk_phase = Waiting\<rparr>],
      lk_tails := obj_set ws (length (lk_calls s)) (lk_tails s)\<rparr>" by simp
  have "prior_ok (lk_calls s') i \<and> (lk_phase (lk_calls s' ! i) \<noteq> Waiting \<longrightarrow> earlier_finished (lk_calls s') i)"
    if i: "i < length (lk_calls s')" for i
  proof (cases "i < length (lk_calls s)")
    case True
    then have old: "\<And>j. j \<le> i \<Longrightarrow> lk_calls s' ! j = lk_calls s ! j" by (simp add: s' nth_append)
    then have "earlier_finished (lk_calls s') i = earlier_finished (lk_calls s) i" by (auto simp: earlier_finished_def)
    with old I True show ?thesis by (auto simp: lock_inv_def prior_ok_def split: option.splits)
  next
    case False
    with i have "i = length (lk_calls s)" by (simp add: s')
    moreover have "tail_ok (lk_calls s) ws (map_of (lk_tails s) ws)" using I by (simp add: lock_inv_def)
    ultimately show ?thesis by (auto simp: s' prior_ok_def tail_ok_def earlier_finished_def nth_append split: option.splits)
  qed
  moreover have "tail_ok (lk_calls s') w (map_of (lk_tails s') w)" for w
  proof -
    have "tail_ok (lk_calls s) w (map_of (lk_tails s) w)" using I by (simp add: lock_inv_def)
    then show ?thesis by (auto simp: s' tail_ok_def nth_append less_Suc_eq split: option.splits)
  qed
  ultimately show ?thesis by (simp add: lock_inv_def)
qed

lemma set_phase_fields:
  "j < length (lk_calls s) \<Longrightarrow> lk_workspace (lk_calls (set_phase i p s) ! j) = lk_workspace (lk_calls s ! j)"
  "j < length (lk_calls s) \<Longrightarrow> lk_prior (lk_calls (set_phase i p s) ! j) = lk_prior (lk_calls s ! j)"
  by simp_all

text \<open>A change of phase that un-finishes nobody keeps every caller's part of the invariant.\<close>

lemma calls_kept:
  assumes I: "lock_inv s" and i: "i < length (lk_calls s)" "lk_phase (lk_calls s ! i) \<noteq> Finished"
    and new: "earlier_finished (lk_calls s) i" and j: "j < length (lk_calls s)"
  shows "prior_ok (lk_calls (set_phase i p s)) j
    \<and> (lk_phase (lk_calls (set_phase i p s) ! j) \<noteq> Waiting \<longrightarrow> earlier_finished (lk_calls (set_phase i p s)) j)"
proof -
  let ?c = "lk_calls s" and ?c' = "lk_calls (set_phase i p s)"
  have up: "earlier_finished ?c' k" if "earlier_finished ?c k" "k < length ?c" for k
    using that i(2) by (intro finished_mono [of ?c' ?c k]) auto
  have old: "prior_ok ?c j" "lk_phase (?c ! j) \<noteq> Waiting \<Longrightarrow> earlier_finished ?c j"
    using I j by (auto simp: lock_inv_def)
  have "prior_ok ?c' j"
  proof (cases "lk_prior (?c ! j)")
    case None
    then show ?thesis using old(1) up j by (auto simp: prior_ok_def)
  next
    case (Some q)
    then show ?thesis using old(1) j by (auto simp: prior_ok_def)
  qed
  moreover have "lk_phase (?c' ! j) \<noteq> Waiting \<longrightarrow> earlier_finished ?c' j"
    using old(2) up j new i(1) by (cases "j = i") auto
  ultimately show ?thesis ..
qed

lemma inv_begin: "lock_inv s \<Longrightarrow> lock_step (Begin i) s = Some s' \<Longrightarrow> lock_inv s'"
proof -
  assume I: "lock_inv s" and "lock_step (Begin i) s = Some s'"
  then have i: "i < length (lk_calls s)" "lk_phase (lk_calls s ! i) = Waiting" "prior_settled (lk_calls s) i"
    and s': "s' = set_phase i Running s" by (auto split: if_splits)
  have "tail_ok (lk_calls s') w (map_of (lk_tails s') w)" for w
  proof -
    have "tail_ok (lk_calls s) w (map_of (lk_tails s) w)" using I by (simp add: lock_inv_def)
    then show ?thesis using i by (auto simp: s' tail_ok_def split: option.splits)
  qed
  with calls_kept [OF I i(1) _ prior_settled_earlier [OF I i(1,3)]] i(2) show ?thesis
    by (auto simp: lock_inv_def s')
qed

lemma inv_end: "lock_inv s \<Longrightarrow> lock_step (End i) s = Some s' \<Longrightarrow> lock_inv s'"
proof -
  assume I: "lock_inv s" and st: "lock_step (End i) s = Some s'"
  let ?ws = "lk_workspace (lk_calls s ! i)" and ?s = "set_phase i Finished s"
  from st have i: "i < length (lk_calls s)" "lk_phase (lk_calls s ! i) = Running"
    and s': "s' = (if map_of (lk_tails s) ?ws = Some i then ?s\<lparr>lk_tails := obj_del ?ws (lk_tails s)\<rparr> else ?s)"
    by (auto simp: Let_def split: if_splits)
  have E: "earlier_finished (lk_calls s) i" using I i by (simp add: lock_inv_def)
  have "tail_ok (lk_calls ?s) w (map_of (lk_tails s') w)" for w
  proof -
    have T: "tail_ok (lk_calls s) w (map_of (lk_tails s) w)" using I by (simp add: lock_inv_def)
    show ?thesis
    proof (cases "map_of (lk_tails s) w = Some i")
      case True
      with T have w: "w = ?ws" "\<forall>j. i < j \<and> j < length (lk_calls s) \<longrightarrow> lk_workspace (lk_calls s ! j) \<noteq> w"
        by (auto simp: tail_ok_def)
      with True have "map_of (lk_tails s') w = None" by (simp add: s')
      with w E i show ?thesis unfolding tail_ok_def earlier_finished_def by (auto simp: nat_neq_iff)
    next
      case False
      moreover have "map_of (lk_tails s') w = map_of (lk_tails s) w" using False by (auto simp: s')
      ultimately show ?thesis using T i by (auto simp: tail_ok_def split: option.splits)
    qed
  qed
  moreover have "lk_calls s' = lk_calls ?s" by (simp add: s')
  ultimately show ?thesis using calls_kept [OF I i(1) _ E] i(2) unfolding lock_inv_def
    by (metis phase.distinct(5) set_phase_nth(1))
qed

lemma reachable_inv: "lock_reachable s \<Longrightarrow> lock_inv s"
proof (induction rule: lock_reachable.induct)
  case start
  show ?case by (simp add: lock_inv_def no_calls_def tail_ok_def)
next
  case (step s e s')
  then show ?case by (cases e) (blast intro: inv_call inv_begin inv_end)+
qed

section \<open>Mutual exclusion in arrival order\<close>

lemma finished_tail_settled:
  assumes I: "lock_inv s" shows "p < length (lk_calls s) \<Longrightarrow> lk_phase (lk_calls s ! p) = Finished \<Longrightarrow> tail_settled (lk_calls s) p"
proof (induction p rule: less_induct)
  case (less p)
  with I have "prior_ok (lk_calls s) p" "earlier_finished (lk_calls s) p" by (auto simp: lock_inv_def)
  with less show ?case by (subst tail_settled.simps) (auto simp: prior_ok_def earlier_finished_def split: option.splits)
qed

lemma earlier_prior_settled:
  assumes I: "lock_inv s" and i: "i < length (lk_calls s)" and E: "earlier_finished (lk_calls s) i"
  shows "prior_settled (lk_calls s) i"
proof (cases "lk_prior (lk_calls s ! i)")
  case (Some p)
  with I i have "p < i" "lk_workspace (lk_calls s ! p) = lk_workspace (lk_calls s ! i)"
    by (auto simp: lock_inv_def prior_ok_def split: option.splits)
  with E i finished_tail_settled [OF I, of p] Some show ?thesis by (simp add: prior_settled_def earlier_finished_def)
qed (simp add: prior_settled_def)

text \<open>
  C14. Callers of one workspace run one at a time and in the order they called: while a caller runs, and after
  it has ended, every earlier caller of its workspace has ended; a workspace has an entry in \<open>tails\<close> exactly
  while one of its callers has not ended, so the map does not leak entries.
\<close>

theorem workspace_lock_serialises:
  assumes "lock_reachable s"
    and "i < j" "j < length (lk_calls s)" "lk_workspace (lk_calls s ! i) = lk_workspace (lk_calls s ! j)"
    and "lk_phase (lk_calls s ! j) \<noteq> Waiting"
  shows "lk_phase (lk_calls s ! i) = Finished
    \<and> (map_of (lk_tails s) ws \<noteq> None
      \<longleftrightarrow> (\<exists>k < length (lk_calls s). lk_workspace (lk_calls s ! k) = ws \<and> lk_phase (lk_calls s ! k) \<noteq> Finished))"
proof -
  from reachable_inv [OF assms(1)] have I: "lock_inv s" .
  with assms have done_first: "lk_phase (lk_calls s ! i) = Finished" by (auto simp: lock_inv_def earlier_finished_def)
  from I have "tail_ok (lk_calls s) ws (map_of (lk_tails s) ws)" by (simp add: lock_inv_def)
  with done_first show ?thesis
    by (auto simp: tail_ok_def split: option.splits)
qed

fun lock_run :: "lock_event list \<Rightarrow> lock_state \<Rightarrow> lock_state option" where
  "lock_run [] s = Some s"
| "lock_run (e # es) s = Option.bind (lock_step e s) (lock_run es)"

lemma lock_run_reachable: "lock_reachable s \<Longrightarrow> lock_run es s = Some s' \<Longrightarrow> lock_reachable s'"
  by (induction es arbitrary: s) (auto simp: Option.bind_eq_Some_conv intro: lock_reachable.step)

definition three_calls :: lock_state where
  "three_calls = the (lock_run [Call ''w1'', Call ''w1'', Call ''w2'', Begin 0, End 0, Begin 1] no_calls)"

lemma three_calls: "lock_reachable three_calls" "length (lk_calls three_calls) = 3"
  "lk_workspace (lk_calls three_calls ! 0) = ''w1''" "lk_workspace (lk_calls three_calls ! 1) = ''w1''"
  "lk_phase (lk_calls three_calls ! 1) = Running"
proof -
  have R: "lock_run [Call ''w1'', Call ''w1'', Call ''w2'', Begin 0, End 0, Begin 1] no_calls = Some three_calls"
    unfolding three_calls_def by code_simp
  from lock_run_reachable [OF lock_reachable.start this] show "lock_reachable three_calls" .
  show "length (lk_calls three_calls) = 3" "lk_workspace (lk_calls three_calls ! 0) = ''w1''"
    "lk_workspace (lk_calls three_calls ! 1) = ''w1''" "lk_phase (lk_calls three_calls ! 1) = Running" by code_simp+
qed

theorem workspace_lock_serialises_witness:
  "lk_phase (lk_calls three_calls ! 0) = Finished \<and> lk_phase (lk_calls three_calls ! 1) = Running
    \<and> map_of (lk_tails three_calls) ''w1'' = Some 1"
proof -
  have "lk_phase (lk_calls three_calls ! 0) = Finished"
    by (rule workspace_lock_serialises [of _ _ 1, THEN conjunct1]) (use three_calls in simp_all)
  moreover have "map_of (lk_tails three_calls) ''w1'' = Some 1" by code_simp
  ultimately show ?thesis using three_calls(5) by blast
qed

section \<open>Every caller gets its turn\<close>

text \<open>What is left to do: two steps for a waiting caller, one for a running one.\<close>

definition lock_work :: "lock_state \<Rightarrow> nat" where
  "lock_work s = (\<Sum>c \<leftarrow> lk_calls s. case lk_phase c of Waiting \<Rightarrow> 2 | Running \<Rightarrow> 1 | Finished \<Rightarrow> 0)"

fun serves :: "lock_event \<Rightarrow> bool" where
  "serves (Call _) = False"
| "serves (Begin _) = True"
| "serves (End _) = True"

lemma sum_list_set:
  "i < length xs \<Longrightarrow> (\<Sum>x \<leftarrow> xs[i := y]. f x) + f (xs ! i) = (\<Sum>x \<leftarrow> xs. f x) + (f y :: nat)"
  by (induction xs arbitrary: i) (auto split: nat.split simp: nth_Cons)

lemma lock_step_work: "lock_step e s = Some s' \<Longrightarrow> serves e \<Longrightarrow> lock_work s = Suc (lock_work s')"
proof (cases e)
  case (Begin i)
  assume "lock_step e s = Some s'"
  with Begin have i: "i < length (lk_calls s)" "lk_phase (lk_calls s ! i) = Waiting" "s' = set_phase i Running s"
    by (auto split: if_splits)
  then show ?thesis using sum_list_set [OF i(1), of "\<lambda>c. case lk_phase c of Waiting \<Rightarrow> 2 | Running \<Rightarrow> 1 | Finished \<Rightarrow> 0"
      "(lk_calls s ! i)\<lparr>lk_phase := Running\<rparr>"]
    by (simp add: lock_work_def set_phase_def)
next
  case (End i)
  assume "lock_step e s = Some s'"
  with End have i: "i < length (lk_calls s)" "lk_phase (lk_calls s ! i) = Running"
    "lk_calls s' = lk_calls (set_phase i Finished s)" by (auto simp: Let_def split: if_splits)
  then show ?thesis using sum_list_set [OF i(1), of "\<lambda>c. case lk_phase c of Waiting \<Rightarrow> 2 | Running \<Rightarrow> 1 | Finished \<Rightarrow> 0"
      "(lk_calls s ! i)\<lparr>lk_phase := Finished\<rparr>"]
    by (simp add: lock_work_def set_phase_def)
qed simp

lemma lock_run_work: "lock_run es s = Some s' \<Longrightarrow> list_all serves es \<Longrightarrow> lock_work s = length es + lock_work s'"
  by (induction es arbitrary: s) (auto simp: Option.bind_eq_Some_conv dest!: lock_step_work)

lemma unfinished_served:
  assumes "lock_reachable s" "k < length (lk_calls s)" "lk_phase (lk_calls s ! k) \<noteq> Finished"
  shows "\<exists>i \<le> k. lock_step (Begin i) s \<noteq> None \<or> lock_step (End i) s \<noteq> None"
proof -
  define i where "i = (LEAST i. lk_phase (lk_calls s ! i) \<noteq> Finished)"
  from assms(3) have i: "i \<le> k" "lk_phase (lk_calls s ! i) \<noteq> Finished"
    unfolding i_def by (rule Least_le, rule LeastI)
  have "earlier_finished (lk_calls s) i" unfolding earlier_finished_def i_def by (blast dest: not_less_Least)
  with reachable_inv [OF assms(1)] i assms(2) have "prior_settled (lk_calls s) i" by (auto intro: earlier_prior_settled)
  with i assms(2) have "lock_step (Begin i) s \<noteq> None \<or> lock_step (End i) s \<noteq> None"
    by (cases "lk_phase (lk_calls s ! i)") (auto simp: Let_def)
  with i show ?thesis by blast
qed

text \<open>
  C33. Nobody waits for ever: when no further call arrives, at most two steps per waiting caller and one per
  running one can be taken, whatever their order, and where no step is left every caller has ended and \<open>tails\<close>
  is empty.
\<close>

theorem workspace_lock_drains:
  assumes "lock_reachable s" and "lock_run es s = Some s'" and "list_all serves es"
    and "\<And>i. lock_step (Begin i) s' = None" and "\<And>i. lock_step (End i) s' = None"
  shows "list_all (\<lambda>c. lk_phase c = Finished) (lk_calls s') \<and> lk_tails s' = [] \<and> length es = lock_work s"
proof -
  from lock_run_reachable [OF assms(1,2)] have R: "lock_reachable s'" .
  have F: "lk_phase (lk_calls s' ! k) = Finished" if "k < length (lk_calls s')" for k
    using unfinished_served [OF R that] assms(4,5) by (auto simp del: lock_step.simps)
  then have all: "list_all (\<lambda>c. lk_phase c = Finished) (lk_calls s')" by (simp add: list_all_length)
  from F reachable_inv [OF R] have "map_of (lk_tails s') ws = None" for ws
    by (auto simp: lock_inv_def tail_ok_def split: option.splits)
  then have tails: "lk_tails s' = []" by (metis list.exhaust map_of_Cons_code(2) option.distinct(1) surj_pair)
  have "lock_work s' = 0" using F by (auto simp: lock_work_def in_set_conv_nth split: phase.splits)
  with lock_run_work [OF assms(2,3)] all tails show ?thesis by simp
qed

definition drained :: lock_state where
  "drained = the (lock_run [End 1, Begin 2, End 2] three_calls)"

theorem workspace_lock_drains_witness:
  "lk_tails drained = [] \<and> list_all (\<lambda>c. lk_phase c = Finished) (lk_calls drained) \<and> lock_work three_calls = 3"
proof -
  have R: "lock_run [End 1, Begin 2, End 2] three_calls = Some drained" unfolding drained_def by code_simp
  have F: "list_all (\<lambda>c. lk_phase c = Finished) (lk_calls drained)" by code_simp
  then have N: "lock_step (Begin i) drained = None" "lock_step (End i) drained = None" for i
    by (auto simp: list_all_length)
  show ?thesis using workspace_lock_drains [OF three_calls(1) R _ N] by simp
qed

end
