(* ===== verification/Usage_Aggregator.thy ===== *)
theory Usage_Aggregator
  imports Master_Types "HOL-Library.Multiset"
begin

text \<open>
  The daily usage roll-up (\<open>src/master/usage-aggregator.ts\<close>): operational compute hours per replica and the
  billing inputs per app. Instants are milliseconds since the epoch; the amounts, JavaScript numbers, are
  exact rationals here, so rounding is not modelled (\<open>installedMs\<close>, a count of milliseconds, is exact in the
  code as well). The collation key of \<open>localeCompare\<close> is a parameter.
\<close>

definition HOUR_MS :: int where "HOUR_MS = 3600000"

definition DAY_MS :: int where "DAY_MS = 86400000"

definition GIB :: rat where "GIB = 1024 ^ 3"

definition utcDay :: "int \<Rightarrow> int" where
  "utcDay t = t - t mod DAY_MS"

record UsageResources =
  ur_memoryMb :: rat
  ur_cpus :: rat
  ur_tmpSizeMb :: "rat option"

record PerAppRow =
  ar_appId :: string
  ar_ramGbHours :: rat
  ar_cpuHours :: rat
  ar_storageGbDay :: rat
  ar_resources :: UsageResources
  ar_replicaCount :: nat
  ar_installedDayFraction :: rat

record AppUsageDaily =
  ud_workspaceId :: string
  ud_date :: int
  ud_ramGbHours :: rat
  ud_cpuHours :: rat
  ud_storageGbDay :: rat
  ud_perApp :: "PerAppRow list"

section \<open>Rows and compute hours\<close>

definition new_row :: "string \<Rightarrow> PerAppRow" where
  "new_row appId = \<lparr>ar_appId = appId, ar_ramGbHours = 0, ar_cpuHours = 0, ar_storageGbDay = 0,
     ar_resources = \<lparr>ur_memoryMb = 0, ur_cpus = 0, ur_tmpSizeMb = None\<rparr>, ar_replicaCount = 0, ar_installedDayFraction = 0\<rparr>"

text \<open>\<open>appUsage(appId)\<close>, and a row changed in place.\<close>

definition appUsage :: "string \<Rightarrow> PerAppRow obj \<Rightarrow> PerAppRow" where
  "appUsage appId perApp = (case map_of perApp appId of Some r \<Rightarrow> r | None \<Rightarrow> new_row appId)"

definition change_row :: "string \<Rightarrow> (PerAppRow \<Rightarrow> PerAppRow) \<Rightarrow> PerAppRow obj \<Rightarrow> PerAppRow obj" where
  "change_row appId f perApp = obj_set appId (f (appUsage appId perApp)) perApp"

definition addCompute :: "ContainerResources \<Rightarrow> int \<Rightarrow> PerAppRow \<Rightarrow> PerAppRow" where
  "addCompute resources durationMs row = (if durationMs \<le> 0 then row else row\<lparr>
     ar_ramGbHours := ar_ramGbHours row + memoryMb resources / 1024 * (of_int durationMs / of_int HOUR_MS),
     ar_cpuHours := ar_cpuHours row + cpus resources * (of_int durationMs / of_int HOUR_MS)\<rparr>)"

record ReplicaInterval =
  ri_appId :: string
  ri_resources :: ContainerResources
  ri_since :: int

type_synonym ops_state = "ReplicaInterval obj \<times> PerAppRow obj"

definition integrate :: "string \<Rightarrow> int \<Rightarrow> ReplicaInterval obj \<Rightarrow> PerAppRow obj \<Rightarrow> PerAppRow obj" where
  "integrate key until running perApp = (case map_of running key of
     None \<Rightarrow> perApp
   | Some iv \<Rightarrow> change_row (ri_appId iv) (addCompute (ri_resources iv) (max 0 (until - ri_since iv))) perApp)"

definition app_level_only :: "LifecycleEventType \<Rightarrow> bool" where
  "app_level_only t = (t \<in> {INSTALLED, UNINSTALLED, REPLICAS_CHANGED, RESIZED})"

definition billing_interval_type :: "LifecycleEventType \<Rightarrow> bool" where
  "billing_interval_type t = (app_level_only t \<or> t = QUARANTINED)"

text \<open>\<open>`${event.appId}:${event.replicaId}`\<close>\<close>

definition replica_key :: "AppLifecycleEvent \<Rightarrow> string" where
  "replica_key e = ev_appId e @ '':'' @ (case ev_replicaId e of Some r \<Rightarrow> r | None \<Rightarrow> ''undefined'')"

definition ops_event :: "int \<Rightarrow> AppLifecycleEvent \<Rightarrow> ops_state \<Rightarrow> ops_state" where
  "ops_event start e s = (let
     (running, perApp) = s;
     key = replica_key e;
     since = max start (ev_at e);
     opened = obj_set key \<lparr>ri_appId = ev_appId e, ri_resources = ev_resources e, ri_since = since\<rparr> running
   in if ev_type e = STARTED then (opened, integrate key since running perApp)
      else if ev_type e = REDEPLOYED then
        (if map_of running key \<noteq> None then (opened, integrate key since running perApp) else (running, perApp))
      else (obj_del key running, integrate key since running perApp))"

definition ops_metrics :: "int \<Rightarrow> int \<Rightarrow> AppLifecycleEvent list \<Rightarrow> PerAppRow obj" where
  "ops_metrics start accountingEnd events = (let
     replicaEvents = sort_key ev_at (filter (\<lambda>e. \<not> app_level_only (ev_type e) \<and> ev_at e < accountingEnd) events);
     (running, perApp) = fold (ops_event start) replicaEvents ([], [])
   in fold (\<lambda>(key, _) p. integrate key accountingEnd running p) running perApp)"

section \<open>Billable intervals\<close>

record OpenInterval =
  oi_since :: int
  oi_resources :: ContainerResources
  oi_replicaCount :: nat
  oi_storageBytes :: "rat option"

type_synonym segment = "OpenInterval \<times> int"

definition appLevelEventsByApp :: "AppLifecycleEvent list \<Rightarrow> AppLifecycleEvent list obj" where
  "appLevelEventsByApp events = fold (\<lambda>e m. if billing_interval_type (ev_type e)
     then obj_set (ev_appId e) ((case map_of m (ev_appId e) of Some l \<Rightarrow> l | None \<Rightarrow> []) @ [e]) m else m) events []"

definition removedAtByApp :: "MasterApp list \<Rightarrow> int obj" where
  "removedAtByApp apps = fold (\<lambda>a m. if ma_state a = ''REMOVED'' then obj_set (ma_appId a) (ma_updatedAt a) m else m) apps []"

text \<open>One event: the open interval afterwards, and the interval it ended.\<close>

definition next_open :: "AppLifecycleEvent \<Rightarrow> OpenInterval option \<Rightarrow> OpenInterval option" where
  "next_open e opn = (if ev_type e = INSTALLED then
       (case opn of Some o' \<Rightarrow> Some o'
        | None \<Rightarrow> Some \<lparr>oi_since = ev_at e, oi_resources = ev_resources e,
            oi_replicaCount = (case ev_replicaCount e of Some n \<Rightarrow> n | None \<Rightarrow> 1), oi_storageBytes = ev_storageBytes e\<rparr>)
     else if ev_type e = REPLICAS_CHANGED \<or> ev_type e = RESIZED then
       (case opn of None \<Rightarrow> None
        | Some o' \<Rightarrow> Some \<lparr>oi_since = ev_at e, oi_resources = ev_resources e,
            oi_replicaCount = (case ev_replicaCount e of Some n \<Rightarrow> n | None \<Rightarrow> oi_replicaCount o'), oi_storageBytes = oi_storageBytes o'\<rparr>)
     else None)"

definition ended :: "AppLifecycleEvent \<Rightarrow> OpenInterval option \<Rightarrow> segment list" where
  "ended e opn = (case opn of None \<Rightarrow> [] | Some o' \<Rightarrow> if ev_type e = INSTALLED then [] else [(o', ev_at e)])"

fun scan :: "AppLifecycleEvent list \<Rightarrow> OpenInterval option \<Rightarrow> segment list \<times> OpenInterval option" where
  "scan [] opn = ([], opn)"
| "scan (e # es) opn = (let (segs, last_open) = scan es (next_open e opn) in (ended e opn @ segs, last_open))"

definition segments :: "int \<Rightarrow> int option \<Rightarrow> AppLifecycleEvent list \<Rightarrow> segment list" where
  "segments accountingEnd removedAt es = (let (closed, opn) = scan (sort_key ev_at es) None in
     closed @ (case opn of None \<Rightarrow> [] | Some o' \<Rightarrow>
       [(o', case removedAt of None \<Rightarrow> accountingEnd | Some r \<Rightarrow> min accountingEnd (max (oi_since o') r))]))"

record billing =
  b_installedMs :: int
  b_maxMemoryMb :: rat
  b_maxCpus :: rat
  b_maxTmpSizeMb :: "rat option"
  b_maxReplicaCount :: nat
  b_storageGbDay :: rat

definition bill_segment :: "int \<Rightarrow> int \<Rightarrow> segment \<Rightarrow> billing \<Rightarrow> billing" where
  "bill_segment start accountingEnd s b = (let
     (o', e) = s;
     segStart = max start (oi_since o');
     segEnd = min accountingEnd e;
     ms = segEnd - segStart
   in if segEnd \<le> segStart then b else b\<lparr>
     b_installedMs := b_installedMs b + ms,
     b_maxMemoryMb := max (b_maxMemoryMb b) (memoryMb (oi_resources o')),
     b_maxCpus := max (b_maxCpus b) (cpus (oi_resources o')),
     b_maxTmpSizeMb := Some (max (case b_maxTmpSizeMb b of Some m \<Rightarrow> m | None \<Rightarrow> 0) (tmpSizeMb (oi_resources o'))),
     b_maxReplicaCount := max (b_maxReplicaCount b) (oi_replicaCount o'),
     b_storageGbDay := b_storageGbDay b + (case oi_storageBytes o' of Some s \<Rightarrow> s / GIB * (of_int ms / of_int DAY_MS) | None \<Rightarrow> 0)\<rparr>)"

definition no_billing :: billing where
  "no_billing = \<lparr>b_installedMs = 0, b_maxMemoryMb = 0, b_maxCpus = 0, b_maxTmpSizeMb = None, b_maxReplicaCount = 0, b_storageGbDay = 0\<rparr>"

definition bill :: "int \<Rightarrow> int \<Rightarrow> segment list \<Rightarrow> billing" where
  "bill start accountingEnd segs = fold (bill_segment start accountingEnd) segs no_billing"

definition with_billing :: "billing \<Rightarrow> PerAppRow \<Rightarrow> PerAppRow" where
  "with_billing b row = row\<lparr>ar_installedDayFraction := of_int (b_installedMs b) / of_int DAY_MS,
     ar_resources := \<lparr>ur_memoryMb = b_maxMemoryMb b, ur_cpus = b_maxCpus b, ur_tmpSizeMb = b_maxTmpSizeMb b\<rparr>,
     ar_replicaCount := b_maxReplicaCount b, ar_storageGbDay := b_storageGbDay b\<rparr>"

definition bill_app :: "int \<Rightarrow> int \<Rightarrow> int obj \<Rightarrow> string \<times> AppLifecycleEvent list \<Rightarrow> PerAppRow obj \<Rightarrow> PerAppRow obj" where
  "bill_app start accountingEnd removed x perApp = (let
     (appId, es) = x;
     b = bill start accountingEnd (segments accountingEnd (map_of removed appId) es)
   in if b_installedMs b \<le> 0 then perApp else change_row appId (with_billing b) perApp)"

section \<open>The legacy window\<close>

definition removal_times :: "AppLifecycleEvent list \<Rightarrow> MasterApp \<Rightarrow> int list" where
  "removal_times events app = map ev_at (filter (\<lambda>e. ev_appId e = ma_appId app \<and> ev_type e = REMOVED \<and> ma_createdAt app < ev_at e) events)"

definition legacy_app :: "int \<Rightarrow> int \<Rightarrow> int obj \<Rightarrow> AppLifecycleEvent list \<Rightarrow> MasterApp \<Rightarrow> PerAppRow obj \<Rightarrow> PerAppRow obj" where
  "legacy_app start accountingEnd removed events app perApp = (let
     removals = removal_times events app;
     removedAt = (if removals \<noteq> [] then Some (Min (set removals)) else map_of removed (ma_appId app));
     storageStart = max start (ma_createdAt app);
     storageEnd = min accountingEnd (case removedAt of Some r \<Rightarrow> r | None \<Rightarrow> accountingEnd);
     share = of_int (storageEnd - storageStart) / of_int DAY_MS
   in if map_of (appLevelEventsByApp events) (ma_appId app) \<noteq> None then perApp
      else if \<not> (\<exists>e \<in> set events. ev_appId e = ma_appId app \<and> ev_type e = STARTED) then perApp
      else if storageEnd \<le> storageStart then perApp
      else change_row (ma_appId app) (\<lambda>row. row\<lparr>ar_installedDayFraction := share,
        ar_resources := \<lparr>ur_memoryMb = memoryMb (ma_resources app), ur_cpus = cpus (ma_resources app),
          ur_tmpSizeMb = Some (tmpSizeMb (ma_resources app))\<rparr>,
        ar_replicaCount := max (length (ma_replicas app)) 1,
        ar_storageGbDay := (if 0 < ma_storageBytes app then ma_storageBytes app / GIB * share else ar_storageGbDay row)\<rparr>) perApp)"

definition aggregateWorkspaceDay ::
  "(string \<Rightarrow> nat) \<Rightarrow> string \<Rightarrow> int \<Rightarrow> AppLifecycleEvent list \<Rightarrow> MasterApp list \<Rightarrow> int \<Rightarrow> AppUsageDaily" where
  "aggregateWorkspaceDay collation workspaceId date events apps asOf = (let
     start = utcDay date;
     accountingEnd = min (start + DAY_MS) (max start asOf);
     removed = removedAtByApp apps;
     ops = ops_metrics start accountingEnd events;
     billed = fold (bill_app start accountingEnd removed) (appLevelEventsByApp events) ops;
     perApp = fold (legacy_app start accountingEnd removed events) apps billed;
     breakdown = sort_key (\<lambda>row. collation (ar_appId row)) (map snd perApp)
   in \<lparr>ud_workspaceId = workspaceId, ud_date = start, ud_ramGbHours = sum_list (map ar_ramGbHours breakdown),
       ud_cpuHours = sum_list (map ar_cpuHours breakdown), ud_storageGbDay = sum_list (map ar_storageGbDay breakdown),
       ud_perApp = breakdown\<rparr>)"

section \<open>The roll-up of a day\<close>

text \<open>\<open>usageDaily\<close> is keyed by workspace and day: a roll-up overwrites the row it wrote before.\<close>

type_synonym usage_db = "((string \<times> int) \<times> AppUsageDaily) list"

definition rollup :: "(string \<Rightarrow> nat) \<Rightarrow> int \<Rightarrow> int \<Rightarrow> AppLifecycleEvent list \<Rightarrow> MasterApp list \<Rightarrow> usage_db \<Rightarrow> nat \<times> usage_db" where
  "rollup collation date asOf all_events all_apps db = (let
     start = utcDay date;
     finish = start + DAY_MS;
     events = filter (\<lambda>e. ev_at e < finish) all_events;
     apps = filter (\<lambda>a. ma_createdAt a < finish) all_apps;
     workspaceIds = rev (remdups (rev (map ev_workspaceId events @ map ma_workspaceId apps)))
   in (length workspaceIds, fold (\<lambda>ws. obj_set (ws, start) (aggregateWorkspaceDay collation ws start
         (filter (\<lambda>e. ev_workspaceId e = ws) events) (filter (\<lambda>a. ma_workspaceId a = ws) apps) asOf)) workspaceIds db))"

section \<open>The event log read instant by instant\<close>

text \<open>
  The reference: the interval open at instant \<open>t\<close> after the events up to \<open>t\<close>. A log that ends with an open
  interval is cut at the removal time of the app's document.
\<close>

definition open_at :: "AppLifecycleEvent list \<Rightarrow> int \<Rightarrow> OpenInterval option" where
  "open_at es t = fold next_open (filter (\<lambda>e. ev_at e \<le> t) (sort_key ev_at es)) None"

definition installed :: "int option \<Rightarrow> AppLifecycleEvent list \<Rightarrow> int \<Rightarrow> OpenInterval option" where
  "installed removedAt es t = (case (fold next_open (sort_key ev_at es) None, removedAt) of
     (Some l, Some r) \<Rightarrow> if oi_since l \<le> t \<and> r \<le> t then None else open_at es t
   | _ \<Rightarrow> open_at es t)"

text \<open>The segments that cover an instant.\<close>

definition cover :: "int \<Rightarrow> segment list \<Rightarrow> OpenInterval list" where
  "cover t segs = map fst (filter (\<lambda>(o', e). oi_since o' \<le> t \<and> t < e) segs)"

lemma cover_simps [simp]:
  "cover t [] = []"
  "cover t (s # segs) = (if oi_since (fst s) \<le> t \<and> t < snd s then [fst s] else []) @ cover t segs"
  "cover t (xs @ ys) = cover t xs @ cover t ys"
  by (auto simp: cover_def split: prod.splits)

definition here :: "int \<Rightarrow> OpenInterval option \<Rightarrow> OpenInterval list" where
  "here t opn = (case opn of None \<Rightarrow> [] | Some o' \<Rightarrow> if oi_since o' \<le> t then [o'] else [])"

lemma next_open_since: "next_open e opn = Some o' \<Longrightarrow> oi_since o' = ev_at e \<or> opn = Some o'"
  by (auto simp: next_open_def split: if_splits option.splits)

lemma scan_open: "snd (scan es opn) = fold next_open es opn"
  by (induction es arbitrary: opn) (simp_all add: Let_def split_beta)

lemma scan_cover:
  "sorted (map ev_at es) \<Longrightarrow>
     cover t (fst (scan es opn)) @ here t (snd (scan es opn)) = here t (fold next_open (filter (\<lambda>e. ev_at e \<le> t) es) opn)"
proof (induction es arbitrary: opn)
  case (Cons e es)
  then have IH: "cover t (fst (scan es (next_open e opn))) @ here t (snd (scan es (next_open e opn)))
      = here t (fold next_open (filter (\<lambda>e. ev_at e \<le> t) es) (next_open e opn))" by simp
  show ?case
  proof (cases "ev_at e \<le> t")
    case True
    then have "cover t (ended e opn) = []" by (auto simp: ended_def split: option.splits)
    with True IH show ?thesis by (simp add: Let_def split_beta)
  next
    case False
    with Cons.prems have none: "filter (\<lambda>e. ev_at e \<le> t) es = []" by (auto simp: filter_empty_conv)
    have "cover t (ended e opn) @ here t (next_open e opn) = here t opn"
      using False by (auto simp: ended_def here_def next_open_def split: option.splits)
    with False IH none show ?thesis by (simp add: Let_def split_beta)
  qed
qed simp

lemma open_since: "fold next_open es opn = Some o' \<Longrightarrow> (\<exists>e \<in> set es. oi_since o' = ev_at e) \<or> opn = Some o'"
proof (induction es arbitrary: opn)
  case (Cons e es)
  then show ?case using next_open_since [of e opn] by fastforce
qed simp

lemma here_open_at: "here t (open_at es t) = (case open_at es t of None \<Rightarrow> [] | Some o' \<Rightarrow> [o'])"
proof (cases "open_at es t")
  case (Some o')
  then have "oi_since o' \<le> t" using open_since [of _ None o'] by (force simp: open_at_def)
  with Some show ?thesis by (simp add: here_def)
qed (simp add: here_def)

lemma open_at_before: "fold next_open (sort_key ev_at es) None = Some l \<Longrightarrow> oi_since l \<le> t \<Longrightarrow> open_at es t = Some l"
proof -
  assume l: "fold next_open (sort_key ev_at es) None = Some l" "oi_since l \<le> t"
  have "here t (open_at es t) = cover t (fst (scan (sort_key ev_at es) None)) @ [l]"
    using l scan_cover [of "sort_key ev_at es" t None] by (simp add: open_at_def scan_open here_def)
  then show ?thesis by (auto simp: here_def split: option.splits if_splits)
qed

text \<open>Every instant of the day is covered by exactly the interval open then.\<close>

lemma segments_cover:
  assumes "t < accountingEnd"
  shows "cover t (segments accountingEnd removedAt es) = (case installed removedAt es t of None \<Rightarrow> [] | Some o' \<Rightarrow> [o'])"
proof -
  let ?S = "scan (sort_key ev_at es) None"
  have C: "cover t (fst ?S) @ here t (snd ?S) = here t (open_at es t)"
    using scan_cover [of "sort_key ev_at es" t None] by (simp add: open_at_def)
  show ?thesis
  proof (cases "snd ?S")
    case None
    then have "segments accountingEnd removedAt es = fst ?S" "installed removedAt es t = open_at es t"
      by (simp_all add: segments_def split_beta installed_def scan_open [symmetric])
    with C None here_open_at show ?thesis by (simp add: here_def)
  next
    case (Some l)
    have last: "cover t (segments accountingEnd removedAt es) = cover t (fst ?S)
        @ (if oi_since l \<le> t \<and> (case removedAt of None \<Rightarrow> True | Some r \<Rightarrow> t < r) then [l] else [])"
      using assms by (auto simp: segments_def split_beta Some split: option.splits)
    have F: "fold next_open (sort_key ev_at es) None = Some l" using Some by (simp add: scan_open)
    show ?thesis
    proof (cases "oi_since l \<le> t")
      case True
      then have o': "open_at es t = Some l" using open_at_before F by simp
      with C Some True have "cover t (fst ?S) = []" by (simp add: here_def)
      with last True o' F show ?thesis by (auto simp: installed_def split: option.splits)
    next
      case False
      then have "installed removedAt es t = open_at es t" by (auto simp: installed_def F split: option.splits)
      with C Some False last here_open_at show ?thesis by (simp add: here_def)
    qed
  qed
qed

section \<open>What a segment list is billed for\<close>

abbreviation covers :: "int \<Rightarrow> segment \<Rightarrow> bool" where
  "covers t s \<equiv> oi_since (fst s) \<le> t \<and> t < snd s"

definition clip :: "int \<Rightarrow> int \<Rightarrow> segment \<Rightarrow> int" where
  "clip start accountingEnd s = max 0 (min accountingEnd (snd s) - max start (oi_since (fst s)))"

lemma clip_card: "clip start accountingEnd s = int (card {t \<in> {start..<accountingEnd}. covers t s})"
proof -
  have "{t \<in> {start..<accountingEnd}. covers t s} = {max start (oi_since (fst s))..<min accountingEnd (snd s)}" by auto
  then show ?thesis unfolding clip_def by (simp only: card_atLeastLessThan_int)
qed

lemma clip_pos: "0 < clip start accountingEnd s \<longleftrightarrow> (\<exists>t \<in> {start..<accountingEnd}. covers t s)"
  unfolding clip_card by (auto simp: card_gt_0_iff)

text \<open>An amount proportional to the clipped length is the sum of its share over the covered instants.\<close>

lemma clip_sum:
  fixes wt :: "OpenInterval \<Rightarrow> rat"
  shows "(\<Sum>s \<leftarrow> segs. wt (fst s) * of_int (clip start accountingEnd s))
    = (\<Sum>t \<in> {start..<accountingEnd}. \<Sum>o' \<leftarrow> cover t segs. wt o')"
proof (induction segs)
  case (Cons s segs)
  have "wt (fst s) * of_int (clip start accountingEnd s) = (\<Sum>t \<in> {start..<accountingEnd}. if covers t s then wt (fst s) else 0)"
    by (simp add: clip_card sum.If_cases Int_def)
  moreover have "(\<Sum>o' \<leftarrow> cover t (s # segs). wt o') = (if covers t s then wt (fst s) else 0) + (\<Sum>o' \<leftarrow> cover t segs. wt o')" for t
    by simp
  ultimately show ?case using Cons.IH by (simp only: sum.distrib list.map sum_list.Cons)
qed simp

definition storage_of :: "OpenInterval \<Rightarrow> rat" where
  "storage_of o' = (case oi_storageBytes o' of Some b \<Rightarrow> b | None \<Rightarrow> 0)"

lemma bill_segment_clip: "bill_segment start accountingEnd s b = (if clip start accountingEnd s = 0 then b else b\<lparr>
     b_installedMs := b_installedMs b + clip start accountingEnd s,
     b_maxMemoryMb := max (b_maxMemoryMb b) (memoryMb (oi_resources (fst s))),
     b_maxCpus := max (b_maxCpus b) (cpus (oi_resources (fst s))),
     b_maxTmpSizeMb := Some (max (case b_maxTmpSizeMb b of Some m \<Rightarrow> m | None \<Rightarrow> 0) (tmpSizeMb (oi_resources (fst s)))),
     b_maxReplicaCount := max (b_maxReplicaCount b) (oi_replicaCount (fst s)),
     b_storageGbDay := b_storageGbDay b + storage_of (fst s) / GIB * (of_int (clip start accountingEnd s) / of_int DAY_MS)\<rparr>)"
proof (cases "min accountingEnd (snd s) \<le> max start (oi_since (fst s))")
  case True
  then show ?thesis by (simp add: bill_segment_def clip_def Let_def split_beta del: min_le_iff_disj le_max_iff_disj)
next
  case False
  then have "clip start accountingEnd s = min accountingEnd (snd s) - max start (oi_since (fst s))" by (simp add: clip_def)
  with False show ?thesis
    by (auto simp only: bill_segment_def storage_of_def Let_def split_beta split: option.splits) simp_all
qed

lemma bill_fold:
  "b_installedMs (fold (bill_segment start H) segs b) = b_installedMs b + (\<Sum>s \<leftarrow> segs. clip start H s)"
  "b_storageGbDay (fold (bill_segment start H) segs b)
     = b_storageGbDay b + (\<Sum>s \<leftarrow> segs. storage_of (fst s) / GIB / of_int DAY_MS * of_int (clip start H s))"
  "b_maxMemoryMb (fold (bill_segment start H) segs b)
     = fold (\<lambda>s. max (memoryMb (oi_resources (fst s)))) (filter (\<lambda>s. clip start H s \<noteq> 0) segs) (b_maxMemoryMb b)"
  "b_maxCpus (fold (bill_segment start H) segs b)
     = fold (\<lambda>s. max (cpus (oi_resources (fst s)))) (filter (\<lambda>s. clip start H s \<noteq> 0) segs) (b_maxCpus b)"
  "b_maxReplicaCount (fold (bill_segment start H) segs b)
     = fold (\<lambda>s. max (oi_replicaCount (fst s))) (filter (\<lambda>s. clip start H s \<noteq> 0) segs) (b_maxReplicaCount b)"
  by (induction segs arbitrary: b) (auto simp: bill_segment_clip algebra_simps max.commute)

lemma fold_max_Max:
  fixes g :: "'a \<Rightarrow> 'b :: linorder"
  shows "fold (\<lambda>s. max (g s)) xs m = Max (insert m (g ` set xs))"
proof (induction xs arbitrary: m)
  case (Cons x xs)
  have "Max (insert (max (g x) m) (g ` set xs)) = Max (insert m (g ` set (x # xs)))"
    by (cases "xs = []") (simp_all add: max.assoc max.left_commute max.commute)
  with Cons show ?case by simp
qed simp

text \<open>The largest value over the billed segments is the largest one over the covered instants.\<close>

lemma billed_values:
  "g ` fst ` set (filter (\<lambda>s. clip start H s \<noteq> 0) segs) = g ` (\<Union>t \<in> {start..<H}. set (cover t segs))"
proof -
  have "clip start H s \<noteq> 0 \<longleftrightarrow> (\<exists>t \<in> {start..<H}. covers t s)" for s
    using clip_pos [of start H s] by (auto simp: clip_def)
  then show ?thesis by (auto simp: cover_def image_iff) (metis fst_conv snd_conv atLeastLessThan_iff)+
qed

section \<open>The rows of a day\<close>

lemma appUsage_change [simp]: "appUsage a (change_row c f p) = (if a = c then f (appUsage a p) else appUsage a p)"
  by (simp add: appUsage_def change_row_def)

lemma change_row_None: "map_of (change_row c f p) a = None \<longleftrightarrow> a \<noteq> c \<and> map_of p a = None"
  by (simp add: change_row_def)

text \<open>Well-formed tables: one row per app, under its id.\<close>

definition rows_ok :: "PerAppRow obj \<Rightarrow> bool" where
  "rows_ok p \<longleftrightarrow> distinct (map fst p) \<and> (\<forall>(a, r) \<in> set p. ar_appId r = a)"

lemma rows_ok_change: "rows_ok p \<Longrightarrow> (\<And>r. ar_appId (f r) = ar_appId r) \<Longrightarrow> rows_ok (change_row c f p)"
proof -
  assume R: "rows_ok p" and f: "\<And>r. ar_appId (f r) = ar_appId r"
  have "ar_appId (appUsage c p) = c"
    using R by (auto simp: appUsage_def new_row_def rows_ok_def split: option.splits dest: map_of_SomeD)
  with R f show ?thesis by (auto simp: rows_ok_def change_row_def dest!: obj_set_memD)
qed

lemma fold_inv: "P s \<Longrightarrow> (\<And>x s. P s \<Longrightarrow> P (f x s)) \<Longrightarrow> P (fold f xs s)"
  by (induction xs arbitrary: s) auto

lemma addCompute_fields [simp]:
  "ar_appId (addCompute r d row) = ar_appId row" "ar_storageGbDay (addCompute r d row) = ar_storageGbDay row"
  "ar_resources (addCompute r d row) = ar_resources row" "ar_replicaCount (addCompute r d row) = ar_replicaCount row"
  "ar_installedDayFraction (addCompute r d row) = ar_installedDayFraction row"
  by (simp_all add: addCompute_def)

text \<open>The operational metrics never write a billing field.\<close>

definition unbilled :: "PerAppRow obj \<Rightarrow> bool" where
  "unbilled p \<longleftrightarrow> rows_ok p \<and> (\<forall>a. ar_storageGbDay (appUsage a p) = 0 \<and> ar_installedDayFraction (appUsage a p) = 0
     \<and> ar_replicaCount (appUsage a p) = 0 \<and> ur_memoryMb (ar_resources (appUsage a p)) = 0 \<and> ur_cpus (ar_resources (appUsage a p)) = 0)"

lemma unbilled_integrate: "unbilled p \<Longrightarrow> unbilled (integrate k until running p)"
  by (auto simp: integrate_def unbilled_def rows_ok_change split: option.splits)

lemma unbilled_ops: "unbilled (ops_metrics start H events)"
proof -
  have "unbilled []" by (simp add: unbilled_def rows_ok_def appUsage_def new_row_def)
  moreover have "unbilled (snd (ops_event start e s))" if "unbilled (snd s)" for e s
    using that unbilled_integrate by (cases s) (auto simp: ops_event_def Let_def)
  ultimately have "unbilled (snd (fold (ops_event start) es ([], [])))" for es
    by (intro fold_inv [where P = "\<lambda>s. unbilled (snd s)"]) simp_all
  then show ?thesis unfolding ops_metrics_def Let_def split_beta
    by (intro fold_inv [where P = unbilled]) (auto intro: unbilled_integrate)
qed

lemma app_level_fold:
  "map_of (fold (\<lambda>e m. if billing_interval_type (ev_type e)
     then obj_set (ev_appId e) ((case map_of m (ev_appId e) of Some l \<Rightarrow> l | None \<Rightarrow> []) @ [e]) m else m) events m) a
   = (let es = filter (\<lambda>e. ev_appId e = a \<and> billing_interval_type (ev_type e)) events in
      if es = [] then map_of m a else Some ((case map_of m a of Some l \<Rightarrow> l | None \<Rightarrow> []) @ es))"
  by (induction events arbitrary: m) (auto simp: Let_def)

lemma app_level_events: "map_of (appLevelEventsByApp events) a
   = (let es = filter (\<lambda>e. ev_appId e = a \<and> billing_interval_type (ev_type e)) events in if es = [] then None else Some es)"
  unfolding appLevelEventsByApp_def app_level_fold by (simp add: Let_def)

lemma app_level_distinct: "distinct (map fst (appLevelEventsByApp events))"
  unfolding appLevelEventsByApp_def by (rule fold_inv) simp_all

lemma bill_loop:
  "distinct (map fst m) \<Longrightarrow> appUsage a (fold (bill_app start H removed) m p) = (case map_of m a of
     None \<Rightarrow> appUsage a p
   | Some es \<Rightarrow> let b = bill start H (segments H (map_of removed a) es) in
       if b_installedMs b \<le> 0 then appUsage a p else with_billing b (appUsage a p))"
proof (induction m arbitrary: p)
  case (Cons x m)
  then have "map_of m (fst x) = None" by (simp add: map_of_eq_None_iff)
  with Cons show ?case by (auto simp: bill_app_def Let_def split_beta split: option.splits)
qed simp

lemma legacy_skips: "map_of (appLevelEventsByApp events) a \<noteq> None \<Longrightarrow>
    appUsage a (fold (legacy_app start H removed events) apps p) = appUsage a p"
  by (induction apps arbitrary: p) (auto simp: legacy_app_def Let_def)

lemma with_billing_id [simp]: "ar_appId (with_billing b r) = ar_appId r"
  by (simp add: with_billing_def)

lemma rows_ok_day: "rows_ok p \<Longrightarrow> rows_ok (fold (legacy_app start H removed events) apps (fold (bill_app start H removed) m p))"
  by (intro fold_inv [where P = rows_ok]) (auto simp: legacy_app_def bill_app_def Let_def intro!: rows_ok_change)

text \<open>The row of an app in a day's report; an app without a row used nothing.\<close>

definition usage_row :: "string \<Rightarrow> AppUsageDaily \<Rightarrow> PerAppRow" where
  "usage_row a day = (case List.find (\<lambda>r. ar_appId r = a) (ud_perApp day) of Some r \<Rightarrow> r | None \<Rightarrow> new_row a)"

lemma find_row:
  assumes "rows_ok p" and "set rs = set (map snd p)"
  shows "(case List.find (\<lambda>r. ar_appId r = a) rs of Some r \<Rightarrow> r | None \<Rightarrow> new_row a) = appUsage a p"
proof (cases "List.find (\<lambda>r. ar_appId r = a) rs")
  case None
  then have "map_of p a = None" using assms
    by (fastforce simp: find_None_iff rows_ok_def map_of_eq_None_iff)
  with None show ?thesis by (simp add: appUsage_def)
next
  case (Some r)
  then have r: "r \<in> snd ` set p" "ar_appId r = a" using assms(2) by (auto simp: find_Some_iff)
  with assms(1) have "map_of p a = Some r" by (auto simp: rows_ok_def)
  with Some show ?thesis by (simp add: appUsage_def)
qed

lemma of_int_sum_list: "of_int (\<Sum>x \<leftarrow> xs. f x) = (\<Sum>x \<leftarrow> xs. of_int (f x) :: 'a :: ring_1)"
  by (induction xs) simp_all

text \<open>What one app is billed, read off the log instant by instant.\<close>

lemma billed_by_instants:
  fixes start H removedAt es
  defines "I \<equiv> {t \<in> {start..<H}. installed removedAt es t \<noteq> None}"
    and "live \<equiv> \<lambda>t. the (installed removedAt es t)" and "b \<equiv> bill start H (segments H removedAt es)"
  shows "b_installedMs b = int (card I)"
    and "b_storageGbDay b = (\<Sum>t \<in> I. storage_of (live t) / GIB / of_int DAY_MS)"
    and "b_maxMemoryMb b = Max (insert 0 ((\<lambda>t. memoryMb (oi_resources (live t))) ` I))"
    and "b_maxCpus b = Max (insert 0 ((\<lambda>t. cpus (oi_resources (live t))) ` I))"
    and "b_maxReplicaCount b = Max (insert 0 ((\<lambda>t. oi_replicaCount (live t)) ` I))"
proof -
  let ?segs = "segments H removedAt es"
  have C: "cover t ?segs = (if t \<in> I then [live t] else [])" if "t \<in> {start..<H}" for t
    using segments_cover [of t H removedAt es] that by (auto simp: I_def live_def split: option.splits)
  have sums: "(\<Sum>s \<leftarrow> ?segs. wt (fst s) * of_int (clip start H s)) = (\<Sum>t \<in> I. wt (live t))" for wt :: "OpenInterval \<Rightarrow> rat"
  proof -
    have "(\<Sum>s \<leftarrow> ?segs. wt (fst s) * of_int (clip start H s)) = (\<Sum>t \<in> {start..<H}. if t \<in> I then wt (live t) else 0)"
      unfolding clip_sum by (rule sum.cong) (simp_all add: C)
    also have "\<dots> = (\<Sum>t \<in> I. wt (live t))" by (simp add: sum.If_cases I_def Int_def)
    finally show ?thesis .
  qed
  have vals: "g ` fst ` set (filter (\<lambda>s. clip start H s \<noteq> 0) ?segs) = (\<lambda>t. g (live t)) ` I" for g :: "OpenInterval \<Rightarrow> 'a"
  proof -
    have "(\<Union>t \<in> {start..<H}. set (cover t ?segs)) = live ` I" by (auto simp: C) (auto simp: I_def C)
    then show ?thesis unfolding billed_values by (simp add: image_image)
  qed
  have "of_int (\<Sum>s \<leftarrow> ?segs. clip start H s) = (of_nat (card I) :: rat)"
    using sums [of "\<lambda>_. 1"] by (simp add: of_int_sum_list)
  then have ms: "(\<Sum>s \<leftarrow> ?segs. clip start H s) = int (card I)" by (metis of_int_eq_iff of_int_of_nat_eq)
  show "b_installedMs b = int (card I)" by (simp add: b_def bill_def bill_fold no_billing_def ms)
  show "b_storageGbDay b = (\<Sum>t \<in> I. storage_of (live t) / GIB / of_int DAY_MS)"
    using sums [of "\<lambda>o'. storage_of o' / GIB / of_int DAY_MS"] by (simp add: b_def bill_def bill_fold no_billing_def)
  show "b_maxMemoryMb b = Max (insert 0 ((\<lambda>t. memoryMb (oi_resources (live t))) ` I))"
    using vals [of "\<lambda>o'. memoryMb (oi_resources o')"]
    by (simp add: b_def bill_def bill_fold no_billing_def fold_max_Max image_image)
  show "b_maxCpus b = Max (insert 0 ((\<lambda>t. cpus (oi_resources (live t))) ` I))"
    using vals [of "\<lambda>o'. cpus (oi_resources o')"]
    by (simp add: b_def bill_def bill_fold no_billing_def fold_max_Max image_image)
  show "b_maxReplicaCount b = Max (insert 0 ((\<lambda>t. oi_replicaCount (live t)) ` I))"
    using vals [of oi_replicaCount] by (simp add: b_def bill_def bill_fold no_billing_def fold_max_Max image_image)
qed

text \<open>
  C8. The billing row of an app is exactly what its event log says instant by instant: the fraction is the
  share of the day's milliseconds at which an interval is open (replayed installs, re-basing, closers, the
  cut at a removal and the accounting end included), storage is the sum over those milliseconds, and the
  resources and replica count are the largest open at one of them. Nothing is counted twice, and the rest of
  the report does not enter.
\<close>

theorem daily_billing_matches_log:
  fixes appId date asOf events apps ws collation
  defines "start \<equiv> utcDay date" and "day \<equiv> aggregateWorkspaceDay collation ws date events apps asOf"
    and "es \<equiv> filter (\<lambda>e. ev_appId e = appId \<and> billing_interval_type (ev_type e)) events"
    and "live \<equiv> installed (map_of (removedAtByApp apps) appId) (filter (\<lambda>e. ev_appId e = appId \<and> billing_interval_type (ev_type e)) events)"
    and "I \<equiv> {t. utcDay date \<le> t \<and> t < min (utcDay date + DAY_MS) (max (utcDay date) asOf)
        \<and> installed (map_of (removedAtByApp apps) appId) (filter (\<lambda>e. ev_appId e = appId \<and> billing_interval_type (ev_type e)) events) t \<noteq> None}"
  assumes "es \<noteq> []"
  shows "ar_installedDayFraction (usage_row appId day) = of_nat (card I) / of_int DAY_MS
    \<and> ar_storageGbDay (usage_row appId day) = (\<Sum>t \<in> I. storage_of (the (live t)) / GIB / of_int DAY_MS)
    \<and> ur_memoryMb (ar_resources (usage_row appId day)) = Max (insert 0 ((\<lambda>t. memoryMb (oi_resources (the (live t)))) ` I))
    \<and> ur_cpus (ar_resources (usage_row appId day)) = Max (insert 0 ((\<lambda>t. cpus (oi_resources (the (live t)))) ` I))
    \<and> ar_replicaCount (usage_row appId day) = Max (insert 0 ((\<lambda>t. oi_replicaCount (the (live t))) ` I))"
proof -
  let ?H = "min (start + DAY_MS) (max start asOf)" and ?removed = "removedAtByApp apps"
  let ?m = "appLevelEventsByApp events" and ?ops = "ops_metrics start ?H events"
  let ?b = "bill start ?H (segments ?H (map_of ?removed appId) es)"
  let ?r = "if b_installedMs ?b \<le> 0 then appUsage appId ?ops else with_billing ?b (appUsage appId ?ops)"
  have m: "map_of ?m appId = Some es" using \<open>es \<noteq> []\<close> by (simp add: app_level_events es_def)
  have ops: "unbilled ?ops" by (rule unbilled_ops)
  have I: "I = {t \<in> {start..<?H}. installed (map_of ?removed appId) es t \<noteq> None}"
    by (auto simp: I_def start_def es_def)
  note by_instants = billed_by_instants [of start ?H "map_of ?removed appId" es, folded I]
  have row: "usage_row appId day = ?r"
    unfolding usage_row_def day_def aggregateWorkspaceDay_def Let_def start_def [symmetric]
    by (subst find_row [where p = "fold (legacy_app start ?H ?removed events) apps (fold (bill_app start ?H ?removed) ?m ?ops)"])
      (use ops rows_ok_day in \<open>auto simp: legacy_skips bill_loop app_level_distinct m Let_def unbilled_def\<close>)
  have live: "live = installed (map_of ?removed appId) es" by (simp add: live_def es_def)
  have "finite I" unfolding I by (rule finite_subset [of _ "{start..<?H}"]) auto
  then have "I = {}" if "b_installedMs ?b \<le> 0" using that by (simp add: by_instants(1))
  then show ?thesis
    unfolding row live using ops by (auto simp: with_billing_def by_instants unbilled_def)
qed

definition demo_event :: "LifecycleEventType \<Rightarrow> int \<Rightarrow> AppLifecycleEvent" where
  "demo_event type at_ms = \<lparr>ev_eventId = show_int at_ms, ev_workspaceId = ''w'', ev_appId = ''a1'', ev_replicaId = None, ev_type = type,
     ev_resources = ma_resources demo_app, ev_storageBytes = None, ev_replicaCount = None, ev_at = at_ms\<rparr>"

text \<open>Installed at 01:00, resized at 02:00, uninstalled at 07:00: a quarter of the day.\<close>

definition demo_log :: "AppLifecycleEvent list" where
  "demo_log = [demo_event INSTALLED 3600000, demo_event RESIZED 7200000, demo_event UNINSTALLED 25200000]"

lemma demo_live: "installed None demo_log t \<noteq> None \<longleftrightarrow> 3600000 \<le> t \<and> t < 25200000"
  by (auto simp: installed_def open_at_def demo_log_def demo_event_def next_open_def)

theorem daily_billing_matches_log_witness:
  "ar_installedDayFraction (usage_row ''a1'' (aggregateWorkspaceDay (\<lambda>_. 0) ''w'' 5 demo_log [demo_app] (2 * DAY_MS))) = 1 / 4"
proof -
  have es: "filter (\<lambda>e. ev_appId e = ''a1'' \<and> billing_interval_type (ev_type e)) demo_log = demo_log"
    by (simp add: demo_log_def demo_event_def billing_interval_type_def app_level_only_def)
  have removed: "map_of (removedAtByApp [demo_app]) ''a1'' = None" by (simp add: removedAtByApp_def demo_app_def)
  have I: "{t. utcDay 5 \<le> t \<and> t < min (utcDay 5 + DAY_MS) (max (utcDay 5) (2 * DAY_MS)) \<and> (3600000 \<le> t \<and> t < 25200000)}
      = {3600000..<25200000}" by (auto simp: utcDay_def DAY_MS_def)
  show ?thesis
    using daily_billing_matches_log [where appId = "''a1''" and events = demo_log and date = 5 and apps = "[demo_app]"
        and asOf = "2 * DAY_MS" and ws = "''w''" and collation = "\<lambda>_. 0", THEN conjunct1]
    unfolding es removed demo_live I by (simp add: demo_log_def DAY_MS_def)
qed

text \<open>
  An app installed before billing events existed, started and then resized: the resize takes it out of the
  legacy window, and without an \<open>INSTALLED\<close> event no interval is open, so the day is not billed.
\<close>

lemma legacy_app_resized_bills_nothing:
  "ar_installedDayFraction (usage_row ''a1'' (aggregateWorkspaceDay (\<lambda>_. 0) ''w'' 0
     [demo_event STARTED 1000, demo_event RESIZED 43200000] [demo_app] DAY_MS)) = 0"
  "ar_installedDayFraction (usage_row ''a1'' (aggregateWorkspaceDay (\<lambda>_. 0) ''w'' 0
     [demo_event STARTED 1000] [demo_app] DAY_MS)) = 1"
  by (simp_all add: demo_event_def demo_app_def aggregateWorkspaceDay_def utcDay_def DAY_MS_def removedAtByApp_def ops_metrics_def
      app_level_only_def billing_interval_type_def ops_event_def replica_key_def integrate_def change_row_def appUsage_def addCompute_def
      HOUR_MS_def new_row_def appLevelEventsByApp_def bill_app_def segments_def next_open_def ended_def bill_def no_billing_def
      legacy_app_def removal_times_def usage_row_def)

section \<open>No day is longer than a day\<close>

definition share_ok :: "PerAppRow obj \<Rightarrow> bool" where
  "share_ok p \<longleftrightarrow> rows_ok p \<and> (\<forall>a. 0 \<le> ar_installedDayFraction (appUsage a p) \<and> ar_installedDayFraction (appUsage a p) \<le> 1)"

lemma share_ok_change: "share_ok p \<Longrightarrow> (\<And>r. ar_appId (f r) = ar_appId r) \<Longrightarrow>
    (\<And>r. 0 \<le> ar_installedDayFraction (f r) \<and> ar_installedDayFraction (f r) \<le> 1) \<Longrightarrow> share_ok (change_row c f p)"
  by (simp add: share_ok_def rows_ok_change)

lemma share_ok_bill: "H \<le> start + DAY_MS \<Longrightarrow> share_ok p \<Longrightarrow> share_ok (bill_app start H removed x p)"
proof -
  assume H: "H \<le> start + DAY_MS" and p: "share_ok p"
  let ?b = "bill start H (segments H (map_of removed (fst x)) (snd x))"
  let ?I = "{t \<in> {start..<H}. installed (map_of removed (fst x)) (snd x) t \<noteq> None}"
  have "card ?I \<le> card {start..<H}" by (rule card_mono) auto
  with H have "b_installedMs ?b \<le> DAY_MS" by (auto simp: billed_by_instants(1) DAY_MS_def)
  then have "of_int (b_installedMs ?b) \<le> (of_int DAY_MS :: rat)" by (simp only: of_int_le_iff)
  with p show ?thesis
    by (auto simp: bill_app_def Let_def split_beta intro!: share_ok_change)
      (auto simp: with_billing_def DAY_MS_def)
qed

lemma share_ok_legacy: "H \<le> start + DAY_MS \<Longrightarrow> share_ok p \<Longrightarrow> share_ok (legacy_app start H removed events app p)"
proof -
  assume H: "H \<le> start + DAY_MS" and p: "share_ok p"
  have "0 \<le> of_int (min H r - max start c) / (of_int DAY_MS :: rat) \<and> of_int (min H r - max start c) / (of_int DAY_MS :: rat) \<le> 1"
    if "\<not> min H r \<le> max start c" for r c
  proof -
    have "min H r - max start c \<le> DAY_MS" using H by auto
    then have "of_int (min H r - max start c) \<le> (of_int DAY_MS :: rat)" by (simp only: of_int_le_iff)
    moreover have "0 \<le> (of_int (min H r - max start c) :: rat)" using that by (simp only: of_int_0_le_iff)
    ultimately show ?thesis by (simp add: DAY_MS_def)
  qed
  with p show ?thesis unfolding legacy_app_def Let_def by (auto intro!: share_ok_change simp del: of_int_diff)
qed

text \<open>
  In every report each app has at most one row, and its installed share of the day is between nothing and
  the whole day, whatever the event log, the documents and the accounting instant.
\<close>

theorem usage_share_bounds:
  "distinct (map ar_appId (ud_perApp (aggregateWorkspaceDay collation ws date events apps asOf)))
   \<and> list_all (\<lambda>r. 0 \<le> ar_installedDayFraction r \<and> ar_installedDayFraction r \<le> 1)
       (ud_perApp (aggregateWorkspaceDay collation ws date events apps asOf))"
proof -
  let ?s = "utcDay date" and ?rm = "removedAtByApp apps"
  let ?H = "min (?s + DAY_MS) (max ?s asOf)"
  define p where "p = fold (legacy_app ?s ?H ?rm events) apps
    (fold (bill_app ?s ?H ?rm) (appLevelEventsByApp events) (ops_metrics ?s ?H events))"
  have "share_ok (ops_metrics ?s ?H events)" using unbilled_ops by (auto simp: unbilled_def share_ok_def)
  then have ok: "share_ok p" unfolding p_def
    by (intro fold_inv [where P = share_ok] share_ok_legacy share_ok_bill) auto
  have rows: "ud_perApp (aggregateWorkspaceDay collation ws date events apps asOf)
      = sort_key (\<lambda>row. collation (ar_appId row)) (map snd p)"
    by (simp add: aggregateWorkspaceDay_def Let_def p_def)
  have ids: "map ar_appId (map snd p) = map fst p" using ok by (auto simp: share_ok_def rows_ok_def)
  have "mset (map ar_appId (sort_key (\<lambda>row. collation (ar_appId row)) (map snd p))) = mset (map fst p)"
    unfolding ids [symmetric] mset_map mset_sort by simp
  with ok have "distinct (map ar_appId (sort_key (\<lambda>row. collation (ar_appId row)) (map snd p)))"
    unfolding share_ok_def rows_ok_def by (metis distinct_count_atmost_1 mset_eq_imp_distinct_iff)
  moreover have "0 \<le> ar_installedDayFraction r \<and> ar_installedDayFraction r \<le> 1" if "r \<in> snd ` set p" for r
  proof -
    from that obtain a where "(a, r) \<in> set p" by auto
    with ok have "appUsage a p = r" by (auto simp: share_ok_def rows_ok_def appUsage_def)
    with ok show ?thesis by (auto simp: share_ok_def)
  qed
  ultimately show ?thesis by (auto simp: rows list_all_iff)
qed

end
