(* ===== verification/Reconcile.thy ===== *)
theory Reconcile
  imports App_Lifecycle Usage_Aggregator
begin

text \<open>
  Reconciliation of the apps master with the containers its agents list (\<open>src/master/reconcile-service.ts\<close>):
  repairing lost replicas, rebuilding lost app documents, and stopping the containers of quarantined apps.
  An agent's listing is a parameter (\<open>None\<close>: the request failed or was refused); everything else the service
  uses of the outside is in \<open>lc_world\<close>.
\<close>

fun container_state_text :: "ContainerState \<Rightarrow> string" where
  "container_state_text CS_created = ''created''"
| "container_state_text CS_running = ''running''"
| "container_state_text CS_stopped = ''stopped''"
| "container_state_text CS_error = ''error''"

definition app_id_of :: "Container \<Rightarrow> string" where
  "app_id_of c = (case c_appId c of Some a \<Rightarrow> a | None \<Rightarrow> c_id c)"

section \<open>Writes\<close>

definition stop_call :: "string \<Rightarrow> MasterNode \<Rightarrow> string \<Rightarrow> agent_call" where
  "stop_call workspaceId node containerId = \<lparr>ac_nodeId = mn_nodeId node, ac_workspaceId = workspaceId, ac_method = ''POST'',
     ac_path = ''/api/v1/apps/'' @ containerId @ ''/stop''\<rparr>"

text \<open>A refused or failed stop is only logged.\<close>

definition stopQuarantined :: "string \<Rightarrow> MasterNode \<Rightarrow> string \<Rightarrow> lc_db \<Rightarrow> lc_db" where
  "stopQuarantined workspaceId node containerId db = db\<lparr>lc_calls := lc_calls db @ [stop_call workspaceId node containerId]\<rparr>"

definition seed_event :: "string \<Rightarrow> string \<Rightarrow> string \<Rightarrow> Container \<Rightarrow> AppLifecycleEvent" where
  "seed_event workspaceId appId nodeId c =
     \<lparr>ev_eventId = ''reconcile:'' @ nodeId @ '':'' @ c_id c @ '':'' @ show_int (c_createdAt c), ev_workspaceId = workspaceId,
      ev_appId = appId, ev_replicaId = Some (c_id c), ev_type = STARTED, ev_resources = c_resources c, ev_storageBytes = None,
      ev_replicaCount = None, ev_at = c_createdAt c\<rparr>"

definition seedLifecycle :: "string \<Rightarrow> string \<Rightarrow> string \<Rightarrow> Container \<Rightarrow> lc_db \<Rightarrow> lc_db" where
  "seedLifecycle workspaceId appId nodeId c db = (let e = seed_event workspaceId appId nodeId c in
     if c_state c \<noteq> CS_running then db
     else if \<exists>e' \<in> set (lc_events db). ev_eventId e' = ev_eventId e then db
     else db\<lparr>lc_events := lc_events db @ [e]\<rparr>)"

definition new_replica :: "lc_world \<Rightarrow> string \<Rightarrow> Container \<Rightarrow> lc_db \<Rightarrow> AppReplica" where
  "new_replica w nodeId c db = \<lparr>rp_replicaId = uuid w (length (lc_events db)), rp_nodeId = nodeId, rp_containerId = c_id c,
     rp_state = container_state_text (c_state c)\<rparr>"

definition add_replica :: "lc_world \<Rightarrow> string \<Rightarrow> Container \<Rightarrow> lc_db \<Rightarrow> MasterApp \<Rightarrow> MasterApp" where
  "add_replica w nodeId c db a = a\<lparr>ma_replicas := ma_replicas a @ [new_replica w nodeId c db],
     ma_state := to_upper (container_state_text (c_state c)), ma_updatedAt := now_ms w\<rparr>"

definition reconstructed :: "lc_world \<Rightarrow> string \<Rightarrow> string \<Rightarrow> string \<Rightarrow> string \<Rightarrow> string \<Rightarrow> string \<Rightarrow> string \<Rightarrow> Container \<Rightarrow> lc_db \<Rightarrow> MasterApp" where
  "reconstructed w baseDomain workspaceId nodeId listingId versionDigest imageDigest subdomain c db =
     \<lparr>ma_appId = app_id_of c, ma_workspaceId = workspaceId, ma_listingId = listingId, ma_versionDigest = versionDigest,
      ma_image = c_image c, ma_imageDigest = imageDigest, ma_resources = c_resources c, ma_port = c_port c, ma_envVars = c_envVars c,
      ma_volumes = map (\<lambda>v. \<lparr>vol_name = ''data'', vol_mountPath = vol_mountPath v, vol_sizeMb = vol_sizeMb v\<rparr>) (c_volumes c),
      ma_storageBytes = (\<Sum>v \<leftarrow> c_volumes c. (case vol_sizeMb v of Some s \<Rightarrow> of_int s | None \<Rightarrow> 0) * 1024 * 1024),
      ma_stateless = (c_volumes c = []), ma_subdomain = Some subdomain,
      ma_uiUrl = Some (''https://'' @ subdomain @ ''.'' @ baseDomain), ma_replicas = [new_replica w nodeId c db],
      ma_state = to_upper (container_state_text (c_state c)), ma_quarantinedAt = None, ma_createdAt = c_createdAt c,
      ma_updatedAt = now_ms w, ma_kind = None, ma_generationId = None, ma_suspendedWithWorkspace = False, ma_lastOomAt = None\<rparr>"

section \<open>One container\<close>

text \<open>
  \<open>reconcileContainer\<close> from the document it read: \<open>db\<close> is the database its writes meet. The upsert of a rebuilt
  document fails on the unique index when another workspace holds the app id.
\<close>

definition reconcile_from :: "lc_world \<Rightarrow> string \<Rightarrow> string \<Rightarrow> MasterNode \<Rightarrow> Container \<Rightarrow> MasterApp option \<Rightarrow> lc_db \<Rightarrow> nat option \<times> lc_db" where
  "reconcile_from w baseDomain workspaceId node c read db = (let
     nodeId = mn_nodeId node;
     appId = app_id_of c
   in case read of
     Some app \<Rightarrow>
       if is_quarantined app then
         (Some 0, if c_state c = CS_running then stopQuarantined workspaceId node (c_id c) db else db)
       else if c_mcpV3 c \<or> ma_kind app = Some KIND_mcp_v3 then
         (Some 0, case c_oomKilledAt c of None \<Rightarrow> db
           | Some t \<Rightarrow> if t \<noteq> 0 \<and> ma_lastOomAt app \<noteq> Some t
               then snd (update_app workspaceId appId (\<lambda>_. True) (\<lambda>a. a\<lparr>ma_lastOomAt := Some t\<rparr>) db) else db)
       else if \<exists>r \<in> set (ma_replicas app). rp_containerId r = c_id c then (Some 0, db)
       else (Some 1, seedLifecycle workspaceId appId nodeId c
              (snd (update_app workspaceId appId (\<lambda>_. True) (add_replica w nodeId c db) db)))
   | None \<Rightarrow>
       if c_mcpV3 c then (Some 0, db)
       else (case (truthy (c_listingId c), truthy (c_versionDigest c), truthy (c_imageDigest c), truthy (c_subdomain c)) of
           (Some listingId, Some versionDigest, Some imageDigest, Some subdomain) \<Rightarrow>
             let row = reconstructed w baseDomain workspaceId nodeId listingId versionDigest imageDigest subdomain c db in
             (case map_of (lc_apps db) appId of
                None \<Rightarrow> (Some 1, seedLifecycle workspaceId appId nodeId c (db\<lparr>lc_apps := obj_set appId row (lc_apps db)\<rparr>))
              | Some other \<Rightarrow> if ma_workspaceId other = workspaceId then (Some 1, seedLifecycle workspaceId appId nodeId c db)
                  else (None, db))
         | _ \<Rightarrow> (Some 0, db)))"

definition reconcile_container :: "lc_world \<Rightarrow> string \<Rightarrow> string \<Rightarrow> MasterNode \<Rightarrow> Container \<Rightarrow> lc_db \<Rightarrow> nat option \<times> lc_db" where
  "reconcile_container w baseDomain workspaceId node c db =
     reconcile_from w baseDomain workspaceId node c (find_app workspaceId (app_id_of c) db) db"

section \<open>The sweep over every workspace and node\<close>

record reconcile_counts =
  rk_discovered :: nat
  rk_repaired :: nat
  rk_failed :: nat

fun reconcile_containers ::
  "lc_world \<Rightarrow> string \<Rightarrow> string \<Rightarrow> MasterNode \<Rightarrow> Container list \<Rightarrow> reconcile_counts \<times> lc_db \<Rightarrow> reconcile_counts \<times> lc_db" where
  "reconcile_containers w bd ws node [] s = s"
| "reconcile_containers w bd ws node (c # cs) (k, db) = (let k1 = k\<lparr>rk_discovered := rk_discovered k + 1\<rparr> in
     case reconcile_container w bd ws node c db of
       (Some n, db1) \<Rightarrow> reconcile_containers w bd ws node cs (k1\<lparr>rk_repaired := rk_repaired k1 + n\<rparr>, db1)
     | (None, db1) \<Rightarrow> (k1\<lparr>rk_failed := rk_failed k1 + 1\<rparr>, db1))"

definition reconcile_node ::
  "lc_world \<Rightarrow> (string \<Rightarrow> string \<Rightarrow> Container list option) \<Rightarrow> string \<Rightarrow> string \<times> MasterNode
    \<Rightarrow> reconcile_counts \<times> lc_db \<Rightarrow> reconcile_counts \<times> lc_db" where
  "reconcile_node w listing bd x s = (case listing (mn_nodeId (snd x)) (fst x) of
     None \<Rightarrow> ((fst s)\<lparr>rk_failed := rk_failed (fst s) + 1\<rparr>, snd s)
   | Some cs \<Rightarrow> reconcile_containers w bd (fst x) (snd x) cs s)"

definition reconcile_run ::
  "lc_world \<Rightarrow> (string \<Rightarrow> string \<Rightarrow> Container list option) \<Rightarrow> string \<Rightarrow> MasterWorkspace list \<Rightarrow> lc_db \<Rightarrow> reconcile_counts \<times> lc_db" where
  "reconcile_run w listing bd workspaces db = (let
     active = filter mw_active workspaces;
     nodes = filter (\<lambda>n. mn_status n \<noteq> NODE_RETIRED) (lc_nodes db);
     visits = concat (map (\<lambda>ws. map (\<lambda>n. (mw_workspaceId ws, n)) nodes) active)
   in fold (reconcile_node w listing bd) visits (\<lparr>rk_discovered = 0, rk_repaired = 0, rk_failed = 0\<rparr>, db))"

section \<open>What reconciliation may change\<close>

text \<open>
  A quarantined row stays; a protocol-v3 row can only have its out-of-memory stamp set; any other row can gain
  replicas, and takes over the state of the container only together with one.
\<close>

definition sans_oom :: "MasterApp \<Rightarrow> MasterApp" where
  "sans_oom a = a\<lparr>ma_lastOomAt := None\<rparr>"

definition sans_run :: "MasterApp \<Rightarrow> MasterApp" where
  "sans_run a = a\<lparr>ma_replicas := [], ma_state := [], ma_updatedAt := 0, ma_lastOomAt := None\<rparr>"

definition repaired_row :: "MasterApp \<Rightarrow> MasterApp \<Rightarrow> bool" where
  "repaired_row a a' \<longleftrightarrow> (if is_quarantined a then a' = a
     else if ma_kind a = Some KIND_mcp_v3 then sans_oom a' = sans_oom a
     else \<not> is_quarantined a' \<and> sans_run a' = sans_run a \<and> prefix (ma_replicas a) (ma_replicas a')
       \<and> (ma_replicas a' = ma_replicas a \<longrightarrow> ma_state a' = ma_state a \<and> ma_updatedAt a' = ma_updatedAt a))"

lemma repaired_refl [simp]: "repaired_row a a"
  by (simp add: repaired_row_def)

lemma sans_fields:
  "sans_oom b = sans_oom a \<Longrightarrow> ma_kind b = ma_kind a \<and> ma_workspaceId b = ma_workspaceId a \<and> is_quarantined b = is_quarantined a"
  "sans_run b = sans_run a \<Longrightarrow> ma_kind b = ma_kind a \<and> ma_workspaceId b = ma_workspaceId a"
  unfolding sans_oom_def sans_run_def is_quarantined_def
  by (drule arg_cong [where f = "\<lambda>x. (ma_kind x, ma_workspaceId x, ma_state x)"], simp)
    (drule arg_cong [where f = "\<lambda>x. (ma_kind x, ma_workspaceId x)"], simp)

lemma repaired_same:
  "repaired_row a b \<Longrightarrow> is_quarantined b = is_quarantined a \<and> ma_kind b = ma_kind a \<and> ma_workspaceId b = ma_workspaceId a"
  unfolding repaired_row_def using sans_fields [of b a] by (auto split: if_splits)

lemma repaired_trans: "repaired_row a b \<Longrightarrow> repaired_row b c \<Longrightarrow> repaired_row a c"
proof -
  assume ab: "repaired_row a b" and bc: "repaired_row b c"
  note same = repaired_same [OF ab]
  show ?thesis
  proof (cases "is_quarantined a \<or> ma_kind a = Some KIND_mcp_v3")
    case True
    with ab bc same show ?thesis unfolding repaired_row_def by (auto split: if_splits)
  next
    case False
    with ab bc same show ?thesis unfolding repaired_row_def
      by (auto intro: prefix_order.trans dest: prefix_order.antisym)
  qed
qed

text \<open>A stop is sent only for a container that a node lists as running and whose app is quarantined.\<close>

definition owed_stop :: "(string \<Rightarrow> string \<Rightarrow> Container list option) \<Rightarrow> lc_db \<Rightarrow> agent_call \<Rightarrow> bool" where
  "owed_stop listing db call \<longleftrightarrow> (\<exists>ws node c cs a. node \<in> set (lc_nodes db) \<and> listing (mn_nodeId node) ws = Some cs \<and> c \<in> set cs
     \<and> c_state c = CS_running \<and> call = stop_call ws node (c_id c) \<and> find_app ws (app_id_of c) db = Some a \<and> is_quarantined a)"

definition reconciled :: "(string \<Rightarrow> string \<Rightarrow> Container list option) \<Rightarrow> lc_db \<Rightarrow> lc_db \<Rightarrow> bool" where
  "reconciled listing db db' \<longleftrightarrow>
     (\<forall>k a. map_of (lc_apps db) k = Some a \<longrightarrow> (\<exists>a'. map_of (lc_apps db') k = Some a' \<and> repaired_row a a'))
   \<and> (\<forall>k a'. map_of (lc_apps db) k = None \<longrightarrow> map_of (lc_apps db') k = Some a' \<longrightarrow> \<not> is_quarantined a')
   \<and> lc_nodes db' = lc_nodes db \<and> lc_hosts db' = lc_hosts db \<and> prefix (lc_events db) (lc_events db')
   \<and> (\<exists>calls. lc_calls db' = lc_calls db @ calls \<and> list_all (owed_stop listing db) calls)"

lemma reconciled_refl [simp]: "reconciled listing db db"
  by (simp add: reconciled_def)

lemma reconciledD:
  assumes "reconciled listing db db'"
  shows "map_of (lc_apps db) k = Some a \<Longrightarrow> \<exists>a'. map_of (lc_apps db') k = Some a' \<and> repaired_row a a'"
    and "map_of (lc_apps db) k = None \<Longrightarrow> map_of (lc_apps db') k = Some b \<Longrightarrow> \<not> is_quarantined b"
    and "lc_nodes db' = lc_nodes db" "lc_hosts db' = lc_hosts db" "prefix (lc_events db) (lc_events db')"
    and "\<exists>calls. lc_calls db' = lc_calls db @ calls \<and> list_all (owed_stop listing db) calls"
  using assms unfolding reconciled_def by blast+

lemma reconciled_find: "reconciled listing db db' \<Longrightarrow> find_app ws k db' = Some a' \<Longrightarrow> is_quarantined a' \<Longrightarrow>
    find_app ws k db = Some a' \<and> is_quarantined a'"
proof -
  assume R: "reconciled listing db db'" and f: "find_app ws k db' = Some a'" and q: "is_quarantined a'"
  from f have m: "map_of (lc_apps db') k = Some a'" "ma_workspaceId a' = ws" by (auto simp: find_app_iff)
  with q have "map_of (lc_apps db) k \<noteq> None" using reconciledD(2) [OF R] by blast
  then obtain a where a: "map_of (lc_apps db) k = Some a" by blast
  from reconciledD(1) [OF R a] m have r: "repaired_row a a'" by auto
  then have "is_quarantined a" using repaired_same q by blast
  with r have "a' = a" by (simp add: repaired_row_def)
  with a m q show ?thesis by (simp add: find_app_iff)
qed

lemma owed_stop_back: "reconciled listing db db1 \<Longrightarrow> owed_stop listing db1 call \<Longrightarrow> owed_stop listing db call"
proof -
  assume A: "reconciled listing db db1" and "owed_stop listing db1 call"
  then obtain ws node c cs a where c: "node \<in> set (lc_nodes db1)" "listing (mn_nodeId node) ws = Some cs" "c \<in> set cs"
    "c_state c = CS_running" "call = stop_call ws node (c_id c)" "find_app ws (app_id_of c) db1 = Some a" "is_quarantined a"
    unfolding owed_stop_def by blast
  from reconciled_find [OF A c(6,7)] c(1-5) reconciledD(3) [OF A] show ?thesis unfolding owed_stop_def by fastforce
qed

lemma reconciled_trans: "reconciled listing db db1 \<Longrightarrow> reconciled listing db1 db2 \<Longrightarrow> reconciled listing db db2"
proof -
  assume A: "reconciled listing db db1" and B: "reconciled listing db1 db2"
  have rows: "\<exists>a'. map_of (lc_apps db2) k = Some a' \<and> repaired_row a a'" if row: "map_of (lc_apps db) k = Some a" for k a
  proof -
    from reconciledD(1) [OF A row] obtain b where b: "map_of (lc_apps db1) k = Some b" "repaired_row a b" by blast
    from reconciledD(1) [OF B b(1)] b(2) show ?thesis by (blast intro: repaired_trans)
  qed
  have fresh: "\<not> is_quarantined a'" if new: "map_of (lc_apps db) k = None" "map_of (lc_apps db2) k = Some a'" for k a'
  proof (cases "map_of (lc_apps db1) k")
    case None
    from reconciledD(2) [OF B None new(2)] show ?thesis .
  next
    case (Some b)
    from reconciledD(2) [OF A new(1) Some] have "\<not> is_quarantined b" .
    moreover from reconciledD(1) [OF B Some] new(2) have "repaired_row b a'" by auto
    ultimately show ?thesis using repaired_same by blast
  qed
  from reconciledD(6) [OF A] reconciledD(6) [OF B] obtain c1 c2 where
    "lc_calls db2 = lc_calls db @ (c1 @ c2)" "list_all (owed_stop listing db) c1" "list_all (owed_stop listing db1) c2" by auto
  then have "\<exists>calls. lc_calls db2 = lc_calls db @ calls \<and> list_all (owed_stop listing db) calls"
    using owed_stop_back [OF A] by (intro exI [of _ "c1 @ c2"]) (auto simp: list_all_iff)
  moreover have "prefix (lc_events db) (lc_events db2)"
    using reconciledD(5) [OF A] reconciledD(5) [OF B] by (rule prefix_order.trans)
  ultimately show ?thesis using rows fresh reconciledD(3,4) [OF A] reconciledD(3,4) [OF B] unfolding reconciled_def by simp
qed

text \<open>One step at a time: a row changed in place, a fresh row, a seeded event, an owed stop.\<close>

lemma reconciled_update:
  assumes "\<And>a. find_app ws k db = Some a \<Longrightarrow> repaired_row a (f a)"
  shows "reconciled listing db (snd (update_app ws k (\<lambda>_. True) f db))"
  using assms by (auto simp: reconciled_def update_app_def find_app_iff split: option.splits)

lemma reconciled_insert:
  assumes "map_of (lc_apps db) k = None" and "\<not> is_quarantined row"
  shows "reconciled listing db (db\<lparr>lc_apps := obj_set k row (lc_apps db)\<rparr>)"
  using assms by (auto simp: reconciled_def)

lemma reconciled_seed: "reconciled listing db (seedLifecycle ws appId nodeId c db)"
  by (auto simp: reconciled_def seedLifecycle_def Let_def)

lemma state_not_quarantined: "to_upper (container_state_text st) \<noteq> ''QUARANTINED''"
  by (cases st) (simp_all add: to_upper_def upper_char_def)

lemma sans_simps:
  "sans_oom (a\<lparr>ma_lastOomAt := t\<rparr>) = sans_oom a" "sans_run (a\<lparr>ma_lastOomAt := t\<rparr>) = sans_run a"
  "sans_run (add_replica w n c db a) = sans_run a"
  by (simp_all add: sans_oom_def sans_run_def add_replica_def)

lemma container_reconciled:
  assumes node: "node \<in> set (lc_nodes db)" "listing (mn_nodeId node) ws = Some cs" "c \<in> set cs"
  shows "reconciled listing db (snd (reconcile_container w bd ws node c db))"
proof (cases "find_app ws (app_id_of c) db")
  case None
  have "\<not> is_quarantined (reconstructed w bd ws (mn_nodeId node) l v i s c db)" for l v i s
    using state_not_quarantined by (simp add: reconstructed_def is_quarantined_def)
  then have "reconciled listing db (seedLifecycle ws (app_id_of c) (mn_nodeId node) c
      (db\<lparr>lc_apps := obj_set (app_id_of c) (reconstructed w bd ws (mn_nodeId node) l v i s c db) (lc_apps db)\<rparr>))"
    if "map_of (lc_apps db) (app_id_of c) = None" for l v i s
    using that reconciled_trans reconciled_insert reconciled_seed by blast
  with None reconciled_seed show ?thesis
    by (auto simp: reconcile_container_def reconcile_from_def Let_def split: option.splits)
next
  case (Some app)
  then have same: "find_app ws (app_id_of c) db = Some a \<Longrightarrow> a = app" for a by simp
  show ?thesis
  proof (cases "is_quarantined app")
    case True
    with Some node have "c_state c = CS_running \<Longrightarrow> owed_stop listing db (stop_call ws node (c_id c))"
      unfolding owed_stop_def by blast
    then have "c_state c = CS_running \<Longrightarrow> reconciled listing db (stopQuarantined ws node (c_id c) db)"
      by (auto simp: reconciled_def stopQuarantined_def)
    with Some True show ?thesis by (auto simp: reconcile_container_def reconcile_from_def Let_def)
  next
    case False
    then have "repaired_row app (app\<lparr>ma_lastOomAt := t\<rparr>)" for t
      by (simp add: repaired_row_def sans_simps) (simp add: is_quarantined_def)
    then have oom: "reconciled listing db (snd (update_app ws (app_id_of c) (\<lambda>_. True) (\<lambda>a. a\<lparr>ma_lastOomAt := t\<rparr>) db))" for t
      by (intro reconciled_update) (auto dest: same)
    have "repaired_row app (add_replica w (mn_nodeId node) c db app)" if "ma_kind app \<noteq> Some KIND_mcp_v3"
      using False that state_not_quarantined
      by (simp add: repaired_row_def sans_simps) (simp add: add_replica_def is_quarantined_def)
    then have "reconciled listing db (snd (update_app ws (app_id_of c) (\<lambda>_. True) (add_replica w (mn_nodeId node) c db) db))"
      if "ma_kind app \<noteq> Some KIND_mcp_v3" using that by (intro reconciled_update) (auto dest: same)
    then have "reconciled listing db (seedLifecycle ws (app_id_of c) (mn_nodeId node) c
        (snd (update_app ws (app_id_of c) (\<lambda>_. True) (add_replica w (mn_nodeId node) c db) db)))"
      if "ma_kind app \<noteq> Some KIND_mcp_v3" using that reconciled_trans reconciled_seed by blast
    with Some False oom show ?thesis
      by (auto simp: reconcile_container_def reconcile_from_def Let_def split: option.splits)
  qed
qed

lemma containers_reconciled:
  "node \<in> set (lc_nodes db) \<Longrightarrow> listing (mn_nodeId node) ws = Some all_cs \<Longrightarrow> set cs \<subseteq> set all_cs \<Longrightarrow>
     reconciled listing db (snd (reconcile_containers w bd ws node cs (k, db)))"
proof (induction cs arbitrary: k db)
  case (Cons c cs)
  then have R: "reconciled listing db (snd (reconcile_container w bd ws node c db))" by (intro container_reconciled) auto
  then have "node \<in> set (lc_nodes (snd (reconcile_container w bd ws node c db)))"
    using Cons.prems(1) reconciledD(3) [OF R] by simp
  from Cons.IH [OF this Cons.prems(2)] Cons.prems(3) R show ?case
    by (auto simp: Let_def split: option.splits prod.splits intro: reconciled_trans)
qed simp

text \<open>
  C15. Reconciliation repairs and nothing else, whatever the agents list: the row of a quarantined app stays
  exactly as it is and no row becomes quarantined; a protocol-v3 row changes in its out-of-memory stamp at
  most; any other row keeps its replicas and every field but state and update time, which change only with
  a replica added; no row or event is lost; and the only calls made are stops of containers that a node
  lists as running although their app is quarantined.
\<close>

theorem reconcile_only_repairs:
  "reconciled listing db (snd (reconcile_run w listing baseDomain workspaces db))"
proof -
  let ?nodes = "filter (\<lambda>n. mn_status n \<noteq> NODE_RETIRED) (lc_nodes db)"
  have "reconciled listing db (snd (fold (reconcile_node w listing baseDomain) visits s))"
    if "snd ` set visits \<subseteq> set (lc_nodes db)" "reconciled listing db (snd s)" for visits s
    using that
  proof (induction visits arbitrary: s)
    case (Cons x visits)
    have "reconciled listing (snd s) (snd (reconcile_node w listing baseDomain x s))"
      using Cons.prems reconciledD(3) [OF Cons.prems(2)]
      by (cases s) (auto simp: reconcile_node_def intro!: containers_reconciled split: option.splits)
    from Cons.IH [OF _ reconciled_trans [OF Cons.prems(2) this]] Cons.prems(1) show ?case by simp
  qed simp
  note visits_ok = this
  show ?thesis unfolding reconcile_run_def Let_def
    by (rule visits_ok [where s = "(k0, db)" for k0, unfolded snd_conv]) auto
qed

section \<open>Three gaps\<close>

definition lost_container :: Container where
  "lost_container = \<lparr>c_id = ''c9'', c_appId = Some ''a1'', c_workspaceId = Some ''w'', c_listingId = None,
     c_versionDigest = None, c_securityProfile = None, c_dockerContainerId = ''d9'', c_dockerContainerName = ''n9'',
     c_image = ''i'', c_tag = ''t'', c_imageDigest = None, c_state = CS_running, c_internalUrl = [],
     c_port = 80, c_hostPort = None, c_resources = \<lparr>memoryMb = 256, cpus = 1, tmpSizeMb = 64\<rparr>, c_envVars = JObj [] None,
     c_healthCheck = \<lparr>hc_status = HS_unknown, hc_failCount = 0, hc_restartCount = 0, hc_lastCheck = None\<rparr>,
     c_createdAt = 0, c_startedAt = None, c_stoppedAt = None, c_volumes = [], c_subdomain = None, c_domain = None,
     c_healthPolicy = \<lparr>hp_path = ''/health'', hp_maxFails = 3, hp_restart = True\<rparr>, c_mcpV2 = False, c_mcpV3 = False,
     c_oomKilledAt = None\<rparr>"

lemma upper_running: "to_upper ''running'' = ''RUNNING''"
  by code_simp

definition live_db :: lc_db where
  "live_db = demo_lc_db\<lparr>lc_apps := [(''a1'', demo_app\<lparr>ma_replicas := []\<rparr>)], lc_nodes := [demo_node ''n1'']\<rparr>"

text \<open>
  The document is read, then written without the state it was read in: an app quarantined in between is
  \<open>RUNNING\<close> afterwards, so the reaper no longer sees it.
\<close>

lemma quarantine_lost_between_read_and_write:
  "(let w = demo_world 500; read = find_app ''w'' ''a1'' live_db;
        revoked = quarantine w ''w'' ''a1'' (the read) live_db;
        after = snd (reconcile_from w ''privos.link'' ''w'' (demo_node ''n1'') lost_container read revoked)
    in (map_option ma_state (find_app ''w'' ''a1'' revoked), map_option ma_state (find_app ''w'' ''a1'' after)))
   = (Some ''QUARANTINED'', Some ''RUNNING'')"
  by (simp add: live_db_def demo_lc_db_def demo_world_def find_app_def demo_app_def quarantine_def calls_for_def update_app_def
      insert_replica_events_def mark_dirty_def reconcile_from_def lost_container_def app_id_of_def is_quarantined_def
      seedLifecycle_def seed_event_def add_replica_def upper_running Let_def)

text \<open>
  The seeded \<open>STARTED\<close> event carries the container's id as its replica id, the lifecycle service's events the
  replica's: a later stop closes another interval, and the compute hours run on until the end of the day.
\<close>

lemma seeded_start_never_stops:
  "(let db1 = snd (reconcile_container (demo_world 500) ''privos.link'' ''w'' (demo_node ''n1'') lost_container live_db);
        db2 = snd (invoke (demo_world 1000) ''w'' ''a1'' Stop db1)
    in (map ev_type (lc_events db2),
        ar_cpuHours (usage_row ''a1'' (aggregateWorkspaceDay (\<lambda>_. 0) ''w'' 0 (lc_events db2) [] DAY_MS)))) = ([STARTED, STOPPED], 24)"
proof -
  let ?db1 = "snd (reconcile_container (demo_world 500) ''privos.link'' ''w'' (demo_node ''n1'') lost_container live_db)"
  have events: "lc_events (snd (invoke (demo_world 1000) ''w'' ''a1'' Stop ?db1)) = [seed_event ''w'' ''a1'' ''n1'' lost_container,
      \<lparr>ev_eventId = ''u'', ev_workspaceId = ''w'', ev_appId = ''a1'', ev_replicaId = Some ''u'', ev_type = STOPPED,
       ev_resources = ma_resources demo_app, ev_storageBytes = None, ev_replicaCount = None, ev_at = 1000\<rparr>]"
    by (simp add: live_db_def demo_lc_db_def demo_world_def find_app_def demo_app_def demo_node_def update_app_def reconcile_container_def
        reconcile_from_def lost_container_def app_id_of_def is_quarantined_def seedLifecycle_def add_replica_def
        new_replica_def upper_running Let_def invoke_def load_app_def run_calls_def calls_for_def node_of_def
        assertResponses_def all_nodes_known_def insert_replica_events_def replica_event_def mark_dirty_def with_state_def)
  show ?thesis unfolding Let_def events
    by (simp add: seed_event_def lost_container_def demo_app_def aggregateWorkspaceDay_def utcDay_def DAY_MS_def removedAtByApp_def
        ops_metrics_def app_level_only_def billing_interval_type_def ops_event_def replica_key_def integrate_def change_row_def
        appUsage_def addCompute_def HOUR_MS_def new_row_def appLevelEventsByApp_def usage_row_def obj_del_def)
qed

text \<open>Of two replicas of a protocol-v3 app, the one listed last sets the stamp, be its kill the older one.\<close>

lemma older_oom_overwrites_newer:
  assumes "find_app ws (app_id_of c) db = Some app" "ma_kind app = Some KIND_mcp_v3" "\<not> is_quarantined app"
    and "c_oomKilledAt c = Some t" "t \<noteq> 0"
  shows "find_app ws (app_id_of c) (snd (reconcile_container w bd ws node c db)) = Some (app\<lparr>ma_lastOomAt := Some t\<rparr>)"
proof -
  have step: "reconcile_container w bd ws node c db = (Some 0, if ma_lastOomAt app = Some t then db
      else snd (update_app ws (app_id_of c) (\<lambda>_. True) (\<lambda>a. a\<lparr>ma_lastOomAt := Some t\<rparr>) db))"
    using assms by (auto simp: reconcile_container_def reconcile_from_def Let_def)
  have "find_app ws (app_id_of c) (snd (update_app ws (app_id_of c) (\<lambda>_. True) (\<lambda>a. a\<lparr>ma_lastOomAt := Some t\<rparr>) db))
      = Some (app\<lparr>ma_lastOomAt := Some t\<rparr>)"
    using assms(1) by (simp add: update_app_def) (simp add: find_app_iff)
  moreover have "ma_lastOomAt app = Some t \<Longrightarrow> app\<lparr>ma_lastOomAt := Some t\<rparr> = app" by (cases app) simp
  ultimately show ?thesis unfolding step using assms(1) by simp
qed

end
