(* ===== verification/Protocol_Schemas.thy ===== *)
theory Protocol_Schemas
  imports Local_Abi
begin

text \<open>
  The payload schemas of the internal hub-to-cluster protocol (\<open>src/protocol/protocol-v3.ts\<close>, with
  \<open>src/schemas/reserved-env.ts\<close>). A schema is a value of \<open>zschema\<close>, written with the combinators the code
  uses, and \<open>zok\<close> says which JSON values it accepts: zod's documented checks (\<open>ZObj\<close> is a \<open>.strict()\<close>
  object, \<open>ZStrip\<close> one whose unknown members are dropped, \<open>ZAny\<close> is \<open>z.unknown()\<close>, an optional
  member may be absent, a refinement is an extra condition). The formats \<open>uuid\<close>, \<open>url\<close> and \<open>datetime\<close>
  are parameters. Numbers are the exact values of their lexemes, as in \<open>Js_Number\<close>.
\<close>

record zod_lib =
  zod_uuid :: "units \<Rightarrow> bool"
  zod_https_url :: "units \<Rightarrow> bool"
  zod_datetime :: "units \<Rightarrow> bool"

datatype zschema =
    ZStr "units \<Rightarrow> bool"
  | ZNum "rat \<Rightarrow> bool"
  | ZBool
  | ZLitStr string
  | ZLitNum rat
  | ZTrue
  | ZEnum "string list"
  | ZNullable zschema
  | ZArr "nat \<Rightarrow> bool" zschema
  | ZRec "units \<Rightarrow> bool" zschema
  | ZObj "zfield list"
  | ZStrip "zfield list"
  | ZAny
  | ZWhere zschema "json \<Rightarrow> bool"
and zfield = Req string zschema | Opt string zschema

fun field_name :: "zfield \<Rightarrow> units" where
  "field_name (Req k _) = u k"
| "field_name (Opt k _) = u k"

fun zok :: "zschema \<Rightarrow> json \<Rightarrow> bool" and zok_field :: "zfield \<Rightarrow> (units \<times> json) list \<Rightarrow> bool" where
  "zok (ZStr P) v = (case v of JStr s \<Rightarrow> P s | _ \<Rightarrow> False)"
| "zok (ZNum P) v = (case v of JNum l \<Rightarrow> P (lexeme_value l) | _ \<Rightarrow> False)"
| "zok ZBool v = (case v of JBool _ \<Rightarrow> True | _ \<Rightarrow> False)"
| "zok (ZLitStr k) v = (v = str k)"
| "zok (ZLitNum n) v = (case v of JNum l \<Rightarrow> lexeme_value l = n | _ \<Rightarrow> False)"
| "zok ZTrue v = (v = JBool True)"
| "zok (ZEnum ks) v = (case v of JStr s \<Rightarrow> s \<in> u ` set ks | _ \<Rightarrow> False)"
| "zok (ZNullable z) v = (v = JNull \<or> zok z v)"
| "zok (ZArr P z) v = (case v of JArr vs \<Rightarrow> P (length vs) \<and> list_all (zok z) vs | _ \<Rightarrow> False)"
| "zok (ZRec P z) v = (case v of JObj ms _ \<Rightarrow> list_all (\<lambda>m. P (fst m) \<and> zok z (snd m)) ms | _ \<Rightarrow> False)"
| "zok (ZObj fs) v = (case v of JObj ms _ \<Rightarrow> list_all (\<lambda>m. fst m \<in> field_name ` set fs) ms \<and> list_all (\<lambda>f. zok_field f ms) fs
     | _ \<Rightarrow> False)"
| "zok (ZStrip fs) v = (case v of JObj ms _ \<Rightarrow> list_all (\<lambda>f. zok_field f ms) fs | _ \<Rightarrow> False)"
| "zok ZAny v = True"
| "zok (ZWhere z P) v = (zok z v \<and> P v)"
| "zok_field (Req k z) ms = (case map_of ms (u k) of Some v \<Rightarrow> zok z v | None \<Rightarrow> False)"
| "zok_field (Opt k z) ms = (case map_of ms (u k) of Some v \<Rightarrow> zok z v | None \<Rightarrow> True)"

section \<open>Members of a parsed value\<close>

definition ustr :: "json \<Rightarrow> string \<Rightarrow> units" where
  "ustr v k = (case jget v k of Some (JStr s) \<Rightarrow> s | _ \<Rightarrow> [])"

definition unum :: "json \<Rightarrow> string \<Rightarrow> rat" where
  "unum v k = (case jget v k of Some (JNum l) \<Rightarrow> lexeme_value l | _ \<Rightarrow> 0)"

definition uarr :: "json \<Rightarrow> string \<Rightarrow> json list" where
  "uarr v k = (case jget v k of Some (JArr vs) \<Rightarrow> vs | _ \<Rightarrow> [])"

definition ukeys :: "json \<Rightarrow> units list" where
  "ukeys v = (case v of JObj ms _ \<Rightarrow> map fst ms | _ \<Rightarrow> [])"

definition is_null :: "json \<Rightarrow> string \<Rightarrow> bool" where
  "is_null v k = (jget v k = Some JNull)"

section \<open>Scalar formats\<close>

text \<open>\<open>Number.isInteger\<close>: a lexeme beyond the doubles reads as an infinity.\<close>

definition js_integer :: "rat \<Rightarrow> bool" where
  "js_integer r = (of_int \<lfloor>r\<rfloor> = r \<and> \<bar>r\<bar> < 2 ^ 1024)"

definition z_int :: zschema where "z_int = ZNum js_integer"

definition z_positive :: zschema where "z_positive = ZNum (\<lambda>r. js_integer r \<and> 0 < r)"

definition z_nonneg :: zschema where "z_nonneg = ZNum (\<lambda>r. js_integer r \<and> 0 \<le> r)"

definition z_int_in :: "rat \<Rightarrow> rat \<Rightarrow> zschema" where "z_int_in a b = ZNum (\<lambda>r. js_integer r \<and> a \<le> r \<and> r \<le> b)"

definition z_any_str :: zschema where "z_any_str = ZStr (\<lambda>_. True)"

definition z_len :: "nat \<Rightarrow> nat \<Rightarrow> zschema" where "z_len a b = ZStr (\<lambda>s. a \<le> length s \<and> length s \<le> b)"

definition lower_hex :: "nat \<Rightarrow> bool" where
  "lower_hex c = (is_digit c \<or> (97 \<le> c \<and> c \<le> 102))"

definition upper_letter :: "nat \<Rightarrow> bool" where "upper_letter c = (65 \<le> c \<and> c \<le> 90)"

definition lower_letter :: "nat \<Rightarrow> bool" where "lower_letter c = (97 \<le> c \<and> c \<le> 122)"

definition url_safe :: "nat \<Rightarrow> bool" where
  "url_safe c = (upper_letter c \<or> lower_letter c \<or> is_digit c \<or> c = 95 \<or> c = 45)"

definition upper_word :: "nat \<Rightarrow> bool" where "upper_word c = (upper_letter c \<or> is_digit c \<or> c = 95)"

definition Identifier :: zschema where "Identifier = z_len 1 160"

definition Digest_re :: "units \<Rightarrow> bool" where
  "Digest_re s = (take 7 s = u ''sha256:'' \<and> length s = 71 \<and> list_all lower_hex (drop 7 s))"

definition Digest :: zschema where "Digest = ZStr Digest_re"

definition ArtifactHash_re :: "units \<Rightarrow> bool" where
  "ArtifactHash_re s = (length s = 43 \<and> list_all url_safe s)"

definition ArtifactHash :: zschema where "ArtifactHash = ZStr ArtifactHash_re"

definition Nonce_re :: "units \<Rightarrow> bool" where
  "Nonce_re s = (16 \<le> length s \<and> length s \<le> 128 \<and> list_all url_safe s)"

definition Nonce :: zschema where "Nonce = ZStr Nonce_re"

definition SafeReasonCode :: zschema where
  "SafeReasonCode = ZStr (\<lambda>s. 2 \<le> length s \<and> length s \<le> 96 \<and> upper_letter (hd s) \<and> list_all upper_word (tl s))"

definition RESERVED_AGENT_BOT_ENV_NAMES :: "string list" where
  "RESERVED_AGENT_BOT_ENV_NAMES = [''PRIVOS_AGENT_BOT_CREDENTIAL'', ''PRIVOS_AGENT_BOT_USER_ID'']"

definition isAllowedReservedEnvName :: "units \<Rightarrow> bool" where
  "isAllowedReservedEnvName name = (name \<in> u ` set RESERVED_AGENT_BOT_ENV_NAMES)"

definition EnvName_re :: "units \<Rightarrow> bool" where
  "EnvName_re s = (1 \<le> length s \<and> length s \<le> 64 \<and> upper_letter (hd s) \<and> list_all upper_word (tl s)
     \<and> (take 7 s \<noteq> u ''PRIVOS_'' \<or> isAllowedReservedEnvName s))"

definition EnvName :: zschema where "EnvName = ZStr EnvName_re"

definition ConfigEpoch :: zschema where "ConfigEpoch = z_positive"

definition z_uuid :: "zod_lib \<Rightarrow> zschema" where "z_uuid lib = ZStr (zod_uuid lib)"

definition z_datetime :: "zod_lib \<Rightarrow> zschema" where "z_datetime lib = ZStr (zod_datetime lib)"

section \<open>Shared shapes\<close>

definition TimedArtifactShape :: "zod_lib \<Rightarrow> zfield list" where
  "TimedArtifactShape lib = [Req ''protocolVersion'' (ZLitNum 3), Req ''iss'' Identifier, Req ''jti'' (z_uuid lib),
     Req ''nonce'' Nonce, Req ''iat'' z_int, Req ''exp'' z_int]"

definition DeploymentDescriptorV3Schema :: zschema where
  "DeploymentDescriptorV3Schema = ZObj [Req ''clusterAppId'' Identifier, Req ''listingId'' Identifier, Req ''versionId'' Identifier,
     Req ''versionDigest'' Digest, Req ''image'' (z_len 1 2048), Req ''imageDigest'' Digest, Req ''manifestDigest'' Digest,
     Req ''resourceManifestHash'' ArtifactHash, Req ''port'' (z_int_in 1 65535),
     Req ''resources'' (ZObj [Req ''memoryMb'' (z_int_in 64 16384), Req ''cpus'' (ZNum (\<lambda>r. 1 / 10 \<le> r \<and> r \<le> 16)),
       Req ''tmpSizeMb'' (z_int_in 16 4096)]),
     Req ''envVars'' (ZRec (\<lambda>_. True) z_any_str), Opt ''secretEnvKeys'' (ZArr (\<lambda>n. n \<le> 32) EnvName),
     Req ''volumes'' (ZArr (\<lambda>n. n \<le> 10) (ZObj [
       Req ''name'' (ZStr (\<lambda>s. 1 \<le> length s \<and> length s \<le> 32 \<and> list_all (\<lambda>c. lower_letter c \<or> is_digit c \<or> c = 45) s)),
       Req ''mountPath'' (ZStr (\<lambda>s. take 1 s = u ''/'' \<and> length s \<le> 200)), Opt ''sizeMb'' z_positive])),
     Req ''availabilityTier'' (ZEnum [''single'', ''ha'']), Req ''stateless'' ZBool,
     Req ''releaseAttestationJws'' (ZStr (\<lambda>s. 32 \<le> length s)), Req ''subdomain'' (ZNullable z_any_str),
     Req ''domain'' (ZNullable z_any_str)]"

definition McpDeploymentGrantPayloadV3Schema :: "zod_lib \<Rightarrow> zschema" where
  "McpDeploymentGrantPayloadV3Schema lib = ZObj (TimedArtifactShape lib @ [Req ''type'' (ZLitStr ''mcp-deployment-grant''),
     Req ''aud'' (ZLitStr ''privos-apps-master''), Req ''clusterId'' Identifier, Req ''workspaceId'' Identifier,
     Req ''deploymentId'' Identifier, Req ''generationId'' Identifier, Req ''generationNumber'' z_positive,
     Req ''runtimeInstallationId'' Identifier, Req ''mcpAppId'' Identifier, Req ''acquisitionAffinityHash'' ArtifactHash,
     Req ''approvalReceiptHash'' ArtifactHash, Req ''approvedPermissionCeilingHash'' ArtifactHash,
     Req ''authorizationEpoch'' z_positive, Opt ''configEpoch'' ConfigEpoch, Req ''hubOrigin'' (ZStr (zod_https_url lib)),
     Req ''deployment'' DeploymentDescriptorV3Schema])"

section \<open>Commands\<close>

definition RuntimeResizeResourcesV3Schema :: zschema where
  "RuntimeResizeResourcesV3Schema = ZObj [Req ''memoryMb'' (z_int_in 64 4096),
     Req ''cpus'' (ZNum (\<lambda>r. 1 / 10 \<le> r \<and> r \<le> 4)), Req ''tmpSizeMb'' (z_int_in 16 1024)]"

text \<open>
  \<open>key in value.envVars\<close> also holds for the names every object inherits, none of which a secret key can be:
  they are not upper case. So it is membership of the own members here.
\<close>

definition secrets_declared :: "json \<Rightarrow> bool" where
  "secrets_declared v = list_all (\<lambda>k. case k of JStr s \<Rightarrow> s \<in> set (ukeys (jat v ''envVars'')) | _ \<Rightarrow> False) (uarr v ''secretKeys'')"

definition ClusterReconfigureCommandPayloadV3Schema :: "zod_lib \<Rightarrow> zschema" where
  "ClusterReconfigureCommandPayloadV3Schema lib = ZWhere (ZObj (TimedArtifactShape lib @ [
     Req ''type'' (ZLitStr ''cluster-reconfigure-command''), Req ''aud'' (ZLitStr ''privos-apps-master''),
     Req ''action'' (ZLitStr ''RECONFIGURE_RUNTIME''), Req ''operationId'' (z_uuid lib), Req ''clusterId'' Identifier,
     Req ''workspaceId'' Identifier, Req ''deploymentId'' Identifier, Req ''generationId'' Identifier,
     Req ''generationNumber'' z_positive, Req ''runtimeInstallationId'' Identifier, Req ''clusterAppId'' Identifier,
     Req ''mcpAppId'' Identifier, Req ''manifestDigest'' Digest, Req ''resourceManifestHash'' ArtifactHash,
     Req ''runtimeResourceInventoryHash'' ArtifactHash, Req ''authorizationEpoch'' z_positive, Req ''configEpoch'' ConfigEpoch,
     Req ''envVars'' (ZWhere (ZRec EnvName_re (z_len 0 4096)) (\<lambda>v. length (ukeys v) \<le> 32)),
     Req ''secretKeys'' (ZArr (\<lambda>n. n \<le> 32) EnvName), Opt ''resources'' RuntimeResizeResourcesV3Schema])) secrets_declared"

definition upgrade_consistent :: "json \<Rightarrow> bool" where
  "upgrade_consistent v = (unum v ''resultingAuthorizationEpoch'' = unum v ''authorizationEpoch'' + 1
     \<and> unum v ''upgradeEpoch'' = unum v ''revision''
     \<and> ustr v ''targetManifestDigest'' \<noteq> ustr v ''previousManifestDigest''
     \<and> ustr v ''targetImageDigest'' \<noteq> ustr v ''previousImageDigest'')"

definition ClusterUpgradeCommandPayloadV3Schema :: "zod_lib \<Rightarrow> zschema" where
  "ClusterUpgradeCommandPayloadV3Schema lib = ZWhere (ZObj (TimedArtifactShape lib @ [
     Req ''type'' (ZLitStr ''cluster-upgrade-command''), Req ''aud'' (ZLitStr ''privos-apps-master''),
     Req ''action'' (ZLitStr ''UPGRADE_RUNTIME''), Req ''operationId'' (z_uuid lib), Req ''clusterId'' Identifier,
     Req ''workspaceId'' Identifier, Req ''deploymentId'' Identifier, Req ''generationId'' Identifier,
     Req ''generationNumber'' z_positive, Req ''revision'' z_positive, Req ''runtimeInstallationId'' Identifier,
     Req ''clusterAppId'' Identifier, Req ''mcpAppId'' Identifier, Req ''targetManifestDigest'' Digest,
     Req ''targetImageDigest'' Digest, Req ''previousManifestDigest'' Digest, Req ''previousImageDigest'' Digest,
     Req ''resourceManifestHash'' ArtifactHash, Req ''runtimeResourceInventoryHash'' ArtifactHash,
     Req ''authorizationEpoch'' z_positive, Req ''resultingAuthorizationEpoch'' z_positive, Req ''upgradeEpoch'' z_positive]))
     upgrade_consistent"

definition ClusterLifecycleCommandPayloadV3Schema :: "zod_lib \<Rightarrow> zschema" where
  "ClusterLifecycleCommandPayloadV3Schema lib = ZObj (TimedArtifactShape lib @ [
     Req ''type'' (ZLitStr ''cluster-lifecycle-command''), Req ''aud'' (ZLitStr ''privos-apps-master''),
     Req ''action'' (ZLitStr ''UNINSTALL_RUNTIME''), Req ''operationId'' (z_uuid lib), Req ''clusterId'' Identifier,
     Req ''workspaceId'' Identifier, Req ''deploymentId'' Identifier, Req ''generationId'' Identifier,
     Req ''generationNumber'' z_positive, Req ''runtimeInstallationId'' Identifier, Req ''clusterAppId'' Identifier,
     Req ''manifestDigest'' Digest, Req ''resourceManifestHash'' ArtifactHash, Req ''runtimeResourceInventoryHash'' ArtifactHash,
     Req ''reasonCode'' SafeReasonCode, Req ''expectedResourceCount'' z_positive])"

section \<open>Dispatch assertions\<close>

definition DispatchActor :: zschema where
  "DispatchActor = ZObj [Req ''subject'' (ZStr (\<lambda>s. s \<noteq> [])), Opt ''username'' z_any_str, Opt ''roomId'' z_any_str,
     Opt ''callerApp'' (ZStr (\<lambda>s. s \<noteq> [])), Opt ''crossRoom'' ZTrue]"

definition DispatchCommonShape :: "zod_lib \<Rightarrow> zfield list" where
  "DispatchCommonShape lib = TimedArtifactShape lib @ [Opt ''actor'' DispatchActor, Req ''type'' (ZLitStr ''hub-dispatch-assertion''),
     Req ''aud'' (ZLitStr ''privos-mcp-app''), Req ''clusterId'' Identifier, Req ''workspaceId'' Identifier,
     Req ''deploymentId'' Identifier, Req ''generationId'' Identifier, Req ''generationNumber'' z_positive,
     Req ''runtimeInstallationId'' Identifier, Req ''mcpAppId'' Identifier, Req ''clusterAppId'' Identifier,
     Req ''htm'' (ZLitStr ''POST''), Req ''htu'' (ZLitStr ''/mcp''), Req ''bodyDigest'' ArtifactHash, Req ''manifestDigest'' Digest,
     Req ''resourceManifestHash'' ArtifactHash, Req ''runtimeResourceInventoryHash'' ArtifactHash,
     Req ''runtimeApprovalReceiptHash'' ArtifactHash, Req ''runtimeGrantEpoch'' z_positive]"

definition WorkspaceDispatchAssertionV3Schema :: "zod_lib \<Rightarrow> zschema" where
  "WorkspaceDispatchAssertionV3Schema lib = ZObj (DispatchCommonShape lib @ [Req ''authorizationContext'' (ZLitStr ''workspace'')])"

definition RoomDispatchAssertionV3Schema :: "zod_lib \<Rightarrow> zschema" where
  "RoomDispatchAssertionV3Schema lib = ZObj (DispatchCommonShape lib @ [Req ''authorizationContext'' (ZLitStr ''room''),
     Req ''roomId'' Identifier, Req ''authorizationBindingId'' Identifier, Req ''bindingReceiptHash'' ArtifactHash,
     Req ''bindingEpoch'' z_positive])"

text \<open>The discriminated union: the member \<open>authorizationContext\<close> chooses the schema.\<close>

definition dispatch_ok :: "zod_lib \<Rightarrow> json \<Rightarrow> bool" where
  "dispatch_ok lib v = (if jget v ''authorizationContext'' = Some (str ''workspace'') then zok (WorkspaceDispatchAssertionV3Schema lib) v
     else if jget v ''authorizationContext'' = Some (str ''room'') then zok (RoomDispatchAssertionV3Schema lib) v else False)"

section \<open>Evidence\<close>

definition RuntimeResourceKindV3Schema :: zschema where
  "RuntimeResourceKindV3Schema = ZEnum [''REPLICA'', ''CONTAINER'', ''INGRESS'', ''BROKER_BINDING'', ''BROKER_SOCKET'', ''SERVICE_DISCOVERY'', ''VOLUME'']"

definition RuntimeResourceDescriptorV3Schema :: "zod_lib \<Rightarrow> zschema" where
  "RuntimeResourceDescriptorV3Schema lib = ZObj [Req ''kind'' RuntimeResourceKindV3Schema, Req ''resourceId'' Identifier,
     Req ''ownershipScope'' (ZEnum [''ROOM_BINDING'', ''INSTALLATION_GENERATION'', ''DEPLOYMENT_SHARED'', ''PLATFORM_SHARED'']),
     Req ''nodeId'' (ZNullable Identifier), Req ''replicaId'' (ZNullable (z_uuid lib)), Req ''attributes'' (ZRec (\<lambda>_. True) z_any_str)]"

definition ClusterRuntimeInventoryAttestationPayloadV3Schema :: "zod_lib \<Rightarrow> zschema" where
  "ClusterRuntimeInventoryAttestationPayloadV3Schema lib = ZObj (TimedArtifactShape lib @ [
     Req ''type'' (ZLitStr ''cluster-runtime-inventory-attestation''), Req ''aud'' (ZLitStr ''privos-hub-api''),
     Req ''deploymentGrantJti'' (z_uuid lib), Req ''inventoryId'' Identifier, Req ''clusterId'' Identifier, Req ''workspaceId'' Identifier,
     Req ''deploymentId'' Identifier, Req ''generationId'' Identifier, Req ''generationNumber'' z_positive,
     Req ''runtimeInstallationId'' Identifier, Req ''clusterAppId'' Identifier, Req ''manifestDigest'' Digest,
     Req ''resourceManifestHash'' ArtifactHash, Req ''runtimeResourceInventoryHash'' ArtifactHash,
     Req ''expectedResourceCount'' z_positive, Req ''persistedAt'' (z_datetime lib)])"

definition ResourceCleanupResultV3Schema :: "zod_lib \<Rightarrow> zschema" where
  "ResourceCleanupResultV3Schema lib = ZObj [Req ''kind'' RuntimeResourceKindV3Schema, Req ''resourceId'' Identifier,
     Req ''status'' (ZEnum [''ABSENT'', ''REMOVED'', ''FAILED'', ''UNKNOWN'']), Req ''reasonCode'' (ZNullable SafeReasonCode),
     Req ''verifiedAt'' (ZNullable (z_datetime lib))]"

definition proves_absence :: "json \<Rightarrow> bool" where
  "proves_absence r = (ustr r ''status'' \<in> u ` {''ABSENT'', ''REMOVED''} \<and> \<not> is_null r ''verifiedAt'')"

definition result_identity :: "json \<Rightarrow> units" where
  "result_identity r = ustr r ''kind'' @ [0] @ ustr r ''resourceId''"

definition unique_results :: "json \<Rightarrow> bool" where
  "unique_results v = distinct (map result_identity (uarr v ''results''))"

definition NodeCleanupResultPayloadV3Schema :: "zod_lib \<Rightarrow> zschema" where
  "NodeCleanupResultPayloadV3Schema lib = ZWhere (ZObj (TimedArtifactShape lib @ [
     Req ''type'' (ZLitStr ''cluster-node-cleanup-result''), Req ''aud'' (ZLitStr ''privos-apps-master''),
     Req ''operationId'' (z_uuid lib), Req ''clusterId'' Identifier, Req ''nodeId'' Identifier, Req ''workspaceId'' Identifier,
     Req ''deploymentId'' Identifier, Req ''generationId'' Identifier, Req ''generationNumber'' z_positive,
     Req ''runtimeInstallationId'' Identifier, Req ''resourceManifestHash'' ArtifactHash,
     Req ''runtimeResourceInventoryHash'' ArtifactHash, Req ''complete'' ZBool,
     Req ''results'' (ZArr (\<lambda>n. 1 \<le> n) (ResourceCleanupResultV3Schema lib))]))
     (\<lambda>v. (jget v ''complete'' = Some (JBool True) \<longrightarrow> list_all proves_absence (uarr v ''results'')) \<and> unique_results v)"

definition ClusterFinalAcknowledgementPayloadV3Schema :: "zod_lib \<Rightarrow> zschema" where
  "ClusterFinalAcknowledgementPayloadV3Schema lib = ZWhere (ZObj (TimedArtifactShape lib @ [
     Req ''type'' (ZLitStr ''cluster-final-cleanup-acknowledgement''), Req ''aud'' (ZLitStr ''privos-hub-api''),
     Req ''operationId'' (z_uuid lib), Req ''clusterId'' Identifier, Req ''workspaceId'' Identifier, Req ''deploymentId'' Identifier,
     Req ''generationId'' Identifier, Req ''generationNumber'' z_positive, Req ''runtimeInstallationId'' Identifier,
     Req ''clusterAppId'' Identifier, Req ''manifestDigest'' Digest, Req ''resourceManifestHash'' ArtifactHash,
     Req ''runtimeResourceInventoryHash'' ArtifactHash, Req ''state'' (ZEnum [''COMPLETED'', ''CLEANUP_REQUIRED'']),
     Req ''expectedResourceCount'' z_nonneg, Req ''nodeResultHashes'' (ZArr (\<lambda>_. True) ArtifactHash),
     Req ''results'' (ZArr (\<lambda>_. True) (ResourceCleanupResultV3Schema lib)), Req ''completedAt'' (ZNullable (z_datetime lib))]))
     (\<lambda>v. unique_results v \<and> (ustr v ''state'' = u ''COMPLETED'' \<longrightarrow> \<not> is_null v ''completedAt''
        \<and> of_nat (length (uarr v ''results'')) = unum v ''expectedResourceCount'' \<and> list_all proves_absence (uarr v ''results'')))"

definition ClusterReconfigureAcknowledgementPayloadV3Schema :: "zod_lib \<Rightarrow> zschema" where
  "ClusterReconfigureAcknowledgementPayloadV3Schema lib = ZWhere (ZObj (TimedArtifactShape lib @ [
     Req ''type'' (ZLitStr ''cluster-reconfigure-acknowledgement''), Req ''aud'' (ZLitStr ''privos-hub-api''),
     Req ''operationId'' (z_uuid lib), Req ''clusterId'' Identifier, Req ''workspaceId'' Identifier, Req ''deploymentId'' Identifier,
     Req ''generationId'' Identifier, Req ''generationNumber'' z_positive, Req ''runtimeInstallationId'' Identifier,
     Req ''clusterAppId'' Identifier, Req ''manifestDigest'' Digest, Req ''resourceManifestHash'' ArtifactHash,
     Req ''runtimeResourceInventoryHash'' ArtifactHash, Req ''configEpoch'' ConfigEpoch, Req ''state'' (ZEnum [''APPLIED'', ''FAILED'']),
     Req ''appliedKeys'' (ZArr (\<lambda>n. n \<le> 32) EnvName), Req ''appliedAt'' (ZNullable (z_datetime lib)),
     Req ''errorCode'' (ZNullable SafeReasonCode)]))
     (\<lambda>v. \<not> (ustr v ''state'' = u ''APPLIED'' \<and> is_null v ''appliedAt'')
        \<and> uarr v ''appliedKeys'' = map JStr (sort (map (\<lambda>k. case k of JStr s \<Rightarrow> s | _ \<Rightarrow> []) (uarr v ''appliedKeys''))))"

definition ClusterUpgradeAcknowledgementPayloadV3Schema :: "zod_lib \<Rightarrow> zschema" where
  "ClusterUpgradeAcknowledgementPayloadV3Schema lib = ZWhere (ZObj (TimedArtifactShape lib @ [
     Req ''type'' (ZLitStr ''cluster-upgrade-acknowledgement''), Req ''aud'' (ZLitStr ''privos-hub-api''),
     Req ''operationId'' (z_uuid lib), Req ''clusterId'' Identifier, Req ''workspaceId'' Identifier, Req ''deploymentId'' Identifier,
     Req ''generationId'' Identifier, Req ''generationNumber'' z_positive, Req ''revision'' z_positive,
     Req ''runtimeInstallationId'' Identifier, Req ''clusterAppId'' Identifier, Req ''runningManifestDigest'' Digest,
     Req ''runningImageDigest'' Digest, Req ''resourceManifestHash'' ArtifactHash, Req ''runtimeResourceInventoryHash'' ArtifactHash,
     Req ''upgradeEpoch'' z_positive, Req ''swapStrategy'' (ZEnum [''ROLLING'', ''STOP_THEN_CREATE'']),
     Req ''state'' (ZEnum [''UPGRADED'', ''ROLLED_BACK'', ''FAILED'', ''REFUSED'']), Req ''upgradedAt'' (ZNullable (z_datetime lib)),
     Req ''errorCode'' (ZNullable SafeReasonCode)]))
     (\<lambda>v. (ustr v ''state'' = u ''UPGRADED'') = (\<not> is_null v ''upgradedAt''))"

section \<open>Roomless acquisition\<close>

definition AcquisitionAffinityV3Schema :: zschema where
  "AcquisitionAffinityV3Schema = ZObj [Req ''protocolVersion'' (ZLitNum 3), Req ''type'' (ZLitStr ''mcp-acquisition-affinity''),
     Req ''listingId'' Identifier, Req ''versionId'' Identifier, Req ''offerId'' Identifier, Req ''workspaceId'' Identifier,
     Req ''deploymentId'' Identifier, Req ''executionMode'' (ZEnum [''SELF_HOSTED_LOCAL'', ''PRIVOS_MANAGED_RUNTIME'', ''PUBLISHER_HOSTED'']),
     Req ''availabilityTier'' (ZEnum [''single'', ''ha'']),
     Req ''commercial'' (ZObj [Req ''pricingModel'' (ZEnum [''FREE'', ''ONE_TIME'', ''SUBSCRIPTION'']), Req ''amountCents'' z_nonneg,
       Req ''currency'' (ZStr (\<lambda>s. length s = 3 \<and> list_all upper_letter s))]),
     Req ''manifestDigest'' Digest, Req ''permissionCeilingHash'' ArtifactHash, Req ''dataPolicyHash'' ArtifactHash]"

text \<open>
  \<open>key.replace(/[_-]/g, '').toLowerCase()\<close>. Two characters outside ASCII have an ASCII lower case: the
  Kelvin sign (k), which no name below contains, and the dotted capital I, whose lower case is i and a
  combining dot, so that it spells none of them either.
\<close>

definition normalized :: "units \<Rightarrow> units" where
  "normalized key = map (\<lambda>c. if upper_letter c then c + 32 else c) (filter (\<lambda>c. c \<noteq> 95 \<and> c \<noteq> 45) key)"

fun containsRoomAffinity :: "json \<Rightarrow> bool" where
  "containsRoomAffinity (JArr vs) = list_ex containsRoomAffinity vs"
| "containsRoomAffinity (JObj ms p) = list_ex (\<lambda>m. normalized (fst m) \<in> u ` {''roomid'', ''targetroomid'', ''roomtarget'', ''roomaffinity''}
     \<or> (normalized (fst m) = u ''target'' \<and> jget (snd m) ''type'' = Some (str ''room'')) \<or> containsRoomAffinity (snd m)) ms"
| "containsRoomAffinity _ = False"

end
