(* ===== verification/Protocol_V3.thy ===== *)
theory Protocol_V3
  imports Protocol_Schemas
begin

text \<open>
  Verification of the signed artifacts of protocol 3: the compact JWS of \<open>src/security/artifacts.ts\<close> and
  the verifiers, affinity checks and state transitions of \<open>src/protocol/protocol-v3.ts\<close>. Node's crypto,
  its base64url decoding and number formatting are the parameter \<open>jws_lib\<close>; \<open>now\<close> is the clock in seconds.
\<close>

record jws_lib =
  jl_fmt :: "units \<Rightarrow> units"
  jl_sha256_b64u :: "units \<Rightarrow> units"
  jl_decode :: "units \<Rightarrow> units"
  jl_verify :: "json \<Rightarrow> units \<Rightarrow> units \<Rightarrow> bool option"
  jl_zod :: zod_lib

datatype v3_code = PROTOCOL_VERSION_UNSUPPORTED | PROTOCOL_ENVELOPE_INVALID | ACQUISITION_ROOM_AFFINITY_FORBIDDEN
  | ARTIFACT_SIGNATURE_INVALID | ARTIFACT_TIME_INVALID | ARTIFACT_REPLAYED | GENERATION_AFFINITY_MISMATCH
  | GENERATION_IDENTITY_REUSED | RESOURCE_MANIFEST_HASH_MISMATCH | RUNTIME_RESOURCE_INVENTORY_HASH_MISMATCH
  | RESOURCE_INVENTORY_COUNT_MISMATCH | ROOM_BINDING_REQUIRED | ROOM_BINDING_MISMATCH | INVALID_LIFECYCLE_TRANSITION
  | UNINSTALL_ALREADY_IN_PROGRESS | CLEANUP_REQUIRED | MIGRATION_REVIEW_REQUIRED | CONFIG_EPOCH_INVALID
  | CONFIG_ENVIRONMENT_RESERVED | RUNTIME_NOT_RECONFIGURABLE | RUNTIME_NOT_UPGRADABLE | UPGRADE_EPOCH_INVALID
  | UPGRADE_PREVIOUS_DIGEST_MISMATCH

text \<open>A thrown value: a protocol error, a plain error with its message, or a schema error.\<close>

datatype v3_error = V3 v3_code | Plain string | ZodError

section \<open>Compact JWS\<close>

record ParsedJws =
  pj_header :: json
  pj_payload :: json
  pj_signingInput :: units
  pj_signature :: units

fun split_dots :: "units \<Rightarrow> units list" where
  "split_dots [] = [[]]"
| "split_dots (c # s) = (if c = 46 then [] # split_dots s
     else case split_dots s of [] \<Rightarrow> [[c]] | p # ps \<Rightarrow> (c # p) # ps)"

definition parseJws :: "jws_lib \<Rightarrow> units \<Rightarrow> (v3_error, ParsedJws) result" where
  "parseJws lib token = (case split_dots token of
     [h, p, s] \<Rightarrow> if h = [] \<or> p = [] \<or> s = [] then Inl (Plain ''artifact_signature_invalid'')
       else (case (JSON_parse (jl_decode lib h), JSON_parse (jl_decode lib p)) of
           (Some hv, Some pv) \<Rightarrow> Inr \<lparr>pj_header = hv, pj_payload = pv, pj_signingInput = h @ [46] @ p, pj_signature = s\<rparr>
         | _ \<Rightarrow> Inl (Plain ''artifact_signature_invalid''))
   | _ \<Rightarrow> Inl (Plain ''artifact_signature_invalid''))"

definition is_three :: "json option \<Rightarrow> bool" where
  "is_three v = (case v of Some (JNum l) \<Rightarrow> lexeme_value l = 3 | _ \<Rightarrow> False)"

text \<open>\<open>Boolean(jwk.d)\<close> for the members a JWK can have.\<close>

definition js_truthy :: "json option \<Rightarrow> bool" where
  "js_truthy v = (case v of None \<Rightarrow> False | Some JNull \<Rightarrow> False | Some (JBool b) \<Rightarrow> b | Some (JStr s) \<Rightarrow> s \<noteq> []
     | Some (JNum l) \<Rightarrow> lexeme_value l \<noteq> 0 | Some _ \<Rightarrow> True)"

text \<open>\<open>jl_verify\<close> is \<open>None\<close> where \<open>createPublicKey\<close> or \<open>verify\<close> throws.\<close>

definition verifyEs256Jws :: "jws_lib \<Rightarrow> units \<Rightarrow> json \<Rightarrow> string \<Rightarrow> units \<Rightarrow> bool \<Rightarrow> (v3_error, ParsedJws) result" where
  "verifyEs256Jws lib token publicJwk typ kid v3 = bindE (parseJws lib token) (\<lambda>parsed. let header = pj_header parsed in
     if header = JNull then Inl (Plain ''TypeError'')
     else if jget header ''alg'' \<noteq> Some (str ''ES256'') \<or> jget header ''typ'' \<noteq> Some (str typ)
        \<or> (kid \<noteq> [] \<and> jget header ''kid'' \<noteq> Some (JStr kid)) \<or> (v3 \<and> \<not> is_three (jget header ''privos_protocol''))
        \<or> jget publicJwk ''kty'' \<noteq> Some (str ''EC'') \<or> jget publicJwk ''crv'' \<noteq> Some (str ''P-256'') \<or> js_truthy (jget publicJwk ''d'')
     then Inl (Plain ''artifact_signature_invalid'')
     else (case jl_verify lib publicJwk (pj_signingInput parsed) (pj_signature parsed) of
         Some True \<Rightarrow> Inr parsed
       | Some False \<Rightarrow> Inl (Plain ''artifact_signature_invalid'')
       | None \<Rightarrow> Inl (Plain ''crypto'')))"

definition in_time :: "json \<Rightarrow> rat \<Rightarrow> int \<Rightarrow> bool" where
  "in_time payload maximumLifetimeSeconds now = (case (jget payload ''iat'', jget payload ''exp'') of
     (Some (JNum i), Some (JNum e)) \<Rightarrow> (let iat = lexeme_value i; exp = lexeme_value e in
       js_integer iat \<and> js_integer exp \<and> iat \<le> of_int now + 30 \<and> of_int now - 30 \<le> exp \<and> iat < exp
       \<and> exp - iat \<le> maximumLifetimeSeconds)
   | _ \<Rightarrow> False)"

definition assertArtifactTime :: "json \<Rightarrow> rat \<Rightarrow> int \<Rightarrow> (v3_error, unit) result" where
  "assertArtifactTime payload maximumLifetimeSeconds now =
     guardE (in_time payload maximumLifetimeSeconds now) (Plain ''artifact_time_invalid'')"

definition header_members :: "json \<Rightarrow> bool" where
  "header_members header = (length (ukeys header) = 4 \<and> u ` {''alg'', ''kid'', ''privos_protocol'', ''typ''} \<subseteq> set (ukeys header))"

record SignedV3Input =
  si_compact :: units
  si_publicJwk :: json
  si_kid :: units

text \<open>The \<open>catch\<close> of \<open>verifySignedV3\<close>.\<close>

definition as_v3 :: "v3_error \<Rightarrow> v3_error" where
  "as_v3 e = (case e of V3 c \<Rightarrow> V3 c
   | Plain m \<Rightarrow> V3 (if m = ''artifact_time_invalid'' then ARTIFACT_TIME_INVALID else ARTIFACT_SIGNATURE_INVALID)
   | ZodError \<Rightarrow> V3 PROTOCOL_ENVELOPE_INVALID)"

definition verifySignedV3 :: "jws_lib \<Rightarrow> int \<Rightarrow> SignedV3Input \<Rightarrow> string \<Rightarrow> (json \<Rightarrow> bool) \<Rightarrow> rat \<Rightarrow> (v3_error, json) result" where
  "verifySignedV3 lib now input typ schema maximumLifetimeSeconds =
     (case bindE (parseJws lib (si_compact input)) (\<lambda>unverified. let header = pj_header unverified in
         if header = JNull then Inl (Plain ''TypeError'')
         else if \<not> is_three (jget header ''privos_protocol'') then Inl (V3 PROTOCOL_VERSION_UNSUPPORTED)
         else if \<not> header_members header then Inl (V3 PROTOCOL_ENVELOPE_INVALID)
         else bindE (verifyEs256Jws lib (si_compact input) (si_publicJwk input) typ (si_kid input) True) (\<lambda>parsed.
           if \<not> schema (pj_payload parsed) then Inl ZodError
           else bindE (assertArtifactTime (pj_payload parsed) maximumLifetimeSeconds now) (\<lambda>_. Inr (pj_payload parsed)))) of
        Inl e \<Rightarrow> Inl (as_v3 e)
      | Inr payload \<Rightarrow> Inr payload)"

section \<open>Affinity\<close>

record ProvisioningAffinityV3 =
  pa_clusterId :: units
  pa_workspaceId :: units
  pa_deploymentId :: units
  pa_generationId :: units
  pa_generationNumber :: rat
  pa_runtimeInstallationId :: units
  pa_resourceManifestHash :: units
  pa_issuer :: units

text \<open>The manifest hash is an argument: a deployment grant carries it in its deployment descriptor.\<close>

definition assertProvisioningAffinityV3 :: "json \<Rightarrow> units \<Rightarrow> ProvisioningAffinityV3 \<Rightarrow> (v3_error, unit) result" where
  "assertProvisioningAffinityV3 payload manifestHash expected =
     (if ustr payload ''clusterId'' \<noteq> pa_clusterId expected \<or> ustr payload ''workspaceId'' \<noteq> pa_workspaceId expected
        \<or> ustr payload ''deploymentId'' \<noteq> pa_deploymentId expected \<or> ustr payload ''generationId'' \<noteq> pa_generationId expected
        \<or> unum payload ''generationNumber'' \<noteq> pa_generationNumber expected
        \<or> ustr payload ''runtimeInstallationId'' \<noteq> pa_runtimeInstallationId expected \<or> ustr payload ''iss'' \<noteq> pa_issuer expected
      then Inl (V3 GENERATION_AFFINITY_MISMATCH)
      else if manifestHash \<noteq> pa_resourceManifestHash expected then Inl (V3 RESOURCE_MANIFEST_HASH_MISMATCH)
      else Inr ())"

definition assertGenerationAffinityV3 :: "json \<Rightarrow> ProvisioningAffinityV3 \<Rightarrow> units \<Rightarrow> (v3_error, unit) result" where
  "assertGenerationAffinityV3 payload expected inventoryHash =
     bindE (assertProvisioningAffinityV3 payload (ustr payload ''resourceManifestHash'') expected) (\<lambda>_.
       guardE (ustr payload ''runtimeResourceInventoryHash'' = inventoryHash) (V3 RUNTIME_RESOURCE_INVENTORY_HASH_MISMATCH))"

section \<open>The verifiers\<close>

record PreviousGeneration =
  pg_generationId :: units
  pg_generationNumber :: rat
  pg_runtimeInstallationId :: units

definition reuses_generation :: "json \<Rightarrow> PreviousGeneration option \<Rightarrow> bool" where
  "reuses_generation payload previous = (case previous of None \<Rightarrow> False | Some g \<Rightarrow>
     ustr payload ''generationId'' = pg_generationId g \<or> ustr payload ''runtimeInstallationId'' = pg_runtimeInstallationId g
     \<or> unum payload ''generationNumber'' \<le> pg_generationNumber g)"

definition verifyDeploymentGrantV3 ::
  "jws_lib \<Rightarrow> int \<Rightarrow> SignedV3Input \<Rightarrow> ProvisioningAffinityV3 \<Rightarrow> PreviousGeneration option \<Rightarrow> (v3_error, json) result" where
  "verifyDeploymentGrantV3 lib now input expected previous =
     bindE (verifySignedV3 lib now input ''privos-deployment-grant+jws'' (zok (McpDeploymentGrantPayloadV3Schema (jl_zod lib))) 120) (\<lambda>payload.
     bindE (assertProvisioningAffinityV3 payload (ustr (jat payload ''deployment'') ''resourceManifestHash'') expected) (\<lambda>_.
     if reuses_generation payload previous then Inl (V3 GENERATION_IDENTITY_REUSED) else Inr payload))"

record RuntimeInventoryAttestationAffinityV3 = ProvisioningAffinityV3 +
  ia_deploymentGrantJti :: units
  ia_clusterAppId :: units
  ia_manifestDigest :: units
  ia_inventoryId :: "units option"
  ia_runtimeResourceInventoryHash :: "units option"
  ia_expectedResourceCount :: "rat option"

definition differs :: "'a option \<Rightarrow> 'a \<Rightarrow> bool" where
  "differs expected actual = (case expected of None \<Rightarrow> False | Some e \<Rightarrow> actual \<noteq> e)"

definition verifyClusterRuntimeInventoryAttestationV3 ::
  "jws_lib \<Rightarrow> int \<Rightarrow> SignedV3Input \<Rightarrow> RuntimeInventoryAttestationAffinityV3 \<Rightarrow> (v3_error, json) result" where
  "verifyClusterRuntimeInventoryAttestationV3 lib now input expected =
     bindE (verifySignedV3 lib now input ''privos-cluster-runtime-inventory-attestation+jws''
       (zok (ClusterRuntimeInventoryAttestationPayloadV3Schema (jl_zod lib))) 300) (\<lambda>payload.
     bindE (assertProvisioningAffinityV3 payload (ustr payload ''resourceManifestHash'') (ProvisioningAffinityV3.truncate expected)) (\<lambda>_.
     if ustr payload ''deploymentGrantJti'' \<noteq> ia_deploymentGrantJti expected \<or> ustr payload ''clusterAppId'' \<noteq> ia_clusterAppId expected
        \<or> ustr payload ''manifestDigest'' \<noteq> ia_manifestDigest expected \<or> differs (ia_inventoryId expected) (ustr payload ''inventoryId'')
     then Inl (V3 GENERATION_AFFINITY_MISMATCH)
     else if differs (ia_runtimeResourceInventoryHash expected) (ustr payload ''runtimeResourceInventoryHash'')
     then Inl (V3 RUNTIME_RESOURCE_INVENTORY_HASH_MISMATCH)
     else if differs (ia_expectedResourceCount expected) (unum payload ''expectedResourceCount'')
     then Inl (V3 RESOURCE_INVENTORY_COUNT_MISMATCH)
     else Inr payload))"

datatype AuthorizationContext = Workspace_Context | Room_Context

fun context_text :: "AuthorizationContext \<Rightarrow> string" where
  "context_text Workspace_Context = ''workspace''"
| "context_text Room_Context = ''room''"

record DispatchAffinityV3 =
  da_generation :: ProvisioningAffinityV3
  da_inventoryHash :: units
  da_manifestDigest :: units
  da_runtimeApprovalReceiptHash :: units
  da_runtimeGrantEpoch :: rat
  da_authorizationContext :: AuthorizationContext
  da_roomId :: "units option"
  da_authorizationBindingId :: "units option"
  da_bindingReceiptHash :: "units option"
  da_bindingEpoch :: "rat option"
  da_bodyDigest :: "units option"

definition some_text :: "units option \<Rightarrow> bool" where
  "some_text v = (case v of Some s \<Rightarrow> s \<noteq> [] | None \<Rightarrow> False)"

definition assertDispatchAffinityV3 :: "json \<Rightarrow> DispatchAffinityV3 \<Rightarrow> (v3_error, unit) result" where
  "assertDispatchAffinityV3 payload expected =
     bindE (assertGenerationAffinityV3 payload (da_generation expected) (da_inventoryHash expected)) (\<lambda>_.
     if ustr payload ''manifestDigest'' \<noteq> da_manifestDigest expected
        \<or> ustr payload ''runtimeApprovalReceiptHash'' \<noteq> da_runtimeApprovalReceiptHash expected
        \<or> unum payload ''runtimeGrantEpoch'' \<noteq> da_runtimeGrantEpoch expected
        \<or> ustr payload ''authorizationContext'' \<noteq> u (context_text (da_authorizationContext expected))
        \<or> differs (da_bodyDigest expected) (ustr payload ''bodyDigest'')
     then Inl (V3 GENERATION_AFFINITY_MISMATCH)
     else if da_authorizationContext expected = Room_Context then
       (if \<not> some_text (da_roomId expected) \<or> \<not> some_text (da_authorizationBindingId expected)
           \<or> \<not> some_text (da_bindingReceiptHash expected) \<or> da_bindingEpoch expected = None
        then Inl (V3 ROOM_BINDING_REQUIRED)
        else if ustr payload ''authorizationContext'' \<noteq> u ''room'' \<or> Some (ustr payload ''roomId'') \<noteq> da_roomId expected
           \<or> Some (ustr payload ''authorizationBindingId'') \<noteq> da_authorizationBindingId expected
           \<or> Some (ustr payload ''bindingReceiptHash'') \<noteq> da_bindingReceiptHash expected
           \<or> Some (unum payload ''bindingEpoch'') \<noteq> da_bindingEpoch expected
        then Inl (V3 ROOM_BINDING_MISMATCH)
        else Inr ())
     else Inr ())"

definition verifyDispatchAssertionV3 :: "jws_lib \<Rightarrow> int \<Rightarrow> SignedV3Input \<Rightarrow> DispatchAffinityV3 \<Rightarrow> (v3_error, json) result" where
  "verifyDispatchAssertionV3 lib now input expected =
     bindE (verifySignedV3 lib now input ''privos-hub-dispatch+jws'' (dispatch_ok (jl_zod lib)) 30) (\<lambda>payload.
     bindE (assertDispatchAffinityV3 payload expected) (\<lambda>_. Inr payload))"

definition verify_generation ::
  "jws_lib \<Rightarrow> int \<Rightarrow> SignedV3Input \<Rightarrow> string \<Rightarrow> zschema \<Rightarrow> ProvisioningAffinityV3 \<Rightarrow> units \<Rightarrow> (v3_error, json) result" where
  "verify_generation lib now input typ schema expected inventoryHash =
     bindE (verifySignedV3 lib now input typ (zok schema) 300) (\<lambda>payload.
     bindE (assertGenerationAffinityV3 payload expected inventoryHash) (\<lambda>_. Inr payload))"

definition verifyLifecycleCommandV3 :: "jws_lib \<Rightarrow> int \<Rightarrow> SignedV3Input \<Rightarrow> ProvisioningAffinityV3 \<Rightarrow> units \<Rightarrow> (v3_error, json) result" where
  "verifyLifecycleCommandV3 lib now input expected inventoryHash = verify_generation lib now input
     ''privos-cluster-lifecycle-command+jws'' (ClusterLifecycleCommandPayloadV3Schema (jl_zod lib)) expected inventoryHash"

definition verifyReconfigureCommandV3 ::
  "jws_lib \<Rightarrow> int \<Rightarrow> SignedV3Input \<Rightarrow> ProvisioningAffinityV3 \<Rightarrow> units \<Rightarrow> units \<Rightarrow> units \<Rightarrow> (v3_error, json) result" where
  "verifyReconfigureCommandV3 lib now input expected inventoryHash clusterAppId manifestDigest =
     bindE (verify_generation lib now input ''privos-cluster-reconfigure-command+jws''
       (ClusterReconfigureCommandPayloadV3Schema (jl_zod lib)) expected inventoryHash) (\<lambda>payload.
     if ustr payload ''clusterAppId'' \<noteq> clusterAppId \<or> ustr payload ''manifestDigest'' \<noteq> manifestDigest
     then Inl (V3 GENERATION_AFFINITY_MISMATCH) else Inr payload)"

definition verifyUpgradeCommandV3 ::
  "jws_lib \<Rightarrow> int \<Rightarrow> SignedV3Input \<Rightarrow> ProvisioningAffinityV3 \<Rightarrow> units \<Rightarrow> units \<Rightarrow> units \<Rightarrow> (v3_error, json) result" where
  "verifyUpgradeCommandV3 lib now input expected inventoryHash clusterAppId mcpAppId =
     bindE (verify_generation lib now input ''privos-cluster-upgrade-command+jws''
       (ClusterUpgradeCommandPayloadV3Schema (jl_zod lib)) expected inventoryHash) (\<lambda>payload.
     if ustr payload ''clusterAppId'' \<noteq> clusterAppId \<or> ustr payload ''mcpAppId'' \<noteq> mcpAppId
     then Inl (V3 GENERATION_AFFINITY_MISMATCH) else Inr payload)"

definition verifyNodeCleanupResultV3 :: "jws_lib \<Rightarrow> int \<Rightarrow> SignedV3Input \<Rightarrow> ProvisioningAffinityV3 \<Rightarrow> units \<Rightarrow> (v3_error, json) result" where
  "verifyNodeCleanupResultV3 lib now input expected inventoryHash = verify_generation lib now input
     ''privos-cluster-node-cleanup-result+jws'' (NodeCleanupResultPayloadV3Schema (jl_zod lib)) expected inventoryHash"

definition verifyClusterFinalAcknowledgementV3 ::
  "jws_lib \<Rightarrow> int \<Rightarrow> SignedV3Input \<Rightarrow> ProvisioningAffinityV3 \<Rightarrow> units \<Rightarrow> (v3_error, json) result" where
  "verifyClusterFinalAcknowledgementV3 lib now input expected inventoryHash = verify_generation lib now input
     ''privos-cluster-final-cleanup-ack+jws'' (ClusterFinalAcknowledgementPayloadV3Schema (jl_zod lib)) expected inventoryHash"

definition parseDispatchAssertionPayloadV3 :: "jws_lib \<Rightarrow> json \<Rightarrow> (v3_error, json) result" where
  "parseDispatchAssertionPayloadV3 lib v =
     (if jget v ''authorizationContext'' = Some (str ''room'') \<and> \<not> (js_truthy (jget v ''roomId'') \<and> js_truthy (jget v ''authorizationBindingId'')
        \<and> js_truthy (jget v ''bindingReceiptHash'') \<and> js_truthy (jget v ''bindingEpoch''))
      then Inl (V3 ROOM_BINDING_REQUIRED)
      else if dispatch_ok (jl_zod lib) v then Inr v else Inl (V3 PROTOCOL_ENVELOPE_INVALID))"

definition parseRoomlessAcquisitionAffinityV3 :: "json \<Rightarrow> (v3_error, json) result" where
  "parseRoomlessAcquisitionAffinityV3 v = (if containsRoomAffinity v then Inl (V3 ACQUISITION_ROOM_AFFINITY_FORBIDDEN)
     else if zok AcquisitionAffinityV3Schema v then Inr v else Inl (V3 PROTOCOL_ENVELOPE_INVALID))"

section \<open>State transitions\<close>

datatype RuntimeGenerationStateV3 = Gen_AUTHORIZED | Gen_PROVISIONING | Gen_ACTIVE | Gen_REVOKING | Gen_CLEANUP_REQUIRED | Gen_UNINSTALLED

datatype ClusterLifecycleStateV3 = LC_REQUESTED | LC_COMMAND_VERIFIED | LC_ACCESS_REVOKED | LC_RUNTIME_REMOVING | LC_VERIFYING
  | LC_CLEANUP_REQUIRED | LC_COMPLETED

fun generationTransitions :: "RuntimeGenerationStateV3 \<Rightarrow> RuntimeGenerationStateV3 set" where
  "generationTransitions Gen_AUTHORIZED = {Gen_PROVISIONING, Gen_REVOKING}"
| "generationTransitions Gen_PROVISIONING = {Gen_ACTIVE, Gen_REVOKING, Gen_CLEANUP_REQUIRED}"
| "generationTransitions Gen_ACTIVE = {Gen_REVOKING}"
| "generationTransitions Gen_REVOKING = {Gen_CLEANUP_REQUIRED, Gen_UNINSTALLED}"
| "generationTransitions Gen_CLEANUP_REQUIRED = {Gen_REVOKING, Gen_UNINSTALLED}"
| "generationTransitions Gen_UNINSTALLED = {}"

fun lifecycleTransitions :: "ClusterLifecycleStateV3 \<Rightarrow> ClusterLifecycleStateV3 set" where
  "lifecycleTransitions LC_REQUESTED = {LC_COMMAND_VERIFIED}"
| "lifecycleTransitions LC_COMMAND_VERIFIED = {LC_ACCESS_REVOKED, LC_CLEANUP_REQUIRED}"
| "lifecycleTransitions LC_ACCESS_REVOKED = {LC_RUNTIME_REMOVING, LC_CLEANUP_REQUIRED}"
| "lifecycleTransitions LC_RUNTIME_REMOVING = {LC_VERIFYING, LC_CLEANUP_REQUIRED}"
| "lifecycleTransitions LC_VERIFYING = {LC_COMPLETED, LC_CLEANUP_REQUIRED}"
| "lifecycleTransitions LC_CLEANUP_REQUIRED = {LC_ACCESS_REVOKED, LC_RUNTIME_REMOVING, LC_VERIFYING}"
| "lifecycleTransitions LC_COMPLETED = {}"

definition assertTransition :: "'s \<Rightarrow> 's \<Rightarrow> ('s \<Rightarrow> 's set) \<Rightarrow> (v3_error, unit) result" where
  "assertTransition src tgt transitions = (if src = tgt then Inr () else guardE (tgt \<in> transitions src) (V3 INVALID_LIFECYCLE_TRANSITION))"

definition assertRuntimeGenerationTransitionV3 :: "RuntimeGenerationStateV3 \<Rightarrow> RuntimeGenerationStateV3 \<Rightarrow> (v3_error, unit) result" where
  "assertRuntimeGenerationTransitionV3 src tgt = assertTransition src tgt generationTransitions"

definition assertClusterLifecycleTransitionV3 :: "ClusterLifecycleStateV3 \<Rightarrow> ClusterLifecycleStateV3 \<Rightarrow> (v3_error, unit) result" where
  "assertClusterLifecycleTransitionV3 src tgt = assertTransition src tgt lifecycleTransitions"

lemma terminal_states: "lifecycleTransitions s = {} \<longleftrightarrow> s = LC_COMPLETED" "generationTransitions g = {} \<longleftrightarrow> g = Gen_UNINSTALLED"
  by (cases s; simp) (cases g; simp)

text \<open>A completed uninstall was verified, and a runtime that has been active is uninstalled only through revocation.\<close>

lemma transitions_in:
  "LC_COMPLETED \<in> lifecycleTransitions s \<Longrightarrow> s = LC_VERIFYING"
  "Gen_UNINSTALLED \<in> generationTransitions g \<Longrightarrow> g \<in> {Gen_REVOKING, Gen_CLEANUP_REQUIRED}"
  "Gen_ACTIVE \<in> generationTransitions g \<Longrightarrow> g = Gen_PROVISIONING"
  by (cases s; simp) (cases g; simp)+

section \<open>What an accepted artifact is\<close>

lemma zok_req: "zok (ZObj fs) v \<Longrightarrow> Req k z \<in> set fs \<Longrightarrow> \<exists>w. jget v k = Some w \<and> zok z w"
  by (cases v) (fastforce simp: list_all_iff jget_def split: option.splits)+

lemma zok_lit: "zok (ZObj fs) v \<Longrightarrow> Req k (ZLitStr t) \<in> set fs \<Longrightarrow> jget v k = Some (str t)"
  by (drule (1) zok_req) auto

lemma parseJws_Inr: "parseJws lib token = Inr parsed \<Longrightarrow> \<exists>h p s. split_dots token = [h, p, s]
    \<and> JSON_parse (jl_decode lib h) = Some (pj_header parsed) \<and> JSON_parse (jl_decode lib p) = Some (pj_payload parsed)
    \<and> pj_signingInput parsed = h @ [46] @ p \<and> pj_signature parsed = s"
  by (auto simp: parseJws_def split: list.splits if_splits option.splits)

text \<open>What the signature covers, who made it, when and for what.\<close>

definition signed_artifact :: "jws_lib \<Rightarrow> int \<Rightarrow> SignedV3Input \<Rightarrow> string \<Rightarrow> rat \<Rightarrow> json \<Rightarrow> bool" where
  "signed_artifact lib now input typ lifetime payload \<longleftrightarrow> (\<exists>h p s header. split_dots (si_compact input) = [h, p, s]
     \<and> JSON_parse (jl_decode lib h) = Some header \<and> JSON_parse (jl_decode lib p) = Some payload
     \<and> jl_verify lib (si_publicJwk input) (h @ [46] @ p) s = Some True \<and> header_members header
     \<and> jget header ''alg'' = Some (str ''ES256'') \<and> jget header ''typ'' = Some (str typ) \<and> is_three (jget header ''privos_protocol'')
     \<and> (si_kid input \<noteq> [] \<longrightarrow> jget header ''kid'' = Some (JStr (si_kid input)))
     \<and> \<not> js_truthy (jget (si_publicJwk input) ''d'') \<and> in_time payload lifetime now)"

lemma verifySignedV3_Inr:
  assumes "verifySignedV3 lib now input typ schema lifetime = Inr payload"
  shows "signed_artifact lib now input typ lifetime payload \<and> schema payload"
proof -
  from assms obtain parsed where p: "parseJws lib (si_compact input) = Inr parsed" "header_members (pj_header parsed)"
    and v: "verifyEs256Jws lib (si_compact input) (si_publicJwk input) typ (si_kid input) True = Inr parsed"
    and s: "schema (pj_payload parsed)" "assertArtifactTime (pj_payload parsed) lifetime now = Inr ()" "payload = pj_payload parsed"
    by (auto simp: verifySignedV3_def verifyEs256Jws_def Let_def bindE_Inr_iff split: sum.splits if_splits option.splits bool.splits)
  from parseJws_Inr [OF p(1)] v p s show ?thesis
    by (auto simp: signed_artifact_def verifyEs256Jws_def Let_def assertArtifactTime_def split: if_splits option.splits bool.splits)
qed

text \<open>The eight uses of the verification, each with what the caller expects.\<close>

datatype v3_check = Check_grant ProvisioningAffinityV3 "PreviousGeneration option"
  | Check_attestation RuntimeInventoryAttestationAffinityV3
  | Check_dispatch DispatchAffinityV3
  | Check_lifecycle ProvisioningAffinityV3 units
  | Check_reconfigure ProvisioningAffinityV3 units units units
  | Check_upgrade ProvisioningAffinityV3 units units units
  | Check_node ProvisioningAffinityV3 units
  | Check_final ProvisioningAffinityV3 units

fun run_check :: "jws_lib \<Rightarrow> int \<Rightarrow> SignedV3Input \<Rightarrow> v3_check \<Rightarrow> (v3_error, json) result" where
  "run_check lib now input (Check_grant a g) = verifyDeploymentGrantV3 lib now input a g"
| "run_check lib now input (Check_attestation a) = verifyClusterRuntimeInventoryAttestationV3 lib now input a"
| "run_check lib now input (Check_dispatch a) = verifyDispatchAssertionV3 lib now input a"
| "run_check lib now input (Check_lifecycle a i) = verifyLifecycleCommandV3 lib now input a i"
| "run_check lib now input (Check_reconfigure a i c d) = verifyReconfigureCommandV3 lib now input a i c d"
| "run_check lib now input (Check_upgrade a i c d) = verifyUpgradeCommandV3 lib now input a i c d"
| "run_check lib now input (Check_node a i) = verifyNodeCleanupResultV3 lib now input a i"
| "run_check lib now input (Check_final a i) = verifyClusterFinalAcknowledgementV3 lib now input a i"

fun check_typ :: "v3_check \<Rightarrow> string" where
  "check_typ (Check_grant _ _) = ''privos-deployment-grant+jws''"
| "check_typ (Check_attestation _) = ''privos-cluster-runtime-inventory-attestation+jws''"
| "check_typ (Check_dispatch _) = ''privos-hub-dispatch+jws''"
| "check_typ (Check_lifecycle _ _) = ''privos-cluster-lifecycle-command+jws''"
| "check_typ (Check_reconfigure _ _ _ _) = ''privos-cluster-reconfigure-command+jws''"
| "check_typ (Check_upgrade _ _ _ _) = ''privos-cluster-upgrade-command+jws''"
| "check_typ (Check_node _ _) = ''privos-cluster-node-cleanup-result+jws''"
| "check_typ (Check_final _ _) = ''privos-cluster-final-cleanup-ack+jws''"

fun check_type :: "v3_check \<Rightarrow> string" where
  "check_type (Check_grant _ _) = ''mcp-deployment-grant''"
| "check_type (Check_attestation _) = ''cluster-runtime-inventory-attestation''"
| "check_type (Check_dispatch _) = ''hub-dispatch-assertion''"
| "check_type (Check_lifecycle _ _) = ''cluster-lifecycle-command''"
| "check_type (Check_reconfigure _ _ _ _) = ''cluster-reconfigure-command''"
| "check_type (Check_upgrade _ _ _ _) = ''cluster-upgrade-command''"
| "check_type (Check_node _ _) = ''cluster-node-cleanup-result''"
| "check_type (Check_final _ _) = ''cluster-final-cleanup-acknowledgement''"

fun check_lifetime :: "v3_check \<Rightarrow> rat" where
  "check_lifetime (Check_grant _ _) = 120"
| "check_lifetime (Check_dispatch _) = 30"
| "check_lifetime _ = 300"

fun check_affinity :: "v3_check \<Rightarrow> ProvisioningAffinityV3" where
  "check_affinity (Check_grant a _) = a"
| "check_affinity (Check_attestation a) = ProvisioningAffinityV3.truncate a"
| "check_affinity (Check_dispatch a) = da_generation a"
| "check_affinity (Check_lifecycle a _) = a"
| "check_affinity (Check_reconfigure a _ _ _) = a"
| "check_affinity (Check_upgrade a _ _ _) = a"
| "check_affinity (Check_node a _) = a"
| "check_affinity (Check_final a _) = a"

definition manifest_hash :: "v3_check \<Rightarrow> json \<Rightarrow> units" where
  "manifest_hash c payload = (case c of Check_grant _ _ \<Rightarrow> ustr (jat payload ''deployment'') ''resourceManifestHash''
     | _ \<Rightarrow> ustr payload ''resourceManifestHash'')"

definition bound_to :: "ProvisioningAffinityV3 \<Rightarrow> units \<Rightarrow> json \<Rightarrow> bool" where
  "bound_to a hash payload \<longleftrightarrow> ustr payload ''clusterId'' = pa_clusterId a \<and> ustr payload ''workspaceId'' = pa_workspaceId a
     \<and> ustr payload ''deploymentId'' = pa_deploymentId a \<and> ustr payload ''generationId'' = pa_generationId a
     \<and> unum payload ''generationNumber'' = pa_generationNumber a \<and> ustr payload ''runtimeInstallationId'' = pa_runtimeInstallationId a
     \<and> ustr payload ''iss'' = pa_issuer a \<and> hash = pa_resourceManifestHash a"

lemma affinity_Inr: "assertProvisioningAffinityV3 payload hash a = Inr x \<longleftrightarrow> bound_to a hash payload"
  by (auto simp: assertProvisioningAffinityV3_def bound_to_def)

lemma generation_affinity_Inr:
  "assertGenerationAffinityV3 payload a i = Inr x \<longleftrightarrow> bound_to a (ustr payload ''resourceManifestHash'') payload
     \<and> ustr payload ''runtimeResourceInventoryHash'' = i"
  by (auto simp: assertGenerationAffinityV3_def affinity_Inr bindE_Inr_iff)

lemma schema_type:
  "zok (McpDeploymentGrantPayloadV3Schema z) v \<Longrightarrow> jget v ''type'' = Some (str ''mcp-deployment-grant'')"
  "zok (ClusterRuntimeInventoryAttestationPayloadV3Schema z) v \<Longrightarrow> jget v ''type'' = Some (str ''cluster-runtime-inventory-attestation'')"
  "zok (ClusterLifecycleCommandPayloadV3Schema z) v \<Longrightarrow> jget v ''type'' = Some (str ''cluster-lifecycle-command'')"
  "dispatch_ok z v \<Longrightarrow> jget v ''type'' = Some (str ''hub-dispatch-assertion'')"
  unfolding McpDeploymentGrantPayloadV3Schema_def ClusterRuntimeInventoryAttestationPayloadV3Schema_def
    ClusterLifecycleCommandPayloadV3Schema_def dispatch_ok_def WorkspaceDispatchAssertionV3Schema_def RoomDispatchAssertionV3Schema_def
  by ((erule zok_lit, simp)+, (auto split: if_splits elim: zok_lit simp del: zok.simps simp: DispatchCommonShape_def))

lemma refined_schema_type:
  "zok (ClusterReconfigureCommandPayloadV3Schema z) v \<Longrightarrow> jget v ''type'' = Some (str ''cluster-reconfigure-command'')"
  "zok (ClusterUpgradeCommandPayloadV3Schema z) v \<Longrightarrow> jget v ''type'' = Some (str ''cluster-upgrade-command'')"
  "zok (NodeCleanupResultPayloadV3Schema z) v \<Longrightarrow> jget v ''type'' = Some (str ''cluster-node-cleanup-result'')"
  "zok (ClusterFinalAcknowledgementPayloadV3Schema z) v \<Longrightarrow> jget v ''type'' = Some (str ''cluster-final-cleanup-acknowledgement'')"
  unfolding ClusterReconfigureCommandPayloadV3Schema_def ClusterUpgradeCommandPayloadV3Schema_def
    NodeCleanupResultPayloadV3Schema_def ClusterFinalAcknowledgementPayloadV3Schema_def zok.simps(14)
  by (drule conjunct1, erule zok_lit, simp)+


section \<open>A signed command, for evaluating the verifiers on\<close>

definition demo_zod :: zod_lib where
  "demo_zod = \<lparr>zod_uuid = \<lambda>s. s \<noteq> [], zod_https_url = \<lambda>_. True, zod_datetime = \<lambda>_. True\<rparr>"

definition demo_hash :: string where
  "demo_hash = replicate 43 CHR ''a''"

definition demo_header :: json where
  "demo_header = obj [(''alg'', str ''ES256''), (''kid'', str demo_hash), (''privos_protocol'', JNum (u ''3'')),
     (''typ'', str ''privos-cluster-lifecycle-command+jws'')]"

definition demo_command :: json where
  "demo_command = obj [(''protocolVersion'', JNum (u ''3'')), (''iss'', str ''hub''), (''jti'', str ''j''), (''nonce'', str (replicate 16 CHR ''n'')),
     (''iat'', JNum (u ''100'')), (''exp'', JNum (u ''160'')), (''type'', str ''cluster-lifecycle-command''),
     (''aud'', str ''privos-apps-master''), (''action'', str ''UNINSTALL_RUNTIME''), (''operationId'', str ''o''),
     (''clusterId'', str ''c''), (''workspaceId'', str ''w''), (''deploymentId'', str ''d''), (''generationId'', str ''g''),
     (''generationNumber'', JNum (u ''1'')), (''runtimeInstallationId'', str ''r''), (''clusterAppId'', str ''a''),
     (''manifestDigest'', str (''sha256:'' @ replicate 64 CHR ''0'')), (''resourceManifestHash'', str demo_hash),
     (''runtimeResourceInventoryHash'', str demo_hash), (''reasonCode'', str ''OK''), (''expectedResourceCount'', JNum (u ''1''))]"

definition demo_jws :: jws_lib where
  "demo_jws = \<lparr>jl_fmt = \<lambda>l. l, jl_sha256_b64u = \<lambda>_. u demo_hash,
     jl_decode = \<lambda>part. stringify (if part = u ''h'' then demo_header else demo_command),
     jl_verify = \<lambda>_ _ sig. Some (sig = u ''s''), jl_zod = demo_zod\<rparr>"

definition demo_key :: json where
  "demo_key = obj [(''kty'', str ''EC''), (''crv'', str ''P-256''), (''x'', str ''x''), (''y'', str ''y'')]"

definition demo_affinity :: ProvisioningAffinityV3 where
  "demo_affinity = \<lparr>pa_clusterId = u ''c'', pa_workspaceId = u ''w'', pa_deploymentId = u ''d'', pa_generationId = u ''g'', pa_generationNumber = 1,
     pa_runtimeInstallationId = u ''r'', pa_resourceManifestHash = u demo_hash, pa_issuer = u ''hub''\<rparr>"

definition demo_signed :: SignedV3Input where
  "demo_signed = \<lparr>si_compact = u ''h.p.s'', si_publicJwk = demo_key, si_kid = u demo_hash\<rparr>"

lemma lexemes_123: "valid_lexeme (u ''3'')" "valid_lexeme (u ''1'')" "valid_lexeme (u ''100'')" "valid_lexeme (u ''160'')"
  by (simp_all add: valid_lexeme_def u_def) code_simp+

lemma demo_parses: "JSON_parse (stringify demo_header) = Some demo_header" "JSON_parse (stringify demo_command) = Some demo_command"
  by (rule JSON_parse_stringify, simp add: demo_header_def demo_command_def obj_printable lexemes_123)+

lemma demo_parsed: "parseJws demo_jws (u ''h.p.s'') = Inr \<lparr>pj_header = demo_header, pj_payload = demo_command,
    pj_signingInput = u ''h.p'', pj_signature = u ''s''\<rparr>"
  by (simp add: parseJws_def demo_jws_def u_def demo_parses)

text \<open>Schemas on documents written as literals.\<close>

fun field_key :: "zfield \<Rightarrow> string" where
  "field_key (Req k _) = k"
| "field_key (Opt k _) = k"

lemma map_of_u: "map_of (map (\<lambda>(k, v). (u k, v)) ms) (u k) = map_of ms k"
  by (induction ms) auto

lemma zok_obj: "zok (ZObj fs) (obj ms) \<longleftrightarrow> list_all (\<lambda>m. fst m \<in> field_key ` set fs) ms
    \<and> list_all (\<lambda>f. case f of Req k z \<Rightarrow> (case map_of ms k of Some v \<Rightarrow> zok z v | None \<Rightarrow> False)
                       | Opt k z \<Rightarrow> (case map_of ms k of Some v \<Rightarrow> zok z v | None \<Rightarrow> True)) fs"
proof -
  have "field_name f = u (field_key f)" for f by (cases f) simp_all
  then have "fst m \<in> field_name ` set fs \<longleftrightarrow> (\<exists>k. fst m = u k \<and> k \<in> field_key ` set fs)" for m :: "units \<times> json" by auto
  then have 1: "list_all (\<lambda>m. fst m \<in> field_name ` set fs) (map (\<lambda>(k, v). (u k, v)) ms) = list_all (\<lambda>m. fst m \<in> field_key ` set fs) ms"
    by (auto simp: list_all_iff)
  have 2: "zok_field f (map (\<lambda>(k, v). (u k, v)) ms) = (case f of Req k z \<Rightarrow> (case map_of ms k of Some v \<Rightarrow> zok z v | None \<Rightarrow> False)
      | Opt k z \<Rightarrow> (case map_of ms k of Some v \<Rightarrow> zok z v | None \<Rightarrow> True))" for f
    by (cases f) (simp_all add: map_of_u)
  show ?thesis unfolding obj_def zok.simps json.case 1 2 by simp
qed

lemma js_integer_lits: "js_integer 1" "js_integer 3" "js_integer 100" "js_integer 160"
  by (simp_all add: js_integer_def)

lemma lexeme_lits: "lexeme_value (u ''1'') = 1" "lexeme_value (u ''3'') = 3" "lexeme_value (u ''100'') = 100" "lexeme_value (u ''160'') = 160"
  by (simp_all add: lexeme_value_def u_def Let_def digits_value_def scale10_def)

lemmas format_defs = Identifier_def Digest_def ArtifactHash_def Nonce_def SafeReasonCode_def z_int_def z_positive_def z_len_def z_uuid_def
  Digest_re_def ArtifactHash_re_def Nonce_re_def url_safe_def lower_hex_def upper_letter_def lower_letter_def upper_word_def is_digit_def

lemma demo_hash_fits: "zok ArtifactHash (str demo_hash)" "zok Digest (str (''sha256:'' @ replicate 64 CHR ''0''))"
  "zok Nonce (str (replicate 16 CHR ''n''))"
  by (simp_all add: format_defs str_def demo_hash_def u_def list_all_iff)

lemma demo_fits: "zok (ClusterLifecycleCommandPayloadV3Schema demo_zod) demo_command"
proof -
  have id: "zok Identifier (str s)" if "1 \<le> length s" "length s \<le> 160" for s
    using that by (simp add: Identifier_def z_len_def str_def u_def)
  have int: "zok z_int (JNum (u ''100''))" "zok z_int (JNum (u ''160''))" "zok z_positive (JNum (u ''1''))" "zok (ZLitNum 3) (JNum (u ''3''))"
    by (simp_all add: z_int_def z_positive_def lexeme_lits js_integer_lits)
  have "zok SafeReasonCode (str ''OK'')" by (simp add: format_defs str_def u_def)
  moreover have "zok (z_uuid demo_zod) (str s)" if "s \<noteq> []" for s using that by (simp add: z_uuid_def demo_zod_def str_def u_def)
  ultimately show ?thesis unfolding ClusterLifecycleCommandPayloadV3Schema_def TimedArtifactShape_def demo_command_def zok_obj
    by (simp add: id int demo_hash_fits demo_hash_fits [simplified] lexeme_lits)
qed

lemma demo_verified:
  assumes "70 \<le> now" "now \<le> 190"
  shows "run_check demo_jws now demo_signed (Check_lifecycle demo_affinity (u demo_hash)) = Inr demo_command"
proof -
  have header: "header_members demo_header" "is_three (jget demo_header ''privos_protocol'')" "demo_header \<noteq> JNull"
    "jget demo_header ''alg'' = Some (str ''ES256'')" "jget demo_header ''kid'' = Some (JStr (u demo_hash))"
    "jget demo_header ''typ'' = Some (str ''privos-cluster-lifecycle-command+jws'')"
    by (simp_all add: demo_header_def jget_obj header_members_def ukeys_def is_three_def lexeme_lits obj_def str_def)
      (simp_all add: jget_def lexeme_lits)
  have key: "jget demo_key ''kty'' = Some (str ''EC'')" "jget demo_key ''crv'' = Some (str ''P-256'')" "\<not> js_truthy (jget demo_key ''d'')"
    by (simp_all add: demo_key_def jget_obj js_truthy_def)
  have affinity: "assertGenerationAffinityV3 demo_command demo_affinity (u demo_hash) = Inr ()"
    by (simp add: generation_affinity_Inr bound_to_def demo_affinity_def ustr_def unum_def demo_command_def jget_obj str_def lexeme_lits)
  have "jget demo_command ''iat'' = Some (JNum (u ''100''))" "jget demo_command ''exp'' = Some (JNum (u ''160''))"
    by (simp_all add: demo_command_def jget_obj)
  with assms have time: "in_time demo_command 300 now" by (simp add: in_time_def lexeme_lits js_integer_lits)
  have lib: "jl_zod demo_jws = demo_zod" "jl_verify demo_jws demo_key (u ''h.p'') (u ''s'') = Some True" by (simp_all add: demo_jws_def)
  show ?thesis
    by (simp add: verifyLifecycleCommandV3_def verify_generation_def verifySignedV3_def demo_signed_def demo_parsed verifyEs256Jws_def
        header key lib demo_fits assertArtifactTime_def time affinity guardE_def del: zok.simps)
qed


end
