(* ===== verification/Resource_Inventory.thy ===== *)
theory Resource_Inventory
  imports Protocol_V3
begin

text \<open>
  The expected-resource inventory of a runtime generation (\<open>src/master/runtime-resource-inventory.ts\<close>).
  Descriptors are JSON values; times are instants that exist (\<open>NaN\<close> dates are not represented).
\<close>

record RuntimeResourceInventoryAffinityV3 =
  ri_clusterId :: units
  ri_workspaceId :: units
  ri_deploymentId :: units
  ri_generationId :: units
  ri_generationNumber :: rat
  ri_runtimeInstallationId :: units
  ri_clusterAppId :: units
  ri_manifestDigest :: units
  ri_resourceManifestHash :: units

datatype InventoryState = CAPTURING | READY | INV_MIGRATION_REVIEW_REQUIRED | COMPACTED

record RuntimeResourceInventory =
  rv_inventoryId :: units
  rv_affinity :: RuntimeResourceInventoryAffinityV3
  rv_hash :: "units option"
  rv_expectedResources :: "json list"
  rv_state :: InventoryState
  rv_createdAt :: int
  rv_updatedAt :: int

definition assertInventoryAffinityV3 :: "RuntimeResourceInventoryAffinityV3 \<Rightarrow> (v3_error, unit) result" where
  "assertInventoryAffinityV3 a = guardE (list_all (\<lambda>v. 0 < length v \<and> length v \<le> 160) [ri_clusterId a, ri_workspaceId a,
       ri_deploymentId a, ri_generationId a, ri_runtimeInstallationId a, ri_clusterAppId a]
     \<and> js_integer (ri_generationNumber a) \<and> 1 \<le> ri_generationNumber a \<and> Digest_re (ri_manifestDigest a)
     \<and> ArtifactHash_re (ri_resourceManifestHash a)) (Plain ''runtime_resource_inventory_affinity_invalid'')"

definition descriptorSortKey :: "jws_lib \<Rightarrow> json \<Rightarrow> units" where
  "descriptorSortKey lib r = ustr r ''kind'' @ [0] @ ustr r ''resourceId'' @ [0] @ canonicalJson (jl_fmt lib) r"

text \<open>The comparator orders by the key, a string compared by code units.\<close>

definition normalizeRuntimeResourcesV3 :: "jws_lib \<Rightarrow> json list \<Rightarrow> (v3_error, json list) result" where
  "normalizeRuntimeResourcesV3 lib resources =
     (if \<not> list_all (zok (RuntimeResourceDescriptorV3Schema (jl_zod lib))) resources then Inl ZodError
      else if \<not> distinct (map result_identity resources) then Inl (Plain ''runtime_resource_identity_duplicate'')
      else Inr (sort_key (descriptorSortKey lib) resources))"

section \<open>Expected resources\<close>

record RuntimeReplicaResourcesV3 =
  rr_nodeId :: units
  rr_nodeIdentityKid :: units
  rr_replica :: units
  rr_containerId :: units
  rr_volumeNames :: "units list"
  rr_brokerBindingIds :: "units list"
  rr_brokerSocketIds :: "units list"
  rr_serviceDiscoveryIds :: "units list"

record RuntimeIngressResourceV3 =
  rg_routeId :: units
  rg_nodeId :: "units option"
  rg_replicaId :: "units option"

definition or_null :: "units option \<Rightarrow> json" where
  "or_null v = (case v of Some s \<Rightarrow> JStr s | None \<Rightarrow> JNull)"

definition descriptor :: "string \<Rightarrow> units \<Rightarrow> units option \<Rightarrow> units option \<Rightarrow> json \<Rightarrow> json" where
  "descriptor kind resourceId nodeId replicaId attributes = obj [(''kind'', str kind), (''resourceId'', JStr resourceId),
     (''ownershipScope'', str ''INSTALLATION_GENERATION''), (''nodeId'', or_null nodeId), (''replicaId'', or_null replicaId),
     (''attributes'', attributes)]"

definition replica_resources :: "RuntimeReplicaResourcesV3 \<Rightarrow> json list" where
  "replica_resources r = (let node = Some (rr_nodeId r); rep = Some (rr_replica r); kid = obj [(''nodeIdentityKid'', JStr (rr_nodeIdentityKid r))] in
     [descriptor ''REPLICA'' (rr_replica r) node rep kid, descriptor ''CONTAINER'' (rr_containerId r) node rep kid]
     @ map (\<lambda>i. descriptor ''VOLUME'' i node rep (obj [])) (rr_volumeNames r)
     @ map (\<lambda>i. descriptor ''BROKER_BINDING'' i node rep (obj [])) (rr_brokerBindingIds r)
     @ map (\<lambda>i. descriptor ''BROKER_SOCKET'' i node rep (obj [])) (rr_brokerSocketIds r)
     @ map (\<lambda>i. descriptor ''SERVICE_DISCOVERY'' i node rep (obj [])) (rr_serviceDiscoveryIds r))"

definition buildExpectedRuntimeResourcesV3 ::
  "jws_lib \<Rightarrow> RuntimeReplicaResourcesV3 list \<Rightarrow> RuntimeIngressResourceV3 list \<Rightarrow> (v3_error, json list) result" where
  "buildExpectedRuntimeResourcesV3 lib replicas ingress =
     (if \<not> list_all (\<lambda>r. Nonce_re (rr_nodeIdentityKid r)) replicas then Inl (Plain ''runtime_resource_node_identity_invalid'')
      else normalizeRuntimeResourcesV3 lib (concat (map replica_resources replicas)
        @ map (\<lambda>g. descriptor ''INGRESS'' (rg_routeId g) (rg_nodeId g) (rg_replicaId g) (obj [])) ingress))"

section \<open>Hash and life of an inventory\<close>

text \<open>The generation number is printed by \<open>JSON.stringify\<close>; it is an integer here.\<close>

definition inventory_document :: "RuntimeResourceInventoryAffinityV3 \<Rightarrow> json list \<Rightarrow> json" where
  "inventory_document a resources = obj [(''protocolVersion'', JNum (u ''3'')), (''clusterId'', JStr (ri_clusterId a)),
     (''workspaceId'', JStr (ri_workspaceId a)), (''deploymentId'', JStr (ri_deploymentId a)), (''generationId'', JStr (ri_generationId a)),
     (''generationNumber'', JNum (u (show_int \<lfloor>ri_generationNumber a\<rfloor>))), (''runtimeInstallationId'', JStr (ri_runtimeInstallationId a)),
     (''clusterAppId'', JStr (ri_clusterAppId a)), (''manifestDigest'', JStr (ri_manifestDigest a)),
     (''resourceManifestHash'', JStr (ri_resourceManifestHash a)), (''expectedResources'', JArr resources)]"

definition runtimeResourceInventoryHashV3 :: "jws_lib \<Rightarrow> RuntimeResourceInventoryAffinityV3 \<Rightarrow> json list \<Rightarrow> (v3_error, units) result" where
  "runtimeResourceInventoryHashV3 lib affinity resources = bindE (assertInventoryAffinityV3 affinity) (\<lambda>_.
     bindE (normalizeRuntimeResourcesV3 lib resources) (\<lambda>rs.
     Inr (jl_sha256_b64u lib (canonicalJson (jl_fmt lib) (inventory_document affinity rs)))))"

definition buildCapturingRuntimeResourceInventoryV3 ::
  "units \<Rightarrow> RuntimeResourceInventoryAffinityV3 \<Rightarrow> int \<Rightarrow> (v3_error, RuntimeResourceInventory) result" where
  "buildCapturingRuntimeResourceInventoryV3 inventoryId affinity createdAt =
     (if inventoryId = [] then Inl (Plain ''runtime_resource_inventory_identity_invalid'')
      else bindE (assertInventoryAffinityV3 affinity) (\<lambda>_. Inr \<lparr>rv_inventoryId = inventoryId, rv_affinity = affinity, rv_hash = None,
        rv_expectedResources = [], rv_state = CAPTURING, rv_createdAt = createdAt, rv_updatedAt = createdAt\<rparr>))"

definition finalizeRuntimeResourceInventoryV3 ::
  "jws_lib \<Rightarrow> RuntimeResourceInventory \<Rightarrow> json list \<Rightarrow> int \<Rightarrow> (v3_error, RuntimeResourceInventory) result" where
  "finalizeRuntimeResourceInventoryV3 lib inventory resources finalizedAt =
     (if rv_state inventory \<noteq> CAPTURING \<and> rv_state inventory \<noteq> READY then Inl (Plain ''runtime_resource_inventory_not_finalizable'')
      else bindE (normalizeRuntimeResourcesV3 lib resources) (\<lambda>rs.
        if rs = [] then Inl (Plain ''runtime_resource_inventory_empty'')
        else bindE (runtimeResourceInventoryHashV3 lib (rv_affinity inventory) rs) (\<lambda>h.
          if rv_state inventory = READY \<and> (rv_hash inventory \<noteq> Some h
             \<or> canonicalJson (jl_fmt lib) (JArr (rv_expectedResources inventory)) \<noteq> canonicalJson (jl_fmt lib) (JArr rs))
          then Inl (Plain ''runtime_resource_inventory_finalization_conflict'')
          else Inr (inventory\<lparr>rv_hash := Some h, rv_expectedResources := rs, rv_state := READY, rv_updatedAt := finalizedAt\<rparr>))))"

definition buildRuntimeResourceInventoryV3 ::
  "jws_lib \<Rightarrow> units \<Rightarrow> RuntimeResourceInventoryAffinityV3 \<Rightarrow> json list \<Rightarrow> int \<Rightarrow> units option \<Rightarrow> (v3_error, RuntimeResourceInventory) result" where
  "buildRuntimeResourceInventoryV3 lib inventoryId affinity resources createdAt claimed =
     bindE (buildCapturingRuntimeResourceInventoryV3 inventoryId affinity createdAt) (\<lambda>capturing.
     bindE (finalizeRuntimeResourceInventoryV3 lib capturing resources createdAt) (\<lambda>ready.
       if claimed \<noteq> None \<and> claimed \<noteq> rv_hash ready then Inl (Plain ''runtime_resource_inventory_hash_mismatch'') else Inr ready))"

section \<open>Laws\<close>

lemma distinct_identities_sort: "distinct (map result_identity rs) \<Longrightarrow> distinct (map result_identity (sort_key f rs))"
  by (metis mset_map mset_sort mset_eq_imp_distinct_iff)

lemma normalize_idem: "normalizeRuntimeResourcesV3 lib rs = Inr ns \<Longrightarrow> normalizeRuntimeResourcesV3 lib ns = Inr ns"
  by (auto simp: normalizeRuntimeResourcesV3_def list_all_iff distinct_identities_sort sort_key_id_if_sorted split: if_splits)

text \<open>Finalising again what was finalised succeeds and changes nothing but the time; anything else is refused.\<close>

lemma finalize_Inr:
  assumes "finalizeRuntimeResourceInventoryV3 lib iv rs t = Inr iv'"
  obtains ns h where "normalizeRuntimeResourcesV3 lib rs = Inr ns" "ns \<noteq> []"
    "runtimeResourceInventoryHashV3 lib (rv_affinity iv) ns = Inr h"
    "iv' = iv\<lparr>rv_hash := Some h, rv_expectedResources := ns, rv_state := READY, rv_updatedAt := t\<rparr>"
    "rv_state iv = READY \<Longrightarrow> rv_hash iv = Some h"
  using assms by (auto simp: finalizeRuntimeResourceInventoryV3_def bindE_Inr_iff split: if_splits)

lemma finalize_idempotent:
  assumes "finalizeRuntimeResourceInventoryV3 lib iv rs t = Inr iv'"
  shows "finalizeRuntimeResourceInventoryV3 lib iv' rs t' = Inr (iv'\<lparr>rv_updatedAt := t'\<rparr>)"
proof -
  obtain ns h where f: "normalizeRuntimeResourcesV3 lib rs = Inr ns" "ns \<noteq> []" "runtimeResourceInventoryHashV3 lib (rv_affinity iv) ns = Inr h"
    "iv' = iv\<lparr>rv_hash := Some h, rv_expectedResources := ns, rv_state := READY, rv_updatedAt := t\<rparr>"
    using finalize_Inr [OF assms] by metis
  then show ?thesis by (simp add: finalizeRuntimeResourceInventoryV3_def)
qed

lemma ready_hash_fixed:
  assumes "finalizeRuntimeResourceInventoryV3 lib iv rs t = Inr iv'" and "rv_state iv = READY"
  shows "rv_hash iv' = rv_hash iv"
  using finalize_Inr [OF assms(1)] assms(2) by (metis RuntimeResourceInventory.select_convs(3) RuntimeResourceInventory.surjective
    RuntimeResourceInventory.update_convs(3,4,5,7))

end
