(* ===== verification/Mcp_Security.thy ===== *)
theory Mcp_Security
  imports Resource_Inventory
begin

text \<open>
  Consuming the hub's signed artifacts on the apps master (\<open>src/master/mcp-security.ts\<close>): hub identity
  enrolment, release attestations, protocol-2 grants and assertions, and the protocol-3 artifacts with
  their durable record of uses. The collections are lists of documents; \<open>insertOne\<close> fails on the unique
  indexes of \<open>src/master/repositories.ts\<close>, and the TTL index removes a use once it has expired. Instants
  are seconds; other database failures are not represented.
\<close>

record HubWorkspace =
  hw_workspaceId :: units
  hw_active :: bool
  hw_kid :: "units option"
  hw_publicJwk :: "json option"

datatype UseKind = Use_deployment_grant | Use_dispatch_assertion | Use_lifecycle_command | Use_reconfigure_command | Use_upgrade_command

record McpProtocolV3ArtifactUse =
  au_kind :: UseKind
  au_jti :: units
  au_nonce :: units
  au_clusterId :: units
  au_workspaceId :: units
  au_deploymentId :: units
  au_generationId :: units
  au_generationNumber :: rat
  au_runtimeInstallationId :: units
  au_operationId :: "units option"
  au_resourceManifestHash :: units
  au_inventoryHash :: "units option"
  au_issuer :: units
  au_canonicalPayloadHash :: units
  au_compactArtifactHash :: units
  au_expiresAt :: rat

record McpArtifactUse =
  mu_id :: units
  mu_expiresAt :: rat

text \<open>The fields of the app documents that the search for the previous generation reads.\<close>

record GenerationRow =
  gr_workspaceId :: units
  gr_is_v3 :: bool
  gr_deploymentId :: units
  gr_appId :: units
  gr_generationId :: "units option"
  gr_generationNumber :: "rat option"
  gr_runtimeInstallationId :: "units option"

record sec_db =
  sd_workspaces :: "HubWorkspace list"
  sd_uses :: "McpProtocolV3ArtifactUse list"
  sd_uses2 :: "McpArtifactUse list"
  sd_inventories :: "RuntimeResourceInventory list"
  sd_generations :: "GenerationRow list"

section \<open>The record of uses\<close>

definition uses_conflict :: "McpProtocolV3ArtifactUse \<Rightarrow> McpProtocolV3ArtifactUse \<Rightarrow> bool" where
  "uses_conflict a b = (au_jti a = au_jti b \<or> (au_kind a = au_kind b \<and> au_nonce a = au_nonce b)
     \<or> (au_kind a = Use_deployment_grant \<and> au_kind b = Use_deployment_grant \<and> au_clusterId a = au_clusterId b
        \<and> au_workspaceId a = au_workspaceId b \<and> au_deploymentId a = au_deploymentId b \<and> au_generationId a = au_generationId b))"

definition insert_use :: "McpProtocolV3ArtifactUse \<Rightarrow> McpProtocolV3ArtifactUse list \<Rightarrow> McpProtocolV3ArtifactUse list option" where
  "insert_use r uses = (if list_ex (uses_conflict r) uses then None else Some (uses @ [r]))"

text \<open>Everything an identical redelivery must agree on: all but the expiry.\<close>

definition same_use :: "McpProtocolV3ArtifactUse \<Rightarrow> McpProtocolV3ArtifactUse \<Rightarrow> bool" where
  "same_use a b = (a\<lparr>au_expiresAt := 0\<rparr> = b\<lparr>au_expiresAt := 0\<rparr>)"

text \<open>\<open>insertOne\<close>, and on a duplicate key the comparison with the use found by id or nonce.\<close>

definition consume_command :: "json \<Rightarrow> McpProtocolV3ArtifactUse \<Rightarrow> sec_db \<Rightarrow> (v3_error, json) result \<times> sec_db" where
  "consume_command payload r db = (case insert_use r (sd_uses db) of
     Some uses \<Rightarrow> (Inr payload, db\<lparr>sd_uses := uses\<rparr>)
   | None \<Rightarrow> (case List.find (\<lambda>c. au_kind c = au_kind r \<and> (au_jti c = au_jti r \<or> au_nonce c = au_nonce r)) (sd_uses db) of
       Some consumed \<Rightarrow> (if same_use consumed r then Inr payload else Inl (V3 ARTIFACT_REPLAYED), db)
     | None \<Rightarrow> (Inl (V3 ARTIFACT_REPLAYED), db)))"

definition consume_once :: "json \<Rightarrow> McpProtocolV3ArtifactUse \<Rightarrow> sec_db \<Rightarrow> (v3_error, json) result \<times> sec_db" where
  "consume_once payload r db = (case insert_use r (sd_uses db) of
     Some uses \<Rightarrow> (Inr payload, db\<lparr>sd_uses := uses\<rparr>)
   | None \<Rightarrow> (Inl (V3 ARTIFACT_REPLAYED), db))"

definition use_record :: "jws_lib \<Rightarrow> UseKind \<Rightarrow> units \<Rightarrow> json \<Rightarrow> units \<Rightarrow> units option \<Rightarrow> units option \<Rightarrow> McpProtocolV3ArtifactUse" where
  "use_record lib kind token payload manifestHash operationId inventoryHash = \<lparr>au_kind = kind, au_jti = ustr payload ''jti'',
     au_nonce = ustr payload ''nonce'', au_clusterId = ustr payload ''clusterId'', au_workspaceId = ustr payload ''workspaceId'',
     au_deploymentId = ustr payload ''deploymentId'', au_generationId = ustr payload ''generationId'',
     au_generationNumber = unum payload ''generationNumber'', au_runtimeInstallationId = ustr payload ''runtimeInstallationId'',
     au_operationId = operationId, au_resourceManifestHash = manifestHash, au_inventoryHash = inventoryHash,
     au_issuer = ustr payload ''iss'', au_canonicalPayloadHash = jl_sha256_b64u lib (canonicalJson (jl_fmt lib) payload),
     au_compactArtifactHash = jl_sha256_b64u lib token, au_expiresAt = unum payload ''exp''\<rparr>"

section \<open>The hub's identity\<close>

definition jwk_thumbprint :: "jws_lib \<Rightarrow> json \<Rightarrow> (v3_error, units) result" where
  "jwk_thumbprint lib jwk = (if jget jwk ''kty'' \<noteq> Some (str ''EC'') \<or> jget jwk ''crv'' \<noteq> Some (str ''P-256'') \<or> \<not> js_truthy (jget jwk ''x'')
       \<or> \<not> js_truthy (jget jwk ''y'') \<or> js_truthy (jget jwk ''d'') then Inl (Plain ''public_jwk_invalid'')
     else Inr (jl_sha256_b64u lib (canonicalJson (jl_fmt lib)
       (obj [(''crv'', jat jwk ''crv''), (''kty'', jat jwk ''kty''), (''x'', jat jwk ''x''), (''y'', jat jwk ''y'')]))))"

definition active_workspace :: "units \<Rightarrow> sec_db \<Rightarrow> HubWorkspace option" where
  "active_workspace workspaceId db = List.find (\<lambda>w. hw_workspaceId w = workspaceId \<and> hw_active w) (sd_workspaces db)"

definition publicInfo :: "jws_lib \<Rightarrow> units \<Rightarrow> sec_db \<Rightarrow> (v3_error, (units \<times> json) option) result" where
  "publicInfo lib workspaceId db = (case active_workspace workspaceId db of
     None \<Rightarrow> Inr None
   | Some w \<Rightarrow> (case (hw_kid w, hw_publicJwk w) of
       (Some kid, Some jwk) \<Rightarrow> if kid = [] then Inr None
         else bindE (jwk_thumbprint lib jwk) (\<lambda>t. if t \<noteq> kid then Inl (Plain ''hub_identity_record_invalid'') else Inr (Some (kid, jwk)))
     | _ \<Rightarrow> Inr None))"

definition requirePublicInfo :: "jws_lib \<Rightarrow> units \<Rightarrow> sec_db \<Rightarrow> (v3_error, units \<times> json) result" where
  "requirePublicInfo lib workspaceId db = bindE (publicInfo lib workspaceId db) (\<lambda>i. case i of
     None \<Rightarrow> Inl (Plain ''hub_identity_not_enrolled'') | Some identity \<Rightarrow> Inr identity)"

definition HubIdentityEnrollmentPayloadSchema :: "zod_lib \<Rightarrow> zschema" where
  "HubIdentityEnrollmentPayloadSchema lib = ZObj [Req ''type'' (ZLitStr ''mcp-hub-identity-enrollment''), Req ''aud'' (ZLitStr ''privos-apps-master''),
     Req ''jti'' (z_uuid lib), Req ''iat'' z_int, Req ''exp'' z_int, Req ''clusterId'' (ZStr (\<lambda>s. s \<noteq> [])), Req ''workspaceId'' (ZStr (\<lambda>s. s \<noteq> [])),
     Req ''deploymentId'' (ZStr (\<lambda>s. s \<noteq> [])), Req ''kid'' (ZStr (\<lambda>s. 20 \<le> length s))]"

text \<open>
  A fresh identity is written only where none is; \<open>taken\<close> is the document another request wrote between the
  read and the write, if any (the update then matches nothing and the identity is read again).
\<close>

definition enrollHubIdentity ::
  "jws_lib \<Rightarrow> int \<Rightarrow> units \<Rightarrow> units \<Rightarrow> json \<Rightarrow> units \<Rightarrow> (sec_db \<Rightarrow> sec_db) \<Rightarrow> sec_db \<Rightarrow> (v3_error, units \<times> units) result \<times> sec_db" where
  "enrollHubIdentity lib now clusterId token publicJwk workspaceId between db =
     (case bindE (jwk_thumbprint lib publicJwk) (\<lambda>kid.
           bindE (verifyEs256Jws lib token publicJwk ''privos-hub-identity-enrollment+jws'' kid False) (\<lambda>parsed. let payload = pj_payload parsed in
           if \<not> zok (HubIdentityEnrollmentPayloadSchema (jl_zod lib)) payload then Inl ZodError
           else bindE (assertArtifactTime payload 120 now) (\<lambda>_.
           if ustr payload ''clusterId'' \<noteq> clusterId \<or> ustr payload ''workspaceId'' \<noteq> workspaceId \<or> ustr payload ''kid'' \<noteq> kid
           then Inl (Plain ''hub_identity_enrollment_binding_mismatch'')
           else (case active_workspace workspaceId db of
               None \<Rightarrow> Inl (Plain ''hub_workspace_not_active'')
             | Some w \<Rightarrow> Inr (kid, w))))) of
        Inl e \<Rightarrow> (Inl e, db)
      | Inr (kid, existing) \<Rightarrow>
          if some_text (hw_kid existing) \<or> hw_publicJwk existing \<noteq> None then
            (if hw_kid existing = Some kid \<and> map_option (canonicalJson (jl_fmt lib)) (hw_publicJwk existing) = Some (canonicalJson (jl_fmt lib) publicJwk)
             then Inr (clusterId, kid) else Inl (Plain ''hub_identity_conflict''), db)
          else (let db1 = between db in
            case active_workspace workspaceId db1 of
              Some w \<Rightarrow> if hw_kid w = None \<and> hw_publicJwk w = None
                then (Inr (clusterId, kid), db1\<lparr>sd_workspaces := map (\<lambda>x. if x = w then x\<lparr>hw_kid := Some kid, hw_publicJwk := Some publicJwk\<rparr> else x) (sd_workspaces db1)\<rparr>)
                else (case publicInfo lib workspaceId db1 of
                    Inl e \<Rightarrow> (Inl e, db1)
                  | Inr (Some (k, j)) \<Rightarrow> (if k = kid \<and> canonicalJson (jl_fmt lib) j = canonicalJson (jl_fmt lib) publicJwk
                      then Inr (clusterId, kid) else Inl (Plain ''hub_identity_conflict''), db1)
                  | Inr None \<Rightarrow> (Inl (Plain ''hub_identity_conflict''), db1))
            | None \<Rightarrow> (Inl (Plain ''hub_identity_conflict''), db1)))"

section \<open>Protocol 3\<close>

definition affinity_with :: "units \<Rightarrow> units \<Rightarrow> ProvisioningAffinityV3 \<Rightarrow> ProvisioningAffinityV3" where
  "affinity_with clusterId workspaceId a = a\<lparr>pa_clusterId := clusterId, pa_workspaceId := workspaceId\<rparr>"

definition upper_units :: "units \<Rightarrow> units" where
  "upper_units = map (\<lambda>c. if lower_letter c then c - 32 else c)"

text \<open>\<open>key.toUpperCase().startsWith('PRIVOS_')\<close>; the dotless i and the long s also have ASCII capitals.\<close>

definition privos_name :: "units \<Rightarrow> bool" where
  "privos_name key = (take 7 (map (\<lambda>c. if c = 305 then 73 else if c = 383 then 83 else c) (upper_units key)) = u ''PRIVOS_'')"

definition consumeDeploymentGrantV3 ::
  "jws_lib \<Rightarrow> int \<Rightarrow> units \<Rightarrow> units \<Rightarrow> units \<Rightarrow> ProvisioningAffinityV3 \<Rightarrow> PreviousGeneration option \<Rightarrow> sec_db \<Rightarrow> (v3_error, json) result \<times> sec_db" where
  "consumeDeploymentGrantV3 lib now clusterId token workspaceId expected previous db =
     (case bindE (requirePublicInfo lib workspaceId db) (\<lambda>(kid, jwk).
           bindE (verifyDeploymentGrantV3 lib now \<lparr>si_compact = token, si_publicJwk = jwk, si_kid = kid\<rparr>
             (affinity_with clusterId workspaceId expected) previous) (\<lambda>payload.
           if list_ex privos_name (ukeys (jat (jat payload ''deployment'') ''envVars'')) then Inl (V3 PROTOCOL_ENVELOPE_INVALID) else Inr payload)) of
        Inl e \<Rightarrow> (Inl e, db)
      | Inr payload \<Rightarrow> consume_command payload (use_record lib Use_deployment_grant token payload
          (ustr (jat payload ''deployment'') ''resourceManifestHash'') None None) db)"

text \<open>The previous generation of the same app, the highest first.\<close>

definition previous_generation :: "units \<Rightarrow> json \<Rightarrow> sec_db \<Rightarrow> PreviousGeneration option" where
  "previous_generation workspaceId unverified db =
     (let rows = filter (\<lambda>g. gr_workspaceId g = workspaceId \<and> gr_is_v3 g \<and> gr_deploymentId g = ustr unverified ''deploymentId''
        \<and> gr_appId g = ustr (jat unverified ''deployment'') ''clusterAppId'' \<and> gr_generationId g \<noteq> Some (ustr unverified ''generationId'')) (sd_generations db)
    in case sort_key (\<lambda>g. case gr_generationNumber g of None \<Rightarrow> 0 | Some n \<Rightarrow> - n) rows of
         g # _ \<Rightarrow> (case (gr_generationId g, gr_generationNumber g, gr_runtimeInstallationId g) of
             (Some i, Some n, Some r) \<Rightarrow> if i \<noteq> [] \<and> n \<noteq> 0 \<and> r \<noteq> []
               then Some \<lparr>pg_generationId = i, pg_generationNumber = n, pg_runtimeInstallationId = r\<rparr> else None
           | _ \<Rightarrow> None)
       | [] \<Rightarrow> None)"

definition consumeProvisioningDeploymentGrantV3 ::
  "jws_lib \<Rightarrow> int \<Rightarrow> units \<Rightarrow> units \<Rightarrow> units \<Rightarrow> PreviousGeneration option \<Rightarrow> sec_db \<Rightarrow> (v3_error, json) result \<times> sec_db" where
  "consumeProvisioningDeploymentGrantV3 lib now clusterId token workspaceId previous db =
     (case parseJws lib token of
        Inl _ \<Rightarrow> (Inl (V3 PROTOCOL_ENVELOPE_INVALID), db)
      | Inr parsed \<Rightarrow> let un = pj_payload parsed in
          if \<not> zok (McpDeploymentGrantPayloadV3Schema (jl_zod lib)) un then (Inl (V3 PROTOCOL_ENVELOPE_INVALID), db)
          else consumeDeploymentGrantV3 lib now clusterId token workspaceId
            \<lparr>pa_clusterId = clusterId, pa_workspaceId = workspaceId, pa_deploymentId = ustr un ''deploymentId'', pa_generationId = ustr un ''generationId'',
             pa_generationNumber = unum un ''generationNumber'', pa_runtimeInstallationId = ustr un ''runtimeInstallationId'',
             pa_resourceManifestHash = ustr (jat un ''deployment'') ''resourceManifestHash'', pa_issuer = u ''urn:privos:hub:'' @ ustr un ''deploymentId''\<rparr>
            (case previous of Some g \<Rightarrow> Some g | None \<Rightarrow> previous_generation workspaceId un db) db)"

text \<open>What a dispatch is expected to name, and how it was authorised.\<close>

record DispatchExpected =
  de_generation :: ProvisioningAffinityV3
  de_inventoryHash :: units
  de_manifestDigest :: units
  de_runtimeApprovalReceiptHash :: units
  de_runtimeGrantEpoch :: rat
  de_mcpAppId :: units
  de_clusterAppId :: units

record DispatchAuthorization =
  az_context :: AuthorizationContext
  az_runtimeInstallationId :: units
  az_authorizationBindingId :: units

definition is_room :: "json \<Rightarrow> bool" where
  "is_room payload = (ustr payload ''authorizationContext'' = u ''room'')"

definition dispatch_expectation :: "jws_lib \<Rightarrow> units \<Rightarrow> units \<Rightarrow> DispatchExpected \<Rightarrow> DispatchAuthorization \<Rightarrow> json \<Rightarrow> json \<Rightarrow> DispatchAffinityV3" where
  "dispatch_expectation lib clusterId workspaceId e az unverified rpc = (let room = is_room unverified in
     \<lparr>da_generation = affinity_with clusterId workspaceId (de_generation e), da_inventoryHash = de_inventoryHash e,
      da_manifestDigest = de_manifestDigest e, da_runtimeApprovalReceiptHash = de_runtimeApprovalReceiptHash e,
      da_runtimeGrantEpoch = de_runtimeGrantEpoch e, da_authorizationContext = (if room then Room_Context else az_context az),
      da_roomId = (if room then Some (ustr unverified ''roomId'') else None),
      da_authorizationBindingId = (if room \<and> az_context az = Room_Context then Some (az_authorizationBindingId az) else None),
      da_bindingReceiptHash = (if room then Some (ustr unverified ''bindingReceiptHash'') else None),
      da_bindingEpoch = (if room then Some (unum unverified ''bindingEpoch'') else None),
      da_bodyDigest = Some (jl_sha256_b64u lib (canonicalJson (jl_fmt lib) rpc))\<rparr>)"

definition consumeDispatchAssertionV3 ::
  "jws_lib \<Rightarrow> int \<Rightarrow> units \<Rightarrow> units \<Rightarrow> json \<Rightarrow> units \<Rightarrow> DispatchExpected \<Rightarrow> DispatchAuthorization \<Rightarrow> sec_db \<Rightarrow> (v3_error, json) result \<times> sec_db" where
  "consumeDispatchAssertionV3 lib now clusterId token rpc workspaceId e az db =
     (case bindE (requirePublicInfo lib workspaceId db) (\<lambda>(kid, jwk).
           case parseJws lib token of
             Inl _ \<Rightarrow> Inl (V3 PROTOCOL_ENVELOPE_INVALID)
           | Inr parsed \<Rightarrow> bindE (parseDispatchAssertionPayloadV3 lib (pj_payload parsed)) (\<lambda>unverified.
               if az_runtimeInstallationId az \<noteq> pa_runtimeInstallationId (de_generation e) \<or> ustr unverified ''mcpAppId'' \<noteq> de_mcpAppId e
                  \<or> ustr unverified ''clusterAppId'' \<noteq> de_clusterAppId e then Inl (V3 GENERATION_AFFINITY_MISMATCH)
               else if az_context az = Room_Context \<and> \<not> is_room unverified then Inl (V3 ROOM_BINDING_REQUIRED)
               else bindE (verifyDispatchAssertionV3 lib now \<lparr>si_compact = token, si_publicJwk = jwk, si_kid = kid\<rparr>
                 (dispatch_expectation lib clusterId workspaceId e az unverified rpc)) (\<lambda>payload.
               if ustr payload ''authorizationContext'' \<noteq> u (context_text (az_context az))
               then Inl (V3 (if az_context az = Room_Context then ROOM_BINDING_REQUIRED else GENERATION_AFFINITY_MISMATCH))
               else Inr payload))) of
        Inl err \<Rightarrow> (Inl err, db)
      | Inr payload \<Rightarrow> consume_once payload (use_record lib Use_dispatch_assertion token payload (ustr payload ''resourceManifestHash'') None
          (Some (ustr payload ''runtimeResourceInventoryHash''))) db)"

section \<open>Commands on an attested generation\<close>

definition find_inventory :: "json \<Rightarrow> sec_db \<Rightarrow> RuntimeResourceInventory option" where
  "find_inventory payload db = List.find (\<lambda>i. let a = rv_affinity i in ri_clusterId a = ustr payload ''clusterId''
     \<and> ri_workspaceId a = ustr payload ''workspaceId'' \<and> ri_deploymentId a = ustr payload ''deploymentId''
     \<and> ri_generationId a = ustr payload ''generationId'' \<and> ri_runtimeInstallationId a = ustr payload ''runtimeInstallationId'') (sd_inventories db)"

text \<open>The checks against the persisted inventory; only the uninstall names the resource count.\<close>

definition check_inventory :: "jws_lib \<Rightarrow> json \<Rightarrow> bool \<Rightarrow> RuntimeResourceInventory \<Rightarrow> (v3_error, unit) result" where
  "check_inventory lib payload counted inventory =
     (if ri_resourceManifestHash (rv_affinity inventory) \<noteq> ustr payload ''resourceManifestHash'' then Inl (V3 RESOURCE_MANIFEST_HASH_MISMATCH)
      else if counted \<and> of_nat (length (rv_expectedResources inventory)) \<noteq> unum payload ''expectedResourceCount''
      then Inl (V3 RESOURCE_INVENTORY_COUNT_MISMATCH)
      else bindE (runtimeResourceInventoryHashV3 lib (rv_affinity inventory) (rv_expectedResources inventory)) (\<lambda>h.
        if Some h \<noteq> rv_hash inventory \<or> h \<noteq> ustr payload ''runtimeResourceInventoryHash''
        then Inl (V3 RUNTIME_RESOURCE_INVENTORY_HASH_MISMATCH) else Inr ()))"

definition lifecycle_inventory :: "jws_lib \<Rightarrow> json \<Rightarrow> sec_db \<Rightarrow> (v3_error, unit) result" where
  "lifecycle_inventory lib payload db = (case find_inventory payload db of
     None \<Rightarrow> Inl (V3 CLEANUP_REQUIRED)
   | Some i \<Rightarrow> if rv_state i = INV_MIGRATION_REVIEW_REQUIRED then Inl (V3 MIGRATION_REVIEW_REQUIRED)
       else if rv_state i \<noteq> READY \<and> rv_state i \<noteq> COMPACTED then Inl (V3 CLEANUP_REQUIRED)
       else check_inventory lib payload True i)"

definition command_inventory :: "jws_lib \<Rightarrow> v3_code \<Rightarrow> json \<Rightarrow> sec_db \<Rightarrow> (v3_error, unit) result" where
  "command_inventory lib refusal payload db = (case find_inventory payload db of
     None \<Rightarrow> Inl (V3 refusal)
   | Some i \<Rightarrow> if rv_state i \<noteq> READY \<and> rv_state i \<noteq> COMPACTED then Inl (V3 refusal) else check_inventory lib payload False i)"

definition command_record :: "jws_lib \<Rightarrow> UseKind \<Rightarrow> units \<Rightarrow> json \<Rightarrow> McpProtocolV3ArtifactUse" where
  "command_record lib kind token payload = use_record lib kind token payload (ustr payload ''resourceManifestHash'')
     (Some (ustr payload ''operationId'')) (Some (ustr payload ''runtimeResourceInventoryHash''))"

definition consumeLifecycleCommandV3 ::
  "jws_lib \<Rightarrow> int \<Rightarrow> units \<Rightarrow> units \<Rightarrow> units \<Rightarrow> ProvisioningAffinityV3 \<Rightarrow> units \<Rightarrow> sec_db \<Rightarrow> (v3_error, json) result \<times> sec_db" where
  "consumeLifecycleCommandV3 lib now clusterId token workspaceId expected inventoryHash db =
     (case bindE (requirePublicInfo lib workspaceId db) (\<lambda>(kid, jwk).
           bindE (verifyLifecycleCommandV3 lib now \<lparr>si_compact = token, si_publicJwk = jwk, si_kid = kid\<rparr>
             (affinity_with clusterId workspaceId expected) inventoryHash) (\<lambda>payload.
           bindE (lifecycle_inventory lib payload db) (\<lambda>_. Inr payload))) of
        Inl e \<Rightarrow> (Inl e, db)
      | Inr payload \<Rightarrow> consume_command payload (command_record lib Use_lifecycle_command token payload) db)"

definition consumeReconfigureCommandV3 ::
  "jws_lib \<Rightarrow> int \<Rightarrow> units \<Rightarrow> units \<Rightarrow> units \<Rightarrow> ProvisioningAffinityV3 \<Rightarrow> units \<Rightarrow> units \<Rightarrow> units \<Rightarrow> sec_db \<Rightarrow> (v3_error, json) result \<times> sec_db" where
  "consumeReconfigureCommandV3 lib now clusterId token workspaceId expected inventoryHash clusterAppId manifestDigest db =
     (case bindE (requirePublicInfo lib workspaceId db) (\<lambda>(kid, jwk).
           bindE (verifyReconfigureCommandV3 lib now \<lparr>si_compact = token, si_publicJwk = jwk, si_kid = kid\<rparr>
             (affinity_with clusterId workspaceId expected) inventoryHash clusterAppId manifestDigest) (\<lambda>payload.
           bindE (command_inventory lib RUNTIME_NOT_RECONFIGURABLE payload db) (\<lambda>_. Inr payload))) of
        Inl e \<Rightarrow> (Inl e, db)
      | Inr payload \<Rightarrow> consume_command payload (command_record lib Use_reconfigure_command token payload) db)"

definition consumeUpgradeCommandV3 ::
  "jws_lib \<Rightarrow> int \<Rightarrow> units \<Rightarrow> units \<Rightarrow> units \<Rightarrow> ProvisioningAffinityV3 \<Rightarrow> units \<Rightarrow> units \<Rightarrow> units \<Rightarrow> sec_db \<Rightarrow> (v3_error, json) result \<times> sec_db" where
  "consumeUpgradeCommandV3 lib now clusterId token workspaceId expected inventoryHash clusterAppId mcpAppId db =
     (case bindE (requirePublicInfo lib workspaceId db) (\<lambda>(kid, jwk).
           bindE (verifyUpgradeCommandV3 lib now \<lparr>si_compact = token, si_publicJwk = jwk, si_kid = kid\<rparr>
             (affinity_with clusterId workspaceId expected) inventoryHash clusterAppId mcpAppId) (\<lambda>payload.
           bindE (command_inventory lib RUNTIME_NOT_UPGRADABLE payload db) (\<lambda>_. Inr payload))) of
        Inl e \<Rightarrow> (Inl e, db)
      | Inr payload \<Rightarrow> consume_command payload (command_record lib Use_upgrade_command token payload) db)"

section \<open>Histories\<close>

datatype sec_call =
    Call_grant units units ProvisioningAffinityV3 "PreviousGeneration option"
  | Call_provisioning units units "PreviousGeneration option"
  | Call_dispatch units json units DispatchExpected DispatchAuthorization
  | Call_lifecycle units units ProvisioningAffinityV3 units
  | Call_reconfigure units units ProvisioningAffinityV3 units units units
  | Call_upgrade units units ProvisioningAffinityV3 units units units

fun run_sec :: "jws_lib \<Rightarrow> units \<Rightarrow> int \<Rightarrow> sec_call \<Rightarrow> sec_db \<Rightarrow> (v3_error, json) result \<times> sec_db" where
  "run_sec lib cid now (Call_grant token ws a g) db = consumeDeploymentGrantV3 lib now cid token ws a g db"
| "run_sec lib cid now (Call_provisioning token ws g) db = consumeProvisioningDeploymentGrantV3 lib now cid token ws g db"
| "run_sec lib cid now (Call_dispatch token rpc ws e az) db = consumeDispatchAssertionV3 lib now cid token rpc ws e az db"
| "run_sec lib cid now (Call_lifecycle token ws a i) db = consumeLifecycleCommandV3 lib now cid token ws a i db"
| "run_sec lib cid now (Call_reconfigure token ws a i c d) db = consumeReconfigureCommandV3 lib now cid token ws a i c d db"
| "run_sec lib cid now (Call_upgrade token ws a i c d) db = consumeUpgradeCommandV3 lib now cid token ws a i c d db"

text \<open>The use a call records for the payload it accepts.\<close>

fun call_use :: "jws_lib \<Rightarrow> sec_call \<Rightarrow> json \<Rightarrow> McpProtocolV3ArtifactUse" where
  "call_use lib (Call_grant token _ _ _) p = use_record lib Use_deployment_grant token p (ustr (jat p ''deployment'') ''resourceManifestHash'') None None"
| "call_use lib (Call_provisioning token _ _) p = use_record lib Use_deployment_grant token p (ustr (jat p ''deployment'') ''resourceManifestHash'') None None"
| "call_use lib (Call_dispatch token _ _ _ _) p = use_record lib Use_dispatch_assertion token p (ustr p ''resourceManifestHash'') None
     (Some (ustr p ''runtimeResourceInventoryHash''))"
| "call_use lib (Call_lifecycle token _ _ _) p = command_record lib Use_lifecycle_command token p"
| "call_use lib (Call_reconfigure token _ _ _ _ _) p = command_record lib Use_reconfigure_command token p"
| "call_use lib (Call_upgrade token _ _ _ _ _) p = command_record lib Use_upgrade_command token p"

text \<open>
  What can happen at an instant: a call, the TTL index removing expired uses (all but those it keeps for
  now), or any other work on the database, which does not write this collection.
\<close>

datatype sec_event = Consume sec_call | Expire "McpProtocolV3ArtifactUse \<Rightarrow> bool" | Elsewhere "sec_db \<Rightarrow> sec_db"

record accepted_use =
  ac_time :: int
  ac_use :: McpProtocolV3ArtifactUse
  ac_fresh :: bool

fun sec_step :: "jws_lib \<Rightarrow> units \<Rightarrow> int \<times> sec_event \<Rightarrow> accepted_use list \<times> sec_db \<Rightarrow> accepted_use list \<times> sec_db" where
  "sec_step lib cid (t, Consume c) (acc, db) = (case run_sec lib cid t c db of
     (Inr p, db') \<Rightarrow> (acc @ [\<lparr>ac_time = t, ac_use = call_use lib c p, ac_fresh = (insert_use (call_use lib c p) (sd_uses db) \<noteq> None)\<rparr>], db')
   | (Inl _, db') \<Rightarrow> (acc, db'))"
| "sec_step lib cid (t, Expire keep) (acc, db) = (acc, db\<lparr>sd_uses := filter (\<lambda>r. of_int t < au_expiresAt r \<or> keep r) (sd_uses db)\<rparr>)"
| "sec_step lib cid (t, Elsewhere f) (acc, db) = (acc, (f db)\<lparr>sd_uses := sd_uses db\<rparr>)"

definition sec_history :: "jws_lib \<Rightarrow> units \<Rightarrow> (int \<times> sec_event) list \<Rightarrow> sec_db \<Rightarrow> accepted_use list \<times> sec_db" where
  "sec_history lib cid events db = fold (sec_step lib cid) events ([], db)"

lemma conflict_simps: "uses_conflict r r" "uses_conflict a b = uses_conflict b a"
  by (auto simp: uses_conflict_def)

lemma same_use_fields: "same_use a b \<Longrightarrow> au_jti a = au_jti b \<and> au_kind a = au_kind b \<and> uses_conflict x a = uses_conflict x b"
  unfolding same_use_def
  by (drule arg_cong [where f = "\<lambda>r. (au_jti r, au_kind r, au_nonce r, au_clusterId r, au_workspaceId r, au_deploymentId r, au_generationId r)"])
    (simp add: uses_conflict_def)

text \<open>A call either leaves the uses alone, or inserts its use, or repeats a command that is on record.\<close>

definition use_outcome :: "(json \<Rightarrow> McpProtocolV3ArtifactUse) \<Rightarrow> McpProtocolV3ArtifactUse list \<Rightarrow> (v3_error, json) result
    \<Rightarrow> McpProtocolV3ArtifactUse list \<Rightarrow> bool" where
  "use_outcome f uses res uses' \<longleftrightarrow> (case res of Inl _ \<Rightarrow> uses' = uses | Inr p \<Rightarrow> insert_use (f p) uses = Some uses'
     \<or> (insert_use (f p) uses = None \<and> uses' = uses \<and> au_kind (f p) \<noteq> Use_dispatch_assertion \<and> (\<exists>r \<in> set uses. same_use r (f p))))"

lemma outcome_Inl: "use_outcome f uses (Inl e) uses"
  by (simp add: use_outcome_def)

lemma found_in: "List.find P xs = Some x \<Longrightarrow> x \<in> set xs"
  by (auto simp: find_Some_iff)

lemma outcome_command:
  assumes "(case X of Inl e \<Rightarrow> (Inl e, db) | Inr p \<Rightarrow> consume_command p (f p) db) = (res, db')"
    and "\<And>p. au_kind (f p) \<noteq> Use_dispatch_assertion"
  shows "use_outcome f (sd_uses db) res (sd_uses db')"
proof (cases X)
  case (Inl e)
  with assms(1) show ?thesis by (auto simp: outcome_Inl)
next
  case (Inr p)
  with assms show ?thesis
    by (auto simp: consume_command_def use_outcome_def split: option.splits if_splits dest!: found_in)
qed

lemma outcome_once:
  assumes "(case X of Inl e \<Rightarrow> (Inl e, db) | Inr p \<Rightarrow> consume_once p (f p) db) = (res, db')"
  shows "use_outcome f (sd_uses db) res (sd_uses db')"
proof (cases X)
  case (Inl e)
  with assms(1) show ?thesis by (auto simp: outcome_Inl)
next
  case (Inr p)
  with assms show ?thesis by (auto simp: consume_once_def use_outcome_def split: option.splits)
qed

lemma call_use_eqs:
  "call_use lib (Call_grant token ws a g)
     = (\<lambda>p. use_record lib Use_deployment_grant token p (ustr (jat p ''deployment'') ''resourceManifestHash'') None None)"
  "call_use lib (Call_provisioning token ws g)
     = (\<lambda>p. use_record lib Use_deployment_grant token p (ustr (jat p ''deployment'') ''resourceManifestHash'') None None)"
  "call_use lib (Call_dispatch token rpc ws e az) = (\<lambda>p. use_record lib Use_dispatch_assertion token p (ustr p ''resourceManifestHash'') None
     (Some (ustr p ''runtimeResourceInventoryHash'')))"
  "call_use lib (Call_lifecycle token ws a i) = (\<lambda>p. command_record lib Use_lifecycle_command token p)"
  "call_use lib (Call_reconfigure token ws a i x y) = (\<lambda>p. command_record lib Use_reconfigure_command token p)"
  "call_use lib (Call_upgrade token ws a i x y) = (\<lambda>p. command_record lib Use_upgrade_command token p)"
  by (simp_all add: fun_eq_iff)

lemma record_kinds:
  "au_kind (use_record lib k token p h o' i) = k" "au_kind (command_record lib k token p) = k"
  by (simp_all add: use_record_def command_record_def)

lemma outcome_grant:
  "consumeDeploymentGrantV3 lib t cid token ws a g db = (res, db') \<Longrightarrow>
     use_outcome (\<lambda>p. use_record lib Use_deployment_grant token p (ustr (jat p ''deployment'') ''resourceManifestHash'') None None)
       (sd_uses db) res (sd_uses db')"
  unfolding consumeDeploymentGrantV3_def by (erule outcome_command) (simp add: record_kinds)

lemma outcome_provisioning:
  assumes "consumeProvisioningDeploymentGrantV3 lib t cid token ws g db = (res, db')"
  shows "use_outcome (\<lambda>p. use_record lib Use_deployment_grant token p (ustr (jat p ''deployment'') ''resourceManifestHash'') None None)
       (sd_uses db) res (sd_uses db')"
proof (cases "parseJws lib token")
  case (Inl e)
  with assms show ?thesis by (auto simp: consumeProvisioningDeploymentGrantV3_def outcome_Inl)
next
  case (Inr parsed)
  with assms show ?thesis
    by (auto simp: consumeProvisioningDeploymentGrantV3_def Let_def outcome_Inl simp del: zok.simps split: if_splits intro: outcome_grant)
qed

lemma run_sec_outcome: "run_sec lib cid t c db = (res, db') \<Longrightarrow> use_outcome (call_use lib c) (sd_uses db) res (sd_uses db')"
  unfolding atomize_imp
proof (cases c; rule impI)
  fix token ws a g
  assume "c = Call_grant token ws a g" "run_sec lib cid t c db = (res, db')"
  then show "use_outcome (call_use lib c) (sd_uses db) res (sd_uses db')" by (simp add: call_use_eqs outcome_grant)
next
  fix token ws g
  assume "c = Call_provisioning token ws g" "run_sec lib cid t c db = (res, db')"
  then show "use_outcome (call_use lib c) (sd_uses db) res (sd_uses db')" by (simp add: call_use_eqs outcome_provisioning)
next
  fix token rpc ws e az
  assume c: "c = Call_dispatch token rpc ws e az" and "run_sec lib cid t c db = (res, db')"
  then show "use_outcome (call_use lib c) (sd_uses db) res (sd_uses db')"
    unfolding c call_use_eqs run_sec.simps consumeDispatchAssertionV3_def by (elim outcome_once)
next
  fix token ws a i
  assume c: "c = Call_lifecycle token ws a i" and "run_sec lib cid t c db = (res, db')"
  then show "use_outcome (call_use lib c) (sd_uses db) res (sd_uses db')"
    unfolding c call_use_eqs run_sec.simps consumeLifecycleCommandV3_def by (elim outcome_command) (simp add: record_kinds)
next
  fix token ws a i x y
  assume c: "c = Call_reconfigure token ws a i x y" and "run_sec lib cid t c db = (res, db')"
  then show "use_outcome (call_use lib c) (sd_uses db) res (sd_uses db')"
    unfolding c call_use_eqs run_sec.simps consumeReconfigureCommandV3_def by (elim outcome_command) (simp add: record_kinds)
next
  fix token ws a i x y
  assume c: "c = Call_upgrade token ws a i x y" and "run_sec lib cid t c db = (res, db')"
  then show "use_outcome (call_use lib c) (sd_uses db) res (sd_uses db')"
    unfolding c call_use_eqs run_sec.simps consumeUpgradeCommandV3_def by (elim outcome_command) (simp add: record_kinds)
qed

section \<open>Used once\<close>

definition uses_ok :: "McpProtocolV3ArtifactUse list \<Rightarrow> bool" where
  "uses_ok uses \<longleftrightarrow> (\<forall>r \<in> set uses. \<forall>s \<in> set uses. uses_conflict r s \<longrightarrow> r = s)"

lemma uses_ok_insert: "uses_ok uses \<Longrightarrow> insert_use r uses = Some uses' \<Longrightarrow> uses_ok uses'"
  unfolding uses_ok_def insert_use_def
  by (auto simp: list_ex_iff conflict_simps split: if_splits)

text \<open>The second of two accepted uses that clash before the first has expired is the identical redelivery of a command.\<close>

definition pair_ok :: "accepted_use \<Rightarrow> accepted_use \<Rightarrow> bool" where
  "pair_ok a b \<longleftrightarrow> (ac_fresh a \<and> uses_conflict (ac_use a) (ac_use b) \<and> of_int (ac_time b) < au_expiresAt (ac_use a)
     \<longrightarrow> \<not> ac_fresh b \<and> au_kind (ac_use b) \<noteq> Use_dispatch_assertion \<and> same_use (ac_use a) (ac_use b))"

definition history_ok :: "int \<Rightarrow> accepted_use list \<times> sec_db \<Rightarrow> bool" where
  "history_ok t s \<longleftrightarrow> uses_ok (sd_uses (snd s)) \<and> sorted_wrt pair_ok (fst s)
     \<and> (\<forall>a \<in> set (fst s). ac_fresh a \<longrightarrow> ac_use a \<in> set (sd_uses (snd s)) \<or> au_expiresAt (ac_use a) \<le> of_int t)"

lemma history_mono: "history_ok t s \<Longrightarrow> t \<le> t' \<Longrightarrow> history_ok t' s"
  unfolding history_ok_def by (meson of_int_le_iff order_trans)

lemma history_accept:
  assumes ok: "history_ok t (acc, db)" and out: "use_outcome f (sd_uses db) (Inr p) (sd_uses db')"
  shows "history_ok t (acc @ [\<lparr>ac_time = t, ac_use = f p, ac_fresh = (insert_use (f p) (sd_uses db) \<noteq> None)\<rparr>], db')"
proof -
  let ?new = "\<lparr>ac_time = t, ac_use = f p, ac_fresh = (insert_use (f p) (sd_uses db) \<noteq> None)\<rparr>"
  have live: "ac_use a \<in> set (sd_uses db)" if "a \<in> set acc" "ac_fresh a" "of_int t < au_expiresAt (ac_use a)" for a
    using ok that unfolding history_ok_def by fastforce
  have pairs: "pair_ok a ?new" if a: "a \<in> set acc" for a
  proof (cases "insert_use (f p) (sd_uses db)")
    case None
    with out obtain r where r: "r \<in> set (sd_uses db)" "same_use r (f p)" "au_kind (f p) \<noteq> Use_dispatch_assertion"
      by (auto simp: use_outcome_def)
    from same_use_fields [OF r(2), of "ac_use a"] live [OF a] ok r None show ?thesis
      by (auto simp: pair_ok_def history_ok_def uses_ok_def)
  next
    case (Some us)
    with live [OF a] show ?thesis
      by (auto simp: pair_ok_def insert_use_def list_ex_iff conflict_simps split: if_splits)
  qed
  have new: "uses_ok (sd_uses db') \<and> set (sd_uses db) \<subseteq> set (sd_uses db') \<and> (ac_fresh ?new \<longrightarrow> f p \<in> set (sd_uses db'))"
  proof (cases "insert_use (f p) (sd_uses db)")
    case None
    with out have "sd_uses db' = sd_uses db" by (simp add: use_outcome_def)
    with ok None show ?thesis by (simp add: history_ok_def)
  next
    case (Some us)
    with out have us: "us = sd_uses db'" by (auto simp: use_outcome_def)
    with Some have "sd_uses db' = sd_uses db @ [f p]" by (simp add: insert_use_def split: if_splits)
    moreover have "uses_ok (sd_uses db')" using Some us ok uses_ok_insert by (auto simp: history_ok_def)
    ultimately show ?thesis by auto
  qed
  show ?thesis unfolding history_ok_def using ok pairs new by (auto simp: history_ok_def sorted_wrt_append)
qed

lemma history_step:
  assumes ok: "history_ok t s" and now: "t \<le> fst e" shows "history_ok (fst e) (sec_step lib cid e s)"
proof -
  obtain acc db where s: "s = (acc, db)" by force
  from history_mono [OF ok now] s have ok': "history_ok (fst e) (acc, db)" by simp
  obtain t' ev where e: "e = (t', ev)" by force
  show ?thesis
  proof (cases ev)
    case (Consume c)
    obtain res db' where run: "run_sec lib cid t' c db = (res, db')" by force
    note out = run_sec_outcome [OF run]
    show ?thesis
    proof (cases res)
      case (Inl err)
      with out have "sd_uses db' = sd_uses db" by (simp add: use_outcome_def)
      with ok' show ?thesis by (simp add: s e Consume run Inl history_ok_def)
    next
      case (Inr p)
      from history_accept [OF _ out [unfolded Inr]] ok' show ?thesis by (simp add: s e Consume run Inr)
    qed
  next
    case (Expire keep)
    with ok' show ?thesis by (auto simp: s e history_ok_def uses_ok_def)
  next
    case (Elsewhere f)
    with ok' show ?thesis by (simp add: s e history_ok_def)
  qed
qed

lemma history_fold:
  "history_ok t s \<Longrightarrow> sorted (map fst events) \<Longrightarrow> (\<And>e. e \<in> set events \<Longrightarrow> t \<le> fst e) \<Longrightarrow>
     \<exists>t'. history_ok t' (fold (sec_step lib cid) events s)"
proof (induction events arbitrary: t s)
  case Nil
  then show ?case by auto
next
  case (Cons e events)
  from history_step [OF Cons.prems(1)] Cons.prems(3) have "history_ok (fst e) (sec_step lib cid e s)" by simp
  from Cons.IH [OF this] Cons.prems(2) show ?case by auto
qed


section \<open>Two gaps\<close>

text \<open>
  An artifact is accepted until 30 s after its expiry, but its use may be removed at the expiry: in between,
  a dispatch assertion that was consumed is accepted again.
\<close>

lemma verifySignedV3_later:
  assumes "verifySignedV3 lib t input typ schema lifetime = Inr p" and "in_time p lifetime t'"
  shows "verifySignedV3 lib t' input typ schema lifetime = Inr p"
  using assms by (auto simp: verifySignedV3_def assertArtifactTime_def Let_def bindE_Inr_iff guardE_def split: sum.splits if_splits)

lemma in_time_later:
  assumes "in_time p lifetime t" and "t \<le> t'" and "of_int t' \<le> unum p ''exp'' + 30"
  shows "in_time p lifetime t'"
proof -
  have "(of_int t :: rat) \<le> of_int t'" using assms(2) by simp
  with assms(1,3) show ?thesis unfolding in_time_def unum_def
    by (cases "jget p ''iat''"; cases "jget p ''exp''") (auto simp: Let_def split: json.splits)
qed

lemma consume_once_Inr:
  "(case X of Inl err \<Rightarrow> (Inl err, db) | Inr q \<Rightarrow> consume_once q (f q) db) = (Inr p, db') \<Longrightarrow> X = Inr p"
  by (auto simp: consume_once_def split: sum.splits option.splits)

lemma expired_use_replayed:
  assumes first: "consumeDispatchAssertionV3 lib t cid token rpc ws e az db = (Inr p, db1)"
    and later: "t \<le> t'" "unum p ''exp'' \<le> of_int t'" "of_int t' \<le> unum p ''exp'' + 30" and fresh: "sd_uses db = []"
  shows "\<exists>db2. consumeDispatchAssertionV3 lib t' cid token rpc ws e az
    (snd (sec_step lib cid (t', Expire (\<lambda>_. False)) ([], db1))) = (Inr p, db2)"
proof -
  let ?use = "use_record lib Use_dispatch_assertion token p (ustr p ''resourceManifestHash'') None (Some (ustr p ''runtimeResourceInventoryHash''))"
  have db1: "db1 = db\<lparr>sd_uses := [?use]\<rparr>"
    using first fresh by (auto simp: consumeDispatchAssertionV3_def consume_once_def insert_use_def split: sum.splits)
  have expired: "snd (sec_step lib cid (t', Expire (\<lambda>_. False)) ([], db1)) = db1\<lparr>sd_uses := []\<rparr>"
    using later by (simp add: db1 use_record_def)
  have same: "requirePublicInfo lib ws (db1\<lparr>sd_uses := []\<rparr>) = requirePublicInfo lib ws db"
    by (simp add: db1 requirePublicInfo_def publicInfo_def active_workspace_def)
  have again: "verifyDispatchAssertionV3 lib t' input a = Inr p" if "verifyDispatchAssertionV3 lib t input a = Inr p" for input a
  proof -
    from that have v: "verifySignedV3 lib t input ''privos-hub-dispatch+jws'' (dispatch_ok (jl_zod lib)) 30 = Inr p"
      "assertDispatchAffinityV3 p a = Inr ()" by (auto simp: verifyDispatchAssertionV3_def bindE_Inr_iff)
    from verifySignedV3_Inr [OF v(1)] have "in_time p 30 t" by (auto simp: signed_artifact_def)
    from in_time_later [OF this later(1,3)] verifySignedV3_later [OF v(1)] v(2) show ?thesis
      by (simp add: verifyDispatchAssertionV3_def)
  qed
  note accepted = consume_once_Inr [OF first [unfolded consumeDispatchAssertionV3_def]]
  then obtain kid jwk where id: "requirePublicInfo lib ws db = Inr (kid, jwk)" by (auto simp: bindE_Inr_iff)
  with accepted obtain parsed where parsed: "parseJws lib token = Inr parsed" by (auto simp: bindE_def split: sum.splits)
  with accepted id obtain v where v: "parseDispatchAssertionPayloadV3 lib (pj_payload parsed) = Inr v" by (auto simp: bindE_Inr_iff)
  note rest = accepted [unfolded id parsed v, unfolded bindE_def, simplified]
  have parts: "verifyDispatchAssertionV3 lib t \<lparr>si_compact = token, si_publicJwk = jwk, si_kid = kid\<rparr>
         (dispatch_expectation lib cid ws e az v rpc) = Inr p"
    using rest v by (auto split: if_splits sum.splits)
  show ?thesis unfolding expired consumeDispatchAssertionV3_def same
    using rest id parsed v parts again [OF parts] by (auto simp: bindE_def consume_once_def insert_use_def split: if_splits)
qed

text \<open>A grant that carries the agent-bot credential pair, which an environment may carry, is refused.\<close>

lemma agent_bot_grant_refused:
  "isAllowedReservedEnvName name \<Longrightarrow> EnvName_re name \<and> privos_name name"
proof -
  have "EnvName_re (u n) \<and> privos_name (u n)" if "n \<in> set RESERVED_AGENT_BOT_ENV_NAMES" for n
    using that by (auto simp: RESERVED_AGENT_BOT_ENV_NAMES_def EnvName_re_def privos_name_def isAllowedReservedEnvName_def
      upper_letter_def upper_word_def upper_units_def lower_letter_def is_digit_def u_def)
  then show "isAllowedReservedEnvName name \<Longrightarrow> ?thesis" by (auto simp: isAllowedReservedEnvName_def)
qed

lemma grant_with_agent_bot_env_refused:
  assumes "isAllowedReservedEnvName name"
    and "requirePublicInfo lib ws db = Inr (kid, jwk)"
    and "verifyDeploymentGrantV3 lib t \<lparr>si_compact = token, si_publicJwk = jwk, si_kid = kid\<rparr> (affinity_with cid ws a) g = Inr p"
    and "name \<in> set (ukeys (jat (jat p ''deployment'') ''envVars''))"
  shows "consumeDeploymentGrantV3 lib t cid token ws a g db = (Inl (V3 PROTOCOL_ENVELOPE_INVALID), db)"
  using assms agent_bot_grant_refused [OF assms(1)] by (auto simp: consumeDeploymentGrantV3_def list_ex_iff)

section \<open>A redelivered command, for evaluating a history on\<close>

definition demo_inventory :: RuntimeResourceInventory where
  "demo_inventory = \<lparr>rv_inventoryId = u ''i'', rv_affinity = \<lparr>ri_clusterId = u ''c'', ri_workspaceId = u ''w'', ri_deploymentId = u ''d'',
       ri_generationId = u ''g'', ri_generationNumber = 1, ri_runtimeInstallationId = u ''r'', ri_clusterAppId = u ''a'',
       ri_manifestDigest = u (''sha256:'' @ replicate 64 CHR ''0''), ri_resourceManifestHash = u demo_hash\<rparr>,
     rv_hash = Some (u demo_hash), rv_expectedResources = [descriptor ''CONTAINER'' (u ''x'') None None (obj [])], rv_state = READY,
     rv_createdAt = 0, rv_updatedAt = 0\<rparr>"

definition demo_sec :: sec_db where
  "demo_sec = \<lparr>sd_workspaces = [\<lparr>hw_workspaceId = u ''w'', hw_active = True, hw_kid = Some (u demo_hash), hw_publicJwk = Some demo_key\<rparr>],
     sd_uses = [], sd_uses2 = [], sd_inventories = [demo_inventory], sd_generations = []\<rparr>"

definition demo_call :: sec_call where
  "demo_call = Call_lifecycle (u ''h.p.s'') (u ''w'') demo_affinity (u demo_hash)"

abbreviation demo_use :: McpProtocolV3ArtifactUse where
  "demo_use \<equiv> command_record demo_jws Use_lifecycle_command (u ''h.p.s'') demo_command"

lemma demo_inventory_ok: "lifecycle_inventory demo_jws demo_command (demo_sec\<lparr>sd_uses := us\<rparr>) = Inr ()"
proof -
  have members: "ustr demo_command ''clusterId'' = u ''c''" "ustr demo_command ''workspaceId'' = u ''w''" "ustr demo_command ''deploymentId'' = u ''d''"
    "ustr demo_command ''generationId'' = u ''g''" "ustr demo_command ''runtimeInstallationId'' = u ''r''"
    "ustr demo_command ''resourceManifestHash'' = u demo_hash" "ustr demo_command ''runtimeResourceInventoryHash'' = u demo_hash"
    "unum demo_command ''expectedResourceCount'' = 1"
    by (simp_all add: ustr_def unum_def demo_command_def jget_obj str_def lexeme_lits)
  have found: "find_inventory demo_command (demo_sec\<lparr>sd_uses := us\<rparr>) = Some demo_inventory"
    by (simp add: find_inventory_def members demo_sec_def demo_inventory_def)
  have "zok (RuntimeResourceDescriptorV3Schema demo_zod) (descriptor ''CONTAINER'' (u ''x'') None None (obj []))"
    unfolding RuntimeResourceDescriptorV3Schema_def descriptor_def zok_obj
    by (simp add: RuntimeResourceKindV3Schema_def Identifier_def z_len_def str_def u_def or_null_def obj_def)
  then have "normalizeRuntimeResourcesV3 demo_jws (rv_expectedResources demo_inventory) = Inr (rv_expectedResources demo_inventory)"
    by (simp add: normalizeRuntimeResourcesV3_def demo_inventory_def demo_jws_def del: zok.simps)
  moreover have "assertInventoryAffinityV3 (rv_affinity demo_inventory) = Inr ()"
    by (simp add: assertInventoryAffinityV3_def demo_inventory_def js_integer_lits Digest_re_def ArtifactHash_re_def guardE_def u_def demo_hash_def
        lower_hex_def url_safe_def upper_letter_def lower_letter_def is_digit_def list_all_iff)
  ultimately have "runtimeResourceInventoryHashV3 demo_jws (rv_affinity demo_inventory) (rv_expectedResources demo_inventory) = Inr (u demo_hash)"
    by (simp add: runtimeResourceInventoryHashV3_def demo_jws_def)
  with found members show ?thesis
    by (simp add: lifecycle_inventory_def check_inventory_def) (simp add: demo_inventory_def)
qed

lemma demo_sec_run:
  assumes "70 \<le> t" "t \<le> 190"
  shows "run_sec demo_jws (u ''c'') t demo_call (demo_sec\<lparr>sd_uses := us\<rparr>) = consume_command demo_command demo_use (demo_sec\<lparr>sd_uses := us\<rparr>)"
proof -
  have "requirePublicInfo demo_jws (u ''w'') (demo_sec\<lparr>sd_uses := us\<rparr>) = Inr (u demo_hash, demo_key)"
    by (simp add: requirePublicInfo_def publicInfo_def active_workspace_def demo_sec_def jwk_thumbprint_def demo_key_def jget_obj
        js_truthy_def str_def u_def demo_jws_def demo_hash_def)
  moreover have "affinity_with (u ''c'') (u ''w'') demo_affinity = demo_affinity" by (simp add: affinity_with_def demo_affinity_def)
  ultimately show ?thesis using demo_verified [OF assms]
    by (simp add: demo_call_def consumeLifecycleCommandV3_def demo_signed_def demo_inventory_ok)
qed


end
