(* ===== verification/Mcp_Protocol2.thy ===== *)
theory Mcp_Protocol2
  imports Mcp_Security
begin

text \<open>
  The rest of \<open>src/master/mcp-security.ts\<close>: the attestation of a marketplace release, and the protocol-2
  deployment grant and dispatch assertion with their record of uses. Beyond \<open>jws_lib\<close>, SHA-256 in the
  \<open>sha256:\<close> form and Ed25519 verification are the parameters of \<open>p2_lib\<close>.
\<close>

record p2_lib =
  p2_jws :: jws_lib
  p2_sha256 :: "units \<Rightarrow> units"
  p2_ed25519 :: "json \<Rightarrow> units \<Rightarrow> units \<Rightarrow> bool option"

section \<open>Release attestations\<close>

definition MarketplaceReleasePayloadSchema :: zschema where
  "MarketplaceReleasePayloadSchema = ZObj [Req ''type'' (ZLitStr ''marketplace-image-release''), Req ''aud'' (ZLitStr ''privos-apps-master''),
     Req ''releaseId'' (ZStr (\<lambda>s. s \<noteq> [])), Req ''listingId'' (ZStr (\<lambda>s. s \<noteq> [])), Req ''imageDigest'' Digest, Req ''manifestDigest'' Digest]"

text \<open>The id of a trusted key; \<open>None\<close> where the entry is malformed, which is ignored.\<close>

definition trusted_kid :: "jws_lib \<Rightarrow> json \<Rightarrow> units option" where
  "trusted_kid lib jwk = (case jget jwk ''kid'' of
     Some (JStr k) \<Rightarrow> if k \<noteq> [] then Some k
       else if jget jwk ''kty'' = Some (str ''EC'') then (case jwk_thumbprint lib jwk of Inr t \<Rightarrow> Some t | Inl _ \<Rightarrow> None) else Some []
   | _ \<Rightarrow> if jwk = JNull then None
       else if jget jwk ''kty'' = Some (str ''EC'') then (case jwk_thumbprint lib jwk of Inr t \<Rightarrow> Some t | Inl _ \<Rightarrow> None) else Some [])"

text \<open>The last trusted key with the id of the header.\<close>

definition matched_key :: "jws_lib \<Rightarrow> units \<Rightarrow> json list \<Rightarrow> json option" where
  "matched_key lib kid trusted = (case filter (\<lambda>jwk. trusted_kid lib jwk = Some kid) trusted of [] \<Rightarrow> None | ks \<Rightarrow> Some (last ks))"

definition attestation_signed :: "p2_lib \<Rightarrow> json \<Rightarrow> ParsedJws \<Rightarrow> bool" where
  "attestation_signed lib jwk parsed = (let header = pj_header parsed in
     if jget header ''alg'' = Some (str ''EdDSA'') \<and> jget jwk ''kty'' = Some (str ''OKP'') \<and> jget jwk ''crv'' = Some (str ''Ed25519'')
     then p2_ed25519 lib jwk (pj_signingInput parsed) (pj_signature parsed) = Some True
     else jget header ''alg'' = Some (str ''ES256'') \<and> jget jwk ''kty'' = Some (str ''EC'') \<and> jget jwk ''crv'' = Some (str ''P-256'')
       \<and> jl_verify (p2_jws lib) jwk (pj_signingInput parsed) (pj_signature parsed) = Some True)"

definition verifyMarketplaceReleaseAttestation ::
  "p2_lib \<Rightarrow> units \<Rightarrow> json list \<Rightarrow> units \<Rightarrow> units \<Rightarrow> units \<Rightarrow> (v3_error, units \<times> units) result" where
  "verifyMarketplaceReleaseAttestation lib token trustedJwks listingId imageDigest manifestDigest =
     bindE (parseJws (p2_jws lib) token) (\<lambda>parsed. let header = pj_header parsed in
     if header = JNull then Inl (Plain ''TypeError'')
     else case (jget header ''typ'' = Some (str ''privos-marketplace-image-release+jws''), jget header ''kid'') of
       (True, Some (JStr kid)) \<Rightarrow> (case matched_key (p2_jws lib) kid trustedJwks of
           None \<Rightarrow> Inl (Plain ''release_authority_key_untrusted'')
         | Some jwk \<Rightarrow> let payload = pj_payload parsed in
             if \<not> attestation_signed lib jwk parsed then Inl (Plain ''release_attestation_signature_invalid'')
             else if \<not> zok MarketplaceReleasePayloadSchema payload then Inl ZodError
             else if ustr payload ''listingId'' \<noteq> listingId \<or> ustr payload ''imageDigest'' \<noteq> imageDigest \<or> ustr payload ''manifestDigest'' \<noteq> manifestDigest
             then Inl (Plain ''release_attestation_binding_mismatch'')
             else Inr (ustr payload ''releaseId'', kid))
     | _ \<Rightarrow> Inl (Plain ''release_authority_key_untrusted''))"

section \<open>Protocol 2\<close>

definition Resources :: zschema where
  "Resources = ZObj [Req ''memoryMb'' (z_int_in 64 16384), Req ''cpus'' (ZNum (\<lambda>r. 1 / 10 \<le> r \<and> r \<le> 16)), Opt ''tmpSizeMb'' (z_int_in 16 4096)]"

definition z_nonempty :: zschema where "z_nonempty = ZStr (\<lambda>s. s \<noteq> [])"

text \<open>A member with a default may be absent; the schema then fills it in (\<open>grant_defaults\<close>).\<close>

definition McpDeploymentGrantPayloadSchema :: "zod_lib \<Rightarrow> zschema" where
  "McpDeploymentGrantPayloadSchema lib = ZObj [Req ''type'' (ZLitStr ''mcp-deployment-grant''), Req ''aud'' (ZLitStr ''privos-apps-master''),
     Req ''jti'' (z_uuid lib), Req ''iat'' z_int, Req ''exp'' z_int, Req ''clusterId'' z_nonempty, Req ''workspaceId'' z_nonempty,
     Req ''installationId'' z_nonempty, Req ''mcpAppId'' z_nonempty, Req ''receiptHash'' Digest, Req ''grantEpoch'' z_positive,
     Req ''hubOrigin'' (ZStr (zod_https_url lib)),
     Req ''deployment'' (ZObj [Req ''appId'' (z_len 1 128), Req ''listingId'' (z_len 1 128), Req ''versionDigest'' Digest,
       Req ''image'' z_nonempty, Req ''imageDigest'' Digest, Req ''manifestDigest'' Digest, Opt ''port'' (z_int_in 1 65535),
       Req ''resources'' Resources, Opt ''envVars'' (ZRec (\<lambda>_. True) z_any_str),
       Opt ''volumes'' (ZArr (\<lambda>n. n \<le> 1) (ZObj [Req ''name'' (ZLitStr ''data''), Req ''mountPath'' (ZStr (\<lambda>s. take 1 s = u ''/'')),
         Opt ''sizeMb'' z_positive])),
       Opt ''availabilityTier'' (ZEnum [''single'', ''ha'']), Opt ''stateless'' ZBool, Req ''releaseAttestationJws'' (ZStr (\<lambda>s. 32 \<le> length s)),
       Opt ''subdomain'' (ZNullable z_any_str), Opt ''domain'' (ZNullable z_any_str)])]"

definition fill :: "string \<Rightarrow> json \<Rightarrow> json \<Rightarrow> json" where
  "fill k d v = (case v of JObj ms p \<Rightarrow> if map_of ms (u k) = None then JObj (ms @ [(u k, d)]) p else v | _ \<Rightarrow> v)"

definition on_member :: "string \<Rightarrow> (json \<Rightarrow> json) \<Rightarrow> json \<Rightarrow> json" where
  "on_member k f v = (case v of JObj ms p \<Rightarrow> JObj (map (\<lambda>(m, w). if m = u k then (m, f w) else (m, w)) ms) p | _ \<Rightarrow> v)"

definition grant_defaults :: "json \<Rightarrow> json" where
  "grant_defaults = on_member ''deployment'' (\<lambda>d. fill ''stateless'' (JBool False) (fill ''availabilityTier'' (str ''single'')
     (fill ''volumes'' (JArr []) (fill ''envVars'' (obj []) (on_member ''resources'' (fill ''tmpSizeMb'' (JNum (u ''64'')))
     (fill ''port'' (JNum (u ''3001'')) d))))))"

definition DispatchAssertionPayloadSchema :: "zod_lib \<Rightarrow> zschema" where
  "DispatchAssertionPayloadSchema lib = ZObj [Req ''type'' (ZLitStr ''hub-dispatch-assertion''), Req ''aud'' (ZLitStr ''privos-mcp-app''),
     Req ''jti'' (z_uuid lib), Req ''iat'' z_int, Req ''exp'' z_int, Req ''workspaceId'' z_nonempty, Req ''installationId'' z_nonempty,
     Req ''mcpAppId'' z_nonempty, Req ''clusterAppId'' (z_uuid lib), Req ''replicaId'' (z_uuid lib), Req ''htm'' (ZLitStr ''POST''),
     Req ''htu'' (ZLitStr ''/mcp''), Req ''bodyDigest'' Digest, Req ''receiptHash'' Digest, Req ''grantEpoch'' z_positive]"

text \<open>\<open>insertOne\<close> into the collection keyed by kind and id.\<close>

definition use_id :: "UseKind \<Rightarrow> units \<Rightarrow> units" where
  "use_id kind jti = u (if kind = Use_deployment_grant then ''deployment-grant:'' else ''dispatch-assertion:'') @ jti"

definition consume :: "UseKind \<Rightarrow> units \<Rightarrow> rat \<Rightarrow> sec_db \<Rightarrow> (v3_error, unit) result \<times> sec_db" where
  "consume kind jti expires db = (if use_id kind jti \<in> mu_id ` set (sd_uses2 db)
     then (Inl (Plain (if kind = Use_deployment_grant then ''deployment_grant_replayed'' else ''dispatch_assertion_replayed'')), db)
     else (Inr (), db\<lparr>sd_uses2 := sd_uses2 db @ [\<lparr>mu_id = use_id kind jti, mu_expiresAt = expires\<rparr>]\<rparr>))"

definition consume_payload :: "UseKind \<Rightarrow> (v3_error, json) result \<Rightarrow> sec_db \<Rightarrow> (v3_error, json) result \<times> sec_db" where
  "consume_payload kind res db = (case res of
     Inl e \<Rightarrow> (Inl e, db)
   | Inr payload \<Rightarrow> (case consume kind (ustr payload ''jti'') (unum payload ''exp'') db of
       (Inl e, db') \<Rightarrow> (Inl e, db') | (Inr _, db') \<Rightarrow> (Inr payload, db')))"

definition consumeDeploymentGrant ::
  "p2_lib \<Rightarrow> int \<Rightarrow> units \<Rightarrow> units \<Rightarrow> units \<Rightarrow> sec_db \<Rightarrow> (v3_error, json) result \<times> sec_db" where
  "consumeDeploymentGrant lib now clusterId token workspaceId db = consume_payload Use_deployment_grant
     (bindE (requirePublicInfo (p2_jws lib) workspaceId db) (\<lambda>(kid, jwk).
      bindE (verifyEs256Jws (p2_jws lib) token jwk ''privos-deployment-grant+jws'' kid False) (\<lambda>parsed.
      if \<not> zok (McpDeploymentGrantPayloadSchema (jl_zod (p2_jws lib))) (pj_payload parsed) then Inl ZodError
      else let payload = grant_defaults (pj_payload parsed) in
      bindE (assertArtifactTime payload 120 now) (\<lambda>_.
      if ustr payload ''clusterId'' \<noteq> clusterId \<or> ustr payload ''workspaceId'' \<noteq> workspaceId then Inl (Plain ''deployment_grant_binding_mismatch'')
      else if list_ex privos_name (ukeys (jat (jat payload ''deployment'') ''envVars'')) then Inl (Plain ''reserved_environment_override'')
      else Inr payload)))) db"

record DispatchTarget =
  dt_workspaceId :: units
  dt_installationId :: units
  dt_clusterAppId :: units
  dt_replicaId :: units

definition bound_to_target :: "p2_lib \<Rightarrow> DispatchTarget \<Rightarrow> json \<Rightarrow> json \<Rightarrow> bool" where
  "bound_to_target lib t rpc payload = (ustr payload ''workspaceId'' = dt_workspaceId t \<and> ustr payload ''installationId'' = dt_installationId t
     \<and> ustr payload ''clusterAppId'' = dt_clusterAppId t \<and> ustr payload ''replicaId'' = dt_replicaId t
     \<and> ustr payload ''bodyDigest'' = p2_sha256 lib (canonicalJson (jl_fmt (p2_jws lib)) rpc))"

definition consumeDispatchAssertion ::
  "p2_lib \<Rightarrow> int \<Rightarrow> units \<Rightarrow> DispatchTarget \<Rightarrow> json \<Rightarrow> sec_db \<Rightarrow> (v3_error, json) result \<times> sec_db" where
  "consumeDispatchAssertion lib now token t rpc db = consume_payload Use_dispatch_assertion
     (bindE (requirePublicInfo (p2_jws lib) (dt_workspaceId t) db) (\<lambda>(kid, jwk).
      bindE (verifyEs256Jws (p2_jws lib) token jwk ''privos-hub-dispatch+jws'' kid False) (\<lambda>parsed. let payload = pj_payload parsed in
      if \<not> zok (DispatchAssertionPayloadSchema (jl_zod (p2_jws lib))) payload then Inl ZodError
      else bindE (assertArtifactTime payload 30 now) (\<lambda>_.
      if \<not> bound_to_target lib t rpc payload then Inl (Plain ''dispatch_assertion_binding_mismatch'') else Inr payload)))) db"

section \<open>What they promise\<close>

lemma matched_key_Some:
  assumes "matched_key lib kid trusted = Some jwk" shows "jwk \<in> set trusted \<and> trusted_kid lib jwk = Some kid"
proof -
  let ?ks = "filter (\<lambda>jwk. trusted_kid lib jwk = Some kid) trusted"
  from assms have "?ks \<noteq> [] \<and> jwk = last ?ks" unfolding matched_key_def by (cases ?ks) simp_all
  then have "jwk \<in> set ?ks" using last_in_set by blast
  then show ?thesis by simp
qed

text \<open>An accepted attestation is signed by a trusted key and is about this listing, image and manifest.\<close>

lemma attestation_bound:
  assumes "verifyMarketplaceReleaseAttestation lib token trusted ls img mf = Inr (release, kid)"
  shows "\<exists>parsed jwk. parseJws (p2_jws lib) token = Inr parsed \<and> jwk \<in> set trusted \<and> trusted_kid (p2_jws lib) jwk = Some kid
    \<and> attestation_signed lib jwk parsed \<and> zok MarketplaceReleasePayloadSchema (pj_payload parsed)
    \<and> ustr (pj_payload parsed) ''listingId'' = ls \<and> ustr (pj_payload parsed) ''imageDigest'' = img
    \<and> ustr (pj_payload parsed) ''manifestDigest'' = mf"
  using assms unfolding verifyMarketplaceReleaseAttestation_def
  by (auto simp: bindE_Inr_iff Let_def simp del: zok.simps split: if_splits json.splits option.splits bool.splits dest!: matched_key_Some)

lemma consume_payload_Inr:
  "consume_payload kind res db = (Inr p, db') \<longleftrightarrow> res = Inr p \<and> use_id kind (ustr p ''jti'') \<notin> mu_id ` set (sd_uses2 db)
     \<and> db' = db\<lparr>sd_uses2 := sd_uses2 db @ [\<lparr>mu_id = use_id kind (ustr p ''jti''), mu_expiresAt = unum p ''exp''\<rparr>]\<rparr>"
  by (auto simp: consume_payload_def consume_def split: sum.splits if_splits)

lemma consume_payload_kept: "mu_id ` set (sd_uses2 db) \<subseteq> mu_id ` set (sd_uses2 (snd (consume_payload kind res db)))"
  by (auto simp: consume_payload_def consume_def split: sum.splits if_splits)

text \<open>As long as its record is kept, a dispatch assertion is accepted once.\<close>

lemma dispatch2_used_once:
  assumes "consumeDispatchAssertion lib now token t rpc db = (Inr p, db1)" and "mu_id ` set (sd_uses2 db1) \<subseteq> mu_id ` set (sd_uses2 db2)"
    and "consumeDispatchAssertion lib now' token' t' rpc' db2 = (Inr p', db3)"
  shows "ustr p' ''jti'' \<noteq> ustr p ''jti''"
  using assms unfolding consumeDispatchAssertion_def consume_payload_Inr by auto

lemma grant2_used_once:
  assumes "consumeDeploymentGrant lib now cid token ws db = (Inr p, db1)" and "mu_id ` set (sd_uses2 db1) \<subseteq> mu_id ` set (sd_uses2 db2)"
    and "consumeDeploymentGrant lib now' cid' token' ws' db2 = (Inr p', db3)"
  shows "ustr p' ''jti'' \<noteq> ustr p ''jti''"
  using assms unfolding consumeDeploymentGrant_def consume_payload_Inr by auto

end
