(* ===== verification/Tunnel_Frames.thy ===== *)
theory Tunnel_Frames
  imports Protocol_Schemas
begin

text \<open>
  The frame codec of the dial-out tunnel (\<open>src/tunnel/frames.ts\<close>): the eight frame types, their schemas,
  and encoding and decoding under the one-megabyte cap. A number in a frame is kept as its JSON lexeme;
  the parameter \<open>fm\<close> is the engine's number formatting, as in \<open>Canonical_Json\<close>.
\<close>

definition MAX_JSON_FRAME_BYTES :: nat where "MAX_JSON_FRAME_BYTES = 1000000"

definition MAX_CHUNK_BYTES :: nat where "MAX_CHUNK_BYTES = 1024 * 1024"

definition MAX_STAGED_ARTIFACT_BYTES :: nat where "MAX_STAGED_ARTIFACT_BYTES = 250000000"

section \<open>Frames\<close>

type_synonym hdrs = "(units \<times> units) list"

record NodeIdentitySummary =
  ni_nodeId :: units
  ni_kid :: units
  ni_x :: units
  ni_y :: units

record HelloFrame =
  he_version :: units
  he_clusterId :: units
  he_operatorRoutes :: bool
  he_artifactStaging :: bool
  he_nodeIdentity :: "NodeIdentitySummary option"

record ReqFrame =
  rq_id :: units
  rq_method :: units
  rq_path :: units
  rq_query :: "hdrs option"
  rq_headers :: "hdrs option"
  rq_body :: "json option"
  rq_raw :: "bool option"
  rq_rawBody :: "units option"
  rq_timeoutMs :: units

record ReqChunkFrame =
  ck_id :: units
  ck_seq :: units
  ck_byteLength :: units
  ck_sha256 :: "units option"
  ck_last :: bool

record ResFrame =
  rs_id :: units
  rs_status :: units
  rs_headers :: "hdrs option"
  rs_body :: "json option"
  rs_raw :: "bool option"
  rs_rawBody :: "units option"
  rs_error :: "(units \<times> units) option"

record ForwardFrame =
  fw_id :: units
  fw_runtimeId :: units
  fw_path :: units
  fw_headers :: "hdrs option"
  fw_body :: "json option"
  fw_timeoutMs :: units

datatype Frame = F_hello HelloFrame | F_req ReqFrame | F_req_chunk ReqChunkFrame | F_res ResFrame | F_forward ForwardFrame
  | F_ping units | F_pong units | F_paired units units

section \<open>Schemas\<close>

definition z_number :: zschema where "z_number = ZNum (\<lambda>_. True)"

definition HeadersSchema :: zschema where "HeadersSchema = ZRec (\<lambda>_. True) z_any_str"

definition ClusterCapabilitiesSchema :: zschema where
  "ClusterCapabilitiesSchema = ZStrip [Req ''operatorRoutes'' ZBool, Req ''artifactStaging'' ZBool]"

definition NodeIdentitySchema :: zschema where
  "NodeIdentitySchema = ZStrip [Req ''nodeId'' z_any_str, Req ''kid'' z_any_str,
     Req ''publicJwk'' (ZStrip [Req ''kty'' (ZLitStr ''EC''), Req ''crv'' (ZLitStr ''P-256''), Req ''x'' z_any_str, Req ''y'' z_any_str])]"

definition HelloFrameSchema :: zschema where
  "HelloFrameSchema = ZStrip [Req ''t'' (ZLitStr ''hello''), Req ''version'' z_any_str, Req ''clusterId'' z_any_str,
     Req ''clusterCapabilities'' ClusterCapabilitiesSchema, Opt ''nodeIdentity'' NodeIdentitySchema]"

definition ReqFrameSchema :: zschema where
  "ReqFrameSchema = ZStrip [Req ''t'' (ZLitStr ''req''), Req ''id'' z_any_str, Req ''method'' z_any_str, Req ''path'' z_any_str,
     Opt ''query'' HeadersSchema, Opt ''headers'' HeadersSchema, Opt ''body'' ZAny, Opt ''raw'' ZBool, Opt ''rawBody'' z_any_str,
     Req ''timeoutMs'' z_number]"

definition ReqChunkFrameSchema :: zschema where
  "ReqChunkFrameSchema = ZStrip [Req ''t'' (ZLitStr ''req-chunk''), Req ''id'' z_any_str, Req ''seq'' z_number, Req ''byteLength'' z_number,
     Opt ''sha256'' z_any_str, Req ''last'' ZBool]"

definition ResFrameSchema :: zschema where
  "ResFrameSchema = ZStrip [Req ''t'' (ZLitStr ''res''), Req ''id'' z_any_str, Req ''status'' z_number, Opt ''headers'' HeadersSchema,
     Opt ''body'' ZAny, Opt ''raw'' ZBool, Opt ''rawBody'' z_any_str,
     Opt ''error'' (ZStrip [Req ''code'' z_any_str, Req ''message'' z_any_str])]"

definition ForwardFrameSchema :: zschema where
  "ForwardFrameSchema = ZStrip [Req ''t'' (ZLitStr ''forward''), Req ''id'' z_any_str, Req ''runtimeId'' z_any_str, Req ''path'' z_any_str,
     Opt ''headers'' HeadersSchema, Opt ''body'' ZAny, Req ''timeoutMs'' z_number]"

definition PingFrameSchema :: zschema where
  "PingFrameSchema = ZStrip [Req ''t'' (ZLitStr ''ping''), Req ''at'' z_number]"

definition PongFrameSchema :: zschema where
  "PongFrameSchema = ZStrip [Req ''t'' (ZLitStr ''pong''), Req ''at'' z_number]"

definition PairedFrameSchema :: zschema where
  "PairedFrameSchema = ZStrip [Req ''t'' (ZLitStr ''paired''), Req ''clusterId'' z_any_str, Req ''credential'' z_any_str]"

definition FrameSchemas :: "zschema list" where
  "FrameSchemas = [HelloFrameSchema, ReqFrameSchema, ReqChunkFrameSchema, ResFrameSchema, ForwardFrameSchema, PingFrameSchema,
     PongFrameSchema, PairedFrameSchema]"

text \<open>The discriminated union: the literal \<open>t\<close> picks the member, so a value fits when it fits any.\<close>

definition frame_ok :: "json \<Rightarrow> bool" where
  "frame_ok v = list_ex (\<lambda>z. zok z v) FrameSchemas"

section \<open>Values and frames\<close>

definition oget :: "json \<Rightarrow> string \<Rightarrow> (json \<Rightarrow> 'a) \<Rightarrow> 'a option" where
  "oget v k f = map_option f (jget v k)"

definition ulex :: "json \<Rightarrow> string \<Rightarrow> units" where
  "ulex v k = (case jget v k of Some (JNum l) \<Rightarrow> l | _ \<Rightarrow> [])"

definition ubool :: "json \<Rightarrow> bool" where "ubool v = (case v of JBool b \<Rightarrow> b | _ \<Rightarrow> False)"

definition ustring :: "json \<Rightarrow> units" where "ustring v = (case v of JStr s \<Rightarrow> s | _ \<Rightarrow> [])"

definition uheaders :: "json \<Rightarrow> hdrs" where
  "uheaders v = (case v of JObj ms _ \<Rightarrow> map (\<lambda>(k, w). (k, ustring w)) ms | _ \<Rightarrow> [])"

definition frame_of :: "json \<Rightarrow> Frame" where
  "frame_of v = (let t = jget v ''t'' in
     if t = Some (str ''hello'') then F_hello \<lparr>he_version = ustr v ''version'', he_clusterId = ustr v ''clusterId'',
       he_operatorRoutes = ubool (jat (jat v ''clusterCapabilities'') ''operatorRoutes''),
       he_artifactStaging = ubool (jat (jat v ''clusterCapabilities'') ''artifactStaging''),
       he_nodeIdentity = oget v ''nodeIdentity'' (\<lambda>n. \<lparr>ni_nodeId = ustr n ''nodeId'', ni_kid = ustr n ''kid'',
         ni_x = ustr (jat n ''publicJwk'') ''x'', ni_y = ustr (jat n ''publicJwk'') ''y''\<rparr>)\<rparr>
     else if t = Some (str ''req'') then F_req \<lparr>rq_id = ustr v ''id'', rq_method = ustr v ''method'', rq_path = ustr v ''path'',
       rq_query = oget v ''query'' uheaders, rq_headers = oget v ''headers'' uheaders, rq_body = jget v ''body'',
       rq_raw = oget v ''raw'' ubool, rq_rawBody = oget v ''rawBody'' ustring, rq_timeoutMs = ulex v ''timeoutMs''\<rparr>
     else if t = Some (str ''req-chunk'') then F_req_chunk \<lparr>ck_id = ustr v ''id'', ck_seq = ulex v ''seq'', ck_byteLength = ulex v ''byteLength'',
       ck_sha256 = oget v ''sha256'' ustring, ck_last = ubool (jat v ''last'')\<rparr>
     else if t = Some (str ''res'') then F_res \<lparr>rs_id = ustr v ''id'', rs_status = ulex v ''status'', rs_headers = oget v ''headers'' uheaders,
       rs_body = jget v ''body'', rs_raw = oget v ''raw'' ubool, rs_rawBody = oget v ''rawBody'' ustring,
       rs_error = oget v ''error'' (\<lambda>e. (ustr e ''code'', ustr e ''message''))\<rparr>
     else if t = Some (str ''forward'') then F_forward \<lparr>fw_id = ustr v ''id'', fw_runtimeId = ustr v ''runtimeId'', fw_path = ustr v ''path'',
       fw_headers = oget v ''headers'' uheaders, fw_body = jget v ''body'', fw_timeoutMs = ulex v ''timeoutMs''\<rparr>
     else if t = Some (str ''ping'') then F_ping (ulex v ''at'')
     else if t = Some (str ''pong'') then F_pong (ulex v ''at'')
     else F_paired (ustr v ''clusterId'') (ustr v ''credential''))"

text \<open>An undefined member is not printed.\<close>

fun members :: "(string \<times> json option) list \<Rightarrow> (string \<times> json) list" where
  "members [] = []"
| "members ((k, v) # ms) = (case v of None \<Rightarrow> members ms | Some w \<Rightarrow> (k, w) # members ms)"

definition jheaders :: "hdrs \<Rightarrow> json" where
  "jheaders hs = JObj (map (\<lambda>(k, w). (k, JStr w)) hs) None"

fun frame_json :: "Frame \<Rightarrow> json" where
  "frame_json (F_hello f) = obj (members [(''t'', Some (str ''hello'')), (''version'', Some (JStr (he_version f))), (''clusterId'', Some (JStr (he_clusterId f))),
     (''clusterCapabilities'', Some (obj [(''operatorRoutes'', JBool (he_operatorRoutes f)), (''artifactStaging'', JBool (he_artifactStaging f))])),
     (''nodeIdentity'', map_option (\<lambda>n. obj [(''nodeId'', JStr (ni_nodeId n)), (''kid'', JStr (ni_kid n)),
       (''publicJwk'', obj [(''kty'', str ''EC''), (''crv'', str ''P-256''), (''x'', JStr (ni_x n)), (''y'', JStr (ni_y n))])]) (he_nodeIdentity f))])"
| "frame_json (F_req f) = obj (members [(''t'', Some (str ''req'')), (''id'', Some (JStr (rq_id f))), (''method'', Some (JStr (rq_method f))),
     (''path'', Some (JStr (rq_path f))), (''query'', map_option jheaders (rq_query f)), (''headers'', map_option jheaders (rq_headers f)),
     (''body'', rq_body f), (''raw'', map_option JBool (rq_raw f)), (''rawBody'', map_option JStr (rq_rawBody f)), (''timeoutMs'', Some (JNum (rq_timeoutMs f)))])"
| "frame_json (F_req_chunk f) = obj (members [(''t'', Some (str ''req-chunk'')), (''id'', Some (JStr (ck_id f))), (''seq'', Some (JNum (ck_seq f))),
     (''byteLength'', Some (JNum (ck_byteLength f))), (''sha256'', map_option JStr (ck_sha256 f)), (''last'', Some (JBool (ck_last f)))])"
| "frame_json (F_res f) = obj (members [(''t'', Some (str ''res'')), (''id'', Some (JStr (rs_id f))), (''status'', Some (JNum (rs_status f))),
     (''headers'', map_option jheaders (rs_headers f)), (''body'', rs_body f), (''raw'', map_option JBool (rs_raw f)),
     (''rawBody'', map_option JStr (rs_rawBody f)), (''error'', map_option (\<lambda>(c, m). obj [(''code'', JStr c), (''message'', JStr m)]) (rs_error f))])"
| "frame_json (F_forward f) = obj (members [(''t'', Some (str ''forward'')), (''id'', Some (JStr (fw_id f))), (''runtimeId'', Some (JStr (fw_runtimeId f))),
     (''path'', Some (JStr (fw_path f))), (''headers'', map_option jheaders (fw_headers f)), (''body'', fw_body f), (''timeoutMs'', Some (JNum (fw_timeoutMs f)))])"
| "frame_json (F_ping tm) = obj [(''t'', str ''ping''), (''at'', JNum tm)]"
| "frame_json (F_pong tm) = obj [(''t'', str ''pong''), (''at'', JNum tm)]"
| "frame_json (F_paired c k) = obj [(''t'', str ''paired''), (''clusterId'', JStr c), (''credential'', JStr k)]"

section \<open>The codec\<close>

text \<open>\<open>Buffer.byteLength(s, 'utf8')\<close>; a lone surrogate counts as the replacement character.\<close>

fun utf8_length :: "units \<Rightarrow> nat" where
  "utf8_length [] = 0"
| "utf8_length [c] = (if c < 128 then 1 else if c < 2048 then 2 else 3)"
| "utf8_length (c # d # s) = (if high_surrogate c \<and> low_surrogate d then 4 + utf8_length s
     else (if c < 128 then 1 else if c < 2048 then 2 else 3) + utf8_length (d # s))"

text \<open>\<open>JSON.stringify\<close> reformats numbers and prints array-index members first.\<close>

fun reprint :: "(units \<Rightarrow> units) \<Rightarrow> json \<Rightarrow> json" where
  "reprint fm JNull = JNull"
| "reprint fm (JBool b) = JBool b"
| "reprint fm (JNum l) = JNum (fm l)"
| "reprint fm (JStr s) = JStr s"
| "reprint fm (JArr vs) = JArr (map (reprint fm) vs)"
| "reprint fm (JObj ms p) = JObj (own_order (map (\<lambda>m. (fst m, reprint fm (snd m))) ms)) p"

definition json_text :: "(units \<Rightarrow> units) \<Rightarrow> json \<Rightarrow> units" where
  "json_text fm v = stringify (reprint fm v)"

definition encodeFrame :: "(units \<Rightarrow> units) \<Rightarrow> Frame \<Rightarrow> units option" where
  "encodeFrame fm frame = (let json = json_text fm (frame_json frame) in
     if utf8_length json > MAX_JSON_FRAME_BYTES then None else Some json)"

datatype decode_error = Over_cap | Malformed_JSON | Invalid_frame

definition decodeFrame :: "units \<Rightarrow> (decode_error, Frame) result" where
  "decodeFrame txt = (if utf8_length txt > MAX_JSON_FRAME_BYTES then Inl Over_cap
     else case JSON_parse txt of
       None \<Rightarrow> Inl Malformed_JSON
     | Some v \<Rightarrow> if frame_ok v then Inr (frame_of v) else Inl Invalid_frame)"

section \<open>Round trip\<close>

lemma members_keys: "set (map fst (members ms)) \<subseteq> set (map fst ms)"
  by (induction ms rule: members.induct) (auto split: option.splits)

lemma map_of_members: "distinct (map fst ms) \<Longrightarrow> map_of (members ms) k = (case map_of ms k of Some v \<Rightarrow> v | None \<Rightarrow> None)"
proof (induction ms rule: members.induct)
  case (2 m v ms)
  have "map_of (members ms) m = None" using "2.prems" members_keys [of ms] by (auto simp: map_of_eq_None_iff)
  then show ?case using "2.IH" "2.prems" by (cases v) auto
qed simp

declare members.simps [simp del]

lemma zok_strip: "zok (ZStrip fs) (obj ms) \<longleftrightarrow>
  list_all (\<lambda>f. case f of Req k z \<Rightarrow> (case map_of ms k of Some v \<Rightarrow> zok z v | None \<Rightarrow> False)
    | Opt k z \<Rightarrow> (case map_of ms k of Some v \<Rightarrow> zok z v | None \<Rightarrow> True)) fs"
proof -
  have "map_of (map (\<lambda>(k, v). (u k, v)) ms) (u k) = map_of ms k" for k by (induction ms) auto
  then have "zok_field f (map (\<lambda>(k, v). (u k, v)) ms) = (case f of Req k z \<Rightarrow> (case map_of ms k of Some v \<Rightarrow> zok z v | None \<Rightarrow> False)
      | Opt k z \<Rightarrow> (case map_of ms k of Some v \<Rightarrow> zok z v | None \<Rightarrow> True))" for f
    by (cases f) simp_all
  then show ?thesis by (simp add: obj_def)
qed

lemma headers_round: "uheaders (jheaders hs) = hs" "zok HeadersSchema (jheaders hs)"
  by (auto simp: uheaders_def jheaders_def ustring_def HeadersSchema_def z_any_str_def list_all_iff comp_def split_def)

lemmas frame_schemas = HelloFrameSchema_def ReqFrameSchema_def ReqChunkFrameSchema_def ResFrameSchema_def ForwardFrameSchema_def
  PingFrameSchema_def PongFrameSchema_def PairedFrameSchema_def z_any_str_def z_number_def

lemma frame_json_ok: "frame_ok (frame_json f)"
proof (cases f)
  case (F_hello h)
  then have "zok HelloFrameSchema (frame_json f)"
    by (cases "he_nodeIdentity h") (simp_all add: frame_schemas zok_strip map_of_members NodeIdentitySchema_def ClusterCapabilitiesSchema_def del: zok.simps(12))
  then show ?thesis by (simp add: frame_ok_def FrameSchemas_def)
next
  case (F_req h)
  then have "zok ReqFrameSchema (frame_json f)"
    by (auto simp: frame_schemas zok_strip map_of_members headers_round simp del: zok.simps(12) split: option.splits)
  then show ?thesis by (simp add: frame_ok_def FrameSchemas_def)
next
  case (F_req_chunk h)
  then have "zok ReqChunkFrameSchema (frame_json f)"
    by (auto simp: frame_schemas zok_strip map_of_members simp del: zok.simps(12) split: option.splits)
  then show ?thesis by (simp add: frame_ok_def FrameSchemas_def)
next
  case (F_res h)
  then have "zok ResFrameSchema (frame_json f)"
    by (auto simp: frame_schemas zok_strip map_of_members headers_round simp del: zok.simps(12) split: option.splits)
  then show ?thesis by (simp add: frame_ok_def FrameSchemas_def)
next
  case (F_forward h)
  then have "zok ForwardFrameSchema (frame_json f)"
    by (auto simp: frame_schemas zok_strip map_of_members headers_round simp del: zok.simps(12) split: option.splits)
  then show ?thesis by (simp add: frame_ok_def FrameSchemas_def)
qed (simp_all add: frame_ok_def FrameSchemas_def frame_schemas zok_strip del: zok.simps(12))

lemma frame_of_json: "frame_of (frame_json f) = f"
proof -
  have ids: "map_option (\<lambda>x. x) v = v" for v :: "'z option" by (cases v) simp_all
  have eta: "(\<lambda>x. \<lparr>ni_nodeId = ni_nodeId x, ni_kid = ni_kid x, ni_x = ni_x x, ni_y = ni_y x\<rparr>) = (\<lambda>x. x)" by auto
  show ?thesis
    by (cases f; simp add: frame_of_def jget_obj map_of_members ustr_def ulex_def jat_def oget_def ubool_def ustring_def str_def comp_def
        headers_round option.map_comp option.map_ident ids eta split_def Let_def)
qed

text \<open>A frame in printed form: its strings are UTF-16, its numbers as \<open>fm\<close> prints them, index members first.\<close>

definition printed_frame :: "(units \<Rightarrow> units) \<Rightarrow> Frame \<Rightarrow> bool" where
  "printed_frame fm f = (printable (frame_json f) \<and> reprint fm (frame_json f) = frame_json f)"

text \<open>
  C38. Whatever frame the encoder lets through, the decoder reads back as the same frame: for every frame in
  printed form, encoding either refuses it (more than a million bytes of UTF-8) or gives a text that decodes to it.
\<close>

theorem frame_round_trip:
  assumes "printed_frame fm f"
  shows "case encodeFrame fm f of None \<Rightarrow> utf8_length (json_text fm (frame_json f)) > MAX_JSON_FRAME_BYTES
    | Some txt \<Rightarrow> decodeFrame txt = Inr f"
  using assms by (auto simp: printed_frame_def encodeFrame_def decodeFrame_def json_text_def Let_def JSON_parse_stringify
      frame_json_ok frame_of_json)


lemma frame_round_trip_witness:
  "\<exists>txt. encodeFrame id (F_pong (u ''7'')) = Some txt \<and> decodeFrame txt = Inr (F_pong (u ''7''))"
proof -
  have "own_order [(u ''t'', str ''pong''), (u ''at'', JNum (u ''7''))] = [(u ''t'', str ''pong''), (u ''at'', JNum (u ''7''))]"
    by (simp add: own_order_def is_index_def u_def is_digit_def)
  then have order: "own_order [([116], str ''pong''), ([97, 116], JNum (u ''7''))] = [([116], str ''pong''), ([97, 116], JNum (u ''7''))]"
    by (simp add: u_def)
  then have "printed_frame id (F_pong (u ''7''))"
    by (simp add: printed_frame_def obj_def str_def u_def valid_lexeme_def code_units_def proto_key_def NUMBER_RE_def int_part_def frac_part_def exp_part_def Let_def digits_def is_digit_def)
  moreover have "encodeFrame id (F_pong (u ''7'')) \<noteq> None"
    using order by (simp add: encodeFrame_def json_text_def obj_def str_def u_def Let_def MAX_JSON_FRAME_BYTES_def
        quote_def commas_def escape_unit_def high_surrogate_def low_surrogate_def)
  ultimately show ?thesis using frame_round_trip [of id "F_pong (u ''7'')"] by (auto split: option.splits)
qed


end
