(* ===== verification/Tunnel_Pairing.thy ===== *)
theory Tunnel_Pairing
  imports Tunnel_Frames
begin

text \<open>
  Pairing of a cluster with its hub (\<open>src/tunnel/pairing.ts\<close>, \<open>connect-token.ts\<close>, and the files of
  \<open>src/state-dir.ts\<close>): the community bootstrap with its mutual HMAC challenge, the deletion of a dead
  credential, and the credentials a connection attempt presents. HMAC-SHA256 in hex is a parameter, and so
  is what the peer answers. File permissions and failing file operations are left out.
\<close>

section \<open>The state directory\<close>

record state_dir =
  dir_credential :: "units option"
  dir_pairToken :: "units option"
  dir_clusterId :: "units option"

definition js_space_unit :: "nat \<Rightarrow> bool" where
  "js_space_unit c = ((9 \<le> c \<and> c \<le> 13) \<or> (8192 \<le> c \<and> c \<le> 8202) \<or> c \<in> {32, 160, 5760, 8232, 8233, 8239, 8287, 12288, 65279})"

definition utrim :: "units \<Rightarrow> units" where
  "utrim s = rev (dropWhile js_space_unit (rev (dropWhile js_space_unit s)))"

text \<open>\<open>read?.trim() || fallback\<close>\<close>

definition trimmed_or :: "'a \<Rightarrow> (units \<Rightarrow> 'a) \<Rightarrow> units option \<Rightarrow> 'a" where
  "trimmed_or fallback f v = (case v of None \<Rightarrow> fallback | Some s \<Rightarrow> if utrim s = [] then fallback else f (utrim s))"

definition pairedClusterId :: "state_dir \<Rightarrow> units \<Rightarrow> units" where
  "pairedClusterId d fallback = trimmed_or fallback (\<lambda>s. s) (dir_clusterId d)"

text \<open>\<open>resolveClusterSecretFrom\<close>, over code units.\<close>

definition resolveSecret :: "units option \<Rightarrow> state_dir \<Rightarrow> units option" where
  "resolveSecret configSecret d = trimmed_or configSecret Some (dir_credential d)"

section \<open>What a connection attempt presents\<close>

definition CONNECT_TOKEN_ISSUER :: units where "CONNECT_TOKEN_ISSUER = u ''privos-app-cluster''"

definition CONNECT_TOKEN_TTL_SECONDS :: nat where "CONNECT_TOKEN_TTL_SECONDS = 60"

text \<open>What \<open>jwt.sign\<close> is given; the token is an HS256 signature over it.\<close>

record ConnectToken =
  ct_secret :: units
  ct_issuer :: units
  ct_keyid :: units
  ct_jwtid :: units
  ct_expiresIn :: nat

definition signConnectToken :: "units \<Rightarrow> units \<Rightarrow> units \<Rightarrow> ConnectToken" where
  "signConnectToken clusterId secret jti = \<lparr>ct_secret = secret, ct_issuer = CONNECT_TOKEN_ISSUER, ct_keyid = clusterId, ct_jwtid = jti,
     ct_expiresIn = CONNECT_TOKEN_TTL_SECONDS\<rparr>"

datatype connect_auth = Bearer ConnectToken | Pair_Token units | No_Credential

text \<open>A secret that is the empty string counts as none.\<close>

definition buildAuthHeaders :: "units option \<Rightarrow> units \<Rightarrow> units \<Rightarrow> state_dir \<Rightarrow> connect_auth" where
  "buildAuthHeaders configSecret defaultId jti d = (case resolveSecret configSecret d of
     Some secret \<Rightarrow> if secret \<noteq> [] then Bearer (signConnectToken (pairedClusterId d defaultId) secret jti)
       else trimmed_or No_Credential Pair_Token (dir_pairToken d)
   | None \<Rightarrow> trimmed_or No_Credential Pair_Token (dir_pairToken d))"

section \<open>Dead credentials\<close>

datatype RepairRequiredReason = Repair_unauthorized | Repair_revoked

definition REPAIR_REQUIRED_CLOSE_CODES :: "nat \<Rightarrow> RepairRequiredReason option" where
  "REPAIR_REQUIRED_CLOSE_CODES code = (if code = 4401 then Some Repair_unauthorized else if code = 4403 then Some Repair_revoked else None)"

definition handleRepairRequiredClose :: "nat \<Rightarrow> bool \<Rightarrow> state_dir \<Rightarrow> RepairRequiredReason option \<times> state_dir" where
  "handleRepairRequiredClose code hasPairToken d = (if hasPairToken then (None, d)
     else case REPAIR_REQUIRED_CLOSE_CODES code of
       None \<Rightarrow> (None, d)
     | Some reason \<Rightarrow> (Some reason, d\<lparr>dir_credential := None\<rparr>))"

section \<open>The community bootstrap\<close>

text \<open>\<open>Buffer.from(s, 'hex')\<close>: decoding stops at the first pair that is not hexadecimal.\<close>

fun hex_bytes :: "units \<Rightarrow> nat list" where
  "hex_bytes (a # b # s) = (case (hex_val a, hex_val b) of (Some x, Some y) \<Rightarrow> (16 * x + y) # hex_bytes s | _ \<Rightarrow> [])"
| "hex_bytes _ = []"

definition timingSafeEqualHex :: "units \<Rightarrow> units \<Rightarrow> bool" where
  "timingSafeEqualHex expectedHex suppliedHex = (let expected = hex_bytes expectedHex; supplied = hex_bytes suppliedHex in
     if expected = [] \<or> length expected \<noteq> length supplied then False else expected = supplied)"

definition BootstrapSuccessSchema :: zschema where
  "BootstrapSuccessSchema = ZStrip [Req ''success'' ZTrue, Req ''clusterId'' z_any_str, Req ''hubNonce'' z_any_str, Req ''hubProof'' z_any_str,
     Req ''token'' z_any_str, Req ''expiresAt'' z_number]"

definition BootstrapFailureSchema :: zschema where
  "BootstrapFailureSchema = ZStrip [Req ''success'' (ZWhere ZBool (\<lambda>v. v = JBool False)), Req ''error'' z_any_str]"

text \<open>What \<open>fetch\<close> and \<open>response.json()\<close> give for the request body.\<close>

datatype bootstrap_reply = Fetch_failed | Body_unreadable | Body json

datatype BootstrapOutcome = Bootstrapped units units | Bootstrap_refused units

definition bootstrap_request :: "units \<Rightarrow> units \<Rightarrow> json" where
  "bootstrap_request clusterNonce clusterProof = obj [(''clusterNonce'', JStr clusterNonce), (''clusterProof'', JStr clusterProof)]"

definition runCommunityBootstrap ::
  "(units \<Rightarrow> units \<Rightarrow> units) \<Rightarrow> units \<Rightarrow> units \<Rightarrow> (json \<Rightarrow> bootstrap_reply) \<Rightarrow> state_dir \<Rightarrow> BootstrapOutcome \<times> state_dir" where
  "runCommunityBootstrap hmacHex bootstrapToken clusterNonce fetchImpl d =
     (if utrim bootstrapToken = [] then (Bootstrap_refused (u ''not_configured''), d)
      else case fetchImpl (bootstrap_request clusterNonce (hmacHex bootstrapToken (u ''client:'' @ clusterNonce))) of
        Fetch_failed \<Rightarrow> (Bootstrap_refused (u ''request_failed''), d)
      | Body_unreadable \<Rightarrow> (Bootstrap_refused (u ''invalid_response''), d)
      | Body v \<Rightarrow>
          if \<not> zok BootstrapSuccessSchema v \<and> \<not> zok BootstrapFailureSchema v then (Bootstrap_refused (u ''invalid_response''), d)
          else if \<not> zok BootstrapSuccessSchema v then (Bootstrap_refused (ustr v ''error''), d)
          else if \<not> timingSafeEqualHex (hmacHex bootstrapToken (u ''hub:'' @ clusterNonce @ u '':'' @ ustr v ''hubNonce'')) (ustr v ''hubProof'')
          then (Bootstrap_refused (u ''invalid_hub_proof''), d)
          else (Bootstrapped (ustr v ''clusterId'') (ulex v ''expiresAt''), d\<lparr>dir_pairToken := Some (ustr v ''token'')\<rparr>))"

section \<open>What pairing promises\<close>

text \<open>
  C39. Bootstrap trusts only a peer that proves it holds the bootstrap token: whatever the peer answers, the state
  directory changes only by the pair token of an answer whose proof decodes to the HMAC of this run's own nonce,
  and then the outcome names the cluster of that answer; every other run leaves the directory alone and says why.
\<close>

theorem bootstrap_only_from_proven_peer:
  "case runCommunityBootstrap hmacHex bootstrapToken clusterNonce fetchImpl d of
     (Bootstrap_refused reason, d') \<Rightarrow> d' = d
   | (Bootstrapped clusterId expiresAt, d') \<Rightarrow>
       (\<exists>v. fetchImpl (bootstrap_request clusterNonce (hmacHex bootstrapToken (u ''client:'' @ clusterNonce))) = Body v
          \<and> ustr v ''clusterId'' = clusterId \<and> d' = d\<lparr>dir_pairToken := Some (ustr v ''token'')\<rparr>
          \<and> hex_bytes (ustr v ''hubProof'') = hex_bytes (hmacHex bootstrapToken (u ''hub:'' @ clusterNonce @ u '':'' @ ustr v ''hubNonce''))
          \<and> hex_bytes (ustr v ''hubProof'') \<noteq> [])"
  by (auto simp: runCommunityBootstrap_def timingSafeEqualHex_def Let_def simp del: zok.simps
      split: bootstrap_reply.splits prod.splits BootstrapOutcome.splits if_splits)

text \<open>A close that says the credential is dead leaves the next attempt without it, unless the configuration has a secret.\<close>

lemma dead_credential_not_presented:
  assumes "handleRepairRequiredClose code False d = (Some reason, d')"
  shows "buildAuthHeaders None i j d' = trimmed_or No_Credential Pair_Token (dir_pairToken d) \<and> dir_clusterId d' = dir_clusterId d"
  using assms by (auto simp: handleRepairRequiredClose_def buildAuthHeaders_def resolveSecret_def trimmed_or_def split: option.splits)

end
