(* ===== verification/Tunnel_Client.thy ===== *)
theory Tunnel_Client
  imports Tunnel_Pairing "HOL-Library.AList"
begin

text \<open>
  The dial-out tunnel client (\<open>src/tunnel/tunnel-client.ts\<close>) as a state machine. Its events are what Node
  delivers: the socket's open, message and close, timers, settled promises, and calls to \<open>start\<close> and
  \<open>stop\<close>. An awaited call (\<open>fastify.inject\<close>, the forward dispatch, the artifact store) is a pending task of
  the state until its event settles it. Files are inodes, so that a name can be removed or truncated while a
  descriptor is open on it. Failing file operations, logging and the URL of the hub are left out.
\<close>

type_synonym bytes = "nat list"

section \<open>Options and state\<close>

record TunnelClientOptions =
  to_fm :: "units \<Rightarrow> units"
  to_decode :: "bytes \<Rightarrow> units"
  to_hash :: "bytes \<Rightarrow> units"
  to_upper :: "units \<Rightarrow> units"
  to_search :: "hdrs \<Rightarrow> units"
  to_stage_path :: "units \<Rightarrow> units"
  to_version :: units
  to_clusterId :: units
  to_operatorRoutes :: bool
  to_artifactStaging :: bool
  to_configSecret :: "units option"
  to_bootstrapToken :: "units option"
  to_concurrencyLimit :: nat

record StageSession =
  ss_tempPath :: units
  ss_fd :: nat
  ss_hash :: bytes
  ss_bytesWritten :: nat

text \<open>An artifact being stored: \<open>announced\<close> is the digest of its control frame, if there was one.\<close>

record StagedArtifact =
  sa_id :: units
  sa_path :: units
  sa_sha256 :: units
  sa_sizeBytes :: nat
  sa_announced :: "units option"

datatype wire = WConnecting | WOpen | WClosing

record inject_call =
  ij_method :: units
  ij_url :: units
  ij_headers :: "hdrs option"
  ij_body :: "json option"
  ij_rawBody :: "units option"

record tunnel =
  tc_stopped :: bool
  tc_starting :: bool
  tc_socket :: bool
  tc_wire :: "wire option"
  tc_reconnectTimer :: bool
  tc_reconnectAttempt :: nat
  tc_inFlight :: nat
  tc_pendingChunk :: "ReqChunkFrame option"
  tc_stageSessions :: "(units \<times> StageSession) list"
  tc_pendingStageReplies :: "(units \<times> units) list"
  tc_bootstrapInFlight :: bool
  tc_cachedNodeIdentity :: "NodeIdentitySummary option"
  tc_identityLoadInFlight :: bool
  tc_stateDir :: state_dir
  tc_names :: "(units \<times> nat) list"
  tc_inodes :: "bytes list"
  tc_injects :: "(ReqFrame \<times> inject_call) list"
  tc_forwards :: "ForwardFrame list"
  tc_storing :: "StagedArtifact list"
  tc_sent :: "Frame list"
  tc_closeCodes :: "nat list"
  tc_dials :: "connect_auth list"

section \<open>Backoff\<close>

definition BACKOFF_BASE_MS :: int where "BACKOFF_BASE_MS = 1000"

definition BACKOFF_CAP_MS :: int where "BACKOFF_CAP_MS = 30000"

definition fullJitterBackoffMs :: "nat \<Rightarrow> rat \<Rightarrow> int" where
  "fullJitterBackoffMs attempt random = \<lfloor>random * of_int (min BACKOFF_CAP_MS (BACKOFF_BASE_MS * 2 ^ attempt))\<rfloor>"

section \<open>Sending\<close>

definition sendFrame :: "TunnelClientOptions \<Rightarrow> Frame \<Rightarrow> tunnel \<Rightarrow> tunnel" where
  "sendFrame opts frame s = (if \<not> tc_socket s \<or> tc_wire s \<noteq> Some WOpen then s
     else case encodeFrame (to_fm opts) frame of None \<Rightarrow> s | Some _ \<Rightarrow> s\<lparr>tc_sent := tc_sent s @ [frame]\<rparr>)"

definition closeSocket :: "nat \<Rightarrow> tunnel \<Rightarrow> tunnel" where
  "closeSocket code s = (if tc_socket s then s\<lparr>tc_wire := map_option (\<lambda>_. WClosing) (tc_wire s), tc_closeCodes := tc_closeCodes s @ [code]\<rparr> else s)"

text \<open>\<open>String(n)\<close>\<close>

fun dec :: "nat \<Rightarrow> units" where
  "dec n = (if n < 10 then [48 + n] else dec (n div 10) @ [48 + n mod 10])"

declare dec.simps [simp del]

definition res_frame :: "units \<Rightarrow> nat \<Rightarrow> json option \<Rightarrow> ResFrame" where
  "res_frame i status body = \<lparr>rs_id = i, rs_status = dec status, rs_headers = None, rs_body = body, rs_raw = None, rs_rawBody = None, rs_error = None\<rparr>"

definition internal_error :: "units \<Rightarrow> ResFrame" where
  "internal_error i = res_frame i 500 (Some (obj [(''error'', str ''internal_error'')]))"

section \<open>Connecting\<close>

definition resolveClusterId :: "TunnelClientOptions \<Rightarrow> tunnel \<Rightarrow> units" where
  "resolveClusterId opts s = pairedClusterId (tc_stateDir s) (to_clusterId opts)"

definition some_units :: "units option \<Rightarrow> bool" where
  "some_units v = (case v of Some s \<Rightarrow> s \<noteq> [] | None \<Rightarrow> False)"

definition maybeRunCommunityBootstrap :: "TunnelClientOptions \<Rightarrow> tunnel \<Rightarrow> tunnel" where
  "maybeRunCommunityBootstrap opts s =
     (if tc_bootstrapInFlight s \<or> some_units (resolveSecret (to_configSecret opts) (tc_stateDir s))
         \<or> trimmed_or False (\<lambda>_. True) (dir_pairToken (tc_stateDir s)) \<or> \<not> trimmed_or False (\<lambda>_. True) (to_bootstrapToken opts)
      then s else s\<lparr>tc_bootstrapInFlight := True\<rparr>)"

text \<open>\<open>jti\<close> is the fresh id of the connect token.\<close>

definition connect :: "TunnelClientOptions \<Rightarrow> units \<Rightarrow> tunnel \<Rightarrow> tunnel" where
  "connect opts jti s = (if tc_stopped s then s else
     let s1 = maybeRunCommunityBootstrap opts s;
       s2 = (if tc_reconnectAttempt s1 > 0 \<and> tc_cachedNodeIdentity s1 = None \<and> \<not> tc_identityLoadInFlight s1
             then s1\<lparr>tc_identityLoadInFlight := True\<rparr> else s1)
     in s2\<lparr>tc_socket := True, tc_wire := Some WConnecting,
           tc_dials := tc_dials s2 @ [buildAuthHeaders (to_configSecret opts) (to_clusterId opts) jti (tc_stateDir s2)]\<rparr>)"

definition hello :: "TunnelClientOptions \<Rightarrow> tunnel \<Rightarrow> Frame" where
  "hello opts s = F_hello \<lparr>he_version = to_version opts, he_clusterId = resolveClusterId opts s, he_operatorRoutes = to_operatorRoutes opts,
     he_artifactStaging = to_artifactStaging opts, he_nodeIdentity = tc_cachedNodeIdentity s\<rparr>"

definition onOpen :: "TunnelClientOptions \<Rightarrow> tunnel \<Rightarrow> tunnel" where
  "onOpen opts s = sendFrame opts (hello opts s) (s\<lparr>tc_wire := Some WOpen, tc_reconnectAttempt := 0\<rparr>)"

definition scheduleReconnect :: "tunnel \<Rightarrow> tunnel" where
  "scheduleReconnect s = (if tc_stopped s then s else s\<lparr>tc_reconnectAttempt := tc_reconnectAttempt s + 1, tc_reconnectTimer := True\<rparr>)"

section \<open>Staging files\<close>

definition unlink :: "units \<Rightarrow> tunnel \<Rightarrow> tunnel" where
  "unlink path s = s\<lparr>tc_names := AList.delete path (tc_names s)\<rparr>"

text \<open>\<open>openSync(path, 'w')\<close>: an existing file is truncated in place.\<close>

definition openTruncated :: "units \<Rightarrow> tunnel \<Rightarrow> nat \<times> tunnel" where
  "openTruncated path s = (case map_of (tc_names s) path of
     Some i \<Rightarrow> (i, s\<lparr>tc_inodes := (tc_inodes s)[i := []]\<rparr>)
   | None \<Rightarrow> (length (tc_inodes s), s\<lparr>tc_names := (path, length (tc_inodes s)) # tc_names s, tc_inodes := tc_inodes s @ [[]]\<rparr>))"

definition writeSync :: "nat \<Rightarrow> bytes \<Rightarrow> tunnel \<Rightarrow> tunnel" where
  "writeSync fd data s = s\<lparr>tc_inodes := (tc_inodes s)[fd := tc_inodes s ! fd @ data]\<rparr>"

definition fileBytes :: "units \<Rightarrow> tunnel \<Rightarrow> bytes option" where
  "fileBytes path s = map_option (\<lambda>i. tc_inodes s ! i) (map_of (tc_names s) path)"

definition getOrCreateStageSession :: "TunnelClientOptions \<Rightarrow> units \<Rightarrow> tunnel \<Rightarrow> StageSession \<times> tunnel" where
  "getOrCreateStageSession opts i s = (case map_of (tc_stageSessions s) i of
     Some session \<Rightarrow> (session, s)
   | None \<Rightarrow> (case openTruncated (to_stage_path opts i) s of (fd, s1) \<Rightarrow>
       let session = \<lparr>ss_tempPath = to_stage_path opts i, ss_fd = fd, ss_hash = [], ss_bytesWritten = 0\<rparr>
       in (session, s1\<lparr>tc_stageSessions := AList.update i session (tc_stageSessions s1)\<rparr>)))"

definition abortStageSession :: "units \<Rightarrow> tunnel \<Rightarrow> tunnel" where
  "abortStageSession i s = (case map_of (tc_stageSessions s) i of
     None \<Rightarrow> s
   | Some session \<Rightarrow> (unlink (ss_tempPath session) s)\<lparr>tc_stageSessions := AList.delete i (tc_stageSessions s)\<rparr>)"

definition cleanupAllStageSessions :: "tunnel \<Rightarrow> tunnel" where
  "cleanupAllStageSessions s = (fold abortStageSession (map fst (tc_stageSessions s)) s)\<lparr>tc_pendingStageReplies := []\<rparr>"

section \<open>Chunks\<close>

definition stage_reply :: "StagedArtifact \<Rightarrow> units option \<Rightarrow> ResFrame" where
  "stage_reply a failure = (case failure of
     None \<Rightarrow> res_frame (sa_id a) 200 (Some (obj [(''digest'', JStr (sa_sha256 a)), (''size_bytes'', JNum (dec (sa_sizeBytes a)))]))
   | Some message \<Rightarrow> res_frame (sa_id a) 409 (Some (obj [(''error'',
       obj [(''code'', str ''ARTIFACT_STAGE_FAILED''), (''message'', JStr message)])])))"

text \<open>The end of \<open>finalizeStage\<close>: the file goes, and a stream opened by a control frame is answered.\<close>

definition settleStage :: "TunnelClientOptions \<Rightarrow> StagedArtifact \<Rightarrow> units option \<Rightarrow> tunnel \<Rightarrow> tunnel" where
  "settleStage opts a failure s = (let s1 = unlink (sa_path a) s in
     if sa_announced a \<noteq> None then sendFrame opts (F_res (stage_reply a failure)) s1 else s1)"

definition mismatch_message :: "units \<Rightarrow> units \<Rightarrow> units" where
  "mismatch_message sha announced = u ''streamed bytes hash to '' @ sha @ u '', not the announced '' @ announced"

definition finalizeStage :: "TunnelClientOptions \<Rightarrow> units \<Rightarrow> units \<Rightarrow> units \<Rightarrow> nat \<Rightarrow> tunnel \<Rightarrow> tunnel" where
  "finalizeStage opts i tempPath sha sizeBytes s =
     (let announced = map_of (tc_pendingStageReplies s) i;
        s1 = s\<lparr>tc_pendingStageReplies := AList.delete i (tc_pendingStageReplies s)\<rparr>;
        a = \<lparr>sa_id = i, sa_path = tempPath, sa_sha256 = sha, sa_sizeBytes = sizeBytes, sa_announced = announced\<rparr>
      in case announced of
           Some d \<Rightarrow> if d \<noteq> sha then settleStage opts a (Some (mismatch_message sha d)) s1
             else s1\<lparr>tc_storing := tc_storing s1 @ [a]\<rparr>
         | None \<Rightarrow> s1\<lparr>tc_storing := tc_storing s1 @ [a]\<rparr>)"

definition finishChunk :: "TunnelClientOptions \<Rightarrow> ReqChunkFrame \<Rightarrow> bytes \<Rightarrow> tunnel \<Rightarrow> tunnel" where
  "finishChunk opts control payload s = (let i = ck_id control in
     if of_nat (length payload) \<noteq> lexeme_value (ck_byteLength control) \<or> length payload > MAX_CHUNK_BYTES
     then closeSocket 4413 (abortStageSession i s)
     else case getOrCreateStageSession opts i s of (session, s1) \<Rightarrow>
       if ss_bytesWritten session + length payload > MAX_STAGED_ARTIFACT_BYTES
       then closeSocket 4413 (abortStageSession i s1)
       else let session' = session\<lparr>ss_hash := ss_hash session @ payload, ss_bytesWritten := ss_bytesWritten session + length payload\<rparr>;
          s2 = (writeSync (ss_fd session) payload s1)\<lparr>tc_stageSessions := AList.update i session' (tc_stageSessions s1)\<rparr>
        in if \<not> ck_last control then s2
           else finalizeStage opts i (ss_tempPath session') (to_hash opts (ss_hash session')) (ss_bytesWritten session')
             (s2\<lparr>tc_stageSessions := AList.delete i (tc_stageSessions s2)\<rparr>))"

section \<open>Requests\<close>

definition before_question :: "units \<Rightarrow> units" where
  "before_question = takeWhile (\<lambda>c. c \<noteq> 63)"

definition stage_prefix :: units where "stage_prefix = u ''/api/v1/v3/local-artifacts/''"

definition stageControlDigest :: "TunnelClientOptions \<Rightarrow> ReqFrame \<Rightarrow> units option" where
  "stageControlDigest opts frame = (if rq_raw frame = Some True \<or> to_upper opts (rq_method frame) \<noteq> u ''PUT'' then None
     else let p = before_question (rq_path frame); n = length stage_prefix in
       if take n p = stage_prefix \<and> Digest_re (drop n p) then Some (drop n p) else None)"

definition inject_request :: "TunnelClientOptions \<Rightarrow> ReqFrame \<Rightarrow> inject_call" where
  "inject_request opts frame = \<lparr>ij_method = to_upper opts (rq_method frame),
     ij_url = rq_path frame @ (case rq_query frame of Some q \<Rightarrow> u ''?'' @ to_search opts q | None \<Rightarrow> []), ij_headers = rq_headers frame,
     ij_body = (if rq_raw frame = Some True then None else rq_body frame),
     ij_rawBody = (if rq_raw frame = Some True then rq_rawBody frame else None)\<rparr>"

definition too_many_requests :: "units \<Rightarrow> ResFrame" where
  "too_many_requests i = (res_frame i 429 None)\<lparr>rs_error := Some (u ''too_many_requests'', u ''tunnel concurrency limit exceeded'')\<rparr>"

definition handleReq :: "TunnelClientOptions \<Rightarrow> ReqFrame \<Rightarrow> tunnel \<Rightarrow> tunnel" where
  "handleReq opts frame s = (case stageControlDigest opts frame of
     Some d \<Rightarrow> s\<lparr>tc_pendingStageReplies := AList.update (rq_id frame) d (tc_pendingStageReplies s)\<rparr>
   | None \<Rightarrow> if tc_inFlight s \<ge> to_concurrencyLimit opts then sendFrame opts (F_res (too_many_requests (rq_id frame))) s
       else s\<lparr>tc_inFlight := tc_inFlight s + 1, tc_injects := tc_injects s @ [(frame, inject_request opts frame)]\<rparr>)"

text \<open>What \<open>inject\<close> gives: a status and a body, or a rejection.\<close>

datatype injected = Injected nat units | Inject_rejected

definition inject_reply :: "ReqFrame \<Rightarrow> injected \<Rightarrow> ResFrame" where
  "inject_reply frame r = (case r of
     Inject_rejected \<Rightarrow> internal_error (rq_id frame)
   | Injected status body \<Rightarrow> let res = res_frame (rq_id frame) status None in
       if body = [] then res
       else if rq_raw frame = Some True then res\<lparr>rs_raw := Some True, rs_rawBody := Some body\<rparr>
       else case JSON_parse body of Some v \<Rightarrow> res\<lparr>rs_body := Some v\<rparr> | None \<Rightarrow> res\<lparr>rs_raw := Some True, rs_rawBody := Some body\<rparr>)"

text \<open>The answer of the forward dispatch.\<close>

record ForwardResponse =
  fr_status :: nat
  fr_headers :: "hdrs option"
  fr_body :: "json option"
  fr_raw :: bool
  fr_rawBody :: "units option"
  fr_error :: "(units \<times> units) option"

definition forward_reply :: "ForwardFrame \<Rightarrow> ForwardResponse option \<Rightarrow> ResFrame" where
  "forward_reply frame r = (case r of
     None \<Rightarrow> internal_error (fw_id frame)
   | Some result \<Rightarrow> (res_frame (fw_id frame) (fr_status result) (if fr_raw result then None else fr_body result))
       \<lparr>rs_headers := fr_headers result, rs_raw := (if fr_raw result then Some True else None),
        rs_rawBody := (if fr_raw result then fr_rawBody result else None), rs_error := fr_error result\<rparr>)"

definition handlePaired :: "units \<Rightarrow> units \<Rightarrow> tunnel \<Rightarrow> tunnel" where
  "handlePaired clusterId credential s = s\<lparr>tc_stateDir := (tc_stateDir s)\<lparr>dir_credential := Some credential, dir_clusterId := Some clusterId,
     dir_pairToken := None\<rparr>\<rparr>"

definition handleFrame :: "TunnelClientOptions \<Rightarrow> Frame \<Rightarrow> tunnel \<Rightarrow> tunnel" where
  "handleFrame opts frame s = (case frame of
     F_paired c k \<Rightarrow> handlePaired c k s
   | F_ping tm \<Rightarrow> sendFrame opts (F_pong tm) s
   | F_req f \<Rightarrow> handleReq opts f s
   | F_req_chunk f \<Rightarrow> s\<lparr>tc_pendingChunk := Some f\<rparr>
   | F_forward f \<Rightarrow> s\<lparr>tc_forwards := tc_forwards s @ [f]\<rparr>
   | _ \<Rightarrow> s)"

definition handleMessage :: "TunnelClientOptions \<Rightarrow> bytes \<Rightarrow> bool \<Rightarrow> tunnel \<Rightarrow> tunnel" where
  "handleMessage opts data isBinary s = (case tc_pendingChunk s of
     Some control \<Rightarrow> finishChunk opts control data (s\<lparr>tc_pendingChunk := None\<rparr>)
   | None \<Rightarrow> if isBinary then s
       else case decodeFrame (to_decode opts data) of
         Inl _ \<Rightarrow> closeSocket 4400 s
       | Inr frame \<Rightarrow> handleFrame opts frame s)"

definition onClose :: "nat \<Rightarrow> tunnel \<Rightarrow> tunnel" where
  "onClose code s = (let s1 = (cleanupAllStageSessions s)\<lparr>tc_socket := False, tc_wire := None\<rparr>;
       hasPairToken = trimmed_or False (\<lambda>_. True) (dir_pairToken (tc_stateDir s1))
     in scheduleReconnect (s1\<lparr>tc_stateDir := snd (handleRepairRequiredClose code hasPairToken (tc_stateDir s1))\<rparr>))"

definition stop :: "tunnel \<Rightarrow> tunnel" where
  "stop s = (if tc_stopped s then s
     else let s1 = cleanupAllStageSessions (s\<lparr>tc_stopped := True, tc_reconnectTimer := False\<rparr>)
       in (closeSocket 1000 s1)\<lparr>tc_socket := False\<rparr>)"

section \<open>Events\<close>

text \<open>
  \<open>jti\<close> is fresh for each dial. An event that nothing is waiting for does nothing. A settled identity load
  gives \<open>None\<close> when it failed or had no identity; a settled bootstrap gives the pair token it wrote.
\<close>

datatype tunnel_event =
    Identity_settled "NodeIdentitySummary option" units
  | Identity_timeout units
  | Opened
  | Message bytes bool
  | Closed nat
  | Reconnect units
  | Inject_settled nat injected
  | Forward_settled nat "ForwardResponse option"
  | Store_settled nat "units option"
  | Bootstrap_settled "units option"
  | Operator_pairs units
  | Stop

definition drop_nth :: "nat \<Rightarrow> 'a list \<Rightarrow> 'a list" where
  "drop_nth n xs = take n xs @ drop (Suc n) xs"

definition identitySettled :: "TunnelClientOptions \<Rightarrow> NodeIdentitySummary option \<Rightarrow> units \<Rightarrow> tunnel \<Rightarrow> tunnel" where
  "identitySettled opts v jti s = (if \<not> tc_identityLoadInFlight s then s
     else let s1 = s\<lparr>tc_identityLoadInFlight := False\<rparr> in
       if tc_starting s1 then connect opts jti (s1\<lparr>tc_starting := False, tc_cachedNodeIdentity := v\<rparr>)
       else if v \<noteq> None then s1\<lparr>tc_cachedNodeIdentity := v\<rparr> else s1)"

fun tunnel_step :: "TunnelClientOptions \<Rightarrow> tunnel_event \<Rightarrow> tunnel \<Rightarrow> tunnel" where
  "tunnel_step opts (Identity_settled v jti) s = identitySettled opts v jti s"
| "tunnel_step opts (Identity_timeout jti) s =
     (if tc_starting s then connect opts jti (s\<lparr>tc_starting := False, tc_cachedNodeIdentity := None\<rparr>) else s)"
| "tunnel_step opts Opened s = (if tc_wire s = Some WConnecting then onOpen opts s else s)"
| "tunnel_step opts (Message data isBinary) s =
     (if tc_wire s = Some WOpen \<or> tc_wire s = Some WClosing then handleMessage opts data isBinary s else s)"
| "tunnel_step opts (Closed code) s = (if tc_wire s = None then s else onClose code s)"
| "tunnel_step opts (Reconnect jti) s = (if tc_reconnectTimer s then connect opts jti (s\<lparr>tc_reconnectTimer := False\<rparr>) else s)"
| "tunnel_step opts (Inject_settled n r) s = (if n < length (tc_injects s)
     then sendFrame opts (F_res (inject_reply (fst (tc_injects s ! n)) r))
       (s\<lparr>tc_injects := drop_nth n (tc_injects s), tc_inFlight := tc_inFlight s - 1\<rparr>) else s)"
| "tunnel_step opts (Forward_settled n r) s = (if n < length (tc_forwards s)
     then sendFrame opts (F_res (forward_reply (tc_forwards s ! n) r)) (s\<lparr>tc_forwards := drop_nth n (tc_forwards s)\<rparr>) else s)"
| "tunnel_step opts (Store_settled n failure) s = (if n < length (tc_storing s)
     then settleStage opts (tc_storing s ! n) failure (s\<lparr>tc_storing := drop_nth n (tc_storing s)\<rparr>) else s)"
| "tunnel_step opts (Bootstrap_settled token) s = (if tc_bootstrapInFlight s
     then s\<lparr>tc_bootstrapInFlight := False, tc_stateDir := (case token of
       Some t \<Rightarrow> (tc_stateDir s)\<lparr>dir_pairToken := Some t\<rparr> | None \<Rightarrow> tc_stateDir s)\<rparr> else s)"
| "tunnel_step opts (Operator_pairs token) s = s\<lparr>tc_stateDir := (tc_stateDir s)\<lparr>dir_pairToken := Some token\<rparr>\<rparr>"
| "tunnel_step opts Stop s = stop s"

text \<open>\<open>start\<close>: leftover staging files are removed and the identity load begins.\<close>

definition start :: "state_dir \<Rightarrow> tunnel" where
  "start d = \<lparr>tc_stopped = False, tc_starting = True, tc_socket = False, tc_wire = None, tc_reconnectTimer = False, tc_reconnectAttempt = 0,
     tc_inFlight = 0, tc_pendingChunk = None, tc_stageSessions = [], tc_pendingStageReplies = [], tc_bootstrapInFlight = False,
     tc_cachedNodeIdentity = None, tc_identityLoadInFlight = True, tc_stateDir = d, tc_names = [], tc_inodes = [], tc_injects = [],
     tc_forwards = [], tc_storing = [], tc_sent = [], tc_closeCodes = [], tc_dials = []\<rparr>"

text \<open>The ids the hub expects an answer for, of the frame a message carries.\<close>

definition asked :: "TunnelClientOptions \<Rightarrow> tunnel_event \<Rightarrow> tunnel \<Rightarrow> units list" where
  "asked opts e s = (case e of
     Message data isBinary \<Rightarrow> if (tc_wire s = Some WOpen \<or> tc_wire s = Some WClosing) \<and> tc_pendingChunk s = None \<and> \<not> isBinary
       then (case decodeFrame (to_decode opts data) of
           Inr (F_req f) \<Rightarrow> [rq_id f] | Inr (F_forward f) \<Rightarrow> [fw_id f] | _ \<Rightarrow> []) else []
   | _ \<Rightarrow> [])"

text \<open>The states a client can be in, with the ids it has been asked for.\<close>

inductive tunnel_run :: "TunnelClientOptions \<Rightarrow> units list \<Rightarrow> tunnel \<Rightarrow> bool" for opts where
  tunnel_start: "tunnel_run opts [] (start d)"
| tunnel_next: "tunnel_run opts ids s \<Longrightarrow> tunnel_run opts (ids @ asked opts e s) (tunnel_step opts e s)"

end
