(* ===== verification/Tunnel_Runs.thy ===== *)
theory Tunnel_Runs
  imports Tunnel_Client
begin

text \<open>
  What holds in every state the tunnel client can reach: it keeps dialling until it is stopped, answers no
  more than it was asked, and keeps to its concurrency limit.
\<close>

section \<open>What the operations leave alone\<close>

named_theorems kept \<open>state parts an operation of the tunnel client leaves alone\<close>

definition conn :: "tunnel \<Rightarrow> bool \<times> bool \<times> bool \<times> bool \<times> bool" where
  "conn s = (tc_stopped s, tc_starting s, tc_socket s, tc_wire s = None, tc_reconnectTimer s)"

definition jobs :: "tunnel \<Rightarrow> nat \<times> (ReqFrame \<times> inject_call) list" where
  "jobs s = (tc_inFlight s, tc_injects s)"

definition diary :: "tunnel \<Rightarrow> connect_auth list \<times> state_dir" where
  "diary s = (tc_dials s, tc_stateDir s)"

lemma sendFrame_kept [kept]: "conn (sendFrame opts f s) = conn s" "jobs (sendFrame opts f s) = jobs s" "diary (sendFrame opts f s) = diary s"
  by (auto simp: sendFrame_def conn_def jobs_def diary_def split: option.splits)

lemma closeSocket_kept [kept]: "conn (closeSocket c s) = conn s" "jobs (closeSocket c s) = jobs s" "diary (closeSocket c s) = diary s"
  by (auto simp: closeSocket_def conn_def jobs_def diary_def)

lemma unlink_kept [kept]: "conn (unlink p s) = conn s" "jobs (unlink p s) = jobs s" "diary (unlink p s) = diary s"
  by (auto simp: unlink_def conn_def jobs_def diary_def)

lemma abort_form: "\<exists>n ss. abortStageSession i s = s\<lparr>tc_names := n, tc_stageSessions := ss\<rparr>"
proof (cases "map_of (tc_stageSessions s) i")
  case None
  then have "abortStageSession i s = s\<lparr>tc_names := tc_names s, tc_stageSessions := tc_stageSessions s\<rparr>" by (simp add: abortStageSession_def)
  then show ?thesis by blast
next
  case (Some x)
  then show ?thesis by (auto simp: abortStageSession_def unlink_def)
qed

lemma aborts_form: "\<exists>n ss. fold abortStageSession is s = s\<lparr>tc_names := n, tc_stageSessions := ss\<rparr>"
proof (induction "is" arbitrary: s)
  case Nil
  have "s = s\<lparr>tc_names := tc_names s, tc_stageSessions := tc_stageSessions s\<rparr>" by simp
  then show ?case by (metis fold_simps(1))
next
  case (Cons i is')
  obtain n ss where 1: "abortStageSession i s = s\<lparr>tc_names := n, tc_stageSessions := ss\<rparr>" using abort_form by blast
  from Cons.IH [of "abortStageSession i s"] show ?case by (auto simp: 1)
qed

lemma abort_kept [kept]: "conn (abortStageSession i s) = conn s" "jobs (abortStageSession i s) = jobs s" "diary (abortStageSession i s) = diary s"
  using abort_form [of i s] by (auto simp: conn_def jobs_def diary_def)

lemma cleanup_form: "\<exists>n ss. cleanupAllStageSessions s = s\<lparr>tc_names := n, tc_stageSessions := ss, tc_pendingStageReplies := []\<rparr>"
proof -
  obtain n ss where "fold abortStageSession (map fst (tc_stageSessions s)) s = s\<lparr>tc_names := n, tc_stageSessions := ss\<rparr>"
    using aborts_form by blast
  then have "cleanupAllStageSessions s = s\<lparr>tc_names := n, tc_stageSessions := ss, tc_pendingStageReplies := []\<rparr>"
    by (simp add: cleanupAllStageSessions_def)
  then show ?thesis by blast
qed

lemma cleanup_kept [kept]: "conn (cleanupAllStageSessions s) = conn s" "jobs (cleanupAllStageSessions s) = jobs s"
  "diary (cleanupAllStageSessions s) = diary s"
  using cleanup_form [of s] by (auto simp: conn_def jobs_def diary_def)

lemma session_kept [kept]:
  "conn (snd (getOrCreateStageSession opts i s)) = conn s" "jobs (snd (getOrCreateStageSession opts i s)) = jobs s"
  "diary (snd (getOrCreateStageSession opts i s)) = diary s"
  by (auto simp: getOrCreateStageSession_def openTruncated_def Let_def conn_def jobs_def diary_def split: option.splits)

lemma settle_kept [kept]: "conn (settleStage opts a r s) = conn s" "jobs (settleStage opts a r s) = jobs s"
  "diary (settleStage opts a r s) = diary s"
  by (auto simp: settleStage_def Let_def kept)

lemma update_kept [kept]:
  "conn (s\<lparr>tc_stageSessions := ss\<rparr>) = conn s" "jobs (s\<lparr>tc_stageSessions := ss\<rparr>) = jobs s" "diary (s\<lparr>tc_stageSessions := ss\<rparr>) = diary s"
  "conn (s\<lparr>tc_pendingStageReplies := rs\<rparr>) = conn s" "jobs (s\<lparr>tc_pendingStageReplies := rs\<rparr>) = jobs s"
  "diary (s\<lparr>tc_pendingStageReplies := rs\<rparr>) = diary s"
  "conn (s\<lparr>tc_storing := st\<rparr>) = conn s" "jobs (s\<lparr>tc_storing := st\<rparr>) = jobs s" "diary (s\<lparr>tc_storing := st\<rparr>) = diary s"
  "conn (s\<lparr>tc_pendingChunk := c\<rparr>) = conn s" "jobs (s\<lparr>tc_pendingChunk := c\<rparr>) = jobs s" "diary (s\<lparr>tc_pendingChunk := c\<rparr>) = diary s"
  "conn (s\<lparr>tc_forwards := fs\<rparr>) = conn s" "jobs (s\<lparr>tc_forwards := fs\<rparr>) = jobs s" "diary (s\<lparr>tc_forwards := fs\<rparr>) = diary s"
  "conn (s\<lparr>tc_inFlight := n, tc_injects := js\<rparr>) = conn s" "diary (s\<lparr>tc_inFlight := n, tc_injects := js\<rparr>) = diary s"
  "conn (writeSync fd data s) = conn s" "jobs (writeSync fd data s) = jobs s" "diary (writeSync fd data s) = diary s"
  "conn (s\<lparr>tc_stateDir := d\<rparr>) = conn s" "jobs (s\<lparr>tc_stateDir := d\<rparr>) = jobs s"
  by (simp_all add: conn_def jobs_def diary_def writeSync_def)

lemma finalize_kept [kept]: "conn (finalizeStage opts i p h n s) = conn s" "jobs (finalizeStage opts i p h n s) = jobs s"
  "diary (finalizeStage opts i p h n s) = diary s"
  by (auto simp: finalizeStage_def Let_def kept split: option.splits)

lemma chunk_kept [kept]: "conn (finishChunk opts c p s) = conn s" "jobs (finishChunk opts c p s) = jobs s"
  "diary (finishChunk opts c p s) = diary s"
  using session_kept [of opts "ck_id c" s]
  by (cases "getOrCreateStageSession opts (ck_id c) s"; simp add: finishChunk_def Let_def kept)+

lemma paired_kept [kept]: "conn (handlePaired c k s) = conn s" "jobs (handlePaired c k s) = jobs s"
  by (simp_all add: handlePaired_def kept)

lemma req_kept [kept]: "conn (handleReq opts f s) = conn s" "diary (handleReq opts f s) = diary s"
  by (simp_all add: handleReq_def Let_def kept split: option.splits)

lemma frame_kept [kept]: "conn (handleFrame opts f s) = conn s"
  by (auto simp: handleFrame_def kept split: Frame.splits)

lemma message_kept [kept]: "conn (handleMessage opts data b s) = conn s"
  by (auto simp: handleMessage_def kept split: option.splits sum.splits)

section \<open>Dialling\<close>

text \<open>A running client waits for its identity, holds a socket, or has a timer set, and only one of the three; a stopped one none of the last two.\<close>

definition dialing :: "tunnel \<Rightarrow> bool" where
  "dialing s \<longleftrightarrow> (if tc_stopped s then \<not> tc_socket s \<and> \<not> tc_reconnectTimer s
     else (tc_socket s \<longleftrightarrow> tc_wire s \<noteq> None) \<and> 
       ((tc_starting s \<and> \<not> tc_socket s \<and> \<not> tc_reconnectTimer s) \<or> (\<not> tc_starting s \<and> tc_socket s \<and> \<not> tc_reconnectTimer s)
        \<or> (\<not> tc_starting s \<and> \<not> tc_socket s \<and> tc_reconnectTimer s)))"

lemma dialing_conn: "conn s = conn t \<Longrightarrow> dialing s = dialing t"
  by (simp add: conn_def dialing_def)

lemma dialing_connect:
  assumes "dialing s" and "tc_starting s \<or> tc_reconnectTimer s"
    and "conn t = (tc_stopped s, False, tc_socket s, tc_wire s = None, False)"
  shows "dialing (connect opts jti t)"
proof (cases "tc_stopped s")
  case True
  with assms show ?thesis by (auto simp: connect_def dialing_def conn_def)
next
  case False
  with assms have "\<not> tc_stopped t" "\<not> tc_starting t" "\<not> tc_socket t" "\<not> tc_reconnectTimer t"
    by (auto simp: dialing_def conn_def)
  then show ?thesis by (simp add: connect_def dialing_def Let_def maybeRunCommunityBootstrap_def)
qed

lemma dialing_close:
  assumes "dialing s" and "tc_wire s \<noteq> None" shows "dialing (onClose code s)"
proof -
  obtain n ss where "cleanupAllStageSessions s = s\<lparr>tc_names := n, tc_stageSessions := ss, tc_pendingStageReplies := []\<rparr>"
    using cleanup_form by blast
  with assms show ?thesis by (simp add: onClose_def scheduleReconnect_def dialing_def Let_def split: if_splits) auto
qed

lemma dialing_stop:
  assumes "dialing s" shows "dialing (stop s)"
proof -
  let ?s = "s\<lparr>tc_stopped := True, tc_reconnectTimer := False\<rparr>"
  obtain n ss where "cleanupAllStageSessions ?s = ?s\<lparr>tc_names := n, tc_stageSessions := ss, tc_pendingStageReplies := []\<rparr>"
    using cleanup_form by blast
  with assms show ?thesis by (simp add: stop_def dialing_def closeSocket_def Let_def)
qed

lemma dialing_updates:
  "dialing (s\<lparr>tc_injects := js, tc_inFlight := k\<rparr>) = dialing s" "dialing (s\<lparr>tc_forwards := fs\<rparr>) = dialing s"
  "dialing (s\<lparr>tc_storing := st\<rparr>) = dialing s" "dialing (s\<lparr>tc_bootstrapInFlight := b, tc_stateDir := d\<rparr>) = dialing s"
  "dialing (s\<lparr>tc_stateDir := d\<rparr>) = dialing s" "dialing (s\<lparr>tc_bootstrapInFlight := b\<rparr>) = dialing s"
  by (rule dialing_conn, simp add: conn_def)+

lemma dialing_starting: "dialing s \<Longrightarrow> tc_starting s \<Longrightarrow> \<not> tc_reconnectTimer s"
  by (auto simp: dialing_def split: if_splits)

lemma dialing_timer: "dialing s \<Longrightarrow> tc_reconnectTimer s \<Longrightarrow> \<not> tc_starting s"
  by (auto simp: dialing_def split: if_splits)

lemma dialing_step: "dialing s \<Longrightarrow> dialing (tunnel_step opts e s)"
proof (cases e)
  case (Identity_settled v jti)
  have "dialing s \<Longrightarrow> tc_starting s \<Longrightarrow> dialing (connect opts jti (s\<lparr>tc_identityLoadInFlight := False, tc_starting := False, tc_cachedNodeIdentity := v\<rparr>))"
    by (rule dialing_connect [of s]) (simp_all add: conn_def dialing_starting)
  moreover have "dialing (s\<lparr>tc_identityLoadInFlight := False\<rparr>) = dialing s" "dialing (s\<lparr>tc_identityLoadInFlight := False, tc_cachedNodeIdentity := w\<rparr>) = dialing s" for w
    by (simp_all add: dialing_def)
  ultimately show "dialing s \<Longrightarrow> ?thesis" by (simp add: Identity_settled identitySettled_def Let_def)
next
  case (Identity_timeout jti)
  have "dialing s \<Longrightarrow> tc_starting s \<Longrightarrow> dialing (connect opts jti (s\<lparr>tc_starting := False, tc_cachedNodeIdentity := None\<rparr>))"
    by (rule dialing_connect [of s]) (simp_all add: conn_def dialing_starting)
  then show "dialing s \<Longrightarrow> ?thesis" by (simp add: Identity_timeout)
next
  case Opened
  have "conn (onOpen opts s) = conn s" if "tc_wire s = Some WConnecting"
    using that unfolding onOpen_def sendFrame_kept by (simp add: conn_def)
  from dialing_conn [OF this] Opened show "dialing s \<Longrightarrow> ?thesis" by simp
next
  case (Message data b)
  then show "dialing s \<Longrightarrow> ?thesis" by (simp add: dialing_conn [OF message_kept])
next
  case (Closed code)
  then show "dialing s \<Longrightarrow> ?thesis" by (simp add: dialing_close)
next
  case (Reconnect jti)
  have "dialing s \<Longrightarrow> tc_reconnectTimer s \<Longrightarrow> dialing (connect opts jti (s\<lparr>tc_reconnectTimer := False\<rparr>))"
    by (rule dialing_connect [of s]) (simp_all add: conn_def dialing_timer)
  then show "dialing s \<Longrightarrow> ?thesis" by (simp add: Reconnect)
next
  case (Inject_settled n r)
  then show "dialing s \<Longrightarrow> ?thesis" by (simp add: dialing_conn [OF sendFrame_kept(1)] dialing_updates)
next
  case (Forward_settled n r)
  then show "dialing s \<Longrightarrow> ?thesis" by (simp add: dialing_conn [OF sendFrame_kept(1)] dialing_updates)
next
  case (Store_settled n r)
  then show "dialing s \<Longrightarrow> ?thesis" by (simp add: dialing_conn [OF settle_kept(1)] dialing_updates)
next
  case (Bootstrap_settled t)
  then show "dialing s \<Longrightarrow> ?thesis" by (simp add: dialing_updates)
next
  case (Operator_pairs t)
  then show "dialing s \<Longrightarrow> ?thesis" by (simp add: dialing_updates)
next
  case Stop
  then show "dialing s \<Longrightarrow> ?thesis" by (simp add: dialing_stop)
qed

lemma run_dialing: "tunnel_run opts ids s \<Longrightarrow> dialing s"
proof (induction rule: tunnel_run.induct)
  case (tunnel_start d)
  show ?case by (simp add: start_def dialing_def)
qed (rule dialing_step)

text \<open>
  C23. The client dials for as long as it runs and never twice: in every state it can reach, unless it was stopped,
  exactly one of a pending start, a live socket and a reconnect timer is there to carry it on; a stopped
  client has neither a socket nor a timer.
\<close>

theorem tunnel_keeps_dialing: "tunnel_run opts ids s \<Longrightarrow> dialing s"
  by (rule run_dialing)

lemma dials_of: "diary a = diary b \<Longrightarrow> tc_dials a = tc_dials b"
  by (simp add: diary_def)

lemma message_dials: "tc_dials (handleMessage opts data b s) = tc_dials s"
proof (cases "tc_pendingChunk s")
  case None
  have "tc_dials (handleFrame opts f s) = tc_dials s" for f
    by (cases f) (simp_all add: handleFrame_def handlePaired_def dials_of [OF sendFrame_kept(3)] dials_of [OF req_kept(2)])
  with None show ?thesis by (simp add: handleMessage_def dials_of [OF closeSocket_kept(3)] split: sum.splits)
next
  case (Some c)
  then show ?thesis by (simp add: handleMessage_def dials_of [OF chunk_kept(3)])
qed

text \<open>A stopped client stays stopped and does not dial again.\<close>

lemma stopped_stays:
  assumes "tc_stopped s" shows "tc_stopped (tunnel_step opts e s) \<and> tc_dials (tunnel_step opts e s) = tc_dials s"
proof -
  have stop: "conn a = conn b \<Longrightarrow> tc_stopped a = tc_stopped b" for a b by (simp add: conn_def)
  obtain n ss where clean: "cleanupAllStageSessions s = s\<lparr>tc_names := n, tc_stageSessions := ss, tc_pendingStageReplies := []\<rparr>"
    using cleanup_form by blast
  note facts = stop [OF message_kept] message_dials stop [OF sendFrame_kept(1)] dials_of [OF sendFrame_kept(3)]
    stop [OF settle_kept(1)] dials_of [OF settle_kept(3)]
  show ?thesis
    using assms by (cases e) (simp_all add: facts identitySettled_def connect_def onOpen_def onClose_def clean scheduleReconnect_def stop_def Let_def)
qed

section \<open>Answers\<close>

definition answers_to :: "units \<Rightarrow> Frame \<Rightarrow> bool" where
  "answers_to i f = (case f of F_res r \<Rightarrow> rs_id r = i | _ \<Rightarrow> False)"

text \<open>The answers sent for an id.\<close>

definition answered :: "units \<Rightarrow> tunnel \<Rightarrow> nat" where
  "answered i s = length (filter (answers_to i) (tc_sent s))"

text \<open>The answers still to come for an id: pending dispatches, control frames of uploads, and uploads being stored.\<close>

definition owed :: "units \<Rightarrow> tunnel \<Rightarrow> nat" where
  "owed i s = length (filter (\<lambda>j. rq_id (fst j) = i) (tc_injects s)) + length (filter (\<lambda>f. fw_id f = i) (tc_forwards s))
     + of_bool (map_of (tc_pendingStageReplies s) i \<noteq> None)
     + length (filter (\<lambda>a. sa_id a = i \<and> sa_announced a \<noteq> None) (tc_storing s))"

definition due :: "units \<Rightarrow> tunnel \<Rightarrow> nat" where "due i s = answered i s + owed i s"

lemma due_same:
  "tc_sent t = tc_sent s \<Longrightarrow> tc_injects t = tc_injects s \<Longrightarrow> tc_forwards t = tc_forwards s \<Longrightarrow> tc_storing t = tc_storing s
     \<Longrightarrow> tc_pendingStageReplies t = tc_pendingStageReplies s \<Longrightarrow> due i t = due i s"
  by (simp add: due_def answered_def owed_def)

lemma due_updates [simp]:
  "due i (s\<lparr>tc_stopped := x0\<rparr>) = due i s"
  "due i (s\<lparr>tc_starting := x1\<rparr>) = due i s"
  "due i (s\<lparr>tc_socket := x2\<rparr>) = due i s"
  "due i (s\<lparr>tc_wire := x3\<rparr>) = due i s"
  "due i (s\<lparr>tc_reconnectTimer := x4\<rparr>) = due i s"
  "due i (s\<lparr>tc_reconnectAttempt := x5\<rparr>) = due i s"
  "due i (s\<lparr>tc_pendingChunk := x6\<rparr>) = due i s"
  "due i (s\<lparr>tc_stageSessions := x7\<rparr>) = due i s"
  "due i (s\<lparr>tc_bootstrapInFlight := x8\<rparr>) = due i s"
  "due i (s\<lparr>tc_cachedNodeIdentity := x9\<rparr>) = due i s"
  "due i (s\<lparr>tc_identityLoadInFlight := x10\<rparr>) = due i s"
  "due i (s\<lparr>tc_stateDir := x11\<rparr>) = due i s"
  "due i (s\<lparr>tc_names := x12\<rparr>) = due i s"
  "due i (s\<lparr>tc_inodes := x13\<rparr>) = due i s"
  "due i (s\<lparr>tc_inFlight := x14\<rparr>) = due i s"
  "due i (s\<lparr>tc_closeCodes := x15\<rparr>) = due i s"
  "due i (s\<lparr>tc_dials := x16\<rparr>) = due i s"
  by (rule due_same; simp)+

lemma due_send: "due i (sendFrame opts f s) \<le> due i s + of_bool (answers_to i f)"
proof -
  have "owed i (sendFrame opts f s) = owed i s" 
    by (cases "tc_socket s \<and> tc_wire s = Some WOpen"; cases "encodeFrame (to_fm opts) f") (auto simp: sendFrame_def owed_def)
  moreover have "answered i (sendFrame opts f s) \<le> answered i s + of_bool (answers_to i f)"
    by (simp add: sendFrame_def answered_def split: option.split)
  ultimately show ?thesis by (simp add: due_def)
qed

lemma due_drop_nth: "n < length xs \<Longrightarrow> length (filter P (drop_nth n xs)) + of_bool (P (xs ! n)) = length (filter P xs)"
  unfolding drop_nth_def by (subst (4) id_take_nth_drop [of n xs]) auto

lemma due_close: "due i (closeSocket c s) = due i s"
  by (rule due_same) (simp_all add: closeSocket_def)

lemma due_unlink: "due i (unlink p s) = due i s"
  by (rule due_same) (simp_all add: unlink_def)

lemma due_abort: "due i (abortStageSession j s) = due i s"
  using abort_form [of j s] by (auto intro: due_same)

lemma due_session: "due i (snd (getOrCreateStageSession opts j s)) = due i s"
  by (rule due_same) (simp_all add: getOrCreateStageSession_def openTruncated_def Let_def split: option.splits)

lemma due_settle: "due i (settleStage opts a r s) \<le> due i s + of_bool (sa_announced a \<noteq> None \<and> sa_id a = i)"
proof -
  have "answers_to i (F_res (stage_reply a r)) = (sa_id a = i)"
    by (simp add: answers_to_def stage_reply_def res_frame_def split: option.splits)
  then show ?thesis using due_send [of i opts "F_res (stage_reply a r)" "unlink (sa_path a) s"]
    by (auto simp: settleStage_def Let_def due_unlink)
qed

lemma due_replies:
  "due i (s\<lparr>tc_pendingStageReplies := AList.delete j (tc_pendingStageReplies s)\<rparr>) + of_bool (j = i \<and> map_of (tc_pendingStageReplies s) j \<noteq> None)
     = due i s"
  by (simp add: due_def answered_def owed_def delete_conv')

lemma due_storing: "due i (s\<lparr>tc_storing := tc_storing s @ [a]\<rparr>) = due i s + of_bool (sa_id a = i \<and> sa_announced a \<noteq> None)"
  by (simp add: due_def answered_def owed_def)

lemma due_finalize: "due i (finalizeStage opts j p h n s) \<le> due i s"
proof (cases "map_of (tc_pendingStageReplies s) j")
  case None
  then show ?thesis using due_replies [where i = i and j = j and s = s]
      due_storing [where i = i and s = "s\<lparr>tc_pendingStageReplies := AList.delete j (tc_pendingStageReplies s)\<rparr>"
        and a = "\<lparr>sa_id = j, sa_path = p, sa_sha256 = h, sa_sizeBytes = n, sa_announced = None\<rparr>"]
    by (simp add: finalizeStage_def)
next
  case (Some d)
  let ?s = "s\<lparr>tc_pendingStageReplies := AList.delete j (tc_pendingStageReplies s)\<rparr>"
  let ?a = "\<lparr>sa_id = j, sa_path = p, sa_sha256 = h, sa_sizeBytes = n, sa_announced = Some d\<rparr>"
  show ?thesis
  proof (cases "d = h")
    case True
    then show ?thesis using Some due_replies [where i = i and j = j and s = s] due_storing [where i = i and s = ?s and a = ?a] by (auto simp: finalizeStage_def Let_def)
  next
    case False
    then show ?thesis using Some due_replies [where i = i and j = j and s = s] due_settle [of i opts ?a "Some (mismatch_message h d)" ?s]
      by (auto simp: finalizeStage_def Let_def)
  qed
qed

lemma due_chunk: "due i (finishChunk opts c p s) \<le> due i s"
proof -
  obtain session t where t: "getOrCreateStageSession opts (ck_id c) s = (session, t)" by force
  then have same: "due i t = due i s" using due_session [of i opts "ck_id c" s] by simp
  have written: "due i (writeSync fd p t) = due i s" for fd by (simp add: writeSync_def same)
  note finalize = order_trans [OF due_finalize]
  show ?thesis
  proof (cases "of_nat (length p) \<noteq> lexeme_value (ck_byteLength c) \<or> length p > MAX_CHUNK_BYTES
      \<or> ss_bytesWritten session + length p > MAX_STAGED_ARTIFACT_BYTES")
    case True
    then show ?thesis by (auto simp: finishChunk_def t Let_def due_close due_abort same)
  next
    case False
    then show ?thesis by (cases "ck_last c") (simp_all add: finishChunk_def t Let_def written finalize)
  qed
qed

lemma due_req: "due i (handleReq opts f s) \<le> due i s + of_bool (rq_id f = i)"
proof (cases "stageControlDigest opts f")
  case None
  have "answers_to i (F_res (too_many_requests (rq_id f))) = (rq_id f = i)"
    by (simp add: answers_to_def too_many_requests_def res_frame_def)
  then show ?thesis using None due_send [of i opts "F_res (too_many_requests (rq_id f))" s]
    by (auto simp: handleReq_def due_def answered_def owed_def)
next
  case (Some d)
  then show ?thesis by (auto simp: handleReq_def due_def answered_def owed_def update_conv')
qed

text \<open>The ids a frame asks an answer for.\<close>

definition frame_ids :: "Frame \<Rightarrow> units list" where
  "frame_ids f = (case f of F_req r \<Rightarrow> [rq_id r] | F_forward r \<Rightarrow> [fw_id r] | _ \<Rightarrow> [])"

lemma due_frame: "due i (handleFrame opts f s) \<le> due i s + count_list (frame_ids f) i"
proof (cases f)
  case (F_req r)
  then show ?thesis using due_req [of i opts r s] by (cases "rq_id r = i") (simp_all add: handleFrame_def frame_ids_def)
next
  case (F_ping tm)
  then show ?thesis using due_send [of i opts "F_pong tm" s] by (simp add: handleFrame_def frame_ids_def answers_to_def)
qed (simp_all add: handleFrame_def frame_ids_def handlePaired_def due_def answered_def owed_def)

lemma due_message:
  "tc_wire s = Some WOpen \<or> tc_wire s = Some WClosing \<Longrightarrow>
     due i (handleMessage opts data b s) \<le> due i s + count_list (asked opts (Message data b) s) i"
proof (cases "tc_pendingChunk s")
  case None
  assume w: "tc_wire s = Some WOpen \<or> tc_wire s = Some WClosing"
  show ?thesis
  proof (cases "\<not> b \<and> (\<exists>f. decodeFrame (to_decode opts data) = Inr f)")
    case True
    then obtain f where f: "decodeFrame (to_decode opts data) = Inr f" "\<not> b" by blast
    then have "asked opts (Message data b) s = frame_ids f" using None w by (simp add: asked_def frame_ids_def split: Frame.splits)
    with f None due_frame [of i opts f s] show ?thesis by (simp add: handleMessage_def)
  next
    case False
    with None show ?thesis by (cases "decodeFrame (to_decode opts data)") (auto simp: handleMessage_def due_close)
  qed
next
  case (Some c)
  with due_chunk [of i opts c data "s\<lparr>tc_pendingChunk := None\<rparr>"] show ?thesis by (simp add: handleMessage_def)
qed

lemma due_cleanup: "due i (cleanupAllStageSessions s) \<le> due i s"
  using cleanup_form [of s] by (auto simp: due_def answered_def owed_def)

lemma due_onClose: "due i (onClose code s) \<le> due i s"
proof -
  have "due i (onClose code s) = due i (cleanupAllStageSessions s)"
    by (rule due_same) (simp_all add: onClose_def scheduleReconnect_def Let_def)
  then show ?thesis using due_cleanup [of i s] by simp
qed

lemma due_stop: "due i (stop s) \<le> due i s"
proof (cases "tc_stopped s")
  case False
  let ?t = "s\<lparr>tc_stopped := True, tc_reconnectTimer := False\<rparr>"
  have "due i (stop s) = due i (cleanupAllStageSessions ?t)"
    using False by (intro due_same) (simp_all add: stop_def closeSocket_def Let_def)
  then show ?thesis using due_cleanup [of i ?t] by simp
qed (simp add: stop_def)

lemma due_connect: "due i (connect opts jti s) = due i s"
  by (rule due_same) (simp_all add: connect_def maybeRunCommunityBootstrap_def Let_def)

lemma due_take:
  "n < length (tc_injects s) \<Longrightarrow> due i (s\<lparr>tc_injects := drop_nth n (tc_injects s), tc_inFlight := k\<rparr>) + of_bool (rq_id (fst (tc_injects s ! n)) = i) = due i s"
  "n < length (tc_forwards s) \<Longrightarrow> due i (s\<lparr>tc_forwards := drop_nth n (tc_forwards s)\<rparr>) + of_bool (fw_id (tc_forwards s ! n) = i) = due i s"
  "n < length (tc_storing s) \<Longrightarrow> due i (s\<lparr>tc_storing := drop_nth n (tc_storing s)\<rparr>)
     + of_bool (sa_announced (tc_storing s ! n) \<noteq> None \<and> sa_id (tc_storing s ! n) = i) = due i s"
  using due_drop_nth [of n "tc_injects s" "\<lambda>j. rq_id (fst j) = i"] due_drop_nth [of n "tc_forwards s" "\<lambda>f. fw_id f = i"]
    due_drop_nth [of n "tc_storing s" "\<lambda>a. sa_id a = i \<and> sa_announced a \<noteq> None"]
  by (simp_all add: due_def answered_def owed_def conj_commute)

lemma reply_ids: "rs_id (inject_reply f r) = rq_id f" "rs_id (forward_reply g q) = fw_id g"
  by (simp_all add: inject_reply_def forward_reply_def internal_error_def res_frame_def Let_def split: injected.splits option.splits)

lemma due_step: "due i (tunnel_step opts e s) \<le> due i s + count_list (asked opts e s) i"
proof (cases e)
  case (Message data b)
  then show ?thesis using due_message [of s i opts data b] by simp
next
  case (Inject_settled n r)
  then show ?thesis
    using due_send [of i opts "F_res (inject_reply (fst (tc_injects s ! n)) r)"
        "s\<lparr>tc_injects := drop_nth n (tc_injects s), tc_inFlight := tc_inFlight s - 1\<rparr>"] due_take(1) [of n s i "tc_inFlight s - 1"]
    by (cases "n < length (tc_injects s)") (simp_all add: answers_to_def reply_ids asked_def)
next
  case (Forward_settled n r)
  then show ?thesis
    using due_send [of i opts "F_res (forward_reply (tc_forwards s ! n) r)" "s\<lparr>tc_forwards := drop_nth n (tc_forwards s)\<rparr>"] due_take(2) [of n s i]
    by (cases "n < length (tc_forwards s)") (simp_all add: answers_to_def reply_ids asked_def)
next
  case (Store_settled n r)
  then show ?thesis
    using due_settle [of i opts "tc_storing s ! n" r "s\<lparr>tc_storing := drop_nth n (tc_storing s)\<rparr>"] due_take(3) [of n s i]
    by (cases "n < length (tc_storing s)") (simp_all add: asked_def)
next
  case Opened
  with due_send [of i opts "hello opts s" "s\<lparr>tc_wire := Some WOpen, tc_reconnectAttempt := 0\<rparr>"] show ?thesis
    by (simp add: onOpen_def hello_def answers_to_def)
next
  case (Identity_settled v jti)
  then show ?thesis by (simp add: identitySettled_def Let_def due_connect)
next
  case (Bootstrap_settled t)
  then show ?thesis by simp
qed (simp_all add: due_connect trans_le_add1 [OF due_onClose] trans_le_add1 [OF due_stop])

text \<open>The requests in flight are the pending injections, within the limit.\<close>

definition workload :: "TunnelClientOptions \<Rightarrow> tunnel \<Rightarrow> bool" where
  "workload opts s \<longleftrightarrow> tc_inFlight s = length (tc_injects s) \<and> tc_inFlight s \<le> to_concurrencyLimit opts"

lemma workload_jobs: "jobs t = jobs s \<Longrightarrow> workload opts t = workload opts s"
  by (simp add: jobs_def workload_def)

lemmas workload_kept = workload_jobs [OF sendFrame_kept(2)] workload_jobs [OF closeSocket_kept(2)] workload_jobs [OF settle_kept(2)]
  workload_jobs [OF chunk_kept(2)] workload_jobs [OF cleanup_kept(2)]

lemma workload_updates [simp]:
  "workload opts (s\<lparr>tc_pendingChunk := c\<rparr>) = workload opts s" "workload opts (s\<lparr>tc_forwards := fs\<rparr>) = workload opts s"
  "workload opts (s\<lparr>tc_storing := st\<rparr>) = workload opts s" "workload opts (s\<lparr>tc_stateDir := d\<rparr>) = workload opts s"
  "workload opts (s\<lparr>tc_pendingStageReplies := rs\<rparr>) = workload opts s" "workload opts (s\<lparr>tc_bootstrapInFlight := b\<rparr>) = workload opts s"
  "workload opts (s\<lparr>tc_identityLoadInFlight := b\<rparr>) = workload opts s" "workload opts (s\<lparr>tc_starting := b\<rparr>) = workload opts s"
  "workload opts (s\<lparr>tc_cachedNodeIdentity := cni\<rparr>) = workload opts s" "workload opts (s\<lparr>tc_reconnectTimer := b\<rparr>) = workload opts s"
  "workload opts (s\<lparr>tc_socket := b\<rparr>) = workload opts s" "workload opts (s\<lparr>tc_wire := w\<rparr>) = workload opts s"
  "workload opts (s\<lparr>tc_dials := ds\<rparr>) = workload opts s"
  by (simp_all add: workload_def)

lemma workload_req: "workload opts s \<Longrightarrow> workload opts (handleReq opts f s)"
proof (cases "stageControlDigest opts f")
  case None
  assume w: "workload opts s"
  show ?thesis
  proof (cases "tc_inFlight s \<ge> to_concurrencyLimit opts")
    case True
    with w None show ?thesis by (simp add: handleReq_def workload_kept)
  next
    case False
    with w None show ?thesis by (simp add: handleReq_def workload_def)
  qed
qed (simp add: handleReq_def)

lemma workload_frame: "workload opts s \<Longrightarrow> workload opts (handleFrame opts f s)"
  by (cases f) (simp_all add: handleFrame_def handlePaired_def workload_req workload_kept)

lemma workload_message: "workload opts s \<Longrightarrow> workload opts (handleMessage opts data b s)"
  by (auto simp: handleMessage_def workload_kept workload_frame split: option.splits sum.splits)

lemma workload_step:
  assumes "workload opts s" shows "workload opts (tunnel_step opts e s)"
proof (cases e)
  case (Message data b)
  with assms show ?thesis by (simp add: workload_message)
next
  case (Inject_settled n r)
  have "workload opts (s\<lparr>tc_injects := drop_nth n (tc_injects s), tc_inFlight := tc_inFlight s - 1\<rparr>)" if "n < length (tc_injects s)"
    using assms that by (auto simp: workload_def drop_nth_def)
  with assms show ?thesis by (simp add: Inject_settled workload_kept)
next
  case (Closed code)
  have "jobs (onClose code s) = jobs (cleanupAllStageSessions s)" by (simp add: onClose_def scheduleReconnect_def Let_def jobs_def)
  from workload_jobs [OF this] assms show ?thesis by (simp add: Closed workload_kept)
next
  case Opened
  have "jobs (onOpen opts s) = jobs s" unfolding onOpen_def sendFrame_kept by (simp add: jobs_def)
  from workload_jobs [OF this] assms show ?thesis by (simp add: Opened)
next
  case Stop
  have "jobs (stop s) = jobs s"
  proof (cases "tc_stopped s")
    case False
    have "jobs (stop s) = jobs (cleanupAllStageSessions (s\<lparr>tc_stopped := True, tc_reconnectTimer := False\<rparr>))"
      using False by (simp add: stop_def closeSocket_def Let_def jobs_def)
    then show ?thesis unfolding cleanup_kept by (simp add: jobs_def)
  qed (simp add: stop_def)
  from workload_jobs [OF this] assms show ?thesis by (simp add: Stop)
qed (use assms in \<open>simp_all add: workload_kept identitySettled_def connect_def maybeRunCommunityBootstrap_def Let_def\<close>)

text \<open>
  C22. The client never answers more than it was asked and never runs more than it may: in every state it can
  reach, for every id, the answers sent and those still to come (dispatches in flight, announced uploads and
  uploads being stored) are at most the requests received with that id, and the requests in flight are exactly
  the pending injections, within the concurrency limit.
\<close>

theorem tunnel_answers_what_was_asked:
  "tunnel_run opts ids s \<Longrightarrow> answered i s + owed i s \<le> count_list ids i
     \<and> tc_inFlight s = length (tc_injects s) \<and> tc_inFlight s \<le> to_concurrencyLimit opts"
proof (induction rule: tunnel_run.induct)
  case (tunnel_start d)
  show ?case by (simp add: start_def answered_def owed_def)
next
  case (tunnel_next ids s e)
  then show ?case using due_step [of i opts e s] workload_step [of opts s e] by (simp add: due_def workload_def)
qed

section \<open>A run, for evaluating the properties on\<close>

definition demo_tunnel :: TunnelClientOptions where
  "demo_tunnel = \<lparr>to_fm = id, to_decode = (\<lambda>bs. bs), to_hash = (\<lambda>bs. u (show_nat (length bs))), to_upper = (\<lambda>s. s), to_search = (\<lambda>_. []),
     to_stage_path = (\<lambda>i. i), to_version = u ''1'', to_clusterId = u ''c'', to_operatorRoutes = False, to_artifactStaging = True,
     to_configSecret = None, to_bootstrapToken = None, to_concurrencyLimit = 8\<rparr>"

abbreviation demo_pairing_dir :: state_dir where
  "demo_pairing_dir \<equiv> \<lparr>dir_credential = None, dir_pairToken = Some (u ''t''), dir_clusterId = None\<rparr>"

definition tunnel_after :: "TunnelClientOptions \<Rightarrow> tunnel_event list \<Rightarrow> tunnel" where
  "tunnel_after opts events = fold (tunnel_step opts) events (start demo_pairing_dir)"

lemma after_runs: "\<exists>ids. tunnel_run opts ids (tunnel_after opts events)"
proof (induction events rule: rev_induct)
  case Nil
  show ?case using tunnel_start by (auto simp: tunnel_after_def)
next
  case (snoc e events)
  then obtain ids where "tunnel_run opts ids (tunnel_after opts events)" by blast
  from tunnel_next [OF this, of e] show ?case by (auto simp: tunnel_after_def)
qed

definition demo_live :: tunnel where
  "demo_live = tunnel_after demo_tunnel [Identity_timeout (u ''j''), Opened]"

lemma demo_live_state:
  "tc_wire demo_live = Some WOpen" "tc_pendingChunk demo_live = None" "tc_stopped demo_live = False" "tc_stageSessions demo_live = []"
  "tc_names demo_live = []" "tc_pendingStageReplies demo_live = []" "tc_storing demo_live = []" "tc_inodes demo_live = []"
  by (simp_all add: demo_live_def tunnel_after_def start_def connect_def maybeRunCommunityBootstrap_def Let_def onOpen_def sendFrame_def
      split: option.split)

lemma tunnel_keeps_dialing_witness: "dialing demo_live"
proof -
  obtain ids where "tunnel_run demo_tunnel ids demo_live" using after_runs unfolding demo_live_def by blast
  then show ?thesis by (rule tunnel_keeps_dialing)
qed

lemma tunnel_answers_what_was_asked_witness:
  "\<exists>ids. answered (u ''i'') demo_live + owed (u ''i'') demo_live \<le> count_list ids (u ''i'')
     \<and> tc_inFlight demo_live = length (tc_injects demo_live) \<and> tc_inFlight demo_live \<le> to_concurrencyLimit demo_tunnel"
proof -
  obtain ids where "tunnel_run demo_tunnel ids demo_live" using after_runs unfolding demo_live_def by blast
  from tunnel_answers_what_was_asked [OF this] show ?thesis by blast
qed

end
