(* ===== verification/Tunnel_Upload.thy ===== *)
theory Tunnel_Upload
  imports Tunnel_Runs
begin

text \<open>
  Streaming an artifact over the tunnel, what pairing does to the next dial, and a chunk control frame that
  outlives its connection.
\<close>

section \<open>An upload\<close>

text \<open>What arrives while an artifact is streamed: a chunk (its control message and its payload), or something else meanwhile.\<close>

datatype delivery = Chunk bytes bytes | Meanwhile tunnel_event

fun deliver :: "TunnelClientOptions \<Rightarrow> delivery \<Rightarrow> tunnel \<Rightarrow> tunnel" where
  "deliver opts (Chunk m p) s = tunnel_step opts (Message p True) (tunnel_step opts (Message m False) s)"
| "deliver opts (Meanwhile e) s = tunnel_step opts e s"

definition chunk_fits :: "TunnelClientOptions \<Rightarrow> units \<Rightarrow> bool \<Rightarrow> bytes \<Rightarrow> bytes \<Rightarrow> bool" where
  "chunk_fits opts i final m p = (case decodeFrame (to_decode opts m) of
     Inr (F_req_chunk c) \<Rightarrow> ck_id c = i \<and> ck_last c = final \<and> lexeme_value (ck_byteLength c) = of_nat (length p) \<and> length p \<le> MAX_CHUNK_BYTES
   | _ \<Rightarrow> False)"

text \<open>Anything but the end of the connection, other chunks, a new announcement of this upload, and the end of an older one of its id.\<close>

definition harmless :: "TunnelClientOptions \<Rightarrow> units \<Rightarrow> tunnel_event \<Rightarrow> tunnel \<Rightarrow> bool" where
  "harmless opts i e s = (case e of
     Closed _ \<Rightarrow> False
   | Stop \<Rightarrow> False
   | Message data b \<Rightarrow> b \<or> (case decodeFrame (to_decode opts data) of
         Inr (F_req_chunk _) \<Rightarrow> False
       | Inr (F_req f) \<Rightarrow> stageControlDigest opts f = None \<or> rq_id f \<noteq> i
       | _ \<Rightarrow> True)
   | Store_settled n _ \<Rightarrow> n < length (tc_storing s) \<longrightarrow> sa_path (tc_storing s ! n) \<noteq> to_stage_path opts i
   | _ \<Rightarrow> True)"

fun streams :: "TunnelClientOptions \<Rightarrow> units \<Rightarrow> delivery list \<Rightarrow> tunnel \<Rightarrow> bool" where
  "streams opts i [] s = True"
| "streams opts i (Chunk m p # ds) s = (chunk_fits opts i False m p \<and> streams opts i ds (deliver opts (Chunk m p) s))"
| "streams opts i (Meanwhile e # ds) s = (harmless opts i e s \<and> streams opts i ds (tunnel_step opts e s))"

fun payloads :: "delivery list \<Rightarrow> bytes" where
  "payloads [] = []"
| "payloads (Chunk m p # ds) = p @ payloads ds"
| "payloads (Meanwhile e # ds) = payloads ds"

definition listening :: "tunnel \<Rightarrow> bool" where
  "listening s \<longleftrightarrow> dialing s \<and> (tc_wire s = Some WOpen \<or> tc_wire s = Some WClosing) \<and> tc_pendingChunk s = None"

text \<open>The staging file of the upload: not there before the first chunk, and then exactly the bytes received.\<close>

definition file_open :: "TunnelClientOptions \<Rightarrow> units \<Rightarrow> bytes \<Rightarrow> nat \<Rightarrow> tunnel \<Rightarrow> bool" where
  "file_open opts i bs fd s \<longleftrightarrow>
     map_of (tc_stageSessions s) i = Some \<lparr>ss_tempPath = to_stage_path opts i, ss_fd = fd, ss_hash = bs, ss_bytesWritten = length bs\<rparr>
     \<and> map_of (tc_names s) (to_stage_path opts i) = Some fd \<and> fd < length (tc_inodes s) \<and> tc_inodes s ! fd = bs"

definition uploaded :: "TunnelClientOptions \<Rightarrow> units \<Rightarrow> bytes \<Rightarrow> tunnel \<Rightarrow> bool" where
  "uploaded opts i bs s \<longleftrightarrow> (bs = [] \<and> map_of (tc_stageSessions s) i = None \<and> map_of (tc_names s) (to_stage_path opts i) = None)
     \<or> (\<exists>fd. file_open opts i bs fd s)"

definition staging_view :: "TunnelClientOptions \<Rightarrow> units \<Rightarrow> tunnel \<Rightarrow> StageSession option \<times> nat option \<times> bytes list \<times> units option \<times> ReqChunkFrame option" where
  "staging_view opts i s = (map_of (tc_stageSessions s) i, map_of (tc_names s) (to_stage_path opts i), tc_inodes s, map_of (tc_pendingStageReplies s) i,
     tc_pendingChunk s)"

lemma uploaded_view: "staging_view opts i t = staging_view opts i s \<Longrightarrow> uploaded opts i bs t = uploaded opts i bs s"
  by (simp add: staging_view_def uploaded_def file_open_def)

lemma view_updates [simp]:
  "staging_view opts i (s\<lparr>tc_sent := x0\<rparr>) = staging_view opts i s" "staging_view opts i (s\<lparr>tc_wire := x1\<rparr>) = staging_view opts i s"
  "staging_view opts i (s\<lparr>tc_closeCodes := x2\<rparr>) = staging_view opts i s" "staging_view opts i (s\<lparr>tc_stateDir := x3\<rparr>) = staging_view opts i s"
  "staging_view opts i (s\<lparr>tc_injects := x4\<rparr>) = staging_view opts i s" "staging_view opts i (s\<lparr>tc_inFlight := x5\<rparr>) = staging_view opts i s"
  "staging_view opts i (s\<lparr>tc_forwards := x6\<rparr>) = staging_view opts i s" "staging_view opts i (s\<lparr>tc_storing := x7\<rparr>) = staging_view opts i s"
  "staging_view opts i (s\<lparr>tc_bootstrapInFlight := x8\<rparr>) = staging_view opts i s"
  "staging_view opts i (s\<lparr>tc_cachedNodeIdentity := x9\<rparr>) = staging_view opts i s"
  "staging_view opts i (s\<lparr>tc_identityLoadInFlight := x10\<rparr>) = staging_view opts i s"
  "staging_view opts i (s\<lparr>tc_starting := x11\<rparr>) = staging_view opts i s" "staging_view opts i (s\<lparr>tc_socket := x12\<rparr>) = staging_view opts i s"
  "staging_view opts i (s\<lparr>tc_dials := x13\<rparr>) = staging_view opts i s" "staging_view opts i (s\<lparr>tc_reconnectTimer := x14\<rparr>) = staging_view opts i s"
  "staging_view opts i (s\<lparr>tc_reconnectAttempt := x15\<rparr>) = staging_view opts i s"
  by (simp_all add: staging_view_def)

lemma view_ops [simp]:
  "staging_view opts i (sendFrame o' f s) = staging_view opts i s" "staging_view opts i (closeSocket c s) = staging_view opts i s"
  "staging_view opts i (handlePaired a b s) = staging_view opts i s" "staging_view opts i (connect o' j s) = staging_view opts i s"
  "staging_view opts i (onOpen o' s) = staging_view opts i s" "staging_view opts i (identitySettled o' v j s) = staging_view opts i s"
  by (simp_all add: sendFrame_def closeSocket_def handlePaired_def connect_def maybeRunCommunityBootstrap_def onOpen_def identitySettled_def Let_def
      split: option.split)

lemma view_settle: "sa_path a \<noteq> to_stage_path opts i \<Longrightarrow> staging_view opts i (settleStage o' a r s) = staging_view opts i s"
  by (simp add: settleStage_def Let_def) (simp add: unlink_def staging_view_def delete_conv')

lemma view_req: "stageControlDigest opts f = None \<or> rq_id f \<noteq> i \<Longrightarrow> staging_view opts i (handleReq opts f s) = staging_view opts i s"
  by (cases "stageControlDigest opts f") (auto simp: handleReq_def, simp add: staging_view_def update_conv')

lemma view_harmless:
  assumes "listening s" and "harmless opts i e s"
  shows "staging_view opts i (tunnel_step opts e s) = staging_view opts i s"
proof (cases e)
  case (Message data b)
  have chunk: "tc_pendingChunk s = None" using assms(1) by (simp add: listening_def)
  show ?thesis
  proof (cases "b \<or> (\<exists>x. decodeFrame (to_decode opts data) = Inl x)")
    case True
    then show ?thesis using chunk by (auto simp: Message handleMessage_def)
  next
    case False
    then obtain f where f: "decodeFrame (to_decode opts data) = Inr f" "\<not> b" by (cases "decodeFrame (to_decode opts data)") auto
    with assms(2) have "staging_view opts i (handleFrame opts f s) = staging_view opts i s"
      by (cases f) (simp_all add: harmless_def Message handleFrame_def view_req)
    with f chunk show ?thesis by (simp add: Message handleMessage_def)
  qed
next
  case (Store_settled n r)
  with assms(2) show ?thesis by (simp add: harmless_def view_settle)
qed (use assms in \<open>simp_all add: harmless_def\<close>)

lemma wire_send [simp]: "tc_wire (sendFrame opts f s) = tc_wire s"
  by (simp add: sendFrame_def split: option.split)

lemma wire_message:
  assumes "tc_wire s = Some WOpen \<or> tc_wire s = Some WClosing" and "tc_pendingChunk s = None"
  shows "tc_wire (handleMessage opts data b s) = Some WOpen \<or> tc_wire (handleMessage opts data b s) = Some WClosing"
proof -
  have "tc_wire (handleFrame opts f s) = tc_wire s" for f
    by (cases f) (simp_all add: handleFrame_def handlePaired_def handleReq_def split: option.split)
  with assms show ?thesis by (auto simp: handleMessage_def closeSocket_def split: sum.split)
qed

lemma listening_step:
  assumes l: "listening s" and h: "harmless opts i e s" shows "listening (tunnel_step opts e s)"
proof -
  from view_harmless [OF l h] l have "tc_pendingChunk (tunnel_step opts e s) = None"
    by (simp add: staging_view_def listening_def)
  moreover from l have d: "dialing (tunnel_step opts e s)" by (simp add: listening_def dialing_step)
  moreover have "tc_wire (tunnel_step opts e s) = Some WOpen \<or> tc_wire (tunnel_step opts e s) = Some WClosing"
  proof (cases e)
    case (Message data b)
    with l wire_message show ?thesis by (simp add: listening_def)
  next
    case (Store_settled n r)
    with l show ?thesis by (simp add: listening_def settleStage_def Let_def unlink_def)
  next
    case (Identity_settled v j)
    with l show ?thesis by (auto simp: listening_def dialing_def identitySettled_def connect_def Let_def)
  next
    case (Identity_timeout j)
    with l show ?thesis by (auto simp: listening_def dialing_def connect_def)
  next
    case (Reconnect j)
    with l show ?thesis by (auto simp: listening_def dialing_def connect_def split: if_splits)
  qed (use l h in \<open>auto simp: listening_def harmless_def\<close>)
  ultimately show ?thesis by (simp add: listening_def)
qed

lemma listening_control:
  assumes "listening s" and "chunk_fits opts i final m p"
  shows "\<exists>c. decodeFrame (to_decode opts m) = Inr (F_req_chunk c) \<and> ck_id c = i \<and> ck_last c = final
    \<and> lexeme_value (ck_byteLength c) = of_nat (length p) \<and> length p \<le> MAX_CHUNK_BYTES
    \<and> deliver opts (Chunk m p) s = finishChunk opts c p s"
proof -
  from assms(2) obtain c where c: "decodeFrame (to_decode opts m) = Inr (F_req_chunk c)" "ck_id c = i" "ck_last c = final"
    "lexeme_value (ck_byteLength c) = of_nat (length p)" "length p \<le> MAX_CHUNK_BYTES"
    by (auto simp: chunk_fits_def split: sum.splits Frame.splits)
  have same: "s\<lparr>tc_pendingChunk := None\<rparr> = s" using assms(1) by (simp add: listening_def)
  have "deliver opts (Chunk m p) s = finishChunk opts c p (s\<lparr>tc_pendingChunk := None\<rparr>)"
    using assms(1) c(1) by (auto simp: listening_def handleMessage_def handleFrame_def)
  then have "deliver opts (Chunk m p) s = finishChunk opts c p s" unfolding same .
  with c show ?thesis by blast
qed

text \<open>The session a chunk goes to: the open one, or a new one on an empty file.\<close>

lemma session_for:
  assumes "uploaded opts i bs s"
  shows "\<exists>fd t. getOrCreateStageSession opts i s
      = (\<lparr>ss_tempPath = to_stage_path opts i, ss_fd = fd, ss_hash = bs, ss_bytesWritten = length bs\<rparr>, t)
    \<and> file_open opts i bs fd t \<and> map_of (tc_pendingStageReplies t) = map_of (tc_pendingStageReplies s)
    \<and> tc_pendingChunk t = tc_pendingChunk s \<and> tc_storing t = tc_storing s \<and> conn t = conn s \<and> tc_wire t = tc_wire s"
proof (cases "map_of (tc_stageSessions s) i")
  case None
  with assms show ?thesis
    by (auto simp: uploaded_def file_open_def getOrCreateStageSession_def openTruncated_def update_conv' conn_def Let_def)
next
  case (Some x)
  with assms show ?thesis by (auto simp: uploaded_def file_open_def getOrCreateStageSession_def)
qed

definition chunk_written :: "units \<Rightarrow> StageSession \<Rightarrow> bytes \<Rightarrow> tunnel \<Rightarrow> tunnel" where
  "chunk_written i session p t = (writeSync (ss_fd session) p t)\<lparr>tc_stageSessions := AList.update i
     (session\<lparr>ss_hash := ss_hash session @ p, ss_bytesWritten := ss_bytesWritten session + length p\<rparr>) (tc_stageSessions t)\<rparr>"

lemma chunk_accepted:
  assumes "uploaded opts i bs s" and "ck_id c = i" and "lexeme_value (ck_byteLength c) = of_nat (length p)"
    and "length p \<le> MAX_CHUNK_BYTES" and "length bs + length p \<le> MAX_STAGED_ARTIFACT_BYTES"
  shows "\<exists>fd t. file_open opts i (bs @ p) fd t \<and> map_of (tc_pendingStageReplies t) = map_of (tc_pendingStageReplies s)
    \<and> tc_pendingChunk t = tc_pendingChunk s \<and> tc_storing t = tc_storing s \<and> conn t = conn s \<and> tc_wire t = tc_wire s
    \<and> finishChunk opts c p s = (if ck_last c then finalizeStage opts i (to_stage_path opts i) (to_hash opts (bs @ p)) (length (bs @ p))
        (t\<lparr>tc_stageSessions := AList.delete i (tc_stageSessions t)\<rparr>) else t)"
proof -
  let ?session = "\<lambda>fd. \<lparr>ss_tempPath = to_stage_path opts i, ss_fd = fd, ss_hash = bs, ss_bytesWritten = length bs\<rparr>"
  from session_for [OF assms(1)] obtain fd t where t: "getOrCreateStageSession opts i s = (?session fd, t)" "file_open opts i bs fd t"
    "map_of (tc_pendingStageReplies t) = map_of (tc_pendingStageReplies s)" "tc_pendingChunk t = tc_pendingChunk s"
    "tc_storing t = tc_storing s" "conn t = conn s" "tc_wire t = tc_wire s" by blast
  let ?t = "chunk_written i (?session fd) p t"
  have "file_open opts i (bs @ p) fd ?t"
    using t(2) by (simp add: file_open_def chunk_written_def writeSync_def update_conv')
  moreover have "finishChunk opts c p s = (if ck_last c then finalizeStage opts i (to_stage_path opts i) (to_hash opts (bs @ p)) (length (bs @ p))
        (?t\<lparr>tc_stageSessions := AList.delete i (tc_stageSessions ?t)\<rparr>) else ?t)"
    using assms(2-5) t(1) by (simp add: finishChunk_def chunk_written_def Let_def)
  moreover have "map_of (tc_pendingStageReplies ?t) = map_of (tc_pendingStageReplies s) \<and> tc_pendingChunk ?t = tc_pendingChunk s
      \<and> tc_storing ?t = tc_storing s \<and> conn ?t = conn s \<and> tc_wire ?t = tc_wire s"
    using t(3-7) by (simp add: chunk_written_def writeSync_def conn_def)
  ultimately show ?thesis by blast
qed

lemma listening_same: "listening s \<Longrightarrow> conn t = conn s \<Longrightarrow> tc_wire t = tc_wire s \<Longrightarrow> tc_pendingChunk t = tc_pendingChunk s \<Longrightarrow> listening t"
  using dialing_conn [of t s] by (simp add: listening_def)

lemma stream_state:
  "listening s \<Longrightarrow> uploaded opts i bs s \<Longrightarrow> streams opts i ds s \<Longrightarrow> length bs + length (payloads ds) \<le> MAX_STAGED_ARTIFACT_BYTES
     \<Longrightarrow> (let t = fold (deliver opts) ds s in listening t \<and> uploaded opts i (bs @ payloads ds) t
       \<and> map_of (tc_pendingStageReplies t) i = map_of (tc_pendingStageReplies s) i)"
proof (induction ds arbitrary: s bs)
  case Nil
  then show ?case by simp
next
  case (Cons d ds)
  show ?case
  proof (cases d)
    case (Chunk m p)
    with Cons.prems(3) have fits: "chunk_fits opts i False m p" by simp
    from listening_control [OF Cons.prems(1) this] obtain c where c: "ck_id c = i" "\<not> ck_last c"
      "lexeme_value (ck_byteLength c) = of_nat (length p)" "length p \<le> MAX_CHUNK_BYTES" "deliver opts (Chunk m p) s = finishChunk opts c p s" by blast
    have fit: "length bs + length p \<le> MAX_STAGED_ARTIFACT_BYTES" using Cons.prems(4) Chunk by simp
    from chunk_accepted [OF Cons.prems(2) c(1,3,4) fit] c(2) obtain fd t where t: "file_open opts i (bs @ p) fd t"
      "map_of (tc_pendingStageReplies t) = map_of (tc_pendingStageReplies s)" "tc_pendingChunk t = tc_pendingChunk s" "conn t = conn s"
      "tc_wire t = tc_wire s" "finishChunk opts c p s = t" by auto
    have "uploaded opts i (bs @ p) t" using t(1) by (auto simp: uploaded_def)
    from Cons.IH [OF listening_same [OF Cons.prems(1) t(4,5,3)] this] Cons.prems(3,4) show ?thesis
      by (simp add: Chunk c(5) t(2,6) del: deliver.simps)
  next
    case (Meanwhile e)
    with Cons.prems have h: "harmless opts i e s" by simp
    note view = view_harmless [OF Cons.prems(1) h]
    from uploaded_view [OF view] Cons.prems(2) have "uploaded opts i bs (tunnel_step opts e s)" by simp
    from Cons.IH [OF listening_step [OF Cons.prems(1) h] this] Cons.prems(3,4) view show ?thesis
      by (simp add: Meanwhile staging_view_def)
  qed
qed

text \<open>
  C21. What the hub streams is what the store gets: on a live connection, whatever harmless events come between its
  chunks, an upload within the caps ends with its staging file holding exactly the streamed bytes and handed to
  the store under their digest and size, as announced or unannounced; if another digest was announced the
  file is gone and nothing is stored.
\<close>

theorem upload_reaches_store:
  assumes "tunnel_run opts ids s" and "tc_wire s = Some WOpen" and "tc_pendingChunk s = None"
    and "map_of (tc_stageSessions s) i = None" and "fileBytes (to_stage_path opts i) s = None"
    and "streams opts i ds s" and "chunk_fits opts i True m p" and "length (payloads ds @ p) \<le> MAX_STAGED_ARTIFACT_BYTES"
  shows "let before = fold (deliver opts) ds s; after = deliver opts (Chunk m p) before; bytes = payloads ds @ p;
      announced = map_of (tc_pendingStageReplies s) i
    in if announced = None \<or> announced = Some (to_hash opts bytes)
       then tc_storing after = tc_storing before @ [\<lparr>sa_id = i, sa_path = to_stage_path opts i, sa_sha256 = to_hash opts bytes,
           sa_sizeBytes = length bytes, sa_announced = announced\<rparr>] \<and> fileBytes (to_stage_path opts i) after = Some bytes
       else tc_storing after = tc_storing before \<and> fileBytes (to_stage_path opts i) after = None"
proof -
  have l: "listening s" using assms(1-3) run_dialing by (simp add: listening_def)
  have u: "uploaded opts i [] s" using assms(4,5) by (simp add: uploaded_def fileBytes_def)
  define before where "before = fold (deliver opts) ds s"
  have b: "listening before \<and> uploaded opts i (payloads ds) before \<and> map_of (tc_pendingStageReplies before) i = map_of (tc_pendingStageReplies s) i"
    using stream_state [OF l u assms(6)] assms(8) by (simp add: before_def Let_def)
  then have b': "listening before" "uploaded opts i (payloads ds) before" by simp_all
  from listening_control [OF b'(1) assms(7)] obtain c where c: "ck_id c = i" "ck_last c"
    "lexeme_value (ck_byteLength c) = of_nat (length p)" "length p \<le> MAX_CHUNK_BYTES" "deliver opts (Chunk m p) before = finishChunk opts c p before" by blast
  from assms(8) have fit: "length (payloads ds) + length p \<le> MAX_STAGED_ARTIFACT_BYTES" by simp
  from chunk_accepted [OF b'(2) c(1,3,4) fit] obtain fd t where t: "file_open opts i (payloads ds @ p) fd t"
    "map_of (tc_pendingStageReplies t) = map_of (tc_pendingStageReplies before)" "tc_storing t = tc_storing before"
    "finishChunk opts c p before = (if ck_last c then finalizeStage opts i (to_stage_path opts i) (to_hash opts (payloads ds @ p))
        (length (payloads ds @ p)) (t\<lparr>tc_stageSessions := AList.delete i (tc_stageSessions t)\<rparr>) else t)" by blast
  from t(1) have bytes_there: "fileBytes (to_stage_path opts i) t = Some (payloads ds @ p)" by (simp add: file_open_def fileBytes_def)
  have send: "tc_storing (sendFrame opts f x) = tc_storing x" "tc_names (sendFrame opts f x) = tc_names x" "fileBytes q (sendFrame opts f x) = fileBytes q x" for f x q
    by (simp_all add: sendFrame_def fileBytes_def split: option.split)
  have b2: "map_of (tc_pendingStageReplies t) i = map_of (tc_pendingStageReplies s) i" using b t(2) by simp
  show ?thesis
    unfolding Let_def before_def [symmetric] c(5) t(4) finalizeStage_def
    using bytes_there b2 t(3) c(2)
    by (auto simp: settleStage_def Let_def send unlink_def fileBytes_def delete_conv' split: option.splits)
qed

section \<open>Pairing over the tunnel\<close>

text \<open>
  C40. A cluster the hub has just paired comes back with the new credential: on a live connection of a running client,
  after a paired message with a credential and an id that are not blank, a close that does not declare the
  credential dead, and the reconnect timer, the next dial presents a token of the hub's id signed with that credential.
\<close>

theorem paired_credential_is_presented:
  assumes "tunnel_run opts ids s" and "\<not> tc_stopped s" and "tc_wire s = Some WOpen" and "tc_pendingChunk s = None"
    and "decodeFrame (to_decode opts data) = Inr (F_paired cid cred)" and "utrim cred \<noteq> []" and "utrim cid \<noteq> []"
    and "code \<notin> {4401, 4403}"
  shows "tc_dials (tunnel_step opts (Reconnect jti) (tunnel_step opts (Closed code) (tunnel_step opts (Message data False) s)))
    = tc_dials s @ [Bearer (signConnectToken (utrim cid) (utrim cred) jti)]"
proof -
  let ?s1 = "handlePaired cid cred s"
  have s1: "tunnel_step opts (Message data False) s = ?s1"
    using assms(3-5) by (simp add: handleMessage_def handleFrame_def)
  obtain n ss where clean: "cleanupAllStageSessions ?s1 = ?s1\<lparr>tc_names := n, tc_stageSessions := ss, tc_pendingStageReplies := []\<rparr>"
    using cleanup_form by blast
  have "handleRepairRequiredClose code h d = (None, d)" for h d
    using assms(8) by (simp add: handleRepairRequiredClose_def REPAIR_REQUIRED_CLOSE_CODES_def)
  then have "tunnel_step opts (Closed code) ?s1 = ?s1\<lparr>tc_names := n, tc_stageSessions := ss, tc_pendingStageReplies := [], tc_socket := False,
      tc_wire := None, tc_reconnectAttempt := tc_reconnectAttempt s + 1, tc_reconnectTimer := True\<rparr>"
    using assms(2,3) by (simp add: onClose_def clean scheduleReconnect_def Let_def) (simp add: handlePaired_def)
  then show ?thesis
    using assms(2,6,7) unfolding s1
    by (simp add: connect_def maybeRunCommunityBootstrap_def handlePaired_def buildAuthHeaders_def resolveSecret_def pairedClusterId_def
        trimmed_or_def Let_def some_units_def)
qed

section \<open>A chunk control frame outlives its connection\<close>

text \<open>
  Closing the connection drops the open uploads but not the chunk control frame that still waits for its payload:
  the first message of the next connection is taken for that payload and closes it again.
\<close>

lemma chunk_control_survives_reconnect:
  assumes "\<not> tc_stopped s" and "tc_wire s \<noteq> None" and "tc_pendingChunk s = Some c"
    and "of_nat (length data) \<noteq> lexeme_value (ck_byteLength c)"
  shows "\<exists>t. tunnel_step opts (Message data False) (tunnel_step opts Opened (tunnel_step opts (Reconnect jti) (tunnel_step opts (Closed code) s)))
    = closeSocket 4413 t"
proof -
  obtain n ss where clean: "cleanupAllStageSessions s = s\<lparr>tc_names := n, tc_stageSessions := ss, tc_pendingStageReplies := []\<rparr>"
    using cleanup_form by blast
  define v where "v = tunnel_step opts (Closed code) s"
  have v: "tc_pendingChunk v = Some c" "tc_reconnectTimer v" "\<not> tc_stopped v"
    using assms(1-3) by (auto simp: v_def onClose_def clean scheduleReconnect_def Let_def)
  define x where "x = tunnel_step opts (Reconnect jti) v"
  have x: "tc_pendingChunk x = Some c" "tc_wire x = Some WConnecting"
    using v by (simp_all add: x_def connect_def maybeRunCommunityBootstrap_def Let_def)
  define y where "y = tunnel_step opts Opened x"
  have y: "tc_pendingChunk y = Some c" "tc_wire y = Some WOpen"
    using x by (simp_all add: y_def onOpen_def sendFrame_def split: option.split)
  have "tunnel_step opts (Message data False) y = closeSocket 4413 (abortStageSession (ck_id c) (y\<lparr>tc_pendingChunk := None\<rparr>))"
    using y assms(4) by (simp add: handleMessage_def finishChunk_def)
  then show ?thesis by (auto simp only: y_def x_def v_def)
qed

section \<open>Concrete messages\<close>

lemma decode_printed: "printed_frame fm f \<Longrightarrow> encodeFrame fm f = Some txt \<Longrightarrow> decodeFrame txt = Inr f"
  by (auto simp: printed_frame_def encodeFrame_def decodeFrame_def json_text_def Let_def JSON_parse_stringify frame_json_ok frame_of_json
      split: if_splits)

text \<open>The text of a small frame.\<close>

definition demo_text :: "Frame \<Rightarrow> units" where "demo_text f = json_text id (frame_json f)"

lemma demo_text_decodes: "printed_frame id f \<Longrightarrow> utf8_length (demo_text f) \<le> MAX_JSON_FRAME_BYTES \<Longrightarrow> decodeFrame (demo_text f) = Inr f"
  by (rule decode_printed [of id]) (simp_all add: encodeFrame_def demo_text_def Let_def)

definition demo_chunk :: ReqChunkFrame where
  "demo_chunk = \<lparr>ck_id = u ''i'', ck_seq = u ''0'', ck_byteLength = u ''2'', ck_sha256 = None, ck_last = True\<rparr>"

lemma demo_chunk_decodes: "decodeFrame (demo_text (F_req_chunk demo_chunk)) = Inr (F_req_chunk demo_chunk)"
proof -
  let ?ms = "[(u ''t'', str ''req-chunk''), (u ''id'', JStr (u ''i'')), (u ''seq'', JNum (u ''0'')), (u ''byteLength'', JNum (u ''2'')), (u ''last'', JBool True)]"
  have json: "frame_json (F_req_chunk demo_chunk) = JObj ?ms None"
    by (simp add: demo_chunk_def members.simps obj_def)
  have order: "own_order ?ms = ?ms" by (simp add: own_order_def is_index_def u_def is_digit_def)
  then have re: "reprint id (JObj ?ms None) = JObj ?ms None" by (simp add: str_def)
  have "printed_frame id (F_req_chunk demo_chunk)"
    unfolding printed_frame_def json re
    by (simp add: str_def u_def valid_lexeme_def code_units_def proto_key_def NUMBER_RE_def int_part_def frac_part_def exp_part_def Let_def
        digits_def is_digit_def)
  moreover have "utf8_length (demo_text (F_req_chunk demo_chunk)) \<le> MAX_JSON_FRAME_BYTES"
    unfolding demo_text_def json_text_def json re
    by (simp add: str_def u_def MAX_JSON_FRAME_BYTES_def quote_def commas_def escape_unit_def high_surrogate_def low_surrogate_def)
  ultimately show ?thesis by (rule demo_text_decodes)
qed

lemma upload_reaches_store_witness:
  "fileBytes (u ''i'') (deliver demo_tunnel (Chunk (demo_text (F_req_chunk demo_chunk)) [7, 9]) demo_live) = Some [7, 9]"
proof -
  obtain ids where run: "tunnel_run demo_tunnel ids demo_live" using after_runs unfolding demo_live_def by blast
  have two: "lexeme_value (u ''2'') = 2"
    by (simp add: lexeme_value_def u_def Let_def digits_value_def scale10_def)
  have "chunk_fits demo_tunnel (u ''i'') True (demo_text (F_req_chunk demo_chunk)) [7, 9]"
    using demo_chunk_decodes two by (simp add: chunk_fits_def demo_tunnel_def) (simp add: demo_chunk_def MAX_CHUNK_BYTES_def)
  from upload_reaches_store [OF run demo_live_state(1,2) _ _ _ this, of "[]"] show ?thesis
    by (simp add: demo_live_state fileBytes_def demo_tunnel_def MAX_STAGED_ARTIFACT_BYTES_def Let_def del: deliver.simps)
qed

definition demo_paired :: Frame where "demo_paired = F_paired (u ''h'') (u ''k'')"

lemma demo_paired_decodes: "decodeFrame (demo_text demo_paired) = Inr demo_paired"
proof -
  let ?ms = "[(u ''t'', str ''paired''), (u ''clusterId'', JStr (u ''h'')), (u ''credential'', JStr (u ''k''))]"
  have json: "frame_json demo_paired = JObj ?ms None" by (simp add: demo_paired_def obj_def)
  have "own_order ?ms = ?ms" by (simp add: own_order_def is_index_def u_def is_digit_def)
  then have re: "reprint id (JObj ?ms None) = JObj ?ms None" by (simp add: str_def)
  have "printed_frame id demo_paired"
    unfolding printed_frame_def json re by (simp add: str_def u_def code_units_def proto_key_def)
  moreover have "utf8_length (demo_text demo_paired) \<le> MAX_JSON_FRAME_BYTES"
    unfolding demo_text_def json_text_def json re
    by (simp add: str_def u_def MAX_JSON_FRAME_BYTES_def quote_def commas_def escape_unit_def high_surrogate_def low_surrogate_def)
  ultimately show ?thesis by (rule demo_text_decodes)
qed

lemma paired_credential_is_presented_witness:
  "last (tc_dials (tunnel_step demo_tunnel (Reconnect (u ''j2'')) (tunnel_step demo_tunnel (Closed 1000)
     (tunnel_step demo_tunnel (Message (demo_text demo_paired) False) demo_live)))) = Bearer (signConnectToken (u ''h'') (u ''k'') (u ''j2''))"
proof -
  obtain ids where run: "tunnel_run demo_tunnel ids demo_live" using after_runs unfolding demo_live_def by blast
  have trims: "utrim (u ''h'') = u ''h''" "utrim (u ''k'') = u ''k''" by (simp_all add: utrim_def u_def js_space_unit_def)
  have dec: "decodeFrame (to_decode demo_tunnel (demo_text demo_paired)) = Inr (F_paired (u ''h'') (u ''k''))"
    using demo_paired_decodes by (simp add: demo_tunnel_def demo_paired_def)
  have live: "\<not> tc_stopped demo_live" by (simp add: demo_live_state)
  have some: "utrim (u ''k'') \<noteq> []" "utrim (u ''h'') \<noteq> []" unfolding trims by (simp_all add: u_def)
  from paired_credential_is_presented [OF run live demo_live_state(1,2) dec some, of 1000 "u ''j2''"]
  show ?thesis by (simp add: trims del: tunnel_step.simps)
qed

end
