(* ===== verification/Tunnel_Forward.thy ===== *)
theory Tunnel_Forward
  imports Tunnel_Upload
begin

text \<open>
  The dispatch of a \<open>forward\<close> frame to a running app container (\<open>src/tunnel/forward.ts\<close>). Docker's answer to
  the label query and the HTTP exchange are parameters.
\<close>

definition FORWARD_BODY_MAX_BYTES :: nat where
  "FORWARD_BODY_MAX_BYTES = MAX_JSON_FRAME_BYTES - 16 * 1024"

text \<open>Of a container summary: the \<open>IPAddress\<close> of each network, where it is a string, and the private ports.\<close>

record forward_summary =
  fs_addresses :: "units option list"
  fs_ports :: "nat option list"

record forward_call =
  fc_url :: units
  fc_method :: string
  fc_headers :: "hdrs option"
  fc_body :: "units option"
  fc_timeoutMs :: units

datatype transported = Answered nat units | Response_too_large | Transport_failed units

definition LOCAL_RUNTIME_ID_LABEL :: units where "LOCAL_RUNTIME_ID_LABEL = u ''privos.local-runtime.id''"

definition label_value :: "units \<Rightarrow> units" where
  "label_value runtimeId = (if take 14 runtimeId = u ''local-runtime-'' then runtimeId else u ''local-runtime-'' @ runtimeId)"

text \<open>\<open>listContainers\<close> is the query for running containers with the given label and value.\<close>

definition findRuntimeContainer :: "(units \<Rightarrow> units \<Rightarrow> forward_summary list) \<Rightarrow> units \<Rightarrow> (units \<times> nat) option" where
  "findRuntimeContainer listContainers runtimeId = (case listContainers LOCAL_RUNTIME_ID_LABEL (label_value runtimeId) of
     [] \<Rightarrow> None
   | summary # _ \<Rightarrow>
       (case (List.find (\<lambda>a. a \<noteq> None \<and> a \<noteq> Some []) (fs_addresses summary), fs_ports summary) of
          (Some (Some address), Some port # _) \<Rightarrow> if port = 0 then None else Some (address, port)
        | _ \<Rightarrow> None))"

definition plain_response :: "nat \<Rightarrow> ForwardResponse" where
  "plain_response status = \<lparr>fr_status = status, fr_headers = None, fr_body = None, fr_raw = False, fr_rawBody = None, fr_error = None\<rparr>"

definition forward_refused :: "nat \<Rightarrow> string \<Rightarrow> units \<Rightarrow> ForwardResponse" where
  "forward_refused status code message = (plain_response status)\<lparr>fr_error := Some (u code, message)\<rparr>"

definition dispatchForward ::
  "(units \<Rightarrow> units) \<Rightarrow> (units \<Rightarrow> units \<Rightarrow> forward_summary list) \<Rightarrow> (forward_call \<Rightarrow> transported) \<Rightarrow> ForwardFrame \<Rightarrow> ForwardResponse" where
  "dispatchForward fm listContainers transport input =
     (if take 1 (fw_path input) \<noteq> u ''/'' then forward_refused 400 ''bad_request'' (u ''forward path must be absolute'')
      else let bodyText = map_option (json_text fm) (fw_body input) in
        if (case bodyText of Some b \<Rightarrow> utf8_length b > FORWARD_BODY_MAX_BYTES | None \<Rightarrow> False)
        then forward_refused 413 ''payload_too_large'' (u ''forward request body exceeds the size cap'')
        else case findRuntimeContainer listContainers (fw_runtimeId input) of
          None \<Rightarrow> forward_refused 404 ''not_found'' (u ''no running local runtime carries this runtimeId'')
        | Some (address, port) \<Rightarrow>
            (case transport \<lparr>fc_url = u ''http://'' @ address @ u '':'' @ dec port @ fw_path input,
                fc_method = (if bodyText = None then ''GET'' else ''POST''), fc_headers = fw_headers input, fc_body = bodyText,
                fc_timeoutMs = fw_timeoutMs input\<rparr> of
               Response_too_large \<Rightarrow> forward_refused 502 ''response_too_large'' (u ''forward response exceeds the size cap'')
             | Transport_failed message \<Rightarrow> forward_refused 502 ''forward_failed'' message
             | Answered status txt \<Rightarrow>
                 if txt = [] then plain_response status
                 else case JSON_parse txt of
                   Some v \<Rightarrow> (plain_response status)\<lparr>fr_body := Some v\<rparr>
                 | None \<Rightarrow> (plain_response status)\<lparr>fr_raw := True, fr_rawBody := Some txt\<rparr>))"

section \<open>Where a forward goes\<close>

text \<open>A container is called only where Docker shows it under the label of the runtime, with the frame's own path.\<close>

lemma forward_stays_on_label:
  assumes "dispatchForward fm listContainers transport input \<noteq> dispatchForward fm listContainers transport' input"
  shows "\<exists>call address port summary rest. transport call \<noteq> transport' call
    \<and> listContainers LOCAL_RUNTIME_ID_LABEL (label_value (fw_runtimeId input)) = summary # rest \<and> Some address \<in> set (fs_addresses summary)
    \<and> Some port \<in> set (fs_ports summary) \<and> fc_url call = u ''http://'' @ address @ u '':'' @ dec port @ fw_path input"
proof -
  let ?b = "map_option (json_text fm) (fw_body input)"
  let ?call = "\<lambda>address port. \<lparr>fc_url = u ''http://'' @ address @ u '':'' @ dec port @ fw_path input,
      fc_method = (if ?b = None then ''GET'' else ''POST''), fc_headers = fw_headers input, fc_body = ?b, fc_timeoutMs = fw_timeoutMs input\<rparr>"
  from assms obtain address port where found: "findRuntimeContainer listContainers (fw_runtimeId input) = Some (address, port)"
    by (auto simp: dispatchForward_def Let_def split: if_splits option.splits)
  have "transport (?call address port) \<noteq> transport' (?call address port)"
    using assms found by (auto simp: dispatchForward_def Let_def split: if_splits)
  moreover from found obtain summary rest where "listContainers LOCAL_RUNTIME_ID_LABEL (label_value (fw_runtimeId input)) = summary # rest"
    "Some address \<in> set (fs_addresses summary)" "Some port \<in> set (fs_ports summary)"
    by (auto simp: findRuntimeContainer_def find_Some_iff split: list.splits option.splits if_splits) (metis nth_mem)
  ultimately show ?thesis by (intro exI [of _ "?call address port"] exI [of _ address] exI [of _ port] exI [of _ summary] exI [of _ rest]) simp
qed

section \<open>An answer too long to send\<close>

lemma utf8_at_least: "length s \<le> utf8_length s"
  by (induction s rule: utf8_length.induct) auto

lemma commas_length: "x \<in> set xs \<Longrightarrow> length x \<le> length (commas xs)"
proof (induction xs)
  case (Cons y ys)
  then show ?case by (cases ys) (auto simp: commas_simps dest: Cons.IH)
qed simp

lemma own_order_set: "set (own_order ms) = set ms"
  by (auto simp: own_order_def)

lemma member_length: "(k, v) \<in> set ms \<Longrightarrow> length (stringify v) \<le> length (stringify (JObj ms p))"
proof -
  assume "(k, v) \<in> set ms"
  then have "quote k @ 58 # stringify v \<in> set (map (\<lambda>m. quote (fst m) @ 58 # stringify (snd m)) ms)" by force
  from commas_length [OF this] show ?thesis by simp
qed

lemma quotes_double: "length (escape_units (replicate n 34)) = 2 * n"
proof (induction n rule: less_induct)
  case (less n)
  show ?case
  proof (cases n)
    case (Suc m)
    with less [of m] show ?thesis by (cases m) (simp_all add: high_surrogate_def low_surrogate_def escape_unit_def)
  qed simp
qed

lemma raw_member:
  assumes "rs_rawBody r = Some b" shows "\<exists>ms. frame_json (F_res r) = JObj ms None \<and> (u ''rawBody'', JStr b) \<in> set ms"
proof -
  obtain fs where fs: "frame_json (F_res r) = obj (members fs)" "distinct (map fst fs)" "map_of fs ''rawBody'' = Some (Some (JStr b))"
    using assms by simp
  from fs(2,3) have "map_of (members fs) ''rawBody'' = Some (JStr b)" by (simp add: map_of_members)
  then have "(''rawBody'', JStr b) \<in> set (members fs)" by (rule map_of_SomeD)
  then show ?thesis unfolding fs(1) obj_def by force
qed

text \<open>
  A container's answer of 600 000 quotation marks is within the cap of a forwarded body, but escaped it does not
  fit a frame: the answer is dropped and the hub hears nothing.
\<close>

lemma escaped_forward_never_answered:
  assumes "n < length (tc_forwards s)" and "r = (plain_response 200)\<lparr>fr_raw := True, fr_rawBody := Some (replicate 600000 34)\<rparr>"
  shows "length (replicate 600000 (34::nat)) \<le> FORWARD_BODY_MAX_BYTES
    \<and> tc_sent (tunnel_step opts (Forward_settled n (Some r)) s) = tc_sent s"
proof -
  let ?f = "F_res (forward_reply (tc_forwards s ! n) (Some r))"
  have "rs_rawBody (forward_reply (tc_forwards s ! n) (Some r)) = Some (replicate 600000 34)"
    by (simp add: forward_reply_def assms(2) plain_response_def)
  from raw_member [OF this] obtain ms where ms: "frame_json ?f = JObj ms None" "(u ''rawBody'', JStr (replicate 600000 34)) \<in> set ms"
    by blast
  let ?ms = "own_order (map (\<lambda>m. (fst m, reprint (to_fm opts) (snd m))) ms)"
  have mem: "(u ''rawBody'', JStr (replicate 600000 34)) \<in> set ?ms" using ms(2) by (force simp: own_order_set)
  have same_text: "json_text (to_fm opts) (frame_json ?f) = stringify (JObj ?ms None)"
    unfolding json_text_def ms(1) by simp
  have "length (stringify (JStr (replicate 600000 34))) \<le> length (json_text (to_fm opts) (frame_json ?f))"
    unfolding same_text by (rule member_length [OF mem])
  then have "1200000 \<le> length (json_text (to_fm opts) (frame_json ?f))"
    unfolding stringify.simps quote_def by (simp add: quotes_double del: frame_json.simps)
  then have "encodeFrame (to_fm opts) ?f = None"
    using utf8_at_least [of "json_text (to_fm opts) (frame_json ?f)"] by (simp add: encodeFrame_def MAX_JSON_FRAME_BYTES_def Let_def del: frame_json.simps)
  then show ?thesis using assms(1) by (simp add: sendFrame_def FORWARD_BODY_MAX_BYTES_def MAX_JSON_FRAME_BYTES_def del: frame_json.simps)
qed

end
