(* ===== verification/Spec2Isabelle.thy ===== *)
theory Spec2Isabelle
  imports Runtime_Evidence Health_Monitor App_Lifecycle Host_Table_Publisher Quota_Scheduler Reverse_Proxy Ledger Canonical_Json
    Workspace_Lock Reconcile Mcp_Protocol2 Tunnel_Forward
begin

text \<open>
  \<^bold>\<open>PrivOS App Cluster: the model and what is proved of it.\<close>

  The program is a TypeScript service that runs applications in Docker containers on a fleet of nodes. A
  node's \<^emph>\<open>agent\<close> owns its containers: it reads their state from Docker, restarts the unhealthy ones, routes
  HTTP to them and, in local-runtime mode, drives one confined MCP runtime after another under a crash-safe
  ledger. The \<^emph>\<open>apps master\<close> owns workspaces, apps and replicas in MongoDB: it admits and places them, allots
  public host names, publishes the routing tables to all nodes, reconciles with what the agents list and
  meters usage. The \<^emph>\<open>hub\<close> orders work by signed artifacts and, over a dial-out WebSocket tunnel, by frames.
  A public request enters at an ingress node's listener, which signs it and forwards it over the mesh to the
  runtime listener of a node that has a replica. All paths below are under \<open>src/src/\<close>.
\<close>

text \<open>
  \<^bold>\<open>Conventions.\<close> A fallible operation returns \<open>Inl\<close> of an error or \<open>Inr\<close> of a value, or an option
  where the code returns \<open>null\<close> or \<open>undefined\<close>; what it had written when it threw stays written. JavaScript
  objects and \<open>Map\<close>s are association lists in insertion order. Header and path strings are lists of 8-bit
  characters, as Node delivers them; JSON strings are lists of 16-bit code units (\<open>units\<close>). Numbers that the
  code only adds and compares are exact integers or rationals; a number of a JSON text keeps its lexeme where
  the text matters. MongoDB collections are lists of documents, with the unique indexes the code relies on as
  tests of the insert and TTL indexes as deletions by time.

  \<^bold>\<open>Parameters\<close> stand for what is not in the repository: hashes, Ed25519, HMAC and base64 (\<open>crypto_lib\<close>,
  \<open>jws_lib\<close>, \<open>p2_lib\<close>, and the HMAC of the pairing), the \<open>jsonwebtoken\<close> package (\<open>jwt_lib\<close>), the compiled ajv
  schema and the engine's number formatting (\<open>abi_lib\<close>), the IDNA step of the URL parser, zod's regular
  formats, the collation of \<open>localeCompare\<close>, and the answers of Docker, the agents, the clock and the network
  (\<open>driver_env\<close>, \<open>tick_world\<close>, \<open>lc_world\<close>, and \<open>env\<close> in the host registry). Answers are arbitrary functions;
  where a property needs one to behave, the hypothesis is in its statement and a witness meets it.

  \<^bold>\<open>Bounds.\<close> \<open>strictJsonParse\<close> runs the parser on \<open>2 * length s + 2\<close> steps of fuel: every two nested calls
  consume at least one code unit, so the fuel is never what stops it (the lemma \<open>strictJsonParse_total\<close>).
  The publisher's \<open>pump_comes_to_rest\<close> and the lock's \<open>workspace_lock_drains\<close> give their bounds in the
  statement. All other recursions are structural or carry a termination proof.
\<close>

section \<open>Theories and the code they model\<close>

text \<open>
  \<^bold>\<open>Shared.\<close> \<open>Prelude\<close>: results, string operations, association lists, the named collections. \<open>Http\<close>: Node's
  incoming message and the header helpers. \<open>Js_Number\<close>: \<open>Number\<close> and \<open>parseInt\<close>. \<open>Strict_Json\<close> and
  \<open>Canonical_Json\<close>: \<open>local-runtime/canonical.ts\<close> and \<open>canonicalJson\<close> of \<open>security/artifacts.ts\<close>; what the
  serialiser writes the parser reads back (\<open>strictJsonParse_stringify\<close>), and the canonical text does not
  depend on the order of the members (\<open>canonicalJson_order_insensitive\<close>).

  \<^bold>\<open>Edge proxy.\<close> \<open>Canonical_Path\<close>: \<open>proxy/canonical-path.ts\<close>. \<open>Forward_Signature\<close>:
  \<open>proxy/forward-signature.ts\<close>. \<open>Replay_Cache\<close>: \<open>proxy/replay-cache.ts\<close>. \<open>Cluster_Auth\<close>: \<open>plugins/auth.ts\<close>,
  \<open>cluster-secret.ts\<close>. \<open>Host_Table\<close>: \<open>handlers/host-table.ts\<close>, \<open>proxy/host-table.ts\<close>.
  \<open>Cookie_Domain_Strip\<close>: \<open>proxy/cookie-domain-strip.ts\<close>. \<open>Runtime_Listener\<close>, \<open>Ingress_Listener\<close>: the two
  listeners, \<open>proxy/runtime-listener.ts\<close> and \<open>proxy/ingress-listener.ts\<close>. \<open>Reverse_Proxy\<close>:
  \<open>proxy/proxy-router.ts\<close> and \<open>proxy/reverse-proxy-server.ts\<close>. The state of a listener is its nonce map and
  the current table; a request is one state transformer with the dials it makes as output. Shown: a container
  is dialled only for a fresh, signed, routed, unblocked request, a signed request is accepted again only at
  the boundary instant of its window, a refused one costs no nonce, what the ingress signs the runtime
  accepts, the ingress tries the next replica only after a network failure or an unknown-host answer and sends
  a body once, and the highest revision of a table pushed by a fleet master wins.

  \<^bold>\<open>Agent.\<close> \<open>Container_Types\<close> and \<open>Docker_State\<close>: \<open>types/index.ts\<close>, \<open>docker/docker-state.ts\<close>,
  \<open>docker/docker-state-mapper.ts\<close>. \<open>Health_Monitor\<close>: \<open>services/health-monitor.ts\<close>, shown to refine a
  specification that keeps for each container nothing but its streak of failed probes, as long as a container id keeps its health policy.

  \<^bold>\<open>Local runtime.\<close> \<open>Driver_Errors\<close>, \<open>Local_Abi\<close>: \<open>local-runtime/errors.ts\<close>, \<open>abi-schema.ts\<close>,
  \<open>broker-binding.ts\<close>, \<open>dispatch-trust-env.ts\<close>, with the labels of \<open>security/mcp-resource-labels-v3.ts\<close>. \<open>Ledger\<close>: \<open>local-runtime/ledger.ts\<close>. \<open>Driver_World\<close>,
  \<open>Artifact_Store\<close>, \<open>Runtime_Service\<close>: the driver's calls to the outside, \<open>artifact-store.ts\<close> and
  \<open>runtime-service.ts\<close>. \<open>Runtime_Safety\<close> and \<open>Runtime_Evidence\<close> hold the properties of all methods: every
  container they create is confined, none is started before its binding is registered, what they do to the ledger is a sequence of ledger
  operations, sealed evidence passes its own validation, and ENSURE_READY is idempotent.

  \<^bold>\<open>Apps master.\<close> \<open>Master_Types\<close>: \<open>master/types.ts\<close>. \<open>Label_Namespace\<close>, \<open>App_Host_Registry\<close>:
  \<open>label-namespace.ts\<close>, \<open>subdomain-registry.ts\<close>, \<open>app-host-registry.ts\<close>, with other writers between any two
  database operations. \<open>Host_Table_Publisher\<close>: \<open>host-table-publisher.ts\<close>, the snapshot and the coalescing
  pump as a step relation. \<open>Quota_Scheduler\<close>: \<open>quota-service.ts\<close>, \<open>scheduler.ts\<close>. \<open>App_Lifecycle\<close>:
  \<open>app-lifecycle-service.ts\<close>, \<open>quarantine-reaper.ts\<close>. \<open>Workspace_Lock\<close>: \<open>workspace-lock.ts\<close>.
  \<open>Usage_Aggregator\<close>: \<open>usage-aggregator.ts\<close>, its bill equal to a reference count over the day's log.
  \<open>Reconcile\<close>: \<open>reconcile-service.ts\<close>.

  \<^bold>\<open>Hub artifacts.\<close> \<open>Protocol_Schemas\<close>, \<open>Protocol_V3\<close>: \<open>protocol/protocol-v3.ts\<close> with
  \<open>schemas/reserved-env.ts\<close> and the JWS part of \<open>security/artifacts.ts\<close>. \<open>Resource_Inventory\<close>:
  \<open>master/runtime-resource-inventory.ts\<close>. \<open>Mcp_Security\<close>, \<open>Mcp_Protocol2\<close>: \<open>master/mcp-security.ts\<close>. Shown:
  a verified artifact was signed by the enrolled key for this very use, is in its time window and names the
  expected cluster, workspace and deployment, and until its use expires it is used once.

  \<^bold>\<open>Tunnel.\<close> \<open>Tunnel_Frames\<close>: \<open>tunnel/frames.ts\<close>. \<open>Tunnel_Pairing\<close>: \<open>tunnel/pairing.ts\<close>,
  \<open>connect-token.ts\<close>, the files of \<open>state-dir.ts\<close>. \<open>Tunnel_Client\<close>: \<open>tunnel/tunnel-client.ts\<close> as a state
  machine over socket, timer and promise events, with staging files as inodes; \<open>Tunnel_Runs\<close> and
  \<open>Tunnel_Upload\<close> hold what is true of its reachable states and of an upload. \<open>Tunnel_Forward\<close>:
  \<open>tunnel/forward.ts\<close>.
\<close>

section \<open>Interfaces\<close>

text \<open>
  \<open>revision_store\<close> (in \<open>Host_Table\<close>) is a table gated by its revision, interpreted on the runtime and the
  ingress table; \<open>replay_guard\<close> is what the runtime listener needs of the nonce cache, interpreted on
  \<open>checkAndRemember\<close>; \<open>label_authority\<close> is what the host registry needs of the label namespace, interpreted
  on \<open>try_hold\<close>; \<open>keyed_machine\<close> lifts an invariant of rows to every run of the ledger, interpreted on its
  operations; \<open>svc_rel\<close> (in \<open>Driver_World\<close>) is a relation between the states before and after a driver
  method that sequencing keeps, interpreted once for confinement and once for the ledger.
\<close>

section \<open>What modelling showed\<close>

text \<open>
  Lemmas of the component theories also record where the code departs from its comments or its purpose, each
  on a concrete input. Among them: the replay cache forgets a nonce in the millisecond in which its signature is
  still fresh; the blocked-path test is made on the encoded path; a quarantined app can be started out of
  the reaper's reach (\<open>App_Lifecycle\<close>), or put back to running by a concurrent reconciliation
  (\<open>Reconcile\<close>); a legacy app that was resized is not billed (\<open>Usage_Aggregator\<close>); a use record expires
  before the artifact stops being accepted (\<open>Mcp_Security\<close>); a chunk control frame survives a broken
  connection and swallows the next connection's first message (\<open>Tunnel_Upload\<close>); and a body under the
  forward limit can grow past the frame cap when it is escaped (\<open>Tunnel_Forward\<close>).
\<close>

section \<open>What is not modelled\<close>

text \<open>
  \<^item> \<open>master/deployment-service.ts\<close>, \<open>hub-facing-routes.ts\<close>, \<open>mcp-uninstall-service-v3.ts\<close>,
    \<open>cluster-master-identity.ts\<close> and the Cloudflare worker string the modelled services together with HTTP
    calls and database writes; \<open>master/node-registry.ts\<close> and \<open>repositories.ts\<close> are upserts, finds and indexes.
  \<^item> \<open>docker/container-manager.ts\<close>, \<open>image-manager.ts\<close>, \<open>network-manager.ts\<close> translate requests into calls of
    the Docker client; \<open>docker/desired-state.ts\<close> is file input and output.
  \<^item> \<open>services/lifecycle-service.ts\<close>, \<open>mcp-broker.ts\<close> and the small monitors drive Docker, sockets and files
    step by step; \<open>local-runtime/oci-archive.ts\<close> reads tar streams, and answers as part of the environment.
  \<^item> \<open>handlers/\<close> (except \<open>host-table.ts\<close>), \<open>server.ts\<close>, \<open>config.ts\<close> are route glue and start-up; \<open>cli/\<close> and
    the scripts are operator tooling; \<open>security/node-identity.ts\<close> reads a key file.
  \<^item> Inside the modelled parts: socket piping, back-pressure and timeouts of the proxies, logging, file
    permissions, database failures other than a violated index, and the rounding of large numbers.
\<close>

end
